(* ===== verification/Prelude.thy ===== *)
theory Prelude
  imports Main "HOL-Library.AList"
begin

text \<open>
  Shared vocabulary of the development.  The controller is Python, so a call either returns or
  raises: \<open>'a res\<close> is the sum of an exception and a value.  A call that also reads or
  writes the cluster is an \<open>act\<close>: it takes the state and returns the outcome together
  with the new state, so that whatever was written before an exception stays written.
  The theory also holds Python's \<open>str.split\<close> and \<open>str.join\<close> on one separator
  character, dictionaries as association lists with insertion order, and the hint collections
  \<open>res_simps\<close> and \<open>act_simps\<close>.
\<close>

named_theorems res_simps "unfolding of the exception combinators"
named_theorems act_simps "unfolding of the state and exception combinators"
named_theorems model_simps "unfolding of small accessor definitions of the model"

section \<open>Exceptions\<close>

text \<open>
  The reasons for which the admission controller refuses a request: one constructor for every
  \<open>raise exception.OsDplValidationFailed(...)\<close>, standing for its message.
\<close>

datatype rej_openstack =
    AlreadyExists | MasterDenied | Downgrade | SkipLevel | SpecChangedOnUpgrade
  | UpgradeInProgress | CredentialsLocked | DeleteInTransit
  | RotationRemoved | RotationIdNotPositive | RotationIdDecreased | RotationIdSkipped

datatype rej_features =
    MasakariTooOld | BaremetalWithTF | PankoRetired | ManilaWithTF | ManilaTooOld
  | EncryptedApiKey | StrictAdminTooOld | BadSchedule

datatype rej_neutron =
    PhysnetMissing | BgpvpnPeersMissing | TFWithIpsec | TFWithBgpvpn | TFFloatingPartial
  | NgsDevicesWithHardware | OvnTooOld | OvnWithTF | OvnWithBgpvpn | OvnWithIpsec
  | VpnaasTooOld | VpnaasWithTF | DynRoutingTooOld | DynRoutingWithTF
  | PortproberTooOld | PortproberWithTF | GeneveWithoutOvn

datatype rej_storage =
    CustomBackupDriverTooOld | ManyBackupDrivers | NoEnabledBackends
  | NoBackendName | NoDriver
  | CertificateWithoutSignature | CinderBackendNameClash | CinderBackendNameFormat
  | ManyDefaultBackends | NoDefaultBackend | ManyFileBackends | FileBackendKeysMissing

datatype rej_service =
    VaultNamespaceTooOld | PvNfsIncomplete | ManyRemotes | RemoteFieldsMissing
  | NoIronicConfig | KeycloakWithoutUrl | DomainsAndKsDomains | KsDomainsFieldsMissing
  | KeycloakAndFederation | ManyProvidersOauth20
  | EncryptionWithoutLvm | VcpuHostModelMixed | VcpuMultipleTooOld

datatype reject =
    ROpenstack rej_openstack | RFeatures rej_features | RNeutron rej_neutron
  | RStorage rej_storage | RService rej_service | SchemaFailed string

text \<open>
  Python's own exceptions, those of the source, those of kopf that decide whether a handler is
  retried (\<open>TemporaryError\<close>) or given up (\<open>PermanentError\<close>), and those of the
  libraries the source lets through or catches.
\<close>

datatype py_exc =
    KeyError string | IndexError | AttributeError | TypeError | ValueError | ZeroDivisionError
  | OsDplValidationFailed reject | OsdplSubstitutionFailed
  | TemporaryError string | PermanentError string
  | ObjectDoesNotExist | ValidationError | InvalidMerge | TimeoutError | ApiError
  | HelmImmutableFieldChange | HelmRollback | SDKException | EndpointNotFound
  | YAMLError | TemplateNotFound | TemplateSyntaxError | UndefinedError
  | HttpException int | OtherException string

type_synonym 'a res = "py_exc + 'a"

definition rbind :: "'a res \<Rightarrow> ('a \<Rightarrow> 'b res) \<Rightarrow> 'b res" where
  "rbind m f = (case m of Inl e \<Rightarrow> Inl e | Inr x \<Rightarrow> f x)"

lemma rbind_Inl [simp]: "rbind (Inl e) f = Inl e"
  by (simp add: rbind_def)

lemma rbind_Inr [simp]: "rbind (Inr x) f = f x"
  by (simp add: rbind_def)

lemma rbind_eq_Inr [res_simps]:
  "(rbind m f = Inr y) = (\<exists>x. m = Inr x \<and> f x = Inr y)"
  by (cases m) auto

lemma rbind_eq_Inl:
  "(rbind m f = Inl e) = (m = Inl e \<or> (\<exists>x. m = Inr x \<and> f x = Inl e))"
  by (cases m) auto

lemma rbind_InrE:
  assumes "rbind m f = Inr y"
  obtains x where "m = Inr x" and "f x = Inr y"
  using assms by (auto simp: rbind_eq_Inr)

lemma rbind_unitE:
  assumes "rbind m f = Inr y"
  obtains "m = Inr ()" and "f () = Inr y"
  using assms by (auto simp: rbind_eq_Inr)

lemma rbind_assoc: "rbind (rbind m f) g = rbind m (\<lambda>x. rbind (f x) g)"
  by (cases m) auto

lemma rbind_cong [fundef_cong]:
  "m = m' \<Longrightarrow> (\<And>x. m' = Inr x \<Longrightarrow> f x = g x) \<Longrightarrow> rbind m f = rbind m' g"
  by (cases m') auto

text \<open>A \<open>for\<close> loop whose body may raise: the first exception ends it.\<close>

fun rforeach :: "('a \<Rightarrow> unit res) \<Rightarrow> 'a list \<Rightarrow> unit res" where
  "rforeach f [] = Inr ()"
| "rforeach f (x # xs) = rbind (f x) (\<lambda>_. rforeach f xs)"

lemma rforeach_ok: "(rforeach f xs = Inr u) = (\<forall>x \<in> set xs. f x = Inr ())"
  by (induction xs) (auto simp: res_simps)

lemma rforeach_cong [fundef_cong]:
  "xs = ys \<Longrightarrow> (\<And>x. x \<in> set ys \<Longrightarrow> f x = g x) \<Longrightarrow> rforeach f xs = rforeach g ys"
  by (induction xs arbitrary: ys) auto

text \<open>Accumulating loops (\<open>for x in xs: acc = f(acc, x)\<close>) and comprehensions.\<close>

fun rfold :: "('a \<Rightarrow> 'b \<Rightarrow> 'b res) \<Rightarrow> 'a list \<Rightarrow> 'b \<Rightarrow> 'b res" where
  "rfold f [] acc = Inr acc"
| "rfold f (x # xs) acc = rbind (f x acc) (rfold f xs)"

fun rmap :: "('a \<Rightarrow> 'b res) \<Rightarrow> 'a list \<Rightarrow> 'b list res" where
  "rmap f [] = Inr []"
| "rmap f (x # xs) = rbind (f x) (\<lambda>y. rbind (rmap f xs) (\<lambda>ys. Inr (y # ys)))"

lemma rmap_length: "rmap f xs = Inr ys \<Longrightarrow> length ys = length xs"
  by (induction xs arbitrary: ys) (auto simp: res_simps)

lemma rmap_list_all2: "rmap f xs = Inr ys \<Longrightarrow> list_all2 (\<lambda>x y. f x = Inr y) xs ys"
  by (induction xs arbitrary: ys) (auto simp: res_simps)

lemma rmap_Inr_map: "(\<And>x. x \<in> set xs \<Longrightarrow> f x = Inr (g x)) \<Longrightarrow> rmap f xs = Inr (map g xs)"
  by (induction xs) auto

lemma rfold_invariant:
  assumes "\<And>x acc acc'. x \<in> set xs \<Longrightarrow> P acc \<Longrightarrow> f x acc = Inr acc' \<Longrightarrow> P acc'"
    and "P acc" and "rfold f xs acc = Inr r"
  shows "P r"
  using assms
proof (induction xs arbitrary: acc)
  case Nil
  then show ?case by simp
next
  case (Cons x xs)
  from Cons.prems(3) obtain acc' where a: "f x acc = Inr acc'" "rfold f xs acc' = Inr r"
    by (auto simp: res_simps)
  from a(1) Cons.prems(1,2) have "P acc'" by (meson list.set_intros(1))
  with a(2) Cons.prems(1) show ?case by (meson Cons.IH list.set_intros(2))
qed

section \<open>State and exceptions together\<close>

type_synonym ('s, 'a) act = "'s \<Rightarrow> 'a res \<times> 's"

definition aret :: "'a \<Rightarrow> ('s, 'a) act" where
  [act_simps]: "aret x = (\<lambda>s. (Inr x, s))"

definition araise :: "py_exc \<Rightarrow> ('s, 'a) act" where
  [act_simps]: "araise e = (\<lambda>s. (Inl e, s))"

definition aget :: "('s \<Rightarrow> 'a) \<Rightarrow> ('s, 'a) act" where
  [act_simps]: "aget f = (\<lambda>s. (Inr (f s), s))"

definition amod :: "('s \<Rightarrow> 's) \<Rightarrow> ('s, unit) act" where
  [act_simps]: "amod f = (\<lambda>s. (Inr (), f s))"

definition alift :: "'a res \<Rightarrow> ('s, 'a) act" where
  [act_simps]: "alift r = (\<lambda>s. (r, s))"

definition abind :: "('s, 'a) act \<Rightarrow> ('a \<Rightarrow> ('s, 'b) act) \<Rightarrow> ('s, 'b) act" where
  "abind m f = (\<lambda>s. case m s of (Inl e, s') \<Rightarrow> (Inl e, s') | (Inr x, s') \<Rightarrow> f x s')"

text \<open>Sequencing when the first call returns nothing of interest.\<close>

abbreviation athen :: "('s, 'a) act \<Rightarrow> ('s, 'b) act \<Rightarrow> ('s, 'b) act" where
  "athen m n \<equiv> abind m (\<lambda>_. n)"

lemma abind_Inr [act_simps]: "m s = (Inr x, s') \<Longrightarrow> abind m f s = f x s'"
  by (simp add: abind_def)

lemma abind_Inl [act_simps]: "m s = (Inl e, s') \<Longrightarrow> abind m f s = (Inl e, s')"
  by (simp add: abind_def)

lemma abind_eq_Inr:
  "(abind m f s = (Inr y, t)) = (\<exists>x s'. m s = (Inr x, s') \<and> f x s' = (Inr y, t))"
  by (auto simp: abind_def split: prod.splits sum.splits)

lemma abind_eq_Inl:
  "(abind m f s = (Inl e, t)) =
     (m s = (Inl e, t) \<or> (\<exists>x s'. m s = (Inr x, s') \<and> f x s' = (Inl e, t)))"
  by (auto simp: abind_def split: prod.splits sum.splits)

lemma abind_aret [simp]: "abind (aret x) f = f x"
  by (simp add: abind_def aret_def)

lemma abind_araise [simp]: "abind (araise e) f = araise e"
  by (simp add: abind_def araise_def)

lemma abind_aget_at: "abind (aget f) g s = g (f s) s"
  by (simp add: abind_def aget_def)

lemma abind_alift_at: "abind (alift (Inr x)) g = g x"
  by (rule ext) (simp add: abind_def alift_def)

lemma abind_assoc: "abind (abind m f) g = abind m (\<lambda>x. abind (f x) g)"
  by (rule ext) (auto simp: abind_def split: prod.splits sum.splits)

fun aforeach :: "('a \<Rightarrow> ('s, unit) act) \<Rightarrow> 'a list \<Rightarrow> ('s, unit) act" where
  "aforeach f [] = aret ()"
| "aforeach f (x # xs) = athen (f x) (aforeach f xs)"

fun amap :: "('a \<Rightarrow> ('s, 'b) act) \<Rightarrow> 'a list \<Rightarrow> ('s, 'b list) act" where
  "amap f [] = aret []"
| "amap f (x # xs) = abind (f x) (\<lambda>y. abind (amap f xs) (\<lambda>ys. aret (y # ys)))"

text \<open>
  \<open>keeps P m\<close>: the call leaves what \<open>P\<close> observes of the state as it was, whether
  it returns or raises.  The frame lemmas of the handlers are instances of this predicate.
\<close>

definition keeps :: "('s \<Rightarrow> 'b) \<Rightarrow> ('s, 'a) act \<Rightarrow> bool" where
  "keeps P m \<longleftrightarrow> (\<forall>s. P (snd (m s)) = P s)"

lemma keepsD: "keeps P m \<Longrightarrow> m s = (r, t) \<Longrightarrow> P t = P s"
  by (metis keeps_def snd_conv)

lemma keepsI: "(\<And>s r t. m s = (r, t) \<Longrightarrow> P t = P s) \<Longrightarrow> keeps P m"
  by (simp add: keeps_def) (metis prod.exhaust_sel)

lemma keeps_aret [simp, intro]: "keeps P (aret x)"
  by (simp add: keeps_def aret_def)

lemma keeps_araise [simp, intro]: "keeps P (araise e)"
  by (simp add: keeps_def araise_def)

lemma keeps_aget [simp, intro]: "keeps P (aget f)"
  by (simp add: keeps_def aget_def)

lemma keeps_alift [simp, intro]: "keeps P (alift f)"
  by (simp add: keeps_def alift_def)

lemma keeps_abind [intro]:
  assumes "keeps P m" and "\<And>x. keeps P (f x)"
  shows "keeps P (abind m f)"
  unfolding keeps_def
proof
  fix s
  obtain r s' where m: "m s = (r, s')" by fastforce
  with assms(1) have "P s' = P s" by (rule keepsD)
  then show "P (snd (abind m f s)) = P s"
    using assms(2) m by (cases r) (auto simp: abind_def keeps_def)
qed

lemma keeps_aforeach [intro]:
  "(\<And>x. x \<in> set xs \<Longrightarrow> keeps P (f x)) \<Longrightarrow> keeps P (aforeach f xs)"
  by (induction xs) auto

lemma keeps_amap [intro]:
  "(\<And>x. x \<in> set xs \<Longrightarrow> keeps P (f x)) \<Longrightarrow> keeps P (amap f xs)"
  by (induction xs) auto

lemma keeps_if [intro]: "keeps P m \<Longrightarrow> keeps P n \<Longrightarrow> keeps P (if b then m else n)"
  by simp

text \<open>
  Hoare triples with two postconditions: \<open>Q\<close> for the value returned, \<open>E\<close> for the exception raised.
  Their rules follow the syntax of an action; \<open>triple_keeps\<close> brings in a frame lemma.
\<close>

definition triple ::
  "('s \<Rightarrow> bool) \<Rightarrow> ('s, 'a) act \<Rightarrow> ('a \<Rightarrow> 's \<Rightarrow> bool) \<Rightarrow> (py_exc \<Rightarrow> 's \<Rightarrow> bool) \<Rightarrow> bool" where
  "triple P m Q E \<longleftrightarrow>
     (\<forall>s. P s \<longrightarrow> (case m s of (Inr x, t) \<Rightarrow> Q x t | (Inl e, t) \<Rightarrow> E e t))"

named_theorems triple_rules "rules of the triples, one for each combinator"

lemma tripleI:
  "(\<And>s x t. P s \<Longrightarrow> m s = (Inr x, t) \<Longrightarrow> Q x t) \<Longrightarrow> (\<And>s e t. P s \<Longrightarrow> m s = (Inl e, t) \<Longrightarrow> E e t) \<Longrightarrow>
   triple P m Q E"
  by (auto simp: triple_def split: prod.splits sum.splits)

lemma triple_Inr: "triple P m Q E \<Longrightarrow> P s \<Longrightarrow> m s = (Inr x, t) \<Longrightarrow> Q x t"
  by (fastforce simp: triple_def)

lemma triple_Inl: "triple P m Q E \<Longrightarrow> P s \<Longrightarrow> m s = (Inl e, t) \<Longrightarrow> E e t"
  by (fastforce simp: triple_def)

lemma triple_abind [triple_rules]:
  assumes "triple P m R E" and "\<And>x. triple (R x) (f x) Q E"
  shows "triple P (abind m f) Q E"
proof (rule tripleI)
  fix s y t assume "P s" "abind m f s = (Inr y, t)"
  then show "Q y t" using assms by (auto simp: abind_eq_Inr dest: triple_Inr)
next
  fix s e t assume "P s" "abind m f s = (Inl e, t)"
  then show "E e t" using assms by (auto simp: abind_eq_Inl dest: triple_Inr triple_Inl)
qed

lemma triple_aret: "(\<And>s. P s \<Longrightarrow> Q x s) \<Longrightarrow> triple P (aret x) Q E"
  by (simp add: triple_def aret_def)

lemma triple_araise: "(\<And>s. P s \<Longrightarrow> E e s) \<Longrightarrow> triple P (araise e) Q E"
  by (simp add: triple_def araise_def)

lemma triple_aget: "(\<And>s. P s \<Longrightarrow> Q (f s) s) \<Longrightarrow> triple P (aget f) Q E"
  by (simp add: triple_def aget_def)

lemma triple_amod: "(\<And>s. P s \<Longrightarrow> Q () (f s)) \<Longrightarrow> triple P (amod f) Q E"
  by (simp add: triple_def amod_def)

lemma triple_alift:
  "(\<And>s x. P s \<Longrightarrow> r = Inr x \<Longrightarrow> Q x s) \<Longrightarrow> (\<And>s e. P s \<Longrightarrow> r = Inl e \<Longrightarrow> E e s) \<Longrightarrow> triple P (alift r) Q E"
  by (auto simp: triple_def alift_def split: sum.splits)

lemma triple_if [triple_rules]:
  "(b \<Longrightarrow> triple P m Q E) \<Longrightarrow> (\<not> b \<Longrightarrow> triple P n Q E) \<Longrightarrow> triple P (if b then m else n) Q E"
  by simp

lemma triple_conseq:
  "triple P' m Q' E' \<Longrightarrow> (\<And>s. P s \<Longrightarrow> P' s) \<Longrightarrow> (\<And>x s. Q' x s \<Longrightarrow> Q x s) \<Longrightarrow> (\<And>e s. E' e s \<Longrightarrow> E e s) \<Longrightarrow>
   triple P m Q E"
  by (rule tripleI) (blast dest: triple_Inr triple_Inl)+

lemma triple_seq:
  "triple P m (\<lambda>_. P) E \<Longrightarrow> (\<And>x. triple P (f x) Q E) \<Longrightarrow> triple P (abind m f) Q E"
  by (rule triple_abind)

lemma triple_option [triple_rules]:
  "triple P m Q E \<Longrightarrow> (\<And>x. triple P (n x) Q E) \<Longrightarrow>
   triple P (case o' of None \<Rightarrow> m | Some x \<Rightarrow> n x) Q E"
  by (cases o') auto

lemma triple_leaf:
  "triple P (aret x) (\<lambda>_. P) E" "triple P (aget f) (\<lambda>_. P) E" "triple P (alift r) (\<lambda>_. P) (\<lambda>_. P)"
  "triple P (araise e) Q (\<lambda>_. P)"
  by (auto intro: triple_aret triple_aget triple_alift triple_araise)

lemma triple_keeps:
  assumes "keeps g m" and "\<And>s t. g t = g s \<Longrightarrow> P s \<Longrightarrow> P t"
  shows "triple P m (\<lambda>_. P) (\<lambda>_. P)"
  using assms by (auto intro!: tripleI dest: keepsD)

lemma triple_aforeach:
  "(\<And>x. x \<in> set xs \<Longrightarrow> triple P (f x) (\<lambda>_. P) E) \<Longrightarrow> triple P (aforeach f xs) (\<lambda>_. P) E"
  by (induction xs) (auto intro: triple_aret triple_abind)

lemma triple_amap:
  "(\<And>x. x \<in> set xs \<Longrightarrow> triple P (f x) (\<lambda>_. P) E) \<Longrightarrow> triple P (amap f xs) (\<lambda>_. P) E"
  by (induction xs) (auto intro: triple_aret triple_abind)

lemma triple_pre: "triple P m Q E \<Longrightarrow> (\<And>s. P' s \<Longrightarrow> P s) \<Longrightarrow> triple P' m Q E"
  by (auto simp: triple_def)

lemma triple_any: "triple P m (\<lambda>_ _. True) (\<lambda>_ _. True)"
  by (simp add: triple_def split: prod.splits sum.splits)

lemma triple_skip:
  "(\<And>x. triple (\<lambda>_. True) (f x) Q (\<lambda>_ _. True)) \<Longrightarrow> triple P (abind m f) Q (\<lambda>_ _. True)"
  by (rule triple_abind[OF triple_any])

text \<open>\<open>try: m except: h\<close>: the handler gets the exception and raises again what it does not catch.\<close>

definition atry :: "('s, 'a) act \<Rightarrow> (py_exc \<Rightarrow> ('s, 'a) act) \<Rightarrow> ('s, 'a) act" where
  "atry m h = (\<lambda>s. case m s of (Inl e, t) \<Rightarrow> h e t | (Inr x, t) \<Rightarrow> (Inr x, t))"

lemma atry_aret [simp]: "atry (aret x) h = aret x"
  by (simp add: atry_def aret_def)

lemma atry_araise [simp]: "atry (araise e) h = h e"
  by (simp add: atry_def araise_def)

lemma keeps_atry [intro]:
  assumes "keeps P m" and "\<And>e. keeps P (h e)"
  shows "keeps P (atry m h)"
proof (rule keepsI)
  fix s r t assume run: "atry m h s = (r, t)"
  obtain r' t' where m: "m s = (r', t')" by (cases "m s")
  then have "P t' = P s" using assms(1) keepsD by fastforce
  with run m show "P t = P s"
    by (cases r') (auto simp: atry_def dest: keepsD[OF assms(2)])
qed

text \<open>
  \<open>for i in range(n): if cond(): return True; sleep()\<close>, and with a large \<open>n\<close> a loop that waits
  without a bound: \<open>tick\<close> is what happens to the world during one sleep.
\<close>

fun wait_until :: "nat \<Rightarrow> ('s \<Rightarrow> 's) \<Rightarrow> ('s, bool) act \<Rightarrow> ('s, bool) act" where
  "wait_until 0 tick cond = aret False"
| "wait_until (Suc n) tick cond =
     abind cond (\<lambda>b. if b then aret True else athen (amod tick) (wait_until n tick cond))"

lemma wait_until_iff:
  assumes "\<And>s. cond s = (Inr (P s), s)"
  shows "(\<exists>t. wait_until n tick cond s = (Inr True, t)) = (\<exists>k < n. P ((tick ^^ k) s))"
proof (induction n arbitrary: s)
  case 0
  then show ?case by (simp add: aret_def)
next
  case (Suc n)
  show ?case
  proof (cases "P s")
    case True
    then show ?thesis using assms by (auto simp: abind_def aret_def intro: exI[of _ 0])
  next
    case False
    then have "wait_until (Suc n) tick cond s = wait_until n tick cond (tick s)"
      using assms by (simp add: abind_def amod_def)
    then have "(\<exists>t. wait_until (Suc n) tick cond s = (Inr True, t)) = (\<exists>k < n. P ((tick ^^ k) (tick s)))"
      using Suc[of "tick s"] by simp
    also have "\<dots> = (\<exists>k < Suc n. P ((tick ^^ k) s))"
      using False by (auto simp: Ex_less_Suc2 funpow_swap1)
    finally show ?thesis .
  qed
qed

section \<open>Strings\<close>

text \<open>\<open>s.split(c)\<close> for a one-character separator, and \<open>c.join(parts)\<close>.\<close>

fun py_split :: "char \<Rightarrow> string \<Rightarrow> string list" where
  "py_split c [] = [[]]"
| "py_split c (x # xs) =
     (if x = c then [] # py_split c xs
      else case py_split c xs of [] \<Rightarrow> [[x]] | w # ws \<Rightarrow> (x # w) # ws)"

fun py_join :: "string \<Rightarrow> string list \<Rightarrow> string" where
  "py_join sep [] = []"
| "py_join sep [w] = w"
| "py_join sep (w # v # vs) = w @ sep @ py_join sep (v # vs)"

lemma py_split_not_Nil [simp]: "py_split c s \<noteq> []"
  by (induction s) (auto split: list.splits)

lemma py_join_split: "py_join [c] (py_split c s) = s"
proof (induction s)
  case Nil
  then show ?case by simp
next
  case (Cons x xs)
  obtain w ws where w: "py_split c xs = w # ws" by (cases "py_split c xs") auto
  with Cons show ?case by (cases ws) auto
qed

lemma py_split_no_sep: "c \<notin> set s \<Longrightarrow> py_split c s = [s]"
  by (induction s) auto

lemma py_split_append:
  "c \<notin> set w \<Longrightarrow> py_split c (w @ c # s) = w # py_split c s"
  by (induction w) auto

lemma py_split_join:
  "ws \<noteq> [] \<Longrightarrow> (\<forall>w \<in> set ws. c \<notin> set w) \<Longrightarrow> py_split c (py_join [c] ws) = ws"
  by (induction "[c]" ws rule: py_join.induct) (auto simp: py_split_no_sep py_split_append)

lemma py_split_parts: "w \<in> set (py_split c s) \<Longrightarrow> c \<notin> set w"
  by (induction s arbitrary: w) (auto split: list.splits if_splits)

text \<open>\<open>needle in hay\<close> for strings, \<open>startswith\<close> and \<open>endswith\<close>.\<close>

fun py_prefix :: "string \<Rightarrow> string \<Rightarrow> bool" where
  "py_prefix [] s = True"
| "py_prefix (x # xs) [] = False"
| "py_prefix (x # xs) (y # ys) = (x = y \<and> py_prefix xs ys)"

fun py_substr :: "string \<Rightarrow> string \<Rightarrow> bool" where
  "py_substr n [] = (n = [])"
| "py_substr n (y # ys) = (py_prefix n (y # ys) \<or> py_substr n ys)"

lemma py_prefix_iff: "py_prefix p s = (\<exists>r. s = p @ r)"
  by (induction p s rule: py_prefix.induct) auto

lemma py_substr_intro: "py_substr n (a @ n @ b)"
proof (induction a)
  case Nil
  have "py_prefix n (n @ b)" by (auto simp: py_prefix_iff)
  then show ?case by (cases "n @ b") auto
next
  case (Cons z zs)
  then show ?case by simp
qed

lemma py_substr_elim: "py_substr n s \<Longrightarrow> \<exists>a b. s = a @ n @ b"
proof (induction s)
  case Nil
  then show ?case by simp
next
  case (Cons y ys)
  show ?case
  proof (cases "py_prefix n (y # ys)")
    case True
    then obtain r where "y # ys = [] @ n @ r" by (auto simp: py_prefix_iff)
    then show ?thesis by blast
  next
    case False
    with Cons obtain a b where "ys = a @ n @ b" by auto
    then have "y # ys = (y # a) @ n @ b" by simp
    then show ?thesis by blast
  qed
qed

lemma py_substr_iff: "py_substr n s = (\<exists>a b. s = a @ n @ b)"
  using py_substr_elim py_substr_intro by metis

text \<open>Digits.\<close>

definition is_digit :: "char \<Rightarrow> bool" where
  "is_digit c \<longleftrightarrow> c \<in> set ''0123456789''"

text \<open>\<open>s.isdigit()\<close> is false on the empty string; \<open>int(s)\<close> of a string of digits.\<close>

definition isdigit :: "string \<Rightarrow> bool" where
  "isdigit s \<longleftrightarrow> s \<noteq> [] \<and> list_all is_digit s"

definition digit_value :: "char \<Rightarrow> int" where
  "digit_value c = int (of_char c) - 48"

definition int_of_digits :: "string \<Rightarrow> int" where
  "int_of_digits s = foldl (\<lambda>acc c. 10 * acc + digit_value c) 0 s"

lemma isdigit_no: "isdigit s \<Longrightarrow> \<not> is_digit c \<Longrightarrow> c \<notin> set s"
  by (auto simp: isdigit_def list_all_iff)

lemma isdigit_star [simp]: "\<not> isdigit ''*''"
  by (simp add: isdigit_def is_digit_def)

lemma isdigit_seps:
  "isdigit s \<Longrightarrow> CHR ''/'' \<notin> set s" "isdigit s \<Longrightarrow> CHR ''-'' \<notin> set s"
  "isdigit s \<Longrightarrow> CHR '','' \<notin> set s" "isdigit s \<Longrightarrow> CHR '' '' \<notin> set s"
  by (erule isdigit_no, simp add: is_digit_def)+

definition is_space :: "char \<Rightarrow> bool" where
  "is_space c \<longleftrightarrow> of_char c \<in> {9, 10, 11, 12, 13, 28, 29, 30, 31, 32 :: nat}"

definition py_strip :: "string \<Rightarrow> string" where
  "py_strip s = rev (dropWhile is_space (rev (dropWhile is_space s)))"

definition to_lower :: "char \<Rightarrow> char" where
  "to_lower c = (if 65 \<le> (of_char c :: nat) \<and> (of_char c :: nat) \<le> 90
                 then char_of (of_char c + 32 :: nat) else c)"

definition py_lower :: "string \<Rightarrow> string" where
  "py_lower s = map to_lower s"

text \<open>\<open>int(s)\<close> of a string: white space around, a sign and single underscores are allowed.\<close>

definition py_int :: "string \<Rightarrow> int res" where
  "py_int s0 =
     (let s = py_strip s0;
          neg = (case s of c # _ \<Rightarrow> c = CHR ''-'' | [] \<Rightarrow> False);
          r = (case s of c # t \<Rightarrow> if c = CHR ''-'' \<or> c = CHR ''+'' then t else s | [] \<Rightarrow> s);
          parts = py_split CHR ''_'' r
      in if list_all isdigit parts
         then Inr ((if neg then - 1 else 1) * int_of_digits (concat parts)) else Inl ValueError)"

section \<open>Dictionaries\<close>

text \<open>
  A Python dictionary keeps its insertion order, so it is an association list with distinct
  keys: \<open>d.get(k)\<close> is \<^const>\<open>map_of\<close>, \<open>d[k] = v\<close> is \<^const>\<open>AList.update\<close>
  (in place when the key is there, at the end otherwise), \<open>del d[k]\<close> is
  \<^const>\<open>AList.delete\<close>.
\<close>

abbreviation keys :: "('k \<times> 'v) list \<Rightarrow> 'k list" where
  "keys d \<equiv> map fst d"

definition dict_ok :: "('k \<times> 'v) list \<Rightarrow> bool" where
  "dict_ok d \<longleftrightarrow> distinct (keys d)"

lemma dict_ok_Nil [simp]: "dict_ok []"
  by (simp add: dict_ok_def)

lemma dict_ok_Cons [simp]: "dict_ok ((k, v) # d) = (k \<notin> set (keys d) \<and> dict_ok d)"
  by (auto simp: dict_ok_def)

lemma dict_ok_update [simp]: "dict_ok d \<Longrightarrow> dict_ok (AList.update k v d)"
  by (simp add: dict_ok_def distinct_update)

lemma map_of_update [simp]: "map_of (AList.update k v d) = (map_of d)(k \<mapsto> v)"
  by (rule update_conv')

lemma update_update [simp]: "AList.update k v (AList.update k w d) = AList.update k v d"
  by (induction d) auto

lemma keys_update: "keys (AList.update k v d) = (if k \<in> set (keys d) then keys d else keys d @ [k])"
  by (induction d) auto

lemma set_keys_update: "set (keys (AList.update k v d)) = insert k (set (keys d))"
  by (simp add: dom_update)

lemma map_of_in_keys: "map_of d k = Some v \<Longrightarrow> k \<in> set (keys d)"
  by (drule map_of_SomeD) force

text \<open>\<open>d.setdefault(k, []).extend(vs)\<close>: the usual way to group values by a key.\<close>

definition dict_extend :: "'k \<Rightarrow> 'v list \<Rightarrow> ('k \<times> 'v list) list \<Rightarrow> ('k \<times> 'v list) list" where
  "dict_extend k vs d =
     AList.update k ((case map_of d k of None \<Rightarrow> [] | Some xs \<Rightarrow> xs) @ vs) d"

lemma map_of_dict_extend:
  "map_of (dict_extend k vs d) j =
     (if j = k then Some ((case map_of d k of None \<Rightarrow> [] | Some xs \<Rightarrow> xs) @ vs) else map_of d j)"
  by (simp add: dict_extend_def)

lemma dict_ok_extend [simp]: "dict_ok d \<Longrightarrow> dict_ok (dict_extend k vs d)"
  by (simp add: dict_extend_def)

end
