(* ===== verification/PyValue.thy ===== *)
theory PyValue
  imports Prelude Complex_Main
begin

text \<open>
  The values the controller handles: what \<open>yaml.safe_load\<close>, \<open>json.loads\<close> and the Kubernetes
  API return.  Operations follow Python: \<open>d.get(k, v)\<close> on something that is no dictionary raises
  \<open>AttributeError\<close>, \<open>d[k]\<close> raises \<open>KeyError\<close>, \<open>IndexError\<close> or \<open>TypeError\<close>, equality ignores the
  order of dictionary keys and does not tell \<open>1\<close>, \<open>1.0\<close> and \<open>True\<close> apart.  Floats are modelled
  by the rational number they denote.  The last part is \<open>get_in\<close> of \<open>utils.py\<close>.
\<close>

datatype json =
    JNull | JBool bool | JInt int | JFloat rat | JStr string
  | JList "json list" | JObj "(string \<times> json) list"

type_synonym jdict = "(string \<times> json) list"

section \<open>Well-formed values, equality and truth\<close>

fun jwf :: "json \<Rightarrow> bool" where
  "jwf (JList xs) = (\<forall>x \<in> set xs. jwf x)"
| "jwf (JObj d) = (dict_ok d \<and> (\<forall>kv \<in> set d. jwf (snd kv)))"
| "jwf _ = True"

fun num_of :: "json \<Rightarrow> rat option" where
  "num_of (JBool b) = Some (if b then 1 else 0)"
| "num_of (JInt i) = Some (of_int i)"
| "num_of (JFloat r) = Some r"
| "num_of _ = None"

lemma jwf_map_of: "jwf (JObj d) \<Longrightarrow> map_of d k = Some v \<Longrightarrow> jwf v"
  by (auto dest!: map_of_SomeD)

lemma jwf_dict_ok: "jwf (JObj d) \<Longrightarrow> dict_ok d"
  by simp

function py_eq :: "json \<Rightarrow> json \<Rightarrow> bool"
  and py_eq_list :: "json list \<Rightarrow> json list \<Rightarrow> bool"
  and py_eq_dict :: "jdict \<Rightarrow> jdict \<Rightarrow> bool" where
  "py_eq x y =
     (case x of
        JNull \<Rightarrow> y = JNull
      | JStr s \<Rightarrow> y = JStr s
      | JList xs \<Rightarrow> (case y of JList ys \<Rightarrow> py_eq_list xs ys | _ \<Rightarrow> False)
      | JObj d \<Rightarrow> (case y of JObj e \<Rightarrow> length d = length e \<and> py_eq_dict d e | _ \<Rightarrow> False)
      | _ \<Rightarrow> num_of y \<noteq> None \<and> num_of x = num_of y)"
| "py_eq_list [] ys = (ys = [])"
| "py_eq_list (x # xs) ys = (case ys of [] \<Rightarrow> False | y # zs \<Rightarrow> py_eq x y \<and> py_eq_list xs zs)"
| "py_eq_dict [] e = True"
| "py_eq_dict (kv # d) e =
     ((case map_of e (fst kv) of None \<Rightarrow> False | Some w \<Rightarrow> py_eq (snd kv) w) \<and> py_eq_dict d e)"
  by pat_completeness auto
termination
  by (relation "measure (\<lambda>x. case x of Inl (a, b) \<Rightarrow> Suc (2 * size a)
        | Inr (Inl (xs, ys)) \<Rightarrow> 2 * size_list size xs
        | Inr (Inr (d, e)) \<Rightarrow> 2 * size_list (size_prod (\<lambda>_. 0) size) d)")
     (auto split: prod.splits)

declare py_eq.simps [simp del]

lemmas py_eq_simps [simp] =
  py_eq.simps [of JNull] py_eq.simps [of "JBool b" for b] py_eq.simps [of "JInt i" for i]
  py_eq.simps [of "JFloat r" for r] py_eq.simps [of "JStr s" for s]
  py_eq.simps [of "JList xs" for xs] py_eq.simps [of "JObj d" for d]

lemma py_eq_list_refl: "(\<And>x. x \<in> set xs \<Longrightarrow> py_eq x x) \<Longrightarrow> py_eq_list xs xs"
  by (induction xs) auto

lemma py_eq_dict_refl:
  assumes "\<And>k v. (k, v) \<in> set d \<Longrightarrow> map_of e k = Some v \<and> py_eq v v"
  shows "py_eq_dict d e"
  using assms
proof (induction d)
  case Nil
  then show ?case by simp
next
  case (Cons a d)
  have "py_eq_dict d e" using Cons.prems by (intro Cons.IH) auto
  moreover have "map_of e (fst a) = Some (snd a) \<and> py_eq (snd a) (snd a)"
    using Cons.prems[of "fst a" "snd a"] by simp
  ultimately show ?case by simp
qed

lemma py_eq_refl: "jwf x \<Longrightarrow> py_eq x x"
proof (induction x)
  case (JList xs)
  then show ?case by (simp add: py_eq_list_refl)
next
  case (JObj d)
  have "py_eq_dict d d"
  proof (rule py_eq_dict_refl)
    fix k v assume kv: "(k, v) \<in> set d"
    with JObj show "map_of d k = Some v \<and> py_eq v v"
      by (auto simp: dict_ok_def intro!: map_of_is_SomeI)
  qed
  then show ?case by simp
qed auto

text \<open>Truth of a value, as \<open>if x\<close> and \<open>not x\<close> test it.\<close>

fun jtruthy :: "json \<Rightarrow> bool" where
  "jtruthy JNull = False"
| "jtruthy (JBool b) = b"
| "jtruthy (JInt i) = (i \<noteq> 0)"
| "jtruthy (JFloat r) = (r \<noteq> 0)"
| "jtruthy (JStr s) = (s \<noteq> [])"
| "jtruthy (JList xs) = (xs \<noteq> [])"
| "jtruthy (JObj d) = (d \<noteq> [])"

section \<open>Access\<close>

abbreviation jempty :: json where
  "jempty \<equiv> JObj []"

text \<open>\<open>j.get(k, v)\<close>, \<open>j[k]\<close> for a string \<open>k\<close>, and a chain of \<open>.get(k, {})\<close>.\<close>

fun jget :: "json \<Rightarrow> string \<Rightarrow> json \<Rightarrow> json res" where
  "jget (JObj d) k v = Inr (case map_of d k of None \<Rightarrow> v | Some w \<Rightarrow> w)"
| "jget _ k v = Inl AttributeError"

fun jitem :: "json \<Rightarrow> string \<Rightarrow> json res" where
  "jitem (JObj d) k = (case map_of d k of None \<Rightarrow> Inl (KeyError k) | Some w \<Rightarrow> Inr w)"
| "jitem _ k = Inl TypeError"

fun jpath :: "json \<Rightarrow> string list \<Rightarrow> json res" where
  "jpath j [] = Inr j"
| "jpath j (k # ks) = rbind (jget j k jempty) (\<lambda>v. jpath v ks)"

text \<open>\<open>j.items()\<close>, \<open>j.values()\<close> and \<open>j[k] = v\<close>.\<close>

fun jitems :: "json \<Rightarrow> jdict res" where
  "jitems (JObj d) = Inr d"
| "jitems _ = Inl AttributeError"

fun jset :: "json \<Rightarrow> string \<Rightarrow> json \<Rightarrow> json res" where
  "jset (JObj d) k v = Inr (JObj (AList.update k v d))"
| "jset _ k v = Inl TypeError"

text \<open>\<open>x in j\<close> for a string \<open>x\<close>: an element of a list, a key, or a substring.\<close>

fun jin :: "string \<Rightarrow> json \<Rightarrow> bool res" where
  "jin x (JList ys) = Inr (list_ex (py_eq (JStr x)) ys)"
| "jin x (JObj d) = Inr (x \<in> set (keys d))"
| "jin x (JStr s) = Inr (py_substr x s)"
| "jin x _ = Inl TypeError"

lemma jin_list_str: "jin x (JList (map JStr ws)) = Inr (x \<in> set ws)"
  by (induction ws) auto

text \<open>The elements a \<open>for\<close> loop over a value visits.\<close>

fun jelems :: "json \<Rightarrow> json list res" where
  "jelems (JList xs) = Inr xs"
| "jelems (JObj d) = Inr (map JStr (keys d))"
| "jelems (JStr s) = Inr (map (\<lambda>c. JStr [c]) s)"
| "jelems _ = Inl TypeError"

text \<open>What \<open>x.split(",")\<close> and the like need: the value must be a string.\<close>

fun jstr :: "json \<Rightarrow> string res" where
  "jstr (JStr s) = Inr s"
| "jstr _ = Inl AttributeError"

text \<open>
  \<open>j[k]\<close> for any key: dictionaries have string keys, lists are indexed by integers and count from
  the end for a negative index.
\<close>

fun idx_of :: "json \<Rightarrow> int option" where
  "idx_of (JInt i) = Some i"
| "idx_of (JBool b) = Some (if b then 1 else 0)"
| "idx_of _ = None"

definition py_nth :: "'a list \<Rightarrow> int \<Rightarrow> 'a res" where
  "py_nth xs i =
     (if i < 0
      then if nat (- i) \<le> length xs then Inr (rev xs ! (nat (- i) - 1)) else Inl IndexError
      else if nat i < length xs then Inr (xs ! nat i) else Inl IndexError)"

fun jindex :: "json \<Rightarrow> json \<Rightarrow> json res" where
  "jindex (JObj d) k =
     (case k of
        JStr s \<Rightarrow> (case map_of d s of None \<Rightarrow> Inl (KeyError s) | Some w \<Rightarrow> Inr w)
      | JList _ \<Rightarrow> Inl TypeError
      | JObj _ \<Rightarrow> Inl TypeError
      | _ \<Rightarrow> Inl (KeyError []))"
| "jindex (JList xs) k = (case idx_of k of None \<Rightarrow> Inl TypeError | Some i \<Rightarrow> py_nth xs i)"
| "jindex (JStr s) k =
     (case idx_of k of
        None \<Rightarrow> Inl TypeError
      | Some i \<Rightarrow> rbind (py_nth s i) (\<lambda>c. Inr (JStr [c])))"
| "jindex _ k = Inl TypeError"

section \<open>Lookup by path\<close>

text \<open>The specification-level lookup: follow string keys through dictionaries.\<close>

fun jlookup :: "json \<Rightarrow> string list \<Rightarrow> json option" where
  "jlookup j [] = Some j"
| "jlookup j (k # ks) =
     (case j of JObj d \<Rightarrow> (case map_of d k of None \<Rightarrow> None | Some v \<Rightarrow> jlookup v ks) | _ \<Rightarrow> None)"

lemma jlookup_append:
  "jlookup j (ks @ ls) = (case jlookup j ks of None \<Rightarrow> None | Some v \<Rightarrow> jlookup v ls)"
  by (induction j ks rule: jlookup.induct) (auto split: json.splits option.splits)

lemma jwf_lookup: "jwf j \<Longrightarrow> jlookup j ks = Some v \<Longrightarrow> jwf v"
proof (induction j ks rule: jlookup.induct)
  case (1 j)
  then show ?case by simp
next
  case (2 j k ks)
  then obtain d w where d: "j = JObj d" "map_of d k = Some w" "jlookup w ks = Some v"
    by (auto split: json.splits option.splits)
  then have "jwf w" using 2(2) map_of_SomeD by fastforce
  with 2(1) d show ?case by blast
qed

lemma jpath_lookup: "jlookup j ks = Some v \<Longrightarrow> jpath j ks = Inr v"
  by (induction j ks rule: jlookup.induct) (auto split: json.splits option.splits)

lemma jpath_missing:
  assumes "jlookup j ks = Some (JObj d)" and "map_of d k = None"
  shows "jpath j (ks @ k # ls) = Inr jempty"
proof -
  have e: "jpath jempty ls = Inr jempty" for ls by (induction ls) auto
  show ?thesis using assms
    by (induction j ks rule: jlookup.induct) (auto simp: e split: json.splits option.splits)
qed

section \<open>get\_in\<close>

text \<open>
  \<open>get_in(d, keys, default)\<close>: a missing key or index anywhere on the path gives the default; a
  value on the path that cannot be indexed raises.
\<close>

fun get_in :: "json \<Rightarrow> json list \<Rightarrow> json \<Rightarrow> json res" where
  "get_in d [] dflt = Inr d"
| "get_in d (k # ks) dflt =
     (case rbind (jindex d k) (\<lambda>v. get_in v ks dflt) of
        Inl (KeyError _) \<Rightarrow> Inr dflt
      | Inl IndexError \<Rightarrow> Inr dflt
      | r \<Rightarrow> r)"

abbreviation get_in_str :: "json \<Rightarrow> string list \<Rightarrow> json \<Rightarrow> json res" where
  "get_in_str d ks dflt \<equiv> get_in d (map JStr ks) dflt"

lemma get_in_lookup: "jlookup j ks = Some v \<Longrightarrow> get_in_str j ks dflt = Inr v"
  by (induction j ks rule: jlookup.induct) (auto split: json.splits option.splits)

lemma get_in_missing:
  assumes "jlookup j ks = Some (JObj d)" and "map_of d k = None"
  shows "get_in_str j (ks @ k # ls) dflt = Inr dflt"
  using assms
  by (induction j ks rule: jlookup.induct) (auto split: json.splits option.splits)

lemma get_in_never_KeyError:
  "get_in j ks dflt \<noteq> Inl (KeyError k)" "get_in j ks dflt \<noteq> Inl IndexError"
  by (induction j ks dflt rule: get_in.induct)
     (auto split: sum.splits py_exc.splits)

text \<open>A value that is no container stops the path with an exception, not the default.\<close>

lemma get_in_scalar:
  assumes "jlookup j ks = Some v" and "v = JNull \<or> v = JBool b \<or> v = JInt i"
  shows "get_in_str j (ks @ k # ls) dflt = Inl TypeError"
  using assms
  by (induction j ks rule: jlookup.induct) (auto split: json.splits option.splits)

section \<open>Small accessors\<close>

text \<open>\<open>j.get(k1, {})...get(k, d)\<close> and \<open>j[k1]...[kn]\<close>.\<close>

definition jpath_get :: "json \<Rightarrow> string list \<Rightarrow> string \<Rightarrow> json \<Rightarrow> json res" where
  "jpath_get j ks k d = rbind (jpath j ks) (\<lambda>x. jget x k d)"

fun jitem_path :: "json \<Rightarrow> string list \<Rightarrow> json res" where
  "jitem_path j [] = Inr j"
| "jitem_path j (k # ks) = rbind (jitem j k) (\<lambda>v. jitem_path v ks)"

fun jkeys :: "json \<Rightarrow> string list res" where
  "jkeys (JObj d) = Inr (keys d)"
| "jkeys _ = Inl AttributeError"

fun jpop :: "json \<Rightarrow> string \<Rightarrow> json res" where
  "jpop (JObj d) k = (if k \<in> set (keys d) then Inr (JObj (AList.delete k d)) else Inl (KeyError k))"
| "jpop _ k = Inl TypeError"

text \<open>Order and difference of numbers; anything else does not compare with a number.\<close>

definition num_pair :: "json \<Rightarrow> json \<Rightarrow> (rat \<times> rat) res" where
  "num_pair x y =
     (case num_of x of
        None \<Rightarrow> Inl TypeError
      | Some a \<Rightarrow> (case num_of y of None \<Rightarrow> Inl TypeError | Some b \<Rightarrow> Inr (a, b)))"

definition jless :: "json \<Rightarrow> json \<Rightarrow> bool res" where
  "jless x y = rbind (num_pair x y) (\<lambda>(a, b). Inr (a < b))"

definition jless_eq :: "json \<Rightarrow> json \<Rightarrow> bool res" where
  "jless_eq x y = rbind (num_pair x y) (\<lambda>(a, b). Inr (a \<le> b))"

definition jminus_gt :: "json \<Rightarrow> json \<Rightarrow> rat \<Rightarrow> bool res" where
  "jminus_gt x y n = rbind (num_pair x y) (\<lambda>(a, b). Inr (a - b > n))"

lemma jitem_path_lookup: "(jitem_path j ks = Inr v) = (jlookup j ks = Some v)"
  by (induction j ks rule: jlookup.induct)
     (auto simp: res_simps split: json.splits option.splits)

lemma jpath_get_lookup:
  "jlookup j ks = Some (JObj d) \<Longrightarrow>
   jpath_get j ks k dflt = Inr (case map_of d k of None \<Rightarrow> dflt | Some v \<Rightarrow> v)"
  by (simp add: jpath_get_def jpath_lookup)

end
