(* ===== verification/Constants.thy ===== *)
theory Constants
  imports PyValue "HOL-Library.Product_Lexorder"
begin

text \<open>
  The tables of \<open>constants.py\<close> the modelled code reads: chart groups, service names, the upgrade
  order of the services, the order of the maintenance hooks and the ordered OpenStack releases.
\<close>

definition TRUE_STRINGS :: "string list" where
  "TRUE_STRINGS = [''1'', ''t'', ''true'', ''on'', ''y'', ''yes'']"

definition FALSE_STRINGS :: "string list" where
  "FALSE_STRINGS = [''0'', ''f'', ''false'', ''off'', ''n'', ''no'']"

definition CHART_GROUP_MAPPING :: "(string \<times> string list) list" where
  "CHART_GROUP_MAPPING =
     [(''openstack'', [''cinder'', ''glance'', ''heat'', ''horizon'', ''ironic'', ''keystone'',
         ''neutron'', ''nova'', ''octavia'', ''designate'', ''barbican'', ''placement'', ''tempest'',
         ''stepler'', ''aodh'', ''panko'', ''ceilometer'', ''masakari'', ''manila'']),
      (''infra'', [''cloudprober'', ''rabbitmq'', ''mariadb'', ''memcached'', ''openvswitch'',
         ''libvirt'', ''ingress'', ''etcd'', ''descheduler'', ''gnocchi'', ''ceph-rgw'', ''frr'',
         ''iscsi'', ''strongswan'', ''drb-controller'', ''redisoperator''])]"

definition OS_SERVICES_MAP :: "(string \<times> string) list" where
  "OS_SERVICES_MAP =
     [(''block-storage'', ''cinder''), (''compute'', ''nova''), (''dns'', ''designate''),
      (''identity'', ''keystone''), (''image'', ''glance''), (''networking'', ''neutron''),
      (''orchestration'', ''heat''), (''dashboard'', ''horizon''), (''load-balancer'', ''octavia''),
      (''key-manager'', ''barbican''), (''placement'', ''placement''), (''baremetal'', ''ironic''),
      (''alarming'', ''aodh''), (''event'', ''panko''), (''metering'', ''ceilometer''),
      (''metric'', ''gnocchi''), (''tempest'', ''tempest''), (''object-storage'', ''ceph-rgw''),
      (''instance-ha'', ''masakari''), (''shared-file-system'', ''manila''),
      (''stepler'', ''stepler'')]"

definition OS_POLICY_SERVICES :: "(string \<times> string) list" where
  "OS_POLICY_SERVICES =
     [(''block-storage'', ''cinder''), (''compute'', ''nova''), (''dns'', ''designate''),
      (''identity'', ''keystone''), (''image'', ''glance''), (''networking'', ''neutron''),
      (''orchestration'', ''heat''), (''load-balancer'', ''octavia''),
      (''key-manager'', ''barbican''), (''placement'', ''placement''), (''baremetal'', ''ironic''),
      (''alarming'', ''aodh''), (''event'', ''panko''), (''metric'', ''gnocchi''),
      (''instance-ha'', ''masakari''), (''shared-file-system'', ''manila'')]"

definition OPENSTACK_SERVICES_UPGRADE_ORDER :: "string list" where
  "OPENSTACK_SERVICES_UPGRADE_ORDER =
     [''identity'', ''placement'', ''image'', ''networking'', ''compute'', ''block-storage'',
      ''load-balancer'', ''dns'', ''key-manager'', ''orchestration'', ''dashboard'',
      ''object-storage'', ''instance-ha'', ''shared-file-system'']"

definition SERVICE_ORDER :: "(string \<times> nat) list" where
  "SERVICE_ORDER =
     [(''compute'', 100), (''networking'', 120), (''block-storage'', 140), (''database'', 150),
      (''coordination'', 160), (''redis'', 170)]"

definition PROXY_VARS_NAMES :: "string list" where
  "PROXY_VARS_NAMES =
     [''http_proxy'', ''https_proxy'', ''no_proxy'', ''HTTP_PROXY'', ''HTTPS_PROXY'', ''NO_PROXY'']"

definition SLURP_RELEASES :: "string list" where
  "SLURP_RELEASES = [''yoga'', ''antelope'', ''caracal'']"

definition KINDS_FOR_MANUAL_UPDATE :: "string list" where
  "KINDS_FOR_MANUAL_UPDATE = [''PersistentVolume'', ''PersistentVolumeClaim'']"

text \<open>\<open>K8sObjHealth\<close> and \<open>NodeRole\<close>, in the order of their members.\<close>

datatype obj_health = OK | BAD

fun health_value :: "obj_health \<Rightarrow> string" where
  "health_value OK = ''Ready''"
| "health_value BAD = ''Unhealthy''"

datatype node_role = compute | gateway | controller

definition NodeRole_members :: "node_role list" where
  "NodeRole_members = [compute, gateway, controller]"

lemma NodeRole_members_all: "r \<in> set NodeRole_members"
  by (cases r) (auto simp: NodeRole_members_def)

section \<open>OpenStack releases\<close>

text \<open>
  \<open>OpenStackVersion\<close> is an \<open>IntEnum\<close>: its members are ordered by their values, \<open>master\<close> is
  \<open>sys.maxsize\<close>.  \<open>OpenStackVersion[name]\<close> raises \<open>KeyError\<close> on an unknown name.
\<close>

datatype OpenStackVersion =
    queens | rocky | stein | train | ussuri | victoria | wallaby | xena | yoga | zed | antelope
  | bobcat | caracal | master

fun version_value :: "OpenStackVersion \<Rightarrow> int" where
  "version_value queens = 1"
| "version_value rocky = 2"
| "version_value stein = 3"
| "version_value train = 4"
| "version_value ussuri = 5"
| "version_value victoria = 6"
| "version_value wallaby = 7"
| "version_value xena = 8"
| "version_value yoga = 9"
| "version_value zed = 10"
| "version_value antelope = 11"
| "version_value bobcat = 12"
| "version_value caracal = 13"
| "version_value master = 9223372036854775807"

definition version_names :: "(string \<times> OpenStackVersion) list" where
  "version_names =
     [(''queens'', queens), (''rocky'', rocky), (''stein'', stein), (''train'', train),
      (''ussuri'', ussuri), (''victoria'', victoria), (''wallaby'', wallaby), (''xena'', xena),
      (''yoga'', yoga), (''zed'', zed), (''antelope'', antelope), (''bobcat'', bobcat),
      (''caracal'', caracal), (''master'', master)]"

definition version_of :: "json \<Rightarrow> OpenStackVersion res" where
  "version_of j =
     (case j of
        JStr s \<Rightarrow> (case map_of version_names s of None \<Rightarrow> Inl (KeyError s) | Some v \<Rightarrow> Inr v)
      | JList _ \<Rightarrow> Inl TypeError
      | JObj _ \<Rightarrow> Inl TypeError
      | _ \<Rightarrow> Inl (KeyError []))"

fun version_name :: "OpenStackVersion \<Rightarrow> string" where
  "version_name queens = ''queens''"
| "version_name rocky = ''rocky''"
| "version_name stein = ''stein''"
| "version_name train = ''train''"
| "version_name ussuri = ''ussuri''"
| "version_name victoria = ''victoria''"
| "version_name wallaby = ''wallaby''"
| "version_name xena = ''xena''"
| "version_name yoga = ''yoga''"
| "version_name zed = ''zed''"
| "version_name antelope = ''antelope''"
| "version_name bobcat = ''bobcat''"
| "version_name caracal = ''caracal''"
| "version_name master = ''master''"

lemma version_value_inj: "version_value v = version_value w \<Longrightarrow> v = w"
  by (cases v; cases w) simp_all

lemma version_of_name [simp]: "version_of (JStr (version_name v)) = Inr v"
  by (cases v) (simp_all add: version_of_def version_names_def)

lemma version_of_Inr: "version_of j = Inr v \<Longrightarrow> j = JStr (version_name v)"
  by (auto simp: version_of_def version_names_def split: json.splits option.splits if_splits)

instantiation OpenStackVersion :: linorder
begin

definition less_eq_OpenStackVersion :: "OpenStackVersion \<Rightarrow> OpenStackVersion \<Rightarrow> bool" where
  "less_eq_OpenStackVersion v w \<longleftrightarrow> version_value v \<le> version_value w"

definition less_OpenStackVersion :: "OpenStackVersion \<Rightarrow> OpenStackVersion \<Rightarrow> bool" where
  "less_OpenStackVersion v w \<longleftrightarrow> version_value v < version_value w"

instance
  by standard
     (auto simp: less_eq_OpenStackVersion_def less_OpenStackVersion_def intro: version_value_inj)

end

lemmas version_order [model_simps] = less_eq_OpenStackVersion_def less_OpenStackVersion_def

section \<open>Sets of names\<close>

text \<open>
  \<open>set(x)\<close> of a list of names.  The elements of a list must be hashable; the set of a dictionary
  is the set of its keys, that of a string the set of its characters.
\<close>

fun hashable :: "json \<Rightarrow> bool" where
  "hashable (JList _) = False"
| "hashable (JObj _) = False"
| "hashable _ = True"

fun py_set :: "json \<Rightarrow> json set res" where
  "py_set (JList xs) = (if list_all hashable xs then Inr (set xs) else Inl TypeError)"
| "py_set (JObj d) = Inr (JStr ` set (keys d))"
| "py_set (JStr s) = Inr ((\<lambda>c. JStr [c]) ` set s)"
| "py_set _ = Inl TypeError"

lemma py_set_names [simp]: "py_set (JList (map JStr ws)) = Inr (JStr ` set ws)"
  by (simp add: list_all_iff)

end
