(* ===== verification/Cron.thy ===== *)
theory Cron
  imports Prelude
begin

text \<open>
  The cron schedule validator of \<open>utils.py\<close>: one class per field of a schedule, each with its
  bounds and, for months and days of the week, its names.  The checks are translated one by one;
  \<open>cron_item\<close> is the grammar they accept, stated independently of the code.  Strings are ASCII.
\<close>

section \<open>The fields\<close>

record cron_field =
  fmin :: int
  fmax :: int
  names :: "string list option"

definition CronValidateMinutes :: cron_field where
  "CronValidateMinutes = \<lparr>fmin = 0, fmax = 59, names = None\<rparr>"

definition CronValidateHours :: cron_field where
  "CronValidateHours = \<lparr>fmin = 0, fmax = 23, names = None\<rparr>"

definition CronValidateDays :: cron_field where
  "CronValidateDays = \<lparr>fmin = 1, fmax = 31, names = None\<rparr>"

definition CronValidateMonths :: cron_field where
  "CronValidateMonths = \<lparr>fmin = 1, fmax = 12, names = Some [''jan'', ''feb'', ''mar'', ''apr'',
     ''may'', ''jun'', ''jul'', ''aug'', ''sep'', ''oct'', ''nov'', ''dec'']\<rparr>"

definition CronValidateDaysOfWeek :: cron_field where
  "CronValidateDaysOfWeek = \<lparr>fmin = 0, fmax = 7,
     names = Some [''sun'', ''mon'', ''tue'', ''wed'', ''thu'', ''fri'', ''sat'']\<rparr>"

definition base_check_item :: "cron_field \<Rightarrow> string \<Rightarrow> bool" where
  "base_check_item f element =
     (if isdigit element then fmin f \<le> int_of_digits element \<and> int_of_digits element \<le> fmax f
      else if element = ''*'' then True
      else False)"

definition check_item :: "cron_field \<Rightarrow> string \<Rightarrow> bool" where
  "check_item f element =
     (case names f of
        None \<Rightarrow> base_check_item f element
      | Some ns \<Rightarrow> if element \<in> set ns then True else base_check_item f element)"

definition check_range :: "cron_field \<Rightarrow> string \<Rightarrow> bool" where
  "check_range f element =
     (case py_split CHR ''-'' element of
        [a, b] \<Rightarrow>
          if isdigit a \<and> isdigit b \<and> check_item f a \<and> check_item f b
          then int_of_digits a \<le> int_of_digits b else False
      | _ \<Rightarrow> False)"

definition check_step :: "cron_field \<Rightarrow> string \<Rightarrow> bool" where
  "check_step f element =
     (case py_split CHR ''/'' element of
        [a, b] \<Rightarrow>
          if isdigit b \<and> check_item f b then
            if CHR ''-'' \<in> set a then check_range f a
            else if a = ''*'' then True else False
          else False
      | _ \<Rightarrow> False)"

definition check_part :: "cron_field \<Rightarrow> string \<Rightarrow> bool" where
  "check_part f item =
     (if CHR ''/'' \<in> set item then check_step f item
      else if CHR ''-'' \<in> set item then check_range f item
      else check_item f item)"

text \<open>The loop of \<open>_check_list\<close> with its \<open>break\<close>: the result is that of the last item looked at.\<close>

fun check_parts :: "cron_field \<Rightarrow> bool \<Rightarrow> string list \<Rightarrow> bool" where
  "check_parts f result [] = result"
| "check_parts f result (item # items) =
     (if \<not> check_part f item then check_part f item
      else check_parts f (check_part f item) items)"

definition check_list :: "cron_field \<Rightarrow> string \<Rightarrow> bool" where
  "check_list f element =
     (let parts = py_split CHR '','' element in
      case names f of
        None \<Rightarrow> check_parts f True parts
      | Some ns \<Rightarrow>
          if length parts > 1 \<and> set parts \<inter> set ns \<noteq> {} then False
          else check_parts f True parts)"

section \<open>The schedule\<close>

definition nicknames :: "string list" where
  "nicknames = [''@yearly'', ''@annually'', ''@monthly'', ''@weekly'', ''@daily'', ''@hourly'']"

definition cron_validate :: "string \<Rightarrow> bool" where
  "cron_validate schedule0 =
     (let schedule = py_lower (py_strip schedule0) in
      if schedule \<in> set nicknames then True
      else case py_split CHR '' '' schedule of
        [minutes, hours, days, month, dow] \<Rightarrow>
          check_list CronValidateMinutes minutes \<and> check_list CronValidateHours hours \<and>
          check_list CronValidateDays days \<and> check_list CronValidateMonths month \<and>
          check_list CronValidateDaysOfWeek dow
      | _ \<Rightarrow> False)"

section \<open>The accepted grammar\<close>

definition number_in :: "cron_field \<Rightarrow> string \<Rightarrow> bool" where
  "number_in f w \<longleftrightarrow> isdigit w \<and> fmin f \<le> int_of_digits w \<and> int_of_digits w \<le> fmax f"

inductive cron_item :: "cron_field \<Rightarrow> string \<Rightarrow> bool" where
  number: "number_in f w \<Longrightarrow> cron_item f w"
| star: "cron_item f ''*''"
| name: "names f = Some ns \<Longrightarrow> w \<in> set ns \<Longrightarrow> cron_item f w"
| range: "number_in f a \<Longrightarrow> number_in f b \<Longrightarrow> int_of_digits a \<le> int_of_digits b \<Longrightarrow>
    cron_item f (a @ ''-'' @ b)"
| star_step: "number_in f n \<Longrightarrow> cron_item f (''*/'' @ n)"
| range_step: "number_in f a \<Longrightarrow> number_in f b \<Longrightarrow> int_of_digits a \<le> int_of_digits b \<Longrightarrow>
    number_in f n \<Longrightarrow> cron_item f (a @ ''-'' @ b @ ''/'' @ n)"

text \<open>Names are made of letters: what every field of the source satisfies.\<close>

definition plain_names :: "cron_field \<Rightarrow> bool" where
  "plain_names f \<longleftrightarrow> (case names f of None \<Rightarrow> True
     | Some ns \<Rightarrow> list_all (\<lambda>w. \<not> isdigit w \<and> CHR ''/'' \<notin> set w \<and> CHR ''-'' \<notin> set w) ns)"

lemma fields_plain_names:
  "plain_names CronValidateMinutes" "plain_names CronValidateHours" "plain_names CronValidateDays"
  "plain_names CronValidateMonths" "plain_names CronValidateDaysOfWeek"
  by (simp_all add: plain_names_def CronValidateMinutes_def CronValidateHours_def
      CronValidateDays_def CronValidateMonths_def CronValidateDaysOfWeek_def isdigit_def is_digit_def)

lemma not_digit [simp]: "\<not> is_digit CHR ''-''" "\<not> is_digit CHR ''/''" "\<not> is_digit CHR '',''"
  "\<not> is_digit CHR ''*''"
  by (simp_all add: is_digit_def)

lemma check_item_digits:
  assumes "plain_names f" and "isdigit w"
  shows "check_item f w = number_in f w"
proof -
  have "w \<notin> set ns" if "names f = Some ns" for ns
    using assms that by (auto simp: plain_names_def list_all_iff)
  then show ?thesis using assms(2)
    by (auto simp: check_item_def base_check_item_def number_in_def split: option.splits)
qed

lemma py_split_two: "(py_split c s = [a, b]) = (s = a @ c # b \<and> c \<notin> set a \<and> c \<notin> set b)"
proof
  assume h: "py_split c s = [a, b]"
  then have "s = a @ c # b" using py_join_split[of c s] by simp
  moreover have "c \<notin> set a" "c \<notin> set b" using h py_split_parts[of _ c s] by auto
  ultimately show "s = a @ c # b \<and> c \<notin> set a \<and> c \<notin> set b" by simp
next
  assume "s = a @ c # b \<and> c \<notin> set a \<and> c \<notin> set b"
  then show "py_split c s = [a, b]" by (simp add: py_split_append py_split_no_sep)
qed

lemma check_range_iff:
  assumes "plain_names f"
  shows "check_range f s = (\<exists>a b. s = a @ ''-'' @ b \<and> number_in f a \<and> number_in f b \<and>
    int_of_digits a \<le> int_of_digits b)"
proof
  assume h: "check_range f s"
  then obtain a b where "py_split CHR ''-'' s = [a, b]"
    by (auto simp: check_range_def split: list.splits)
  with h show "\<exists>a b. s = a @ ''-'' @ b \<and> number_in f a \<and> number_in f b \<and>
      int_of_digits a \<le> int_of_digits b"
    by (auto simp: check_range_def py_split_two check_item_digits[OF assms] split: if_splits)
next
  assume "\<exists>a b. s = a @ ''-'' @ b \<and> number_in f a \<and> number_in f b \<and>
      int_of_digits a \<le> int_of_digits b"
  then obtain a b where s: "s = a @ ''-'' @ b" and n: "number_in f a" "number_in f b"
    "int_of_digits a \<le> int_of_digits b" by blast
  then have d: "isdigit a" "isdigit b" by (simp_all add: number_in_def)
  then have "py_split CHR ''-'' s = [a, b]" by (simp add: s py_split_two isdigit_no)
  with n d show "check_range f s" by (simp add: check_range_def check_item_digits[OF assms])
qed

lemma check_step_iff:
  assumes "plain_names f"
  shows "check_step f s = (\<exists>a n. s = a @ ''/'' @ n \<and> number_in f n \<and>
    (a = ''*'' \<or> CHR ''-'' \<in> set a \<and> check_range f a))"
proof
  assume h: "check_step f s"
  then obtain a n where "py_split CHR ''/'' s = [a, n]"
    by (auto simp: check_step_def split: list.splits)
  with h have "s = a @ ''/'' @ n" "number_in f n" "a = ''*'' \<or> CHR ''-'' \<in> set a \<and> check_range f a"
    by (auto simp: check_step_def py_split_two check_item_digits[OF assms] split: if_splits)
  then show "\<exists>a n. s = a @ ''/'' @ n \<and> number_in f n \<and>
      (a = ''*'' \<or> CHR ''-'' \<in> set a \<and> check_range f a)"
    by blast
next
  assume "\<exists>a n. s = a @ ''/'' @ n \<and> number_in f n \<and>
      (a = ''*'' \<or> CHR ''-'' \<in> set a \<and> check_range f a)"
  then obtain a n where s: "s = a @ ''/'' @ n" and n: "number_in f n"
    and a: "a = ''*'' \<or> CHR ''-'' \<in> set a \<and> check_range f a" by blast
  then have "CHR ''/'' \<notin> set a"
    by (auto simp: check_range_iff[OF assms] number_in_def dest: isdigit_seps)
  moreover have d: "isdigit n" using n by (simp add: number_in_def)
  ultimately have "py_split CHR ''/'' s = [a, n]" by (simp add: s py_split_two isdigit_no)
  with a n d show "check_step f s"
    by (auto simp: check_step_def check_item_digits[OF assms])
qed

text \<open>The check of one element accepts the grammar and nothing else.\<close>

lemma check_part_iff:
  assumes "plain_names f"
  shows "check_part f s = cron_item f s"
proof
  assume h: "check_part f s"
  consider "check_step f s" | "check_range f s" | "check_item f s"
    using h by (auto simp: check_part_def split: if_splits)
  then show "cron_item f s"
  proof cases
    case 1
    then show ?thesis
      by (auto simp: check_step_iff[OF assms] check_range_iff[OF assms]
          intro: star_step[of f, simplified] range_step[of f, simplified])
  next
    case 2
    then show ?thesis by (auto simp: check_range_iff[OF assms] intro: range[of f, simplified])
  next
    case 3
    then show ?thesis
      by (auto simp: check_item_def base_check_item_def number_in_def
          intro: cron_item.intros split: option.splits if_splits)
  qed
next
  assume "cron_item f s"
  then show "check_part f s"
  proof cases
    case number
    then have d: "isdigit s" by (simp add: number_in_def)
    with number show ?thesis
      by (simp add: check_part_def isdigit_no check_item_digits[OF assms])
  next
    case star
    then show ?thesis
      by (auto simp: check_part_def check_item_def base_check_item_def split: option.splits)
  next
    case (name ns)
    then show ?thesis using assms
      by (auto simp: check_part_def check_item_def plain_names_def list_all_iff)
  next
    case (range a b)
    then have "CHR ''/'' \<notin> set s" by (auto simp: number_in_def dest: isdigit_seps)
    moreover have "check_range f s" using range by (auto simp: check_range_iff[OF assms])
    ultimately show ?thesis using range by (simp add: check_part_def)
  next
    case (star_step n)
    then have "s = ''*'' @ ''/'' @ n \<and> number_in f n \<and> ''*'' = ''*''" by simp
    then have "check_step f s" unfolding check_step_iff[OF assms] by blast
    with star_step show ?thesis by (simp add: check_part_def)
  next
    case (range_step a b n)
    then have "check_range f (a @ ''-'' @ b)" by (auto simp: check_range_iff[OF assms])
    with range_step have "s = (a @ ''-'' @ b) @ ''/'' @ n \<and> number_in f n \<and>
        CHR ''-'' \<in> set (a @ ''-'' @ b) \<and> check_range f (a @ ''-'' @ b)" by simp
    then have "check_step f s" unfolding check_step_iff[OF assms] by blast
    with range_step show ?thesis by (simp add: check_part_def)
  qed
qed

lemma check_parts_all: "items \<noteq> [] \<Longrightarrow> check_parts f r items = list_all (check_part f) items"
proof (induction items arbitrary: r)
  case Nil
  then show ?case by simp
next
  case (Cons i items)
  then show ?case by (cases items) auto
qed

lemma check_list_iff:
  assumes "plain_names f"
  shows "check_list f s =
    ((\<forall>p \<in> set (py_split CHR '','' s). cron_item f p) \<and>
     (case names f of None \<Rightarrow> True
      | Some ns \<Rightarrow> CHR '','' \<in> set s \<longrightarrow> set (py_split CHR '','' s) \<inter> set ns = {}))"
proof -
  have one: "(length (py_split CHR '','' s) > 1) = (CHR '','' \<in> set s)"
  proof
    assume "CHR '','' \<in> set s"
    then obtain a b where "s = a @ CHR '','' # b" "CHR '','' \<notin> set a" by (meson split_list_first)
    then show "length (py_split CHR '','' s) > 1"
      by (cases "py_split CHR '','' b") (simp_all add: py_split_append)
  next
    assume "length (py_split CHR '','' s) > 1"
    then show "CHR '','' \<in> set s" using py_split_no_sep by fastforce
  qed
  show ?thesis
    unfolding check_list_def Let_def one
    by (auto simp: check_parts_all list_all_iff check_part_iff[OF assms] split: option.splits)
qed

text \<open>A schedule that is no nickname has five fields, each accepted by its own check.\<close>

definition cron_fields :: "cron_field list" where
  "cron_fields = [CronValidateMinutes, CronValidateHours, CronValidateDays, CronValidateMonths,
     CronValidateDaysOfWeek]"

definition field_ok :: "cron_field \<Rightarrow> string \<Rightarrow> bool" where
  "field_ok f s \<longleftrightarrow>
     (\<forall>p \<in> set (py_split CHR '','' s). cron_item f p) \<and>
     (\<forall>ns. names f = Some ns \<longrightarrow> CHR '','' \<in> set s \<longrightarrow> set (py_split CHR '','' s) \<inter> set ns = {})"

lemma check_list_field_ok: "f \<in> set cron_fields \<Longrightarrow> check_list f s = field_ok f s"
  using fields_plain_names
  by (auto simp: cron_fields_def field_ok_def check_list_iff split: option.splits)

lemma five_iff: "(case bs of [m, h, d, mo, w] \<Rightarrow> P m h d mo w | _ \<Rightarrow> False) =
    (\<exists>m h d mo w. bs = [m, h, d, mo, w] \<and> P m h d mo w)"
  by (auto split: list.splits)

lemma cron_validate_fields:
  assumes "py_lower (py_strip s) \<notin> set nicknames"
  shows "cron_validate s = list_all2 field_ok cron_fields (py_split CHR '' '' (py_lower (py_strip s)))"
  using assms unfolding cron_validate_def Let_def five_iff
  by (auto simp: check_list_field_ok[symmetric] cron_fields_def list_all2_Cons1)

lemma cron_validate_nickname: "py_lower (py_strip s) \<in> set nicknames \<Longrightarrow> cron_validate s"
  by (simp add: cron_validate_def Let_def)

end
