(* ===== verification/Utils.thy ===== *)
theory Utils
  imports PyValue
begin

text \<open>
  The remaining helpers of \<open>utils.py\<close> with logic of their own: base64 as the secrets use it
  (\<open>to_base64\<close>, \<open>from_base64\<close>, with Python's \<open>binascii\<close> written out), the division into groups, the
  normalised topic names and the substitution of secret references in the user's specification.
  The SHA-256 digest is an argument.
\<close>

section \<open>Base64\<close>

definition b64_char :: "nat \<Rightarrow> char" where
  "b64_char n =
     (if n < 26 then char_of (n + 65) else if n < 52 then char_of (n + 71)
      else if n < 62 then char_of (n - 4) else if n = 62 then CHR ''+'' else CHR ''/'')"

definition b64_value :: "char \<Rightarrow> nat option" where
  "b64_value c =
     (let k = of_char c :: nat in
      if 65 \<le> k \<and> k \<le> 90 then Some (k - 65) else if 97 \<le> k \<and> k \<le> 122 then Some (k - 71)
      else if 48 \<le> k \<and> k \<le> 57 then Some (k + 4) else if k = 43 then Some 62
      else if k = 47 then Some 63 else None)"

text \<open>\<open>binascii.b2a_base64\<close> without its newline, and \<open>base64.encodebytes\<close>: lines of 57 bytes.\<close>

fun b2a_base64 :: "nat list \<Rightarrow> string" where
  "b2a_base64 [] = []"
| "b2a_base64 [a] = [b64_char (a div 4), b64_char (a mod 4 * 16), CHR ''='', CHR ''='']"
| "b2a_base64 [a, b] =
     [b64_char (a div 4), b64_char (a mod 4 * 16 + b div 16), b64_char (b mod 16 * 4), CHR ''='']"
| "b2a_base64 (a # b # c # r) =
     b64_char (a div 4) # b64_char (a mod 4 * 16 + b div 16) #
     b64_char (b mod 16 * 4 + c div 64) # b64_char (c mod 64) # b2a_base64 r"

function encodebytes :: "nat list \<Rightarrow> string" where
  "encodebytes s =
     (if s = [] then [] else b2a_base64 (take 57 s) @ CHR 0x0A # encodebytes (drop 57 s))"
  by pat_completeness auto
termination by (relation "measure length") auto

declare encodebytes.simps [simp del]

text \<open>
  \<open>binascii.a2b_base64\<close>: characters outside the alphabet are skipped, the padding of a started
  quadruple ends the input, an unfinished one is an error (a \<open>ValueError\<close>).  The arguments are the
  position in the quadruple, the bits left over and the number of pads seen.
\<close>

fun a2b_base64 :: "nat \<Rightarrow> nat \<Rightarrow> nat \<Rightarrow> string \<Rightarrow> nat list res" where
  "a2b_base64 quad_pos leftchar pads [] = (if quad_pos = 0 then Inr [] else Inl ValueError)"
| "a2b_base64 quad_pos leftchar pads (x # xs) =
     (if x = CHR ''='' then
        if quad_pos \<ge> 2 \<and> quad_pos + pads + 1 \<ge> 4 then Inr []
        else a2b_base64 quad_pos leftchar (if quad_pos \<ge> 2 then pads + 1 else pads) xs
      else case b64_value x of
        None \<Rightarrow> a2b_base64 quad_pos leftchar pads xs
      | Some v \<Rightarrow>
          if quad_pos = 0 then a2b_base64 1 v 0 xs
          else if quad_pos = 1 then
            rbind (a2b_base64 2 (v mod 16) 0 xs) (\<lambda>r. Inr ((leftchar * 4 + v div 16) # r))
          else if quad_pos = 2 then
            rbind (a2b_base64 3 (v mod 4) 0 xs) (\<lambda>r. Inr ((leftchar * 16 + v div 4) # r))
          else rbind (a2b_base64 0 0 0 xs) (\<lambda>r. Inr ((leftchar * 64 + v) # r)))"

definition encode_ascii :: "string \<Rightarrow> nat list res" where
  "encode_ascii s =
     (if list_all (\<lambda>c. (of_char c :: nat) < 128) s then Inr (map of_char s) else Inl ValueError)"

definition decode_ascii :: "nat list \<Rightarrow> string res" where
  "decode_ascii bs = (if list_all (\<lambda>b. b < 128) bs then Inr (map char_of bs) else Inl ValueError)"

definition to_base64 :: "string \<Rightarrow> string res" where
  "to_base64 value = rbind (encode_ascii value) (\<lambda>b. decode_ascii (map of_char (encodebytes b)))"

definition from_base64 :: "string \<Rightarrow> string res" where
  "from_base64 value = rbind (encode_ascii value) (\<lambda>b.
     rbind (a2b_base64 0 0 0 (map char_of b)) decode_ascii)"

lemma b64_value_char [simp]: "n < 64 \<Longrightarrow> b64_value (b64_char n) = Some n"
  by (auto simp: b64_char_def b64_value_def Let_def)

lemma b64_char_ascii [simp]: "(of_char (b64_char n) :: nat) < 128"
  by (auto simp: b64_char_def)

lemma b64_char_not_pad [simp]: "n < 64 \<Longrightarrow> b64_char n \<noteq> CHR ''=''"
  using b64_value_char[of n] by (auto simp: b64_value_def)

lemma b64_newline [simp]: "b64_value CHR 0x0A = None"
  by (simp add: b64_value_def)

text \<open>The bits of two neighbouring bytes that share a character.\<close>

lemma pack_bits:
  fixes x y k :: nat
  assumes "y < k"
  shows "(x * k + y) div k = x" "(x * k + y) mod k = y"
  using assms by simp_all

lemma byte_parts:
  fixes b :: nat
  assumes "b < 256"
  shows "b div 4 < 64" "b mod 4 * 16 < 64" "b div 16 < 16" "b mod 16 * 4 < 64" "b div 64 < 4"
    "b mod 64 < 64"
  using assms by (auto intro: less_mult_imp_div_less)

lemma sextets:
  fixes b c :: nat
  assumes "b < 256" "c < 256"
  shows "b mod 4 * 16 + c div 16 < 64" "b mod 16 * 4 + c div 64 < 64"
proof -
  have "b mod 4 \<le> 3" "c div 16 < 16" "b mod 16 \<le> 15" "c div 64 < 4"
    using byte_parts[OF assms(2)] by simp_all
  then show "b mod 4 * 16 + c div 16 < 64" "b mod 16 * 4 + c div 64 < 64" by linarith+
qed

lemma a2b_two:
  assumes "a < 256" "b < 256"
  shows "a2b_base64 0 l p (b64_char (a div 4) # b64_char (a mod 4 * 16 + b div 16) # r) =
    rbind (a2b_base64 2 (b div 16) 0 r) (\<lambda>o'. Inr (a # o'))"
  using sextets[OF assms] byte_parts[OF assms(1)] byte_parts[OF assms(2)]
  by (simp add: pack_bits)

lemma a2b_group:
  assumes "a < 256" "b < 256" "c < 256"
  shows "a2b_base64 0 l p (b64_char (a div 4) # b64_char (a mod 4 * 16 + b div 16) #
      b64_char (b mod 16 * 4 + c div 64) # b64_char (c mod 64) # r) =
    rbind (a2b_base64 0 0 0 r) (\<lambda>o'. Inr (a # b # c # o'))"
  using sextets[OF assms(2,3)] byte_parts[OF assms(3)]
  by (simp add: a2b_two[OF assms(1,2)] pack_bits rbind_assoc del: a2b_base64.simps(2))
     (simp add: pack_bits rbind_assoc)

lemma a2b_b2a_full:
  "\<forall>b \<in> set bs. b < 256 \<Longrightarrow> length bs mod 3 = 0 \<Longrightarrow>
   a2b_base64 0 l p (b2a_base64 bs @ r) =
     (if bs = [] then a2b_base64 0 l p r else rbind (a2b_base64 0 0 0 r) (\<lambda>o'. Inr (bs @ o')))"
proof (induction bs arbitrary: l p rule: b2a_base64.induct)
  case (4 a b c rest)
  have "length rest mod 3 = 0" using 4(3) by (simp add: mod_Suc split: if_splits)
  moreover have "\<forall>b \<in> set rest. b < 256" using 4(2) by simp
  ultimately show ?case using 4(1)[of 0 0] 4(2)
    by (auto simp: a2b_group rbind_assoc simp del: a2b_base64.simps(2))
qed auto

lemma a2b_b2a_last:
  "\<forall>b \<in> set bs. b < 256 \<Longrightarrow> a2b_base64 0 l p (b2a_base64 bs @ [CHR 0x0A]) = Inr bs"
proof (induction bs arbitrary: l p rule: b2a_base64.induct)
  case 1
  then show ?case by simp
next
  case (2 a)
  then show ?case using byte_parts[of a] a2b_two[of a 0 l p] by simp
next
  case (3 a b)
  then have "a < 256" "b < 256" by simp_all
  then show ?case using byte_parts[of b]
    by (simp add: a2b_two del: a2b_base64.simps(2)) simp
next
  case (4 a b c rest)
  have "\<forall>b \<in> set rest. b < 256" using 4(2) by simp
  then show ?case using 4(1)[of 0 0] 4(2) by (simp add: a2b_group del: a2b_base64.simps(2))
qed

lemma a2b_encodebytes:
  "\<forall>b \<in> set bs. b < 256 \<Longrightarrow> a2b_base64 0 0 0 (encodebytes bs) = Inr bs"
proof (induction bs rule: encodebytes.induct)
  case (1 s)
  show ?case
  proof (cases "s = []")
    case True
    then show ?thesis by (simp add: encodebytes.simps)
  next
    case ne: False
    have wf: "\<forall>b \<in> set (take 57 s). b < 256" "\<forall>b \<in> set (drop 57 s). b < 256"
      using 1(2) set_take_subset[of 57 s] set_drop_subset[of 57 s] by auto
    show ?thesis
    proof (cases "length s \<le> 57")
      case True
      then show ?thesis
        using ne a2b_b2a_last[OF 1(2)] by (simp add: encodebytes.simps[of s] encodebytes.simps[of "[]"])
    next
      case False
      then have "length (take 57 s) mod 3 = 0" by simp
      from a2b_b2a_full[OF wf(1) this, of 0 0 "CHR 0x0A # encodebytes (drop 57 s)"]
      show ?thesis using ne False 1(1)[OF ne wf(2)] by (simp add: encodebytes.simps[of s])
    qed
  qed
qed

lemma b2a_ascii: "c \<in> set (b2a_base64 bs) \<Longrightarrow> (of_char c :: nat) < 128"
  by (induction bs rule: b2a_base64.induct) auto

lemma encodebytes_ascii: "c \<in> set (encodebytes bs) \<Longrightarrow> (of_char c :: nat) < 128"
proof (induction bs rule: encodebytes.induct)
  case (1 s)
  then show ?case
    by (subst (asm) (2) encodebytes.simps) (auto split: if_splits dest: b2a_ascii)
qed

lemma decode_ascii_string: "list_all (\<lambda>c. (of_char c :: nat) < 128) s \<Longrightarrow>
    decode_ascii (map of_char s) = Inr s"
  by (simp add: decode_ascii_def list_all_iff)

lemma to_base64_ascii: "to_base64 s = Inr t \<Longrightarrow> list_all (\<lambda>c. (of_char c :: nat) < 128) t"
  by (auto simp: to_base64_def res_simps decode_ascii_string list_all_iff encodebytes_ascii)

lemma from_to_base64: "to_base64 s = Inr t \<Longrightarrow> from_base64 t = Inr s"
proof -
  assume t: "to_base64 s = Inr t"
  then obtain b where b: "encode_ascii s = Inr b" "decode_ascii (map of_char (encodebytes b)) = Inr t"
    by (auto simp: to_base64_def res_simps)
  from b(1) have s: "b = map of_char s" "list_all (\<lambda>c. (of_char c :: nat) < 128) s"
    by (auto simp: encode_ascii_def split: if_splits)
  have "t = encodebytes b"
    using b(2) by (simp add: decode_ascii_string list_all_iff encodebytes_ascii)
  moreover have "a2b_base64 0 0 0 (encodebytes b) = Inr b"
    using s by (intro a2b_encodebytes) (auto simp: list_all_iff)
  ultimately show ?thesis
    using s to_base64_ascii[OF t]
    by (simp add: from_base64_def encode_ascii_def decode_ascii_string o_def)
qed

lemma to_base64_total:
  "(\<exists>t. to_base64 s = Inr t) = list_all (\<lambda>c. (of_char c :: nat) < 128) s"
  by (auto simp: to_base64_def encode_ascii_def decode_ascii_string list_all_iff encodebytes_ascii)

section \<open>Groups\<close>

text \<open>\<open>group_len\<close> is a count; zero raises as Python's integer division does.\<close>

definition divide_into_groups_of :: "nat \<Rightarrow> 'a list \<Rightarrow> 'a list list res" where
  "divide_into_groups_of group_len collection =
     (if group_len = 0 then Inl ZeroDivisionError
      else let groups = map (\<lambda>i. take group_len (drop (i * group_len) collection))
                 [0..<length collection div group_len];
               rest = length collection mod group_len
           in Inr (if rest \<noteq> 0 then groups @ [drop (length collection - rest) collection]
                   else groups))"

lemma concat_groups: "m * n \<le> length xs \<Longrightarrow>
    concat (map (\<lambda>i. take n (drop (i * n) xs)) [0..<m]) = take (m * n) xs"
  by (induction m) (auto simp: add.commute[of n] take_add)

lemma divide_concat:
  assumes "divide_into_groups_of n xs = Inr gs"
  shows "concat gs = xs"
proof -
  let ?m = "length xs div n * n"
  have n: "n \<noteq> 0" using assms by (auto simp: divide_into_groups_of_def split: if_splits)
  have "?m \<le> length xs" by simp
  note c = concat_groups[OF this]
  have "length xs - length xs mod n = ?m" by (simp add: minus_mod_eq_div_mult)
  moreover have "?m = length xs" if "length xs mod n = 0" using that by auto
  ultimately show ?thesis using assms n c
    by (auto simp: divide_into_groups_of_def Let_def split: if_splits)
qed

lemma divide_sizes:
  assumes "divide_into_groups_of n xs = Inr gs"
  shows "\<forall>g \<in> set gs. 0 < length g \<and> length g \<le> n" "\<forall>g \<in> set (butlast gs). length g = n"
proof -
  define G where "G = map (\<lambda>i. take n (drop (i * n) xs)) [0..<length xs div n]"
  have n: "0 < n" using assms by (auto simp: divide_into_groups_of_def split: if_splits)
  have "length (take n (drop (i * n) xs)) = n" if "i < length xs div n" for i
  proof -
    from that have "Suc i \<le> length xs div n" by simp
    then have "Suc i * n \<le> length xs div n * n" by (rule mult_le_mono1)
    then have "Suc i * n \<le> length xs" using div_times_less_eq_dividend le_trans by blast
    then show ?thesis by simp
  qed
  then have G: "\<forall>g \<in> set G. length g = n" by (auto simp: G_def)
  define rest where "rest = drop (length xs - length xs mod n) xs"
  have r: "length rest = length xs mod n" by (simp add: rest_def)
  have gs: "gs = (if length xs mod n \<noteq> 0 then G @ [rest] else G)"
    using assms n by (simp add: divide_into_groups_of_def Let_def G_def rest_def split: if_splits)
  have "length xs mod n < n" using n by simp
  then show "\<forall>g \<in> set gs. 0 < length g \<and> length g \<le> n" using G n r gs by auto
  show "\<forall>g \<in> set (butlast gs). length g = n" using G gs by (auto dest: in_set_butlastD)
qed

section \<open>Topic names\<close>

definition topic_char :: "char \<Rightarrow> bool" where
  "topic_char c \<longleftrightarrow> c \<in> set ''abcdefghijklmnopqrstuvwxyz0123456789-.''"

text \<open>
  \<open>re.match(r"^[a-z0-9-.]*$", name)\<close>: the \<open>$\<close> of Python also matches before a final newline.
\<close>

definition topic_match :: "string \<Rightarrow> bool" where
  "topic_match name \<longleftrightarrow>
     list_all topic_char name \<or>
     (name \<noteq> [] \<and> last name = CHR 0x0A \<and> list_all topic_char (butlast name))"

definition get_topic_normalized_name :: "(string \<Rightarrow> string) \<Rightarrow> string \<Rightarrow> string" where
  "get_topic_normalized_name sha256_hexdigest name0 =
     (if topic_match name0 then name0
      else let name = py_lower name0;
               hash_suffix = take 5 (sha256_hexdigest name)
           in py_join ''-'' [filter topic_char name, hash_suffix])"

lemma topic_char_newline [simp]: "\<not> topic_char CHR 0x0A"
  by (simp add: topic_char_def)

lemma topic_suffix:
  assumes "\<And>s. list_all topic_char (sha256_hexdigest s)" and "\<not> topic_match name"
  shows "list_all topic_char (get_topic_normalized_name sha256_hexdigest name)"
proof -
  have "topic_char x" if "x \<in> set (take 5 (sha256_hexdigest s))" for x s
    using assms(1)[of s] in_set_takeD[OF that] by (simp add: list_all_iff)
  moreover have "topic_char CHR ''-''" by (simp add: topic_char_def)
  ultimately show ?thesis
    using assms(2) by (auto simp: get_topic_normalized_name_def Let_def list_all_iff)
qed

lemma topic_match_plain: "CHR 0x0A \<notin> set name \<Longrightarrow> topic_match name = list_all topic_char name"
  by (metis last_in_set topic_match_def)

lemma topic_name_chars:
  assumes "\<And>s. list_all topic_char (sha256_hexdigest s)" and "CHR 0x0A \<notin> set name"
  shows "list_all topic_char (get_topic_normalized_name sha256_hexdigest name)"
proof (cases "topic_match name")
  case True
  then show ?thesis using topic_match_plain[OF assms(2)] by (simp add: get_topic_normalized_name_def)
qed (rule topic_suffix[OF assms(1)])

lemma topic_name_idem:
  assumes "\<And>s. list_all topic_char (sha256_hexdigest s)"
  shows "get_topic_normalized_name sha256_hexdigest (get_topic_normalized_name sha256_hexdigest name)
    = get_topic_normalized_name sha256_hexdigest name"
proof (cases "topic_match name")
  case True
  then show ?thesis by (simp add: get_topic_normalized_name_def)
next
  case False
  have "topic_match (get_topic_normalized_name sha256_hexdigest name)"
    using topic_suffix[OF assms False] by (simp add: topic_match_def)
  then show ?thesis by (subst get_topic_normalized_name_def) simp
qed

section \<open>Proxies on the local host\<close>

text \<open>
  What \<open>urlsplit\<close> finds in the network location of a URL.  \<open>substitute_local_proxy_netloc\<close> is the
  new network location, None when the URL is returned as it is.
\<close>

record netloc_parts =
  hostname :: "string option"
  username :: "string option"
  password :: "string option"
  port :: "int option"

definition opt_str :: "string option \<Rightarrow> string" where
  "opt_str x = (case x of None \<Rightarrow> [] | Some s \<Rightarrow> s)"

definition truthy_str :: "string option \<Rightarrow> bool" where
  "truthy_str x \<longleftrightarrow> x \<noteq> None \<and> x \<noteq> Some []"

definition substitute_local_proxy_netloc ::
  "(int \<Rightarrow> string) \<Rightarrow> netloc_parts \<Rightarrow> string \<Rightarrow> string option" where
  "substitute_local_proxy_netloc str_int parsed host =
     (if hostname parsed \<noteq> Some ''127.0.0.1'' then None
      else let auth = opt_str (username parsed);
               with_auth =
                 (if truthy_str (username parsed) then
                    (if truthy_str (password parsed)
                     then auth @ '':'' @ opt_str (password parsed) else auth) @ ''@'' @ host
                  else host)
           in Some (case port parsed of
                None \<Rightarrow> with_auth
              | Some p \<Rightarrow> if p \<noteq> 0 then with_auth @ '':'' @ str_int p else with_auth))"

section \<open>References to secrets\<close>

text \<open>\<open>k in secrets\<close> for the dictionary of secrets and any value as a key.\<close>

definition jkey_in :: "json \<Rightarrow> (string \<times> 'v) list \<Rightarrow> 'v option res" where
  "jkey_in k d =
     (case k of JStr s \<Rightarrow> Inr (map_of d s) | JList _ \<Rightarrow> Inl TypeError | JObj _ \<Rightarrow> Inl TypeError
      | _ \<Rightarrow> Inr None)"

text \<open>\<open>secrets\<close> is \<open>{name: data}\<close> with the base64 data as the API returns them.\<close>

definition substitute_hidden_field :: "json \<Rightarrow> (string \<times> jdict) list \<Rightarrow> json res" where
  "substitute_hidden_field ref secrets =
     rbind (jin ''secret_key_ref'' ref) (\<lambda>present.
     if present then
       rbind (jitem ref ''secret_key_ref'') (\<lambda>r.
       rbind (jitem r ''name'') (\<lambda>secret_name.
       rbind (jitem r ''key'') (\<lambda>secret_key.
       rbind (jkey_in secret_name secrets) (\<lambda>secret.
       case secret of
         None \<Rightarrow> Inl OsdplSubstitutionFailed
       | Some data \<Rightarrow>
           rbind (jkey_in secret_key data) (\<lambda>value.
           case value of
             None \<Rightarrow> Inl OsdplSubstitutionFailed
           | Some JNull \<Rightarrow> Inl OsdplSubstitutionFailed
           | Some v \<Rightarrow> rbind (jstr v) (\<lambda>s. rbind (from_base64 s) (\<lambda>x. Inr (JStr x))))))))
     else Inr JNull)"

definition value_from :: "json \<Rightarrow> json option" where
  "value_from v = (case v of JObj d \<Rightarrow> map_of d ''value_from'' | _ \<Rightarrow> None)"

text \<open>
  The dictionary is updated in place in the source; here the new one is returned.  A value inside a
  list, or inside a \<open>value_from\<close> without \<open>secret_key_ref\<close>, is left as it is.
\<close>

function find_and_substitute :: "(string \<times> jdict) list \<Rightarrow> json \<Rightarrow> json res"
  and substitute_items :: "(string \<times> jdict) list \<Rightarrow> jdict \<Rightarrow> jdict res" where
  "find_and_substitute secrets obj =
     (case obj of JObj d \<Rightarrow> rbind (substitute_items secrets d) (\<lambda>d'. Inr (JObj d')) | _ \<Rightarrow> Inr obj)"
| "substitute_items secrets [] = Inr []"
| "substitute_items secrets (kv # r) =
     rbind (case value_from (snd kv) of
              Some vf \<Rightarrow> rbind (jin ''secret_key_ref'' vf) (\<lambda>b.
                if b then substitute_hidden_field vf secrets else Inr (snd kv))
            | None \<Rightarrow> find_and_substitute secrets (snd kv)) (\<lambda>v.
     rbind (substitute_items secrets r) (\<lambda>r'. Inr ((fst kv, v) # r')))"
  by pat_completeness auto
termination
  by (relation "measure (\<lambda>x. case x of Inl (s, j) \<Rightarrow> Suc (2 * size j)
        | Inr (s, d) \<Rightarrow> 2 * size_list (size_prod (\<lambda>_. 0) size) d)") auto

declare find_and_substitute.simps [simp del]

lemma find_and_substitute_obj:
  "(find_and_substitute secrets (JObj d) = Inr j') =
     (\<exists>d'. substitute_items secrets d = Inr d' \<and> j' = JObj d')"
  by (auto simp: find_and_substitute.simps[of secrets "JObj d"] res_simps)

lemma find_and_substitute_leaf:
  "(\<And>d. j \<noteq> JObj d) \<Longrightarrow> find_and_substitute secrets j = Inr j"
  by (simp add: find_and_substitute.simps[of _ j] split: json.split)

text \<open>What a value of a dictionary that is walked through becomes.\<close>

definition substituted :: "(string \<times> jdict) list \<Rightarrow> json \<Rightarrow> json \<Rightarrow> bool" where
  "substituted secrets v v' \<longleftrightarrow>
     (case value_from v of
        None \<Rightarrow> find_and_substitute secrets v = Inr v'
      | Some vf \<Rightarrow>
          if jin ''secret_key_ref'' vf = Inr True then substitute_hidden_field vf secrets = Inr v'
          else jin ''secret_key_ref'' vf = Inr False \<and> v' = v)"

lemma substitute_items_keys: "substitute_items secrets d = Inr d' \<Longrightarrow> keys d' = keys d"
  by (induction d arbitrary: d') (auto simp: res_simps)

lemma substitute_items_at:
  "substitute_items secrets d = Inr d' \<Longrightarrow> map_of d k = Some v \<Longrightarrow>
   \<exists>v'. map_of d' k = Some v' \<and> substituted secrets v v'"
  by (induction d arbitrary: d')
     (fastforce simp: res_simps substituted_def split: if_splits option.splits)+

text \<open>No value strictly inside the path is itself a reference.\<close>

fun open_path :: "json \<Rightarrow> string list \<Rightarrow> bool" where
  "open_path j [] = True"
| "open_path j [k] = True"
| "open_path j (k # l # ks) =
     (case jlookup j [k] of Some v \<Rightarrow> value_from v = None \<and> open_path v (l # ks) | None \<Rightarrow> False)"

lemma find_and_substitute_path:
  "find_and_substitute secrets j = Inr j' \<Longrightarrow> ks \<noteq> [] \<Longrightarrow> open_path j ks \<Longrightarrow>
   jlookup j ks = Some v \<Longrightarrow> \<exists>v'. jlookup j' ks = Some v' \<and> substituted secrets v v'"
proof (induction j ks arbitrary: j' rule: open_path.induct)
  case (1 j)
  then show ?case by simp
next
  case (2 j k)
  then obtain d where d: "j = JObj d" "map_of d k = Some v"
    by (auto split: json.splits option.splits)
  with 2 obtain d' where "substitute_items secrets d = Inr d'" "j' = JObj d'"
    by (auto simp: find_and_substitute_obj)
  with d substitute_items_at[of secrets d d' k v] show ?case by auto
next
  case (3 j k l ks)
  then obtain d w where d: "j = JObj d" "map_of d k = Some w" "jlookup w (l # ks) = Some v"
    by (cases j) (auto split: option.splits)
  with 3(2) obtain d' where d': "substitute_items secrets d = Inr d'" "j' = JObj d'"
    by (auto simp: find_and_substitute_obj)
  have w: "value_from w = None" "open_path w (l # ks)" using 3(4) d by auto
  from substitute_items_at[OF d'(1) d(2)] obtain w' where
    w': "map_of d' k = Some w'" "find_and_substitute secrets w = Inr w'"
    using w(1) by (auto simp: substituted_def)
  have "jlookup j [k] = Some w" using d by simp
  from 3(1)[OF this w'(2) _ w(2) d(3)] obtain v' where
    "jlookup w' (l # ks) = Some v'" "substituted secrets v v'" by auto
  with d' w' show ?case by auto
qed

end
