(* ===== verification/AdmissionOpenstack.thy ===== *)
theory AdmissionOpenstack
  imports Constants Cron Utils
begin

text \<open>
  \<open>admission/validators/openstack.py\<close>: the general checks of an \<open>OpenStackDeployment\<close>.  A check
  returns or raises \<open>OsDplValidationFailed\<close> with a reason; malformed objects raise Python's own
  exceptions where the source would.  What the validator asks the cluster for (is there already an
  \<open>OpenStackDeployment\<close>, which state does the \<open>OpenStackDeploymentStatus\<close> have) is the record
  \<open>admission_env\<close>.
\<close>

section \<open>Refusals\<close>

definition deny :: "reject \<Rightarrow> 'a res" where
  "deny r = Inl (OsDplValidationFailed r)"

definition deny_if :: "bool \<Rightarrow> reject \<Rightarrow> unit res" where
  "deny_if b r = (if b then deny r else Inr ())"

lemma deny_if_ok [simp]: "(deny_if b r = Inr u) = (\<not> b)"
  by (simp add: deny_if_def deny_def)

lemma deny_not_ok [simp]: "(deny r = Inr u) = False"
  by (simp add: deny_def)

lemma deny_if_cases [simp]: "deny_if False r = Inr ()" "deny_if True r = deny r"
  by (simp_all add: deny_if_def)

section \<open>Guards on the specification\<close>

record admission_env =
  osdpl_present :: bool
  osdpl_status_of :: "json \<Rightarrow> json \<Rightarrow> json res"

definition release_of :: "json \<Rightarrow> OpenStackVersion res" where
  "release_of obj = rbind (jitem_path obj [''spec'', ''openstack_version'']) version_of"

definition services_of :: "json \<Rightarrow> json res" where
  "services_of obj = jpath_get obj [''spec'', ''features''] ''services'' (JList [])"

definition deny_master :: "json \<Rightarrow> unit res" where
  "deny_master new_obj =
     rbind (jpath_get new_obj [''spec''] ''openstack_version'' JNull) (\<lambda>new_version.
     deny_if (py_eq new_version (JStr ''master'')) (ROpenstack MasterDenied))"

definition check_masakari_allowed :: "json \<Rightarrow> unit res" where
  "check_masakari_allowed new_obj =
     rbind (services_of new_obj) (\<lambda>openstack_services.
     rbind (release_of new_obj) (\<lambda>os_num_version.
     rbind (jin ''instance-ha'' openstack_services) (\<lambda>masakari.
     deny_if (masakari \<and> os_num_version < victoria) (RFeatures MasakariTooOld))))"

definition check_baremetal_allowed :: "json \<Rightarrow> unit res" where
  "check_baremetal_allowed new_obj =
     rbind (jitem_path new_obj [''spec'', ''preset'']) (\<lambda>preset.
     rbind (jitem_path new_obj [''spec'', ''features'']) (\<lambda>features.
     rbind (jget features ''services'' (JList [])) (\<lambda>svcs.
     rbind (jin ''baremetal'' svcs) (\<lambda>baremetal.
     deny_if (baremetal \<and> py_eq preset (JStr ''compute-tf'')) (RFeatures BaremetalWithTF)))))"

definition check_panko_allowed :: "json \<Rightarrow> unit res" where
  "check_panko_allowed new_obj =
     rbind (services_of new_obj) (\<lambda>openstack_services.
     rbind (release_of new_obj) (\<lambda>os_num_version.
     rbind (jin ''event'' openstack_services) (\<lambda>panko.
     deny_if (panko \<and> os_num_version \<ge> xena) (RFeatures PankoRetired))))"

definition check_manila_allowed :: "json \<Rightarrow> unit res" where
  "check_manila_allowed new_obj =
     rbind (jitem_path new_obj [''spec'', ''preset'']) (\<lambda>preset.
     rbind (services_of new_obj) (\<lambda>openstack_services.
     rbind (release_of new_obj) (\<lambda>os_num_version.
     rbind (jin ''shared-file-system'' openstack_services) (\<lambda>manila.
     rbind (deny_if (manila \<and> py_eq preset (JStr ''compute-tf'')) (RFeatures ManilaWithTF)) (\<lambda>_.
     deny_if (manila \<and> os_num_version < yoga) (RFeatures ManilaTooOld))))))"

definition deny_encrypted_api_key :: "json \<Rightarrow> unit res" where
  "deny_encrypted_api_key new_obj =
     rbind (jpath_get new_obj [''spec'', ''features'', ''ssl'', ''public_endpoints''] ''api_key''
              (JStr [])) (\<lambda>api_key.
     rbind (jin ''BEGIN ENCRYPTED PRIVATE KEY'' api_key) (\<lambda>encrypted.
     deny_if encrypted (RFeatures EncryptedApiKey)))"

definition deny_strict_admin_policy :: "json \<Rightarrow> unit res" where
  "deny_strict_admin_policy new_obj =
     rbind (jitem new_obj ''spec'') (\<lambda>spec.
     rbind (jpath spec [''features'', ''policies'', ''strict_admin'']) (\<lambda>strict_admin_policy.
     rbind (release_of new_obj) (\<lambda>os_version.
     rbind (jget strict_admin_policy ''enabled'' JNull) (\<lambda>enabled.
     deny_if (jtruthy enabled \<and> os_version < yoga) (RFeatures StrictAdminTooOld)))))"

definition check_schedule :: "json \<Rightarrow> unit res" where
  "check_schedule schedule =
     (if jtruthy schedule then
        rbind (jstr schedule) (\<lambda>s. deny_if (\<not> cron_validate s) (RFeatures BadSchedule))
      else Inr ())"

definition cleaner_crons :: "string list" where
  "cleaner_crons = [''barbican'', ''masakari'', ''nova'', ''cinder'', ''glance'', ''heat'', ''aodh'',
     ''manila'']"

definition check_schedules :: "json \<Rightarrow> unit res" where
  "check_schedules new_obj =
     rbind (jpath new_obj [''spec'', ''features'', ''database'', ''cleanup'']) (\<lambda>cleaners.
     rbind (if jtruthy cleaners then
              rforeach (\<lambda>c. rbind (jpath_get cleaners [c] ''schedule'' JNull) check_schedule)
                cleaner_crons
            else Inr ()) (\<lambda>_.
     rbind (jpath_get new_obj [''spec'', ''features'', ''database'', ''backup''] ''schedule_time'' JNull)
       check_schedule))"

section \<open>Upgrades\<close>

definition openstack_version_changed :: "json \<Rightarrow> json \<Rightarrow> bool res" where
  "openstack_version_changed old_obj new_obj =
     rbind (release_of old_obj) (\<lambda>old_version.
     rbind (release_of new_obj) (\<lambda>new_version. Inr (new_version \<noteq> old_version)))"

definition is_osdpl_locked :: "admission_env \<Rightarrow> json \<Rightarrow> bool res" where
  "is_osdpl_locked env review_request =
     rbind (jitem review_request ''name'') (\<lambda>name.
     rbind (jitem review_request ''namespace'') (\<lambda>ns.
     rbind (osdpl_status_of env name ns) (\<lambda>osdplst_status.
       Inr (\<not> py_eq osdplst_status (JStr ''APPLIED'')))))"

definition validate_for_another_upgrade :: "admission_env \<Rightarrow> json \<Rightarrow> unit res" where
  "validate_for_another_upgrade env review_request =
     rbind (is_osdpl_locked env review_request) (\<lambda>locked.
     deny_if locked (ROpenstack UpgradeInProgress))"

fun list_index :: "'a \<Rightarrow> 'a list \<Rightarrow> nat option" where
  "list_index x [] = None"
| "list_index x (y # ys) = (if x = y then Some 0 else map_option Suc (list_index x ys))"

definition upgrade_max_distance :: "string \<Rightarrow> int res" where
  "upgrade_max_distance new_version =
     (case list_index new_version SLURP_RELEASES of
        None \<Rightarrow> Inr 1
      | Some 0 \<Rightarrow> Inr 1
      | Some (Suc i) \<Rightarrow>
          rbind (version_of (JStr new_version)) (\<lambda>n.
          rbind (version_of (JStr (SLURP_RELEASES ! i))) (\<lambda>a.
            Inr (version_value n - version_value a))))"

definition validate_openstack_upgrade :: "json \<Rightarrow> json \<Rightarrow> unit res" where
  "validate_openstack_upgrade old_obj new_obj =
     rbind (release_of old_obj) (\<lambda>old_version.
     rbind (release_of new_obj) (\<lambda>new_version.
     rbind (deny_if (old_version > new_version) (ROpenstack Downgrade)) (\<lambda>_.
     rbind (upgrade_max_distance (version_name new_version)) (\<lambda>dist.
     rbind (deny_if (version_value new_version - version_value old_version > dist)
              (ROpenstack SkipLevel)) (\<lambda>_.
     rbind (rbind (jitem old_obj ''spec'') (\<lambda>s. jpop s ''openstack_version'')) (\<lambda>old_spec.
     rbind (rbind (jitem new_obj ''spec'') (\<lambda>s. jpop s ''openstack_version'')) (\<lambda>new_spec.
     deny_if (\<not> py_eq new_spec old_spec) (ROpenstack SpecChangedOnUpgrade))))))))"

section \<open>Credential rotation\<close>

text \<open>
  The two loops of \<open>_validate_credentials\<close>.  A group without \<open>rotation_id\<close> makes the method return:
  the result False says so, True that the loop ran to its end.
\<close>

fun check_old_credentials :: "json \<Rightarrow> jdict \<Rightarrow> bool res" where
  "check_old_credentials new_credentials [] = Inr True"
| "check_old_credentials new_credentials (g # gs) =
     rbind (jkeys (snd g)) (\<lambda>ks.
     if ''rotation_id'' \<notin> set ks then Inr False
     else rbind (get_in_str new_credentials [fst g, ''rotation_id''] (JInt 0)) (\<lambda>new_rotation_id.
          rbind (deny_if (\<not> jtruthy new_rotation_id) (ROpenstack RotationRemoved)) (\<lambda>_.
          check_old_credentials new_credentials gs)))"

definition check_rotation_step :: "json \<Rightarrow> json \<Rightarrow> unit res" where
  "check_rotation_step old_rotation_id new_rotation_id =
     rbind (jless_eq new_rotation_id (JInt 0)) (\<lambda>b.
     if b then deny (ROpenstack RotationIdNotPositive)
     else rbind (jless new_rotation_id old_rotation_id) (\<lambda>b.
     if b then deny (ROpenstack RotationIdDecreased)
     else rbind (jminus_gt new_rotation_id old_rotation_id 1) (\<lambda>b.
     deny_if b (ROpenstack RotationIdSkipped))))"

fun check_new_credentials :: "json \<Rightarrow> jdict \<Rightarrow> bool res" where
  "check_new_credentials old_credentials [] = Inr True"
| "check_new_credentials old_credentials (g # gs) =
     rbind (jkeys (snd g)) (\<lambda>ks.
     if ''rotation_id'' \<notin> set ks then Inr False
     else rbind (get_in_str old_credentials [fst g, ''rotation_id''] (JInt 0)) (\<lambda>old_rotation_id.
          rbind (jitem (snd g) ''rotation_id'') (\<lambda>new_rotation_id.
          rbind (check_rotation_step old_rotation_id new_rotation_id) (\<lambda>_.
          check_new_credentials old_credentials gs))))"

definition validate_credentials :: "admission_env \<Rightarrow> json \<Rightarrow> json \<Rightarrow> json \<Rightarrow> unit res" where
  "validate_credentials env old_obj new_obj review_request =
     rbind (jpath old_obj [''status'', ''credentials'']) (\<lambda>old_credentials.
     rbind (jpath new_obj [''status'', ''credentials'']) (\<lambda>new_credentials.
     if \<not> py_eq new_credentials old_credentials then
       rbind (is_osdpl_locked env review_request) (\<lambda>locked.
       rbind (deny_if locked (ROpenstack CredentialsLocked)) (\<lambda>_.
       rbind (jitems old_credentials) (\<lambda>olds.
       rbind (check_old_credentials new_credentials olds) (\<lambda>go_on.
       if \<not> go_on then Inr ()
       else rbind (jitems new_credentials) (\<lambda>news.
            rbind (check_new_credentials old_credentials news) (\<lambda>_. Inr ()))))))
     else Inr ()))"

section \<open>The validator\<close>

definition openstack_validate :: "admission_env \<Rightarrow> json \<Rightarrow> unit res" where
  "openstack_validate env review_request =
     rbind (jget review_request ''oldObject'' jempty) (\<lambda>old_obj.
     rbind (jget review_request ''object'' jempty) (\<lambda>new_obj.
     rbind (deny_master new_obj) (\<lambda>_.
     rbind (jitem review_request ''operation'') (\<lambda>op.
     rbind (deny_if (py_eq op (JStr ''CREATE'') \<and> osdpl_present env) (ROpenstack AlreadyExists)) (\<lambda>_.
     rbind (if py_eq op (JStr ''UPDATE'') then
              rbind (openstack_version_changed old_obj new_obj) (\<lambda>changed.
              if changed then
                rbind (validate_openstack_upgrade old_obj new_obj) (\<lambda>_.
                validate_for_another_upgrade env review_request)
              else Inr ())
            else Inr ()) (\<lambda>_.
     rbind (check_masakari_allowed new_obj) (\<lambda>_.
     rbind (check_baremetal_allowed new_obj) (\<lambda>_.
     rbind (check_panko_allowed new_obj) (\<lambda>_.
     rbind (check_manila_allowed new_obj) (\<lambda>_.
     rbind (deny_encrypted_api_key new_obj) (\<lambda>_.
     rbind (deny_strict_admin_policy new_obj) (\<lambda>_.
     check_schedules new_obj))))))))))))"

definition openstack_validate_status :: "admission_env \<Rightarrow> json \<Rightarrow> unit res" where
  "openstack_validate_status env review_request =
     rbind (jget review_request ''oldObject'' jempty) (\<lambda>old_obj.
     rbind (jget review_request ''object'' jempty) (\<lambda>new_obj.
     validate_credentials env old_obj new_obj review_request))"

definition openstack_validate_delete :: "admission_env \<Rightarrow> json \<Rightarrow> unit res" where
  "openstack_validate_delete env review_request =
     rbind (is_osdpl_locked env review_request) (\<lambda>locked.
     deny_if locked (ROpenstack DeleteInTransit))"

section \<open>Which upgrades are admitted\<close>

definition upgrade_edge :: "OpenStackVersion \<Rightarrow> OpenStackVersion \<Rightarrow> bool" where
  "upgrade_edge v w \<longleftrightarrow>
     version_value w = version_value v + 1 \<or> (v, w) \<in> {(yoga, antelope), (antelope, caracal)}"

lemma upgrade_max_distance_name:
  "upgrade_max_distance (version_name w) = Inr (if w = antelope \<or> w = caracal then 2 else 1)"
  by (cases w) (simp_all add: upgrade_max_distance_def SLURP_RELEASES_def version_of_def version_names_def)

lemma version_gap: "version_value w \<noteq> version_value v + 1 \<Longrightarrow> version_value v < version_value w \<Longrightarrow>
    version_value w - version_value v \<le> (if w = antelope \<or> w = caracal then 2 else 1) \<Longrightarrow>
    (v, w) \<in> {(yoga, antelope), (antelope, caracal)}"
  by (cases w; cases v) simp_all

lemma upgrade_distance_iff:
  "(\<not> v > w \<and> version_value w - version_value v \<le> (if w = antelope \<or> w = caracal then 2 else 1)) =
     (v = w \<or> upgrade_edge v w)"
proof
  assume h: "\<not> v > w \<and> version_value w - version_value v \<le> (if w = antelope \<or> w = caracal then 2 else 1)"
  show "v = w \<or> upgrade_edge v w"
  proof (cases "v = w \<or> version_value w = version_value v + 1")
    case True
    then show ?thesis by (auto simp: upgrade_edge_def)
  next
    case False
    then have "version_value v \<noteq> version_value w" using version_value_inj[of v w] by blast
    then have "version_value v < version_value w" using h by (simp add: model_simps)
    then show ?thesis using version_gap[of w v] h False unfolding upgrade_edge_def by blast
  qed
qed (auto simp: upgrade_edge_def model_simps)

lemma release_of_Inr: "release_of obj = Inr v \<Longrightarrow>
    jlookup obj [''spec'', ''openstack_version''] = Some (JStr (version_name v))"
  unfolding release_of_def jitem_path_lookup[symmetric] by (erule rbind_InrE, drule version_of_Inr) simp

lemma release_of_lookup: "jlookup obj [''spec'', ''openstack_version''] = Some (JStr (version_name v)) \<Longrightarrow>
    release_of obj = Inr v"
  unfolding release_of_def jitem_path_lookup[symmetric] by simp

text \<open>The rest of the specification, as the comparison of the source sees it.\<close>

definition spec_rest :: "json \<Rightarrow> json" where
  "spec_rest obj =
     (case jlookup obj [''spec''] of
        Some (JObj d) \<Rightarrow> JObj (AList.delete ''openstack_version'' d)
      | _ \<Rightarrow> JNull)"

lemma release_of_spec:
  assumes "release_of obj = Inr v"
  shows "rbind (jitem obj ''spec'') (\<lambda>s. jpop s ''openstack_version'') = Inr (spec_rest obj)"
proof -
  obtain o' d where "obj = JObj o'" "map_of o' ''spec'' = Some (JObj d)"
    "map_of d ''openstack_version'' = Some (JStr (version_name v))"
    using release_of_Inr[OF assms] by (auto split: json.splits option.splits)
  then show ?thesis by (auto simp: spec_rest_def dest: map_of_in_keys)
qed

lemma validate_upgrade_iff:
  assumes "release_of old_obj = Inr v" and "release_of new_obj = Inr w"
  shows "(validate_openstack_upgrade old_obj new_obj = Inr ()) =
    ((v = w \<or> upgrade_edge v w) \<and> py_eq (spec_rest new_obj) (spec_rest old_obj))"
proof -
  have "(validate_openstack_upgrade old_obj new_obj = Inr ()) =
      ((\<not> v > w \<and> version_value w - version_value v \<le> (if w = antelope \<or> w = caracal then 2 else 1)) \<and>
       py_eq (spec_rest new_obj) (spec_rest old_obj))"
    unfolding validate_openstack_upgrade_def assms upgrade_max_distance_name
      release_of_spec[OF assms(1)] release_of_spec[OF assms(2)]
    by (simp add: rbind_eq_Inr not_less del: py_eq_simps)
  then show ?thesis by (simp only: upgrade_distance_iff)
qed

lemma deny_master_release:
  "deny_master obj = Inr () \<Longrightarrow> release_of obj = Inr v \<Longrightarrow> v \<noteq> master"
  by (auto simp: deny_master_def res_simps jpath_get_def split: json.splits option.splits
      dest!: release_of_Inr)

lemma update_admitted:
  assumes "openstack_validate env rr = Inr ()"
    and "rr = JObj r" and "map_of r ''operation'' = Some (JStr ''UPDATE'')"
    and "map_of r ''oldObject'' = Some old_obj" and "map_of r ''object'' = Some new_obj"
  shows "\<exists>v w. release_of old_obj = Inr v \<and> release_of new_obj = Inr w \<and> w \<noteq> master \<and>
    (v = w \<or> upgrade_edge v w \<and> py_eq (spec_rest new_obj) (spec_rest old_obj) \<and>
       is_osdpl_locked env rr = Inr False)"
proof -
  have objs: "jget rr ''oldObject'' jempty = Inr old_obj" "jget rr ''object'' jempty = Inr new_obj"
    "jitem rr ''operation'' = Inr (JStr ''UPDATE'')"
    using assms(2-5) by simp_all
  have dm: "deny_master new_obj = Inr ()"
    using assms(1) by (simp only: openstack_validate_def objs rbind_Inr) (elim rbind_InrE, simp)
  have up: "rbind (openstack_version_changed old_obj new_obj) (\<lambda>changed.
              if changed then
                rbind (validate_openstack_upgrade old_obj new_obj) (\<lambda>_.
                validate_for_another_upgrade env rr)
              else Inr ()) = Inr ()"
    using assms(1) by (simp only: openstack_validate_def objs rbind_Inr) (elim rbind_InrE, simp)
  from up obtain v w where vw: "release_of old_obj = Inr v" "release_of new_obj = Inr w"
    by (auto simp: openstack_version_changed_def res_simps)
  have "w \<noteq> master" using dm vw(2) by (rule deny_master_release)
  moreover have "v = w \<or> upgrade_edge v w \<and> py_eq (spec_rest new_obj) (spec_rest old_obj) \<and>
      is_osdpl_locked env rr = Inr False"
  proof (cases "v = w")
    case False
    with up vw have "validate_openstack_upgrade old_obj new_obj = Inr ()"
      "validate_for_another_upgrade env rr = Inr ()"
      by (auto simp: openstack_version_changed_def elim!: rbind_InrE)
    with False show ?thesis
      by (auto simp: validate_upgrade_iff[OF vw] validate_for_another_upgrade_def elim!: rbind_InrE)
  qed simp
  ultimately show ?thesis using vw by blast
qed

section \<open>Which rotations are admitted\<close>

lemma check_rotation_step_iff:
  "(check_rotation_step o' n = Inr ()) =
     (\<exists>a b. num_of o' = Some a \<and> num_of n = Some b \<and> 0 < b \<and> a \<le> b \<and> b \<le> a + 1)"
  by (auto simp: check_rotation_step_def jless_eq_def jless_def jminus_gt_def num_pair_def res_simps
      deny_def not_le not_less algebra_simps split: option.splits if_splits)

text \<open>The group was there before, or counts as if at 0, and moved by at most one step.\<close>

definition rotation_step_ok :: "json \<Rightarrow> string \<times> json \<Rightarrow> bool" where
  "rotation_step_ok old_credentials g \<longleftrightarrow>
     (\<exists>o' n a b. get_in_str old_credentials [fst g, ''rotation_id''] (JInt 0) = Inr o' \<and>
        jlookup (snd g) [''rotation_id''] = Some n \<and>
        num_of o' = Some a \<and> num_of n = Some b \<and> 0 < b \<and> a \<le> b \<and> b \<le> a + 1)"

definition has_rotation_id :: "string \<times> json \<Rightarrow> bool" where
  "has_rotation_id g \<longleftrightarrow> jlookup (snd g) [''rotation_id''] \<noteq> None"

lemma has_rotation_id_keys: "has_rotation_id g \<Longrightarrow> \<exists>ks. jkeys (snd g) = Inr ks \<and> ''rotation_id'' \<in> set ks"
  by (auto simp: has_rotation_id_def split: json.splits option.splits dest!: map_of_in_keys)

lemma check_new_credentials_all:
  "check_new_credentials old gs = Inr b \<Longrightarrow> \<forall>g \<in> set gs. has_rotation_id g \<Longrightarrow>
   b \<and> (\<forall>g \<in> set gs. rotation_step_ok old g)"
proof (induction gs)
  case Nil
  then show ?case by simp
next
  case (Cons g gs)
  from Cons.prems(2) have g: "has_rotation_id g" by simp
  then obtain ks where ks: "jkeys (snd g) = Inr ks" "''rotation_id'' \<in> set ks"
    using has_rotation_id_keys by blast
  from Cons.prems(1) ks obtain o' n where
    o': "get_in_str old [fst g, ''rotation_id''] (JInt 0) = Inr o'" and
    n: "jitem (snd g) ''rotation_id'' = Inr n" and
    st: "check_rotation_step o' n = Inr ()" and rest: "check_new_credentials old gs = Inr b"
    by (auto simp: res_simps simp del: get_in.simps)
  have "jlookup (snd g) [''rotation_id''] = Some n"
    using n by (cases "snd g") (auto split: option.splits)
  then have "rotation_step_ok old g"
    using o' st unfolding rotation_step_ok_def check_rotation_step_iff by blast
  moreover have "b \<and> (\<forall>g \<in> set gs. rotation_step_ok old g)"
    using Cons.IH[OF rest] Cons.prems(2) by simp
  ultimately show ?case by simp
qed

lemma check_old_credentials_all:
  "check_old_credentials new gs = Inr b \<Longrightarrow> \<forall>g \<in> set gs. has_rotation_id g \<Longrightarrow>
   b \<and> (\<forall>g \<in> set gs. \<exists>n. get_in_str new [fst g, ''rotation_id''] (JInt 0) = Inr n \<and> jtruthy n)"
proof (induction gs)
  case Nil
  then show ?case by simp
next
  case (Cons g gs)
  from Cons.prems(2) have "has_rotation_id g" by simp
  then obtain ks where ks: "jkeys (snd g) = Inr ks" "''rotation_id'' \<in> set ks"
    using has_rotation_id_keys by blast
  from Cons.prems(1) ks obtain n where
    n: "get_in_str new [fst g, ''rotation_id''] (JInt 0) = Inr n" "jtruthy n" and
    rest: "check_old_credentials new gs = Inr b"
    by (auto simp: res_simps simp del: get_in.simps)
  have "b \<and> (\<forall>g \<in> set gs. \<exists>n. get_in_str new [fst g, ''rotation_id''] (JInt 0) = Inr n \<and> jtruthy n)"
    using Cons.IH[OF rest] Cons.prems(2) by simp
  with n show ?case by auto
qed

lemma credentials_admitted:
  assumes "validate_credentials env old_obj new_obj rr = Inr ()"
    and "jpath old_obj [''status'', ''credentials''] = Inr (JObj olds)"
    and "jpath new_obj [''status'', ''credentials''] = Inr (JObj news)"
    and "\<not> py_eq (JObj news) (JObj olds)"
    and "\<forall>g \<in> set olds \<union> set news. has_rotation_id g"
  shows "is_osdpl_locked env rr = Inr False \<and> (\<forall>g \<in> set news. rotation_step_ok (JObj olds) g) \<and>
    (\<forall>g \<in> set olds. \<exists>n. get_in_str (JObj news) [fst g, ''rotation_id''] (JInt 0) = Inr n \<and> jtruthy n)"
proof -
  from assms(1-4) obtain go_on where locked: "is_osdpl_locked env rr = Inr False"
    and o': "check_old_credentials (JObj news) olds = Inr go_on"
    and n: "go_on \<Longrightarrow> \<exists>b. check_new_credentials (JObj olds) news = Inr b"
    by (auto simp: validate_credentials_def res_simps simp del: jpath.simps get_in.simps py_eq_simps
        split: if_splits)
  have "go_on" and olds: "\<forall>g \<in> set olds. \<exists>n. get_in_str (JObj news) [fst g, ''rotation_id''] (JInt 0) = Inr n \<and> jtruthy n"
    using check_old_credentials_all[OF o'] assms(5) by auto
  with n obtain b where "check_new_credentials (JObj olds) news = Inr b" by blast
  from check_new_credentials_all[OF this] assms(5) have "\<forall>g \<in> set news. rotation_step_ok (JObj olds) g"
    by simp
  with locked olds show ?thesis by blast
qed

section \<open>Which services are admitted\<close>

lemma service_guards_iff:
  assumes "jlookup obj [''spec''] = Some (JObj sp)"
    and "map_of sp ''openstack_version'' = Some (JStr (version_name v))"
    and "map_of sp ''preset'' = Some (JStr preset)"
    and "map_of sp ''features'' = Some (JObj f)"
    and "map_of f ''services'' = Some (JList (map JStr svcs))"
  shows "deny_master obj = deny_if (v = master) (ROpenstack MasterDenied)"
    "check_masakari_allowed obj =
       deny_if (''instance-ha'' \<in> set svcs \<and> v < victoria) (RFeatures MasakariTooOld)"
    "check_baremetal_allowed obj =
       deny_if (''baremetal'' \<in> set svcs \<and> preset = ''compute-tf'') (RFeatures BaremetalWithTF)"
    "check_panko_allowed obj = deny_if (''event'' \<in> set svcs \<and> v \<ge> xena) (RFeatures PankoRetired)"
    "check_manila_allowed obj =
       rbind (deny_if (''shared-file-system'' \<in> set svcs \<and> preset = ''compute-tf'') (RFeatures ManilaWithTF))
         (\<lambda>_. deny_if (''shared-file-system'' \<in> set svcs \<and> v < yoga) (RFeatures ManilaTooOld))"
proof -
  obtain d where d: "obj = JObj d" "map_of d ''spec'' = Some (JObj sp)"
    using assms(1) by (auto split: json.splits option.splits)
  have rel: "release_of obj = Inr v"
    using d assms(2) by (intro release_of_lookup) simp
  have svc: "services_of obj = Inr (JList (map JStr svcs))"
    using d assms(4,5) by (simp add: services_of_def jpath_get_def)
  have m: "(''master'' = version_name v) = (v = master)" by (cases v) auto
  show "deny_master obj = deny_if (v = master) (ROpenstack MasterDenied)"
    using d assms(2) m by (simp add: deny_master_def jpath_get_def)
  show "check_masakari_allowed obj =
       deny_if (''instance-ha'' \<in> set svcs \<and> v < victoria) (RFeatures MasakariTooOld)"
    by (simp add: check_masakari_allowed_def rel svc jin_list_str del: jin.simps)
  show "check_baremetal_allowed obj =
       deny_if (''baremetal'' \<in> set svcs \<and> preset = ''compute-tf'') (RFeatures BaremetalWithTF)"
    using d assms
    by (simp add: check_baremetal_allowed_def jin_list_str eq_commute[of "''compute-tf''" preset]
        del: jin.simps)
  show "check_panko_allowed obj = deny_if (''event'' \<in> set svcs \<and> v \<ge> xena) (RFeatures PankoRetired)"
    by (simp add: check_panko_allowed_def rel svc jin_list_str del: jin.simps)
  show "check_manila_allowed obj =
       rbind (deny_if (''shared-file-system'' \<in> set svcs \<and> preset = ''compute-tf'') (RFeatures ManilaWithTF))
         (\<lambda>_. deny_if (''shared-file-system'' \<in> set svcs \<and> v < yoga) (RFeatures ManilaTooOld))"
    using d assms(3) rel svc
    by (simp add: check_manila_allowed_def jin_list_str eq_commute[of "''compute-tf''" preset]
        del: jin.simps)
qed

end
