(* ===== verification/AdmissionServices.thy ===== *)
theory AdmissionServices
  imports AdmissionOpenstack
begin

text \<open>
  The validators of the single services under \<open>admission/validators/\<close>.  Each is one function from
  the review request; the JSON schemas are an argument \<open>schema_ok\<close>.
\<close>

definition truthy_item :: "json \<Rightarrow> string \<Rightarrow> bool res" where
  "truthy_item j k = rbind (jitem j k) (\<lambda>v. Inr (jtruthy v))"

definition truthy_get :: "json \<Rightarrow> string \<Rightarrow> json \<Rightarrow> bool res" where
  "truthy_get j k d = rbind (jget j k d) (\<lambda>v. Inr (jtruthy v))"

definition rand :: "bool res \<Rightarrow> bool res \<Rightarrow> bool res" where
  "rand a b = rbind a (\<lambda>x. if x then b else Inr False)"

definition validate_schema :: "(string \<Rightarrow> json \<Rightarrow> bool) \<Rightarrow> string \<Rightarrow> json \<Rightarrow> unit res" where
  "validate_schema schema_ok schema_file obj =
     deny_if (\<not> schema_ok schema_file obj) (SchemaFailed schema_file)"

definition features_of :: "json \<Rightarrow> string list \<Rightarrow> json res" where
  "features_of review_request ks = jpath review_request ([''object'', ''spec'', ''features''] @ ks)"

lemma rand_Inr: "(rand a b = Inr x) = (a = Inr False \<and> \<not> x \<or> a = Inr True \<and> b = Inr x)"
  by (cases a) (auto simp: rand_def)

section \<open>Networking\<close>

definition check_bgpvpn :: "json \<Rightarrow> unit res" where
  "check_bgpvpn bgpvpn =
     rbind (rbind (jpath bgpvpn [''route_reflector'']) (\<lambda>r. truthy_get r ''enabled'' JNull)) (\<lambda>rr.
     if \<not> rr then rbind (truthy_get bgpvpn ''peers'' JNull) (\<lambda>peers.
       deny_if (\<not> peers) (RNeutron BgpvpnPeersMissing))
     else Inr ())"

definition validate_ngs_hardware :: "(string \<Rightarrow> json \<Rightarrow> bool) \<Rightarrow> json \<Rightarrow> unit res" where
  "validate_ngs_hardware schema_ok ngs =
     rbind (jget ngs ''hardware'' jempty) (\<lambda>ngs_hardware.
     if \<not> jtruthy ngs_hardware then Inr ()
     else rbind (jin ''devices'' ngs) (\<lambda>devices.
          rbind (deny_if devices (RNeutron NgsDevicesWithHardware)) (\<lambda>_.
          validate_schema schema_ok ''ngs_hardware.yaml'' ngs_hardware)))"

definition disabled :: json where
  "disabled = JObj [(''enabled'', JBool False)]"

text \<open>The part for the chosen backend: TungstenFabric or not.\<close>

definition check_network_backend :: "bool \<Rightarrow> json \<Rightarrow> json \<Rightarrow> json \<Rightarrow> unit res" where
  "check_network_backend tungstenfabric_enabled floating_network ipsec bgpvpn =
     (if \<not> tungstenfabric_enabled then
        rbind (rand (truthy_get floating_network ''enabled'' JNull)
                 (rbind (truthy_get floating_network ''physnet'' JNull) (\<lambda>p. Inr (\<not> p)))) (\<lambda>bad.
        rbind (deny_if bad (RNeutron PhysnetMissing)) (\<lambda>_.
        rbind (truthy_item bgpvpn ''enabled'') (\<lambda>b. if b then check_bgpvpn bgpvpn else Inr ())))
      else
        rbind (truthy_item ipsec ''enabled'') (\<lambda>i.
        rbind (deny_if i (RNeutron TFWithIpsec)) (\<lambda>_.
        rbind (truthy_item bgpvpn ''enabled'') (\<lambda>b.
        rbind (deny_if b (RNeutron TFWithBgpvpn)) (\<lambda>_.
        rbind (truthy_get floating_network ''enabled'' JNull) (\<lambda>f.
        if f then
          rbind (rmap (\<lambda>k. truthy_get floating_network k JNull)
                   [''network_type'', ''physnet'', ''segmentation_id'']) (\<lambda>network_options.
          deny_if (list_ex id network_options \<and> \<not> list_all id network_options)
            (RNeutron TFFloatingPartial))
        else Inr ()))))))"

text \<open>An extension that needs a release and excludes TungstenFabric.\<close>

definition check_extension ::
  "json \<Rightarrow> OpenStackVersion \<Rightarrow> rej_neutron \<Rightarrow> rej_neutron \<Rightarrow> json \<Rightarrow> bool \<Rightarrow> unit res" where
  "check_extension ext since too_old with_tf openstack_version tungstenfabric_enabled =
     rbind (truthy_item ext ''enabled'') (\<lambda>e.
     if e then
       rbind (version_of openstack_version) (\<lambda>v.
       rbind (deny_if (v < since) (RNeutron too_old)) (\<lambda>_.
       deny_if tungstenfabric_enabled (RNeutron with_tf)))
     else Inr ())"

definition check_ovn :: "bool \<Rightarrow> json \<Rightarrow> bool \<Rightarrow> json \<Rightarrow> json \<Rightarrow> unit res" where
  "check_ovn ovn_enabled openstack_version tungstenfabric_enabled bgpvpn ipsec =
     (if ovn_enabled then
        rbind (version_of openstack_version) (\<lambda>v.
        rbind (deny_if (v < yoga) (RNeutron OvnTooOld)) (\<lambda>_.
        rbind (deny_if tungstenfabric_enabled (RNeutron OvnWithTF)) (\<lambda>_.
        rbind (truthy_item bgpvpn ''enabled'') (\<lambda>b.
        rbind (deny_if b (RNeutron OvnWithBgpvpn)) (\<lambda>_.
        rbind (truthy_item ipsec ''enabled'') (\<lambda>i.
        deny_if i (RNeutron OvnWithIpsec)))))))
      else Inr ())"

definition neutron_validate :: "(string \<Rightarrow> json \<Rightarrow> bool) \<Rightarrow> json \<Rightarrow> unit res" where
  "neutron_validate schema_ok review_request =
     rbind (jpath review_request [''object'', ''spec'']) (\<lambda>spec.
     rbind (jpath spec [''features'', ''neutron'']) (\<lambda>neutron_features.
     rbind (jget neutron_features ''floating_network'' jempty) (\<lambda>floating_network.
     rbind (jget neutron_features ''ipsec'' disabled) (\<lambda>ipsec.
     rbind (jget neutron_features ''bgpvpn'' disabled) (\<lambda>bgpvpn.
     rbind (jpath_get neutron_features [''extensions''] ''vpnaas'' disabled) (\<lambda>vpnaas.
     rbind (jpath_get neutron_features [''extensions''] ''dynamic_routing'' disabled) (\<lambda>dynamic_routing.
     rbind (jpath_get neutron_features [''extensions''] ''portprober'' disabled) (\<lambda>portprober.
     rbind (jget neutron_features ''backend'' (JStr ''ml2'')) (\<lambda>backend.
     rbind (jitem spec ''openstack_version'') (\<lambda>openstack_version.
     rbind (jitem spec ''preset'') (\<lambda>preset.
     rbind (jpath spec [''features'', ''neutron'', ''baremetal'', ''ngs'']) (\<lambda>ngs.
     let ovn_enabled = py_eq backend (JStr ''ml2/ovn'');
         tungstenfabric_enabled = py_eq preset (JStr ''compute-tf'') in
     rbind (check_network_backend tungstenfabric_enabled floating_network ipsec bgpvpn) (\<lambda>_.
     rbind (if jtruthy ngs then validate_ngs_hardware schema_ok ngs else Inr ()) (\<lambda>_.
     rbind (check_ovn ovn_enabled openstack_version tungstenfabric_enabled bgpvpn ipsec) (\<lambda>_.
     rbind (check_extension vpnaas yoga VpnaasTooOld VpnaasWithTF openstack_version
              tungstenfabric_enabled) (\<lambda>_.
     rbind (check_extension dynamic_routing yoga DynRoutingTooOld DynRoutingWithTF openstack_version
              tungstenfabric_enabled) (\<lambda>_.
     rbind (check_extension portprober antelope PortproberTooOld PortproberWithTF openstack_version
              tungstenfabric_enabled) (\<lambda>_.
     rbind (jget neutron_features ''tenant_network_types'' (JList [])) (\<lambda>types.
     rbind (jin ''geneve'' types) (\<lambda>geneve.
     deny_if (geneve \<and> \<not> ovn_enabled) (RNeutron GeneveWithoutOvn)))))))))))))))))))))"

section \<open>Compute, key manager, bare metal\<close>

definition check_ephemeral_encryption :: "json \<Rightarrow> unit res" where
  "check_ephemeral_encryption nova_section =
     rbind (rand (rbind (jpath nova_section [''images'', ''encryption'']) (\<lambda>e.
                    truthy_get e ''enabled'' (JBool False)))
                 (rbind (jpath_get nova_section [''images''] ''backend'' JNull) (\<lambda>b.
                    Inr (\<not> py_eq b (JStr ''lvm''))))) (\<lambda>bad.
     deny_if bad (RService EncryptionWithoutLvm))"

definition check_vcpu_type :: "json \<Rightarrow> OpenStackVersion \<Rightarrow> unit res" where
  "check_vcpu_type nova_section os_version =
     rbind (jget nova_section ''vcpu_type'' (JStr [])) (\<lambda>t.
     rbind (jstr t) (\<lambda>s.
     let vcpu_types = py_split CHR '','' s in
     if length vcpu_types > 1 then
       rbind (deny_if (''host-model'' \<in> set vcpu_types \<or> ''host-passthrough'' \<in> set vcpu_types)
                (RService VcpuHostModelMixed)) (\<lambda>_.
       deny_if (os_version < train) (RService VcpuMultipleTooOld))
     else Inr ()))"

definition request_release :: "json \<Rightarrow> OpenStackVersion res" where
  "request_release review_request = rbind (jitem review_request ''object'') release_of"

definition nova_validate :: "json \<Rightarrow> unit res" where
  "nova_validate review_request =
     rbind (request_release review_request) (\<lambda>os_num_version.
     rbind (features_of review_request [''nova'']) (\<lambda>nova_section.
     rbind (check_ephemeral_encryption nova_section) (\<lambda>_.
     check_vcpu_type nova_section os_num_version)))"

definition barbican_validate :: "json \<Rightarrow> unit res" where
  "barbican_validate review_request =
     rbind (jitem_path review_request [''object'', ''spec'', ''features'']) (\<lambda>features.
     rbind (jget features ''barbican'' jempty) (\<lambda>barbican_section.
     rbind (request_release review_request) (\<lambda>os_num_version.
     rbind (jpath barbican_section [''backends'', ''vault'']) (\<lambda>vault_settings.
     rbind (rand (truthy_get vault_settings ''enabled'' (JBool False))
                 (truthy_get vault_settings ''namespace'' JNull)) (\<lambda>vault.
     deny_if (vault \<and> os_num_version < victoria) (RService VaultNamespaceTooOld))))))"

definition ironic_validate :: "json \<Rightarrow> unit res" where
  "ironic_validate review_request =
     rbind (features_of review_request [''ironic'']) (\<lambda>ironic.
     deny_if (\<not> jtruthy ironic) (RService NoIronicConfig))"

definition nodes_validate :: "(string \<Rightarrow> json \<Rightarrow> bool) \<Rightarrow> json \<Rightarrow> unit res" where
  "nodes_validate schema_ok review_request =
     rbind (jpath review_request [''object'', ''spec'', ''nodes'']) (validate_schema schema_ok ''nodes.yaml'')"

section \<open>Block storage and shared file systems\<close>

definition check_custom_backup_driver_allowed :: "json \<Rightarrow> unit res" where
  "check_custom_backup_driver_allowed spec =
     rbind (jitem spec ''openstack_version'') (\<lambda>openstack_version.
     rbind (jpath spec [''features'', ''cinder'', ''backup'', ''drivers'']) (\<lambda>drivers_section.
     if jtruthy drivers_section then
       rbind (version_of openstack_version) (\<lambda>v.
       deny_if (v < yoga) (RStorage CustomBackupDriverTooOld))
     else Inr ()))"

fun enabled_driver_names :: "jdict \<Rightarrow> string list res" where
  "enabled_driver_names [] = Inr []"
| "enabled_driver_names (nv # r) =
     rbind (truthy_item (snd nv) ''enabled'') (\<lambda>e.
     rbind (enabled_driver_names r) (\<lambda>ns. Inr (if e then fst nv # ns else ns)))"

definition check_backup_drivers_count :: "json \<Rightarrow> unit res" where
  "check_backup_drivers_count cinder_section =
     rbind (jget cinder_section ''backup'' jempty) (\<lambda>backup_section.
     if \<not> jtruthy backup_section then Inr ()
     else rbind (truthy_get backup_section ''enabled'' (JBool True)) (\<lambda>e.
     if e then
       rbind (jget backup_section ''drivers'' jempty) (\<lambda>backup_drivers.
       rbind (jitems backup_drivers) (\<lambda>items.
       rbind (enabled_driver_names items) (\<lambda>enabled_drivers.
       deny_if (length enabled_drivers > 1) (RStorage ManyBackupDrivers))))
     else Inr ()))"

text \<open>
  The backends of one extra volume or share service: every name in the comma-separated list of
  enabled backends has a section with its name and its driver.  Cinder and Manila differ in the
  names of the keys only.
\<close>

definition check_backend_section :: "string \<Rightarrow> string \<Rightarrow> string \<Rightarrow> json \<Rightarrow> string \<Rightarrow> unit res" where
  "check_backend_section project name_key driver_key opts backend =
     rbind (jitem_path opts [''values'', ''conf'', project]) (\<lambda>conf.
     rbind (jget conf backend jempty) (\<lambda>backend_conf.
     rbind (jget backend_conf name_key JNull) (\<lambda>n.
     rbind (deny_if (n = JNull) (RStorage NoBackendName)) (\<lambda>_.
     rbind (jget backend_conf driver_key JNull) (\<lambda>d.
     deny_if (d = JNull) (RStorage NoDriver))))))"

definition check_backend_opts ::
  "string \<Rightarrow> string \<Rightarrow> string \<Rightarrow> string \<Rightarrow> json \<Rightarrow> unit res" where
  "check_backend_opts project enabled_key name_key driver_key opts =
     rbind (truthy_get opts ''enabled'' (JBool True)) (\<lambda>e.
     if e then
       rbind (jitem_path opts [''values'', ''conf'']) (\<lambda>conf.
       rbind (jpath_get conf [project, ''DEFAULT''] enabled_key (JStr [])) (\<lambda>eb.
       rbind (jstr eb) (\<lambda>s.
       let enabled_backends = filter (\<lambda>x. x \<noteq> []) (py_split CHR '','' s) in
       rbind (deny_if (enabled_backends = []) (RStorage NoEnabledBackends)) (\<lambda>_.
       rforeach (check_backend_section project name_key driver_key opts) enabled_backends))))
     else Inr ())"

definition check_extra_volume_backend :: "json \<Rightarrow> unit res" where
  "check_extra_volume_backend cinder_section =
     rbind (jpath cinder_section [''volume'', ''backends'']) (\<lambda>extra_backend_section.
     rbind (jitems extra_backend_section) (\<lambda>items.
     rforeach (\<lambda>no. check_backend_opts ''cinder'' ''enabled_backends'' ''volume_backend_name''
                 ''volume_driver'' (snd no)) items))"

definition cinder_validate :: "json \<Rightarrow> unit res" where
  "cinder_validate review_request =
     rbind (jpath review_request [''object'', ''spec'']) (\<lambda>spec.
     rbind (jpath spec [''features'', ''cinder'']) (\<lambda>cinder_section.
     rbind (check_custom_backup_driver_allowed spec) (\<lambda>_.
     rbind (check_backup_drivers_count cinder_section) (\<lambda>_.
     check_extra_volume_backend cinder_section))))"

definition check_share_backend :: "json \<Rightarrow> unit res" where
  "check_share_backend manila_section =
     rbind (jpath manila_section [''share'', ''backends'']) (\<lambda>backend_section.
     rbind (jitems backend_section) (\<lambda>items.
     rforeach (\<lambda>no. check_backend_opts ''manila'' ''enabled_share_backends'' ''share_backend_name''
                 ''share_driver'' (snd no)) items))"

definition manila_validate :: "json \<Rightarrow> unit res" where
  "manila_validate review_request =
     rbind (features_of review_request [''manila'']) check_share_backend"

section \<open>Database\<close>

definition check_backup_backend :: "json \<Rightarrow> unit res" where
  "check_backup_backend db_section =
     rbind (jget db_section ''backup'' jempty) (\<lambda>backup_section.
     rbind (rand (rbind (jget backup_section ''backend'' (JStr ''pvc'')) (\<lambda>b.
                    Inr (py_eq b (JStr ''pv_nfs''))))
                 (rbind (truthy_get backup_section ''pv_nfs'' jempty) (\<lambda>x. Inr (\<not> x)))) (\<lambda>bad.
     deny_if bad (RService PvNfsIncomplete)))"

text \<open>\<open>_check_fields\<close>, given the dictionary that is checked.\<close>

definition check_fields :: "json \<Rightarrow> string list \<Rightarrow> unit res" where
  "check_fields checked required =
     rforeach (\<lambda>field. rbind (jkeys checked) (\<lambda>ks.
       deny_if (field \<notin> set ks) (RService RemoteFieldsMissing))) required"

definition check_remote :: "json \<Rightarrow> unit res" where
  "check_remote remote =
     rbind (check_fields remote [''conf'', ''path'']) (\<lambda>_.
     rbind (jitem remote ''conf'') (\<lambda>conf.
     rbind (jget conf ''type'' (JStr [])) (\<lambda>t.
     rbind (if py_eq t (JStr ''s3'') then
              rbind (jget conf ''provider'' (JStr [])) (\<lambda>pr.
              Inr ([''provider'', ''access_key_id'', ''secret_access_key''] @
                   (if py_eq pr (JStr ''Ceph'') then [''endpoint''] else [])))
            else Inr []) (\<lambda>more.
     check_fields conf (''type'' # more)))))"

definition check_backup_sync :: "json \<Rightarrow> unit res" where
  "check_backup_sync db_section =
     rbind (jpath db_section [''backup'', ''sync_remote'']) (\<lambda>sync_section.
     rbind (jget sync_section ''enabled'' (JBool False)) (\<lambda>sync_enabled.
     rbind (jget sync_section ''remotes'' jempty) (\<lambda>sync_remotes.
     if jtruthy sync_enabled then
       rbind (jitems sync_remotes) (\<lambda>remotes.
       rbind (deny_if (length remotes > 1) (RService ManyRemotes)) (\<lambda>_.
       rforeach (\<lambda>nr. check_remote (snd nr)) remotes))
     else Inr ())))"

definition database_validate :: "json \<Rightarrow> unit res" where
  "database_validate review_request =
     rbind (features_of review_request [''database'']) (\<lambda>db_section.
     rbind (check_backup_backend db_section) (\<lambda>_.
     check_backup_sync db_section))"

section \<open>Identity\<close>

definition check_keycloak :: "json \<Rightarrow> unit res" where
  "check_keycloak keycloak_section =
     rbind (rand (truthy_get keycloak_section ''enabled'' (JBool False))
                 (rbind (jget keycloak_section ''url'' JNull) (\<lambda>u. Inr (u = JNull)))) (\<lambda>bad.
     deny_if bad (RService KeycloakWithoutUrl))"

definition check_domains :: "json \<Rightarrow> unit res" where
  "check_domains domain_specific_config =
     rbind (jin ''ks_domains'' domain_specific_config) (\<lambda>ks.
     if ks then
       rbind (jin ''domains'' domain_specific_config) (\<lambda>domains.
       rbind (deny_if domains (RService DomainsAndKsDomains)) (\<lambda>_.
       rforeach (\<lambda>field.
         rbind (rbind (jitem domain_specific_config ''ks_domains'') jitems) (\<lambda>elements.
         rforeach (\<lambda>element. rbind (jkeys (snd element)) (\<lambda>eks.
           deny_if (field \<notin> set eks) (RService KsDomainsFieldsMissing))) elements))
         [''config'', ''enabled'']))
     else Inr ())"

fun enabled_count :: "jdict \<Rightarrow> nat res" where
  "enabled_count [] = Inr 0"
| "enabled_count (nv # r) =
     rbind (truthy_get (snd nv) ''enabled'' (JBool True)) (\<lambda>e.
     rbind (enabled_count r) (\<lambda>n. Inr (if e then Suc n else n)))"

definition check_federation :: "json \<Rightarrow> json \<Rightarrow> unit res" where
  "check_federation keycloak_section federation =
     (if jtruthy federation then
        rbind (rbind (jitem_path federation [''openid'', ''providers'']) jitems) (\<lambda>providers.
        rbind (enabled_count providers) (\<lambda>enabled_providers.
        rbind (rand (truthy_get keycloak_section ''enabled'' (JBool False))
                    (truthy_get federation ''enabled'' (JBool True))) (\<lambda>both.
        rbind (deny_if both (RService KeycloakAndFederation)) (\<lambda>_.
        rbind (jitem federation ''openid'') (\<lambda>openid.
        rbind (jget openid ''oidc_auth_type'' (JStr ''oauth20'')) (\<lambda>auth.
        deny_if (py_eq auth (JStr ''oauth20'') \<and> enabled_providers > 1)
          (RService ManyProvidersOauth20)))))))
      else Inr ())"

definition keystone_validate :: "json \<Rightarrow> unit res" where
  "keystone_validate review_request =
     rbind (features_of review_request [''keystone'', ''keycloak'']) (\<lambda>keycloak_section.
     rbind (check_keycloak keycloak_section) (\<lambda>_.
     rbind (features_of review_request [''keystone'', ''domain_specific_configuration'']) (\<lambda>dsc.
     rbind (check_domains dsc) (\<lambda>_.
     rbind (features_of review_request [''keystone'', ''federation'']) (\<lambda>federation.
     check_federation keycloak_section federation)))))"

section \<open>Images\<close>

fun backend_values :: "jdict \<Rightarrow> json list res" where
  "backend_values [] = Inr []"
| "backend_values (tb # r) =
     rbind (jitems (snd tb)) (\<lambda>items.
     rbind (backend_values r) (\<lambda>vs. Inr (map snd items @ vs)))"

definition check_cinder_glance_backend :: "json \<Rightarrow> unit res" where
  "check_cinder_glance_backend opts =
     rbind (jin ''cinder_volume_type'' opts) (\<lambda>t.
     rbind (jin ''backend_name'' opts) (\<lambda>b.
     rbind (deny_if (t = b) (RStorage CinderBackendNameClash)) (\<lambda>_.
     if b then
       rbind (jitem opts ''backend_name'') (\<lambda>n.
       rbind (jstr n) (\<lambda>s.
       deny_if (length (py_split CHR '':'' s) \<noteq> 2) (RStorage CinderBackendNameFormat)))
     else Inr ())))"

text \<open>
  The loop over all backends; the flag holds the value of \<open>default\<close> of the backend it came from, and
  only the object False counts as not seen.
\<close>

fun default_seen :: "json \<Rightarrow> json list \<Rightarrow> json res" where
  "default_seen is_default_seen [] = Inr is_default_seen"
| "default_seen is_default_seen (opts # r) =
     rbind (jget opts ''default'' (JBool False)) (\<lambda>d.
     if is_default_seen = JBool False then default_seen d r
     else rbind (deny_if (jtruthy d) (RStorage ManyDefaultBackends)) (\<lambda>_.
          default_seen is_default_seen r))"

definition check_file_backend :: "json \<Rightarrow> unit res" where
  "check_file_backend backend =
     rbind (jitem backend ''pvc'') (\<lambda>pvc.
     rbind (rmap (\<lambda>k. jin k pvc) [''storage_class_name'', ''size'']) (\<lambda>present.
     deny_if (\<not> list_all id present) (RStorage FileBackendKeysMissing)))"

definition validate_glance_backends :: "json \<Rightarrow> unit res" where
  "validate_glance_backends glance_features =
     rbind (jpath glance_features [''backends'', ''cinder'']) (\<lambda>cinder_backends.
     rbind (jpath glance_features [''backends'', ''file'']) (\<lambda>file_backends.
     rbind (rbind (jpath glance_features [''backends'']) jitems) (\<lambda>types.
     rbind (backend_values types) (\<lambda>all_backends.
     if all_backends = [] then Inr ()
     else
       rbind (jitems cinder_backends) (\<lambda>cinders.
       rbind (rforeach (\<lambda>no. check_cinder_glance_backend (snd no)) cinders) (\<lambda>_.
       rbind (default_seen (JBool False) all_backends) (\<lambda>is_default_seen.
       rbind (deny_if (is_default_seen = JBool False) (RStorage NoDefaultBackend)) (\<lambda>_.
       rbind (jitems file_backends) (\<lambda>files.
       rbind (deny_if (length files \<ge> 2) (RStorage ManyFileBackends)) (\<lambda>_.
       rforeach (\<lambda>nb. check_file_backend (snd nb)) files))))))))))"

definition glance_validate :: "json \<Rightarrow> unit res" where
  "glance_validate review_request =
     rbind (features_of review_request [''glance'']) (\<lambda>glance_features.
     rbind (rand (rbind (jpath glance_features [''signature'']) (\<lambda>s.
                    truthy_get s ''certificate_validation'' (JBool False)))
                 (rbind (jpath_get glance_features [''signature''] ''enabled'' (JBool False)) (\<lambda>e.
                    Inr (py_eq e (JBool False))))) (\<lambda>bad.
     rbind (deny_if bad (RStorage CertificateWithoutSignature)) (\<lambda>_.
     validate_glance_backends glance_features)))"

section \<open>What the validators guarantee\<close>

lemma check_extension_ok:
  assumes "check_extension ext since r1 r2 ver tf = Inr ()" and "truthy_item ext ''enabled'' = Inr True"
  shows "\<not> tf \<and> (\<exists>v. version_of ver = Inr v \<and> v \<ge> since)"
  using assms by (auto simp: check_extension_def not_less elim!: rbind_InrE)

lemma check_ovn_ok:
  assumes "check_ovn True ver tf bgpvpn ipsec = Inr ()"
  shows "\<not> tf \<and> (\<exists>v. version_of ver = Inr v \<and> v \<ge> yoga) \<and>
    truthy_item bgpvpn ''enabled'' = Inr False \<and> truthy_item ipsec ''enabled'' = Inr False"
  using assms by (auto simp: check_ovn_def not_less elim!: rbind_InrE)

text \<open>TungstenFabric excludes OVN, IPsec, BGP VPN and the three extensions.\<close>

lemma neutron_tf:
  assumes ok: "neutron_validate schema_ok rr = Inr ()"
    and spec: "jpath rr [''object'', ''spec''] = Inr spec"
    and tf: "jitem spec ''preset'' = Inr (JStr ''compute-tf'')"
    and nf: "jpath spec [''features'', ''neutron''] = Inr nf"
  shows "(\<forall>b. jget nf ''backend'' (JStr ''ml2'') = Inr b \<longrightarrow> \<not> py_eq b (JStr ''ml2/ovn'')) \<and>
    (\<forall>k \<in> {''ipsec'', ''bgpvpn''}. \<exists>x. jget nf k disabled = Inr x \<and> truthy_item x ''enabled'' = Inr False) \<and>
    (\<forall>k \<in> {''vpnaas'', ''dynamic_routing'', ''portprober''}.
       \<exists>x. jpath_get nf [''extensions''] k disabled = Inr x \<and> truthy_item x ''enabled'' = Inr False)"
proof -
  have pt: "py_eq (JStr ''compute-tf'') (JStr ''compute-tf'')" by simp
  obtain fn ipsec bgpvpn vpnaas dr pp b v ngs where
    g: "jget nf ''ipsec'' disabled = Inr ipsec" "jget nf ''bgpvpn'' disabled = Inr bgpvpn"
      "jpath_get nf [''extensions''] ''vpnaas'' disabled = Inr vpnaas"
      "jpath_get nf [''extensions''] ''dynamic_routing'' disabled = Inr dr"
      "jpath_get nf [''extensions''] ''portprober'' disabled = Inr pp"
      "jget nf ''backend'' (JStr ''ml2'') = Inr b"
    and c: "check_network_backend True fn ipsec bgpvpn = Inr ()"
      "check_ovn (py_eq b (JStr ''ml2/ovn'')) v True bgpvpn ipsec = Inr ()"
      "check_extension vpnaas yoga VpnaasTooOld VpnaasWithTF v True = Inr ()"
      "check_extension dr yoga DynRoutingTooOld DynRoutingWithTF v True = Inr ()"
      "check_extension pp antelope PortproberTooOld PortproberWithTF v True = Inr ()"
    using ok unfolding neutron_validate_def spec rbind_Inr nf tf Let_def eqTrueI[OF pt]
    by (elim rbind_unitE rbind_InrE) (rule that)
  have "\<not> py_eq b (JStr ''ml2/ovn'')" using c(2) check_ovn_ok[of v True bgpvpn ipsec] by auto
  moreover have "truthy_item ipsec ''enabled'' = Inr False" "truthy_item bgpvpn ''enabled'' = Inr False"
    using c(1) by (auto simp: check_network_backend_def elim!: rbind_InrE)
  moreover have off: "truthy_item e ''enabled'' = Inr False"
    if "check_extension e since r1 r2 v True = Inr ()" for e since r1 r2
    using that check_extension_ok[OF that] by (auto simp: check_extension_def elim!: rbind_InrE)
  have "truthy_item vpnaas ''enabled'' = Inr False" "truthy_item dr ''enabled'' = Inr False"
    "truthy_item pp ''enabled'' = Inr False"
    using off c(3-5) by blast+
  ultimately show ?thesis using g by auto
qed

text \<open>Exactly one backend is the default one, when the flags are booleans.\<close>

definition is_default :: "json \<Rightarrow> bool" where
  "is_default opts \<longleftrightarrow> jget opts ''default'' (JBool False) = Inr (JBool True)"

definition bool_default :: "json \<Rightarrow> bool" where
  "bool_default opts \<longleftrightarrow> (\<exists>b. jget opts ''default'' (JBool False) = Inr (JBool b))"

lemma default_seen_True:
  "list_all bool_default opts \<Longrightarrow>
   (default_seen (JBool True) opts = Inr r) = (r = JBool True \<and> filter is_default opts = [])"
  by (induction opts) (auto simp: bool_default_def is_default_def elim!: rbind_InrE)

lemma default_seen_False:
  "list_all bool_default opts \<Longrightarrow>
   (\<exists>r. default_seen (JBool False) opts = Inr r \<and> r \<noteq> JBool False) = (length (filter is_default opts) = 1)"
proof (induction opts)
  case Nil
  then show ?case by simp
next
  case (Cons x opts)
  then obtain b where b: "jget x ''default'' (JBool False) = Inr (JBool b)"
    by (auto simp: bool_default_def)
  then have "is_default x = b" by (simp add: is_default_def)
  with b Cons show ?case by (cases b) (auto simp: default_seen_True)
qed

lemma glance_one_default:
  assumes ok: "validate_glance_backends gf = Inr ()"
    and types: "jpath gf [''backends''] = Inr (JObj types)" and all: "backend_values types = Inr bs"
    and ne: "bs \<noteq> []" and bool: "list_all bool_default bs"
  shows "length (filter is_default bs) = 1"
proof -
  have "\<exists>r. default_seen (JBool False) bs = Inr r \<and> r \<noteq> JBool False"
    using ok ne unfolding validate_glance_backends_def types
    by (auto simp: all elim!: rbind_InrE simp del: jpath.simps)
  then show ?thesis using default_seen_False[OF bool] by simp
qed

end
