(* ===== verification/Merger.thy ===== *)
theory Merger
  imports PyValue
begin

text \<open>
  The deep merge of \<open>utils.py\<close>: the strategies the source defines (\<open>CustomListStrategies\<close>,
  \<open>TypeConflictFail\<close>) and the configuration of \<open>merger\<close>.  The dispatcher itself
  (\<open>deepmerge.Merger.value_strategy\<close>) is a third-party package: it is the parameter of the locale
  \<open>deepmerge\<close>, whose assumptions are its documented behaviour for this configuration (dictionaries
  key by key, lists by the list strategy, other values of one type overridden, other types to the
  conflict strategy).  What happens to a boolean merged with an integer is left open.
  \<open>value_strategy\<close> is one function with this behaviour; it interprets the locale and serves the
  witnesses.
\<close>

section \<open>The strategies of the source\<close>

text \<open>\<open>CustomListStrategies.strategy_merge\<close>: append what is not there yet.\<close>

fun list_strategy_merge :: "json list \<Rightarrow> json list \<Rightarrow> json list" where
  "list_strategy_merge base [] = base"
| "list_strategy_merge base (el # nxt) =
     list_strategy_merge (if list_ex (py_eq el) base then base else base @ [el]) nxt"

text \<open>\<open>TypeConflictFail.strategy_fail\<close>: numbers override each other, anything else fails.\<close>

fun is_number :: "json \<Rightarrow> bool" where
  "is_number (JFloat _) = True"
| "is_number (JInt _) = True"
| "is_number _ = False"

definition strategy_fail :: "string list \<Rightarrow> json \<Rightarrow> json \<Rightarrow> json res" where
  "strategy_fail path base nxt =
     (if is_number base \<and> is_number nxt then Inr nxt else Inl InvalidMerge)"

lemma list_strategy_merge_prefix: "\<exists>zs. list_strategy_merge base nxt = base @ zs \<and> set zs \<subseteq> set nxt"
proof (induction nxt arbitrary: base)
  case Nil
  then show ?case by simp
next
  case (Cons el nxt)
  show ?case
  proof (cases "list_ex (py_eq el) base")
    case True
    then show ?thesis using Cons[of base] by auto
  next
    case False
    then show ?thesis using Cons[of "base @ [el]"] by auto
  qed
qed

lemma list_strategy_merge_mem:
  "\<forall>x \<in> set nxt. jwf x \<Longrightarrow> el \<in> set nxt \<Longrightarrow> list_ex (py_eq el) (list_strategy_merge base nxt)"
proof (induction nxt arbitrary: base)
  case Nil
  then show ?case by simp
next
  case (Cons x nxt)
  let ?b = "if list_ex (py_eq x) base then base else base @ [x]"
  show ?case
  proof (cases "el = x")
    case True
    have "py_eq x x" using Cons.prems by (simp add: py_eq_refl)
    then have "list_ex (py_eq x) ?b" by simp
    moreover obtain zs where "list_strategy_merge ?b nxt = ?b @ zs"
      using list_strategy_merge_prefix by blast
    ultimately show ?thesis using True by simp
  next
    case False
    with Cons.prems have "el \<in> set nxt" "\<forall>x \<in> set nxt. jwf x" by auto
    then show ?thesis using Cons.IH by simp
  qed
qed

lemma list_strategy_merge_absorb:
  "\<forall>el \<in> set nxt. list_ex (py_eq el) base \<Longrightarrow> list_strategy_merge base nxt = base"
  by (induction nxt) auto

lemma list_strategy_merge_idem:
  "\<forall>x \<in> set nxt. jwf x \<Longrightarrow>
   list_strategy_merge (list_strategy_merge base nxt) nxt = list_strategy_merge base nxt"
  by (rule list_strategy_merge_absorb) (simp add: list_strategy_merge_mem)

lemma list_strategy_merge_self: "\<forall>x \<in> set xs. jwf x \<Longrightarrow> list_strategy_merge xs xs = xs"
proof (rule list_strategy_merge_absorb, rule ballI)
  fix el assume "\<forall>x \<in> set xs. jwf x" "el \<in> set xs"
  then show "list_ex (py_eq el) xs" by (auto simp: list_ex_iff intro: py_eq_refl)
qed

section \<open>The dispatcher\<close>

fun same_scalar_type :: "json \<Rightarrow> json \<Rightarrow> bool" where
  "same_scalar_type JNull JNull = True"
| "same_scalar_type (JBool _) (JBool _) = True"
| "same_scalar_type (JInt _) (JInt _) = True"
| "same_scalar_type (JFloat _) (JFloat _) = True"
| "same_scalar_type (JStr _) (JStr _) = True"
| "same_scalar_type _ _ = False"

text \<open>The types differ and neither is a subclass of the other, as \<open>bool\<close> is of \<open>int\<close>.\<close>

fun type_tag :: "json \<Rightarrow> nat" where
  "type_tag JNull = 0"
| "type_tag (JBool _) = 1"
| "type_tag (JInt _) = 2"
| "type_tag (JFloat _) = 3"
| "type_tag (JStr _) = 4"
| "type_tag (JList _) = 5"
| "type_tag (JObj _) = 6"

definition bool_and_int :: "json \<Rightarrow> json \<Rightarrow> bool" where
  "bool_and_int b n \<longleftrightarrow>
     type_tag b = 1 \<and> type_tag n = 2 \<or> type_tag b = 2 \<and> type_tag n = 1"

definition types_differ :: "json \<Rightarrow> json \<Rightarrow> bool" where
  "types_differ b n \<longleftrightarrow> type_tag b \<noteq> type_tag n \<and> \<not> bool_and_int b n"

text \<open>One key of the dictionary strategy, given how the values of a common key merge.\<close>

definition dict_step ::
  "(string \<Rightarrow> json \<Rightarrow> json \<Rightarrow> json res) \<Rightarrow> string \<times> json \<Rightarrow> jdict \<Rightarrow> jdict res" where
  "dict_step m kv acc =
     (case map_of acc (fst kv) of
        None \<Rightarrow> Inr (AList.update (fst kv) (snd kv) acc)
      | Some w \<Rightarrow> rbind (m (fst kv) w (snd kv)) (\<lambda>x. Inr (AList.update (fst kv) x acc)))"

locale deepmerge =
  fixes vs :: "string list \<Rightarrow> json \<Rightarrow> json \<Rightarrow> json res"
  assumes vs_dict: "vs p (JObj bd) (JObj nd) =
      rbind (rfold (dict_step (\<lambda>k. vs (p @ [k]))) nd bd) (\<lambda>d. Inr (JObj d))"
    and vs_list: "vs p (JList xs) (JList ys) = Inr (JList (list_strategy_merge xs ys))"
    and vs_same: "same_scalar_type b n \<Longrightarrow> vs p b n = Inr n"
    and vs_conflict: "types_differ b n \<Longrightarrow> vs p b n = strategy_fail p b n"
begin

text \<open>The loop over the keys of the second dictionary.\<close>

definition dict_loop :: "string list \<Rightarrow> jdict \<Rightarrow> jdict \<Rightarrow> jdict res" where
  "dict_loop p b n = rfold (dict_step (\<lambda>k. vs (p @ [k]))) n b"

lemma vs_dict_iff: "(vs p (JObj b) (JObj n) = Inr r) = (\<exists>d. dict_loop p b n = Inr d \<and> r = JObj d)"
  by (auto simp: vs_dict dict_loop_def res_simps)

lemma dict_loop_Nil [simp]: "dict_loop p b [] = Inr b"
  by (simp add: dict_loop_def)

lemma dict_loop_Cons:
  "dict_loop p b ((k, v) # n) =
     (case map_of b k of
        None \<Rightarrow> dict_loop p (AList.update k v b) n
      | Some w \<Rightarrow> rbind (vs (p @ [k]) w v) (\<lambda>x. dict_loop p (AList.update k x b) n))"
  by (auto simp: dict_loop_def dict_step_def rbind_assoc split: option.splits)

lemma dict_loop_ok: "dict_loop p b n = Inr r \<Longrightarrow> dict_ok b \<Longrightarrow> dict_ok r"
  by (induction n arbitrary: b) (auto simp: dict_loop_Cons res_simps split: option.splits)

lemma dict_loop_frame: "dict_loop p b n = Inr r \<Longrightarrow> k \<notin> set (keys n) \<Longrightarrow> map_of r k = map_of b k"
  by (induction n arbitrary: b) (auto simp: dict_loop_Cons res_simps split: option.splits)

lemma dict_loop_keys:
  "dict_loop p b n = Inr r \<Longrightarrow> set (keys r) = set (keys b) \<union> set (keys n)"
proof (induction n arbitrary: b)
  case Nil
  then show ?case by simp
next
  case (Cons kv n)
  obtain k v where kv: "kv = (k, v)" by (cases kv)
  show ?case
  proof (cases "map_of b k")
    case None
    with Cons kv show ?thesis by (simp add: dict_loop_Cons dom_update)
  next
    case (Some w)
    with Cons.prems kv obtain x where "dict_loop p (AList.update k x b) n = Inr r"
      by (auto simp: dict_loop_Cons res_simps)
    then have "set (keys r) = set (keys (AList.update k x b)) \<union> set (keys n)"
      by (rule Cons.IH)
    moreover have "k \<in> set (keys b)" using Some by (rule map_of_in_keys)
    ultimately show ?thesis using kv by (simp only: set_keys_update list.map fst_conv list.set) blast
  qed
qed

text \<open>What a key of the second dictionary ends with.\<close>

lemma dict_loop_at:
  assumes "dict_loop p b n = Inr r" and "dict_ok n" and "map_of n k = Some v"
  shows "\<exists>x. map_of r k = Some x \<and>
    (case map_of b k of None \<Rightarrow> x = v | Some w \<Rightarrow> vs (p @ [k]) w v = Inr x)"
  using assms
proof (induction n arbitrary: b)
  case Nil
  then show ?case by simp
next
  case (Cons kv n)
  obtain j u where kv: "kv = (j, u)" by (cases kv)
  show ?case
  proof (cases "j = k")
    case True
    with Cons.prems kv have "u = v" "k \<notin> set (keys n)" by auto
    then show ?thesis using Cons.prems(1) kv True
      by (auto simp: dict_loop_Cons res_simps split: option.splits dest!: dict_loop_frame)
  next
    case False
    with Cons.prems kv show ?thesis
      by (auto simp: dict_loop_Cons res_simps split: option.splits dest!: Cons.IH)
  qed
qed

text \<open>A path that ends in a plain value in the second argument ends in it in the result.\<close>

lemma vs_plain:
  "vs p w v = Inr x \<Longrightarrow> type_tag v < 5 \<Longrightarrow> \<not> bool_and_int w v \<Longrightarrow> x = v"
  using vs_same[of w v p] vs_conflict[of w v p]
  by (cases w; cases v) (auto simp: types_differ_def bool_and_int_def strategy_fail_def)

lemma vs_obj:
  assumes "vs p w (JObj n) = Inr x"
  shows "\<exists>b d. w = JObj b \<and> x = JObj d \<and> dict_loop p b n = Inr d"
proof (cases w)
  case (JObj b)
  with assms show ?thesis by (auto simp: vs_dict_iff)
qed (use assms vs_conflict[of w "JObj n" p] in \<open>auto simp: types_differ_def bool_and_int_def strategy_fail_def\<close>)

lemma vs_override:
  assumes "vs p b n = Inr r" and "jwf n" and "jlookup n ks = Some v"
    and "type_tag v < 5" and "\<And>w. jlookup b ks = Some w \<Longrightarrow> \<not> bool_and_int w v"
  shows "jlookup r ks = Some v"
  using assms
proof (induction ks arbitrary: p b n r)
  case Nil
  then show ?case by (auto dest: vs_plain)
next
  case (Cons k ks)
  obtain nd u where n: "n = JObj nd" "map_of nd k = Some u" "jlookup u ks = Some v"
    using Cons.prems(3) by (auto split: json.splits option.splits)
  with Cons.prems(1) obtain bd d where d: "b = JObj bd" "r = JObj d" "dict_loop p bd nd = Inr d"
    using vs_obj by blast
  have wf: "dict_ok nd" "jwf u" using Cons.prems(2) n jwf_map_of jwf_dict_ok by blast+
  obtain x where x: "map_of d k = Some x"
    "case map_of bd k of None \<Rightarrow> x = u | Some w \<Rightarrow> vs (p @ [k]) w u = Inr x"
    using dict_loop_at[OF d(3) wf(1) n(2)] by blast
  have "jlookup x ks = Some v"
  proof (cases "map_of bd k")
    case None
    with x n show ?thesis by simp
  next
    case (Some w)
    with x have m: "vs (p @ [k]) w u = Inr x" by simp
    have "\<not> bool_and_int y v" if "jlookup w ks = Some y" for y
      using Cons.prems(5) that d(1) Some by simp
    then show ?thesis by (rule Cons.IH[OF m wf(2) n(3) Cons.prems(4)])
  qed
  with d x show ?case by simp
qed

text \<open>A path on which the second argument is silent keeps the value of the first.\<close>

lemma vs_frame:
  assumes "vs p (JObj b) n = Inr r" and "jwf n"
    and "jlookup n ks = Some (JObj nd)" and "map_of nd k = None"
  shows "jlookup (JObj b) (ks @ k # ls) = Some v \<Longrightarrow> jlookup r (ks @ k # ls) = Some v"
  using assms
proof (induction ks arbitrary: p b n r)
  case Nil
  then have n: "n = JObj nd" by simp
  with Nil.prems(2) obtain d where "r = JObj d" "dict_loop p b nd = Inr d"
    using vs_obj by blast
  then have "map_of d k = map_of b k"
    using Nil.prems(5) by (auto dest!: dict_loop_frame simp: map_of_eq_None_iff)
  with Nil \<open>r = JObj d\<close> show ?case by (auto split: option.splits)
next
  case (Cons j ks)
  obtain md u where n: "n = JObj md" "map_of md j = Some u" "jlookup u ks = Some (JObj nd)"
    using Cons.prems(4) by (auto split: json.splits option.splits)
  with Cons.prems(2) obtain d where d: "r = JObj d" "dict_loop p b md = Inr d"
    using vs_obj by blast
  obtain w where w: "map_of b j = Some w" "jlookup w (ks @ k # ls) = Some v"
    using Cons.prems(1) by (auto split: option.splits)
  have wf: "dict_ok md" "jwf u" using Cons.prems(3) n jwf_map_of jwf_dict_ok by blast+
  obtain x where x: "map_of d j = Some x" "vs (p @ [j]) w u = Inr x"
    using dict_loop_at[OF d(2) wf(1) n(2)] w by auto
  have "\<exists>bd. u = JObj bd" using n(3) by (cases ks; cases u) auto
  with x(2) obtain wb where wb: "w = JObj wb" using vs_obj by blast
  have m: "vs (p @ [j]) (JObj wb) u = Inr x" and l: "jlookup (JObj wb) (ks @ k # ls) = Some v"
    using x(2) w(2) wb by auto
  have "jlookup x (ks @ k # ls) = Some v"
    by (rule Cons.IH[OF l m wf(2) n(3) Cons.prems(5)])
  with d x show ?case by simp
qed

end

section \<open>A dispatcher with the documented behaviour\<close>

function value_strategy :: "string list \<Rightarrow> json \<Rightarrow> json \<Rightarrow> json res"
  and value_strategy_dict :: "string list \<Rightarrow> jdict \<Rightarrow> jdict \<Rightarrow> jdict res" where
  "value_strategy p b n =
     (case n of
        JObj nd \<Rightarrow> (case b of
            JObj bd \<Rightarrow> rbind (value_strategy_dict p bd nd) (\<lambda>d. Inr (JObj d))
          | _ \<Rightarrow> strategy_fail p b n)
      | JList ys \<Rightarrow> (case b of
            JList xs \<Rightarrow> Inr (JList (list_strategy_merge xs ys))
          | _ \<Rightarrow> strategy_fail p b n)
      | _ \<Rightarrow> if types_differ b n then strategy_fail p b n else Inr n)"
| "value_strategy_dict p b [] = Inr b"
| "value_strategy_dict p b (kv # n) =
     (case map_of b (fst kv) of
        None \<Rightarrow> value_strategy_dict p (AList.update (fst kv) (snd kv) b) n
      | Some w \<Rightarrow> rbind (value_strategy (p @ [fst kv]) w (snd kv))
          (\<lambda>x. value_strategy_dict p (AList.update (fst kv) x b) n))"
  by pat_completeness auto
termination
  by (relation "measure (\<lambda>x. case x of Inl (p, b, n) \<Rightarrow> Suc (2 * size n)
        | Inr (p, b, n) \<Rightarrow> 2 * size_list (size_prod (\<lambda>_. 0) size) n)") auto

declare value_strategy.simps [simp del]

lemma value_strategy_dict_loop:
  "value_strategy_dict p b n = rfold (dict_step (\<lambda>k. value_strategy (p @ [k]))) n b"
  by (induction n arbitrary: b)
     (auto simp: dict_step_def rbind_assoc split: option.splits intro!: arg_cong2[of _ _ _ _ rbind])

interpretation merger: deepmerge value_strategy
proof unfold_locales
  fix p b n
  show "value_strategy p (JObj b) (JObj n) =
      rbind (rfold (dict_step (\<lambda>k. value_strategy (p @ [k]))) n b) (\<lambda>d. Inr (JObj d))"
    by (simp add: value_strategy.simps value_strategy_dict_loop)
next
  fix p xs ys
  show "value_strategy p (JList xs) (JList ys) = Inr (JList (list_strategy_merge xs ys))"
    by (simp add: value_strategy.simps)
next
  fix b n p
  assume "same_scalar_type b n"
  then show "value_strategy p b n = Inr n"
    by (cases b; cases n) (auto simp: value_strategy.simps types_differ_def bool_and_int_def)
next
  fix b n p
  assume "types_differ b n"
  then show "value_strategy p b n = strategy_fail p b n"
    by (cases b; cases n) (auto simp: value_strategy.simps types_differ_def bool_and_int_def)
qed

end
