(* ===== verification/Layers.thy ===== *)
theory Layers
  imports Merger Constants
begin

text \<open>
  \<open>layers.py\<close>: how the user's \<open>OpenStackDeployment\<close> is layered over presets and how the result is
  merged into the Helm releases of a service.  Rendering a Jinja template and parsing the YAML it
  gives is library code: a render function is an argument, and so is the deep merge (an argument
  \<open>vs\<close> with the laws of the locale \<open>deepmerge\<close>).  Values are immutable here: what the source gets by
  updating a dictionary in place is returned, and sharing between dictionaries that the merge
  library may introduce is not modelled.
\<close>

type_synonym merge_fun = "string list \<Rightarrow> json \<Rightarrow> json \<Rightarrow> json res"

section \<open>Exceptions of the handlers\<close>

text \<open>
  The decorator \<open>kopf_exception\<close>: errors in the user's input are permanent, everything else is
  retried.
\<close>

definition kopf_exception :: "'a res \<Rightarrow> 'a res" where
  "kopf_exception r =
     (case r of
        Inr x \<Rightarrow> Inr x
      | Inl e \<Rightarrow> Inl (case e of
          TemporaryError m \<Rightarrow> TemporaryError m
        | PermanentError m \<Rightarrow> PermanentError m
        | InvalidMerge \<Rightarrow> PermanentError ''DeepMerge Error''
        | YAMLError \<Rightarrow> PermanentError ''YAML error''
        | TemplateNotFound \<Rightarrow> PermanentError ''Template was not found''
        | TemplateSyntaxError \<Rightarrow> PermanentError ''Template has syntax error''
        | UndefinedError \<Rightarrow> TemporaryError ''Template tried to operate on undefined''
        | _ \<Rightarrow> TemporaryError ''Exception''))"

lemma kopf_exception_Inr [simp]: "(kopf_exception r = Inr x) = (r = Inr x)"
  by (auto simp: kopf_exception_def split: sum.splits)

lemma kopf_exception_kinds:
  "kopf_exception r = Inl e \<Longrightarrow> \<exists>m. e = TemporaryError m \<or> e = PermanentError m"
  by (auto simp: kopf_exception_def split: sum.splits py_exc.splits)

lemma kopf_exception_permanent:
  "(\<exists>m. kopf_exception r = Inl (PermanentError m)) =
     (\<exists>e. r = Inl e \<and> (e \<in> {InvalidMerge, YAMLError, TemplateNotFound, TemplateSyntaxError} \<or>
       (\<exists>m. e = PermanentError m)))"
  by (auto simp: kopf_exception_def split: sum.splits py_exc.splits)

section \<open>Enabled and deleted services\<close>

text \<open>One item of the kopf diff: the operation is not used, \<open>old\<close> or \<open>new\<close> may be None.\<close>

record diff_item =
  field_path :: "string list"
  old_value :: json
  new_value :: json

definition py_or :: "json \<Rightarrow> json \<Rightarrow> json" where
  "py_or x y = (if jtruthy x then x else y)"

fun services_to_delete :: "diff_item list \<Rightarrow> json set \<Rightarrow> json set res" where
  "services_to_delete [] to_delete = Inr to_delete"
| "services_to_delete (d # ds) to_delete =
     (if field_path d = [''spec'', ''features'', ''services''] then
        rbind (py_set (py_or (old_value d) (JList []))) (\<lambda>old.
        rbind (py_set (py_or (new_value d) (JList []))) (\<lambda>new.
        services_to_delete ds (old - new)))
      else services_to_delete ds to_delete)"

definition services :: "json \<Rightarrow> diff_item list \<Rightarrow> (json set \<times> json set) res" where
  "services mspec diff =
     rbind (jitem mspec ''features'') (\<lambda>features.
     rbind (jget features ''services'' (JList [])) (\<lambda>svcs.
     rbind (py_set svcs) (\<lambda>to_apply.
     rbind (services_to_delete diff {}) (\<lambda>to_delete. Inr (to_apply, to_delete)))))"

lemma services_to_delete_disjoint:
  assumes "services_to_delete ds acc = Inr del"
    and "\<forall>d \<in> set ds. field_path d = [''spec'', ''features'', ''services''] \<longrightarrow>
      py_set (py_or (new_value d) (JList [])) = Inr apply"
    and "acc \<inter> apply = {}"
  shows "del \<inter> apply = {}"
  using assms
proof (induction ds arbitrary: acc)
  case Nil
  then show ?case by simp
next
  case (Cons d ds)
  show ?case
  proof (cases "field_path d = [''spec'', ''features'', ''services'']")
    case True
    with Cons.prems obtain old where "services_to_delete ds (old - apply) = Inr del"
      by (auto simp: res_simps)
    moreover have "(old - apply) \<inter> apply = {}" by auto
    ultimately show ?thesis using Cons by auto
  next
    case False
    with Cons show ?thesis by auto
  qed
qed

lemma services_finite:
  assumes "services mspec diff = Inr (A, D)"
  shows "finite A \<and> finite D"
proof -
  have elems: "finite S" if "py_set j = Inr S" for j S using that by (cases j) (auto split: if_splits)
  have "finite D0 \<Longrightarrow> services_to_delete diff D0 = Inr D1 \<Longrightarrow> finite D1" for D0 D1
  proof (induction diff arbitrary: D0)
    case (Cons d ds)
    then show ?case by (auto simp: res_simps dest: elems split: if_splits)
  qed simp
  with assms elems show ?thesis by (auto simp: services_def res_simps)
qed

lemma services_to_delete_old:
  assumes "services_to_delete ds acc = Inr del" and "x \<in> del" and "acc = {}"
  shows "\<exists>d \<in> set ds. \<exists>old. field_path d = [''spec'', ''features'', ''services''] \<and>
    py_set (py_or (old_value d) (JList [])) = Inr old \<and> x \<in> old"
proof -
  have "x \<in> acc \<or> ?thesis" using assms(1,2)
    by (induction ds acc rule: services_to_delete.induct) (auto simp: res_simps split: if_splits)
  with assms(3) show ?thesis by simp
qed

section \<open>The layered specification\<close>

text \<open>What \<open>settings.py\<close> contributes to \<open>merge_spec\<close> and \<open>render_artifacts\<close>.\<close>

record layer_settings =
  os_namespace :: string
  binary_base_url :: string
  images_base_url :: string
  iam_data :: json

text \<open>The arguments of the preset template.\<close>

definition preset_args :: "layer_settings \<Rightarrow> json \<Rightarrow> json \<Rightarrow> jdict res" where
  "preset_args st spec os_release =
     rbind (jget spec ''features'' jempty) (\<lambda>features.
     rbind (jget features ''services'' (JList [])) (\<lambda>svcs.
     rbind (jpath features [''glance'', ''signature'']) (\<lambda>sig.
     rbind (jget sig ''enabled'' (JBool False)) (\<lambda>sig_enabled.
     rbind (jpath features [''ironic'', ''networks'', ''baremetal'']) (\<lambda>bm.
     rbind (jget bm ''network_type'' JNull) (\<lambda>nt.
     rbind (jpath features [''neutron'']) (\<lambda>neutron.
     rbind (jget neutron ''backend'' (JStr ''ml2'')) (\<lambda>backend.
     rbind (jpath features [''nova'', ''images'']) (\<lambda>images.
     rbind (jget images ''encryption'' jempty) (\<lambda>enc.
     rbind (jpath neutron [''dvr'']) (\<lambda>dvr.
     rbind (jget dvr ''enabled'' (JBool False)) (\<lambda>dvr_enabled.
       Inr [(''openstack_version'', os_release),
            (''openstack_namespace'', JStr (os_namespace st)),
            (''services'', svcs),
            (''signature_enabled'', sig_enabled),
            (''ironic_mt_enabled'', JBool (py_eq nt (JStr ''vlan''))),
            (''ovn_enabled'', JBool (py_eq backend (JStr ''ml2/ovn''))),
            (''nova_img_encrypt_enabled'', enc),
            (''neutron_dvr_enabled'', dvr_enabled)]))))))))))))"

definition iam_features :: "json \<Rightarrow> json res" where
  "iam_features iam =
     rbind (jin ''oidcCASecret'' iam) (\<lambda>has_ca.
     rbind (if has_ca then rbind (jitem iam ''oidcCASecret'') (\<lambda>ca. Inr [(''oidcCASecret'', ca)])
            else Inr [(''OIDCSSLValidateServer'', JBool False),
                      (''OIDCOAuthSSLValidateServer'', JBool False)]) (\<lambda>validate_server_opts.
     rbind (jitem iam ''url'') (\<lambda>url.
     rbind (jitem iam ''client'') (\<lambda>client.
       Inr (JObj [(''features'', JObj [(''keystone'', JObj [(''keycloak'', JObj
         [(''enabled'', JBool True), (''url'', url),
          (''oidc'', JObj ((''OIDCClientID'', client) # validate_server_opts))])])])])))))"

definition merge_spec ::
  "merge_fun \<Rightarrow> layer_settings \<Rightarrow> (json \<Rightarrow> jdict \<Rightarrow> json res) \<Rightarrow> (json \<Rightarrow> json res) \<Rightarrow> json \<Rightarrow> json res" where
  "merge_spec vs st render_preset render_size spec = kopf_exception (
     rbind (jitem spec ''preset'') (\<lambda>preset.
     rbind (jitem spec ''size'') (\<lambda>sz.
     rbind (jitem spec ''openstack_version'') (\<lambda>os_release.
     rbind (preset_args st spec os_release) (\<lambda>args.
     rbind (render_preset preset args) (\<lambda>base0.
     rbind (jset base0 ''artifacts'' (JObj [(''binary_base_url'', JStr (binary_base_url st)),
              (''images_base_url'', JStr (images_base_url st))])) (\<lambda>base1.
     rbind (render_size sz) (\<lambda>sizing.
     rbind (vs [] base1 sizing) (\<lambda>base2.
     rbind (jitem (iam_data st) ''enabled'') (\<lambda>iam_enabled.
     rbind (if jtruthy iam_enabled
            then rbind (iam_features (iam_data st)) (vs [] base2)
            else Inr base2) (\<lambda>base3.
     vs [] base3 spec)))))))))))"

text \<open>Whatever the user wrote wins over preset, size and IAM data.\<close>

lemma merge_spec_last:
  assumes "merge_spec vs st rp rs spec = Inr m"
  shows "\<exists>base. vs [] base spec = Inr m"
  using assms by (auto simp: merge_spec_def res_simps)

section \<open>Merging into the Helm releases\<close>

text \<open>
  \<open>merger.merge(rel[k], x)\<close>: the merge of two dictionaries updates \<open>rel[k]\<close> in place; the result of
  any other merge is not assigned by the source.
\<close>

definition merge_item :: "merge_fun \<Rightarrow> json \<Rightarrow> string \<Rightarrow> json \<Rightarrow> json res" where
  "merge_item vs rel k x =
     rbind (jitem rel k) (\<lambda>v.
     rbind (vs [] v x) (\<lambda>r. case r of JObj _ \<Rightarrow> jset rel k r | _ \<Rightarrow> Inr rel))"

definition spec_common :: "json \<Rightarrow> string \<Rightarrow> string \<Rightarrow> json res" where
  "spec_common spec grp what = jpath spec [''common'', grp, what]"

definition merge_group ::
  "merge_fun \<Rightarrow> json \<Rightarrow> string \<Rightarrow> string \<times> string list \<Rightarrow> json \<Rightarrow> json res" where
  "merge_group vs spec chart_name gc rel =
     (if chart_name \<in> set (snd gc) then
        rbind (spec_common spec (fst gc) ''releases'') (\<lambda>common_releases.
        rbind (jin chart_name common_releases) (\<lambda>mine.
        rbind (if mine then rbind (jitem common_releases chart_name) (vs [] rel)
               else vs [] rel common_releases) (\<lambda>rel1.
        rbind (spec_common spec (fst gc) ''values'') (merge_item vs rel1 ''values''))))
      else Inr rel)"

text \<open>The node overrides of one chart, grouped by daemonset: \<open>{ds: {"labels": {label: override}}}\<close>.\<close>

definition override_step ::
  "merge_fun \<Rightarrow> string \<Rightarrow> string \<times> json \<Rightarrow> jdict \<Rightarrow> jdict res" where
  "override_step vs label_tag dso acc =
     (let base = (case map_of acc (fst dso) of None \<Rightarrow> jempty | Some b \<Rightarrow> b)
      in rbind (vs [] base (JObj [(''labels'', JObj [(label_tag, snd dso)])])) (\<lambda>b.
         Inr (AList.update (fst dso) b acc)))"

definition node_overrides ::
  "merge_fun \<Rightarrow> string \<Rightarrow> string \<Rightarrow> string \<times> json \<Rightarrow> jdict \<Rightarrow> jdict res" where
  "node_overrides vs service chart_name lo acc =
     rbind (jpath (snd lo) [''services'', service, chart_name]) (\<lambda>daemonset_override.
     if jtruthy daemonset_override then
       rbind (jitems daemonset_override) (\<lambda>items. rfold (override_step vs (fst lo)) items acc)
     else Inr acc)"

text \<open>One release; its chart name is a string, as the rendered templates have it.\<close>

definition merge_release :: "merge_fun \<Rightarrow> string \<Rightarrow> json \<Rightarrow> json \<Rightarrow> json res" where
  "merge_release vs service spec release =
     rbind (jitem release ''chart'') (\<lambda>chart.
     rbind (jstr chart) (\<lambda>chart_name.
     rbind (spec_common spec ''charts'' ''releases'') (\<lambda>cr.
     rbind (vs [] release cr) (\<lambda>rel1.
     rbind (rfold (merge_group vs spec chart_name) CHART_GROUP_MAPPING rel1) (\<lambda>rel2.
     rbind (jpath spec [''services'', service, chart_name, ''values'']) (\<lambda>sv.
     rbind (merge_item vs rel2 ''values'' sv) (\<lambda>rel3.
     rbind (rbind (jpath spec [''nodes'']) jitems) (\<lambda>nodes.
     rbind (rfold (node_overrides vs service chart_name) nodes []) (\<lambda>overrides.
       if overrides \<noteq> [] then merge_item vs rel3 ''values'' (JObj [(''overrides'', JObj overrides)])
       else Inr rel3)))))))))"

text \<open>\<open>helmbundle["spec"]["releases"]\<close> and the same value put back.\<close>

definition helm_releases :: "json \<Rightarrow> json list res" where
  "helm_releases hb =
     rbind (jitem hb ''spec'') (\<lambda>s. rbind (jitem s ''releases'') jelems)"

definition set_helm_releases :: "json \<Rightarrow> json list \<Rightarrow> json res" where
  "set_helm_releases hb rels =
     rbind (jitem hb ''spec'') (\<lambda>s. rbind (jset s ''releases'' (JList rels)) (jset hb ''spec''))"

definition merge_osdpl_into_helmbundle ::
  "merge_fun \<Rightarrow> string \<Rightarrow> json \<Rightarrow> json \<Rightarrow> json res" where
  "merge_osdpl_into_helmbundle vs service spec hb =
     rbind (helm_releases hb) (\<lambda>rels.
     rbind (rmap (merge_release vs service spec) rels) (set_helm_releases hb))"

definition merge_service_layer :: "merge_fun \<Rightarrow> string \<Rightarrow> json \<Rightarrow> string \<Rightarrow> json \<Rightarrow> json res" where
  "merge_service_layer vs service spec kind data =
     rbind (jpath spec [''services'', service, kind]) (merge_item vs data ''spec'')"

section \<open>Artifacts and images\<close>

text \<open>
  \<open>render_artifacts\<close>: \<open>render\<close> renders the template of the release, \<open>custom\<close> is the parsed entry of
  the artifacts config map for it, None when there is no config map.
\<close>

definition render_artifacts ::
  "merge_fun \<Rightarrow> (json \<Rightarrow> json \<Rightarrow> json \<Rightarrow> json res) \<Rightarrow> (json \<Rightarrow> json res) option \<Rightarrow> json \<Rightarrow> json res" where
  "render_artifacts vs render custom spec =
     rbind (jitem spec ''openstack_version'') (\<lambda>os_release.
     rbind (jitem spec ''artifacts'') (\<lambda>a.
     rbind (jitem a ''images_base_url'') (\<lambda>iu.
     rbind (jitem a ''binary_base_url'') (\<lambda>bu.
     rbind (render os_release iu bu) (\<lambda>artifacts.
     case custom of
       None \<Rightarrow> Inr artifacts
     | Some cm \<Rightarrow> rbind (cm os_release) (\<lambda>c. vs [] artifacts (py_or c jempty)))))))"

definition merge_all_layers ::
  "merge_fun \<Rightarrow> (json \<Rightarrow> json res) \<Rightarrow> (string \<Rightarrow> json \<Rightarrow> json \<Rightarrow> json res) \<Rightarrow> string \<Rightarrow> json \<Rightarrow> json res" where
  "merge_all_layers vs artifacts render_service_template service mspec = kopf_exception (
     rbind (artifacts mspec) (\<lambda>images.
     rbind (render_service_template service mspec images) (\<lambda>hb.
     merge_osdpl_into_helmbundle vs service mspec hb)))"

section \<open>What the layers guarantee\<close>

lemma merge_item_values:
  assumes "merge_item vs rel k x = Inr rel'"
  shows "\<exists>v r. jitem rel k = Inr v \<and> vs [] v x = Inr r \<and>
    (case r of JObj _ \<Rightarrow> jset rel k r = Inr rel' | _ \<Rightarrow> rel' = rel)"
  using assms by (auto simp: merge_item_def res_simps split: json.splits)

lemma merge_item_frame:
  assumes "merge_item vs rel k x = Inr rel'" and "j \<noteq> k"
  shows "jitem rel' j = jitem rel j"
proof -
  from merge_item_values[OF assms(1)] obtain v r where
    "jitem rel k = Inr v" "case r of JObj _ \<Rightarrow> jset rel k r = Inr rel' | _ \<Rightarrow> rel' = rel" by blast
  then show ?thesis using assms(2) by (cases r; cases rel) auto
qed

text \<open>The number and order of the releases never change.\<close>

lemma set_helm_releases_get:
  "set_helm_releases hb rels = Inr hb' \<Longrightarrow> helm_releases hb' = Inr rels"
  by (cases hb) (auto simp: set_helm_releases_def helm_releases_def res_simps
      split: json.splits option.splits elim!: jset.elims)

lemma merge_osdpl_releases:
  assumes "merge_osdpl_into_helmbundle vs service spec hb = Inr hb'"
  shows "\<exists>rels rels'. helm_releases hb = Inr rels \<and> helm_releases hb' = Inr rels' \<and>
    list_all2 (\<lambda>r r'. merge_release vs service spec r = Inr r') rels rels'"
  using assms unfolding merge_osdpl_into_helmbundle_def
  by (auto simp: res_simps dest!: rmap_list_all2 set_helm_releases_get)

text \<open>
  The values a service asks for end up in its releases, over those of the chart, of the chart's group
  and of the rendered bundle; the node overrides live under a key of their own.
\<close>

lemma merge_item_override:
  assumes "deepmerge vs" and "merge_item vs rel k x = Inr rel'"
    and "jwf x" and "jlookup x ks = Some v" and "ks \<noteq> []" and "type_tag v \<in> {0, 3, 4}"
  shows "jlookup rel' (k # ks) = Some v"
proof -
  from merge_item_values[OF assms(2)] obtain w r where
    w: "jitem rel k = Inr w" "vs [] w x = Inr r"
      "case r of JObj _ \<Rightarrow> jset rel k r = Inr rel' | _ \<Rightarrow> rel' = rel" by blast
  obtain d where "x = JObj d" using assms(4,5) by (cases ks; cases x) auto
  then obtain rd where r: "r = JObj rd" using w(2) deepmerge.vs_obj[OF assms(1)] by blast
  have "jlookup r ks = Some v"
    by (rule deepmerge.vs_override[OF assms(1) w(2) assms(3,4)])
       (use assms(6) in \<open>auto simp: bool_and_int_def\<close>)
  with w(3) r show ?thesis by (cases rel) auto
qed

lemma merge_item_keeps:
  assumes "deepmerge vs" and "merge_item vs rel k (JObj nd) = Inr rel'"
    and "map_of nd j = None" and "jlookup rel (k # j # ls) = Some v"
  shows "jlookup rel' (k # j # ls) = Some v"
proof -
  from merge_item_values[OF assms(2)] obtain w r where
    w: "jitem rel k = Inr w" "vs [] w (JObj nd) = Inr r"
      "case r of JObj _ \<Rightarrow> jset rel k r = Inr rel' | _ \<Rightarrow> rel' = rel" by blast
  obtain b d where bd: "w = JObj b" "r = JObj d" "deepmerge.dict_loop vs [] b nd = Inr d"
    using deepmerge.vs_obj[OF assms(1) w(2)] by blast
  have "map_of d j = map_of b j"
    by (rule deepmerge.dict_loop_frame[OF assms(1) bd(3)]) (use assms(3) in \<open>simp add: map_of_eq_None_iff\<close>)
  with w bd assms(4) show ?thesis by (cases rel) (auto split: option.splits)
qed

lemma merge_release_values:
  assumes dm: "deepmerge vs" and run: "merge_release vs service spec rel = Inr rel'"
    and chart: "jitem rel ''chart'' = Inr (JStr chart_name)"
    and sv: "jpath spec [''services'', service, chart_name, ''values''] = Inr sv"
    and wf: "jwf sv" and look: "jlookup sv (k # ks) = Some v" and tag: "type_tag v \<in> {0, 3, 4}"
    and over: "k \<noteq> ''overrides''"
  shows "jlookup rel' (''values'' # k # ks) = Some v"
proof -
  from run chart sv obtain rel2 rel3 overrides where
    m: "merge_item vs rel2 ''values'' sv = Inr rel3"
      "(if overrides \<noteq> [] then merge_item vs rel3 ''values'' (JObj [(''overrides'', JObj overrides)])
        else Inr rel3) = Inr rel'"
    unfolding merge_release_def by (auto simp: res_simps simp del: jpath.simps)
  have l: "jlookup rel3 (''values'' # k # ks) = Some v"
    by (rule merge_item_override[OF dm m(1) wf look _ tag]) simp
  show ?thesis
  proof (cases "overrides = []")
    case True
    with m(2) l show ?thesis by simp
  next
    case False
    with m(2) have "merge_item vs rel3 ''values'' (JObj [(''overrides'', JObj overrides)]) = Inr rel'" by simp
    from merge_item_keeps[OF dm this _ l] over show ?thesis by simp
  qed
qed

end
