(* ===== verification/AdmissionController.thy ===== *)
theory AdmissionController
  imports AdmissionServices Layers
begin

text \<open>
  \<open>admission/controller.py\<close>: the webhook.  \<open>on_post\<close> answers an admission review: the validators it
  runs depend on the operation and on the services the merged specification enables, and only
  \<open>OsDplValidationFailed\<close> becomes a refusal; any other exception of a validator leaves the handler
  (the web framework then answers with a server error).  The request body, the JSON schemas, the
  merge of the layers and the order in which Python walks a set are arguments.
\<close>

datatype review_message = ParseFailed py_exc | Rejected reject

record ReviewResponse =
  api_version :: json
  uid :: json
  allowed :: bool
  status_code :: "int option"
  status_message :: "review_message option"

definition new_response :: ReviewResponse where
  "new_response = \<lparr>api_version = JStr [], uid = JStr [], allowed = True, status_code = None,
     status_message = None\<rparr>"

definition set_error :: "int \<Rightarrow> review_message \<Rightarrow> ReviewResponse \<Rightarrow> ReviewResponse" where
  "set_error code message r =
     r\<lparr>allowed := False, status_code := Some code, status_message := Some message\<rparr>"

text \<open>The JSON answer; \<open>text_of\<close> renders a message.\<close>

definition response_to_json :: "(review_message \<Rightarrow> string) \<Rightarrow> ReviewResponse \<Rightarrow> json" where
  "response_to_json text_of r =
     JObj [(''kind'', JStr ''AdmissionReview''), (''apiVersion'', api_version r),
       (''response'', JObj ([(''allowed'', JBool (allowed r)), (''uid'', uid r)] @
          (if \<not> allowed r then
             [(''status'', JObj
                [(''code'', case status_code r of None \<Rightarrow> JNull | Some c \<Rightarrow> JInt c),
                 (''message'', case status_message r of None \<Rightarrow> JNull | Some m \<Rightarrow> JStr (text_of m))])]
           else [])))]"

section \<open>Dispatch\<close>

record review_env =
  env_admission :: admission_env
  env_schema_ok :: "string \<Rightarrow> json \<Rightarrow> bool"
  env_review_ok :: "json \<Rightarrow> unit res"
  env_merge_spec :: "json \<Rightarrow> json res"
  env_set_order :: "json set \<Rightarrow> string list"

text \<open>The keys of \<open>_VALIDATORS\<close>, and the methods of each.\<close>

definition VALIDATORS :: "string list" where
  "VALIDATORS = [''key-manager'', ''database'', ''identity'', ''networking'', ''compute'',
     ''openstack'', ''nodes'', ''image'', ''baremetal'', ''block-storage'', ''shared-file-system'']"

definition run_validate :: "review_env \<Rightarrow> string \<Rightarrow> json \<Rightarrow> unit res" where
  "run_validate env service rr =
     (if service = ''openstack'' then openstack_validate (env_admission env) rr
      else if service = ''nodes'' then nodes_validate (env_schema_ok env) rr
      else if service = ''key-manager'' then barbican_validate rr
      else if service = ''database'' then database_validate rr
      else if service = ''identity'' then keystone_validate rr
      else if service = ''networking'' then neutron_validate (env_schema_ok env) rr
      else if service = ''compute'' then nova_validate rr
      else if service = ''image'' then glance_validate rr
      else if service = ''baremetal'' then ironic_validate rr
      else if service = ''block-storage'' then cinder_validate rr
      else if service = ''shared-file-system'' then manila_validate rr
      else Inl (KeyError service))"

definition run_validate_delete :: "review_env \<Rightarrow> string \<Rightarrow> json \<Rightarrow> unit res" where
  "run_validate_delete env service rr =
     (if service = ''openstack'' then openstack_validate_delete (env_admission env) rr else Inr ())"

definition enabled_validators :: "review_env \<Rightarrow> json \<Rightarrow> string list res" where
  "enabled_validators env review_request =
     rbind (jpath review_request [''object'', ''spec'']) (\<lambda>spec.
     rbind (validate_schema (env_schema_ok env) ''osdpl.yaml'' spec) (\<lambda>_.
     rbind (env_merge_spec env spec) (\<lambda>mspec.
     rbind (services mspec []) (\<lambda>(to_apply, _).
       Inr (env_set_order env (to_apply \<inter> JStr ` set VALIDATORS))))))"

definition review_osdpl :: "review_env \<Rightarrow> json \<Rightarrow> unit res" where
  "review_osdpl env review_request =
     rbind (jitem review_request ''operation'') (\<lambda>op.
     if py_eq op (JStr ''DELETE'') then
       rforeach (\<lambda>s. run_validate_delete env s review_request) [''openstack'', ''nodes'']
     else
       rbind (jget review_request ''subResource'' JNull) (\<lambda>sub.
       if py_eq sub (JStr ''status'') then openstack_validate_status (env_admission env) review_request
       else rbind (enabled_validators env review_request) (\<lambda>vs.
            rforeach (\<lambda>s. run_validate env s review_request) ([''openstack'', ''nodes''] @ vs))))"

definition parse_body :: "review_env \<Rightarrow> json res \<Rightarrow> ReviewResponse \<Rightarrow> json res \<times> ReviewResponse" where
  "parse_body env body =
     abind (alift body) (\<lambda>b.
     abind (alift (jget b ''apiVersion'' JNull)) (\<lambda>v.
     abind (amod (\<lambda>r. r\<lparr>api_version := v\<rparr>)) (\<lambda>_.
     abind (alift (jget b ''request'' jempty)) (\<lambda>rr.
     abind (alift (jget rr ''uid'' JNull)) (\<lambda>u.
     abind (amod (\<lambda>r. r\<lparr>uid := u\<rparr>)) (\<lambda>_.
     abind (alift (env_review_ok env b)) (\<lambda>_. aret rr)))))))"

definition on_post :: "review_env \<Rightarrow> json res \<Rightarrow> ReviewResponse res" where
  "on_post env body =
     (case parse_body env body new_response of
        (Inl e, r) \<Rightarrow> Inr (set_error 400 (ParseFailed e) r)
      | (Inr rr, r) \<Rightarrow>
          rbind (jpath_get rr [''kind''] ''kind'' JNull) (\<lambda>k.
          if py_eq k (JStr ''OpenStackDeployment'') then
            case review_osdpl env rr of
              Inr _ \<Rightarrow> Inr r
            | Inl (OsDplValidationFailed m) \<Rightarrow> Inr (set_error 400 (Rejected m) r)
            | Inl e \<Rightarrow> Inl e
          else Inr r))"

section \<open>What the answer means\<close>

lemma parse_body_allowed:
  "parse_body env body r = (x, r') \<Longrightarrow>
   allowed r' = allowed r \<and> status_code r' = status_code r \<and> status_message r' = status_message r"
proof -
  have "keeps (\<lambda>r. (allowed r, status_code r, status_message r)) (parse_body env body)"
    unfolding parse_body_def
    by (intro keeps_abind keeps_alift keeps_aret) (auto simp: keeps_def amod_def)
  moreover assume "parse_body env body r = (x, r')"
  ultimately show ?thesis by (auto dest: keepsD)
qed

lemma on_post_response:
  assumes "on_post env body = Inr r"
  shows "(allowed r \<longleftrightarrow> status_code r = None) \<and> (\<not> allowed r \<longrightarrow> status_code r = Some 400)"
proof -
  obtain p r0 where p: "parse_body env body new_response = (p, r0)" by fastforce
  from parse_body_allowed[OF p] have r0: "allowed r0" "status_code r0 = None"
    by (simp_all add: new_response_def)
  show ?thesis using assms p r0
    by (auto simp: on_post_def set_error_def split: sum.splits if_splits py_exc.splits elim!: rbind_InrE)
qed

lemma on_post_allows:
  assumes "parse_body env body new_response = (Inr rr, r0)"
    and "jpath_get rr [''kind''] ''kind'' JNull = Inr (JStr ''OpenStackDeployment'')"
  shows "(\<exists>r. on_post env body = Inr r \<and> allowed r) \<longleftrightarrow> review_osdpl env rr = Inr ()"
    and "(\<exists>r. on_post env body = Inr r \<and> \<not> allowed r) \<longleftrightarrow>
      (\<exists>m. review_osdpl env rr = Inl (OsDplValidationFailed m))"
proof -
  have r0: "allowed r0" using parse_body_allowed[OF assms(1)] by (simp add: new_response_def)
  have o': "on_post env body = (case review_osdpl env rr of
              Inr _ \<Rightarrow> Inr r0
            | Inl (OsDplValidationFailed m) \<Rightarrow> Inr (set_error 400 (Rejected m) r0)
            | Inl e \<Rightarrow> Inl e)"
    by (simp add: on_post_def assms)
  show "(\<exists>r. on_post env body = Inr r \<and> allowed r) \<longleftrightarrow> review_osdpl env rr = Inr ()"
    "(\<exists>r. on_post env body = Inr r \<and> \<not> allowed r) \<longleftrightarrow>
      (\<exists>m. review_osdpl env rr = Inl (OsDplValidationFailed m))"
    unfolding o' using r0 by (auto simp: set_error_def split: sum.splits py_exc.splits)
qed

text \<open>
  A review that passes ran the general checks and those of every enabled service that has a
  validator, whatever the order of the set.
\<close>

lemma review_runs_all:
  assumes ok: "review_osdpl env rr = Inr ()"
    and op: "jitem rr ''operation'' = Inr op" "\<not> py_eq op (JStr ''DELETE'')"
    and sub: "jget rr ''subResource'' JNull = Inr sub" "\<not> py_eq sub (JStr ''status'')"
    and spec: "jpath rr [''object'', ''spec''] = Inr spec"
    and m: "env_merge_spec env spec = Inr mspec"
    and s: "services mspec [] = Inr (to_apply, dels)"
    and order: "set (env_set_order env (to_apply \<inter> JStr ` set VALIDATORS)) =
      {w. JStr w \<in> to_apply \<and> w \<in> set VALIDATORS}"
  shows "openstack_validate (env_admission env) rr = Inr () \<and> nodes_validate (env_schema_ok env) rr = Inr () \<and>
    (\<forall>w. JStr w \<in> to_apply \<and> w \<in> set VALIDATORS \<longrightarrow> run_validate env w rr = Inr ())"
proof -
  from ok obtain vs where vs: "enabled_validators env rr = Inr vs"
    and all: "rforeach (\<lambda>s. run_validate env s rr) ([''openstack'', ''nodes''] @ vs) = Inr ()"
    unfolding review_osdpl_def op(1) rbind_Inr sub(1) using op(2) sub(2)
    by (auto simp del: rforeach.simps elim!: rbind_InrE)
  from vs have "set vs = {w. JStr w \<in> to_apply \<and> w \<in> set VALIDATORS}"
    unfolding enabled_validators_def spec rbind_Inr m s using order
    by (auto elim!: rbind_InrE)
  moreover have "\<forall>w \<in> set ([''openstack'', ''nodes''] @ vs). run_validate env w rr = Inr ()"
    using all unfolding rforeach_ok .
  moreover have "run_validate env ''openstack'' rr = openstack_validate (env_admission env) rr"
    "run_validate env ''nodes'' rr = nodes_validate (env_schema_ok env) rr"
    by (simp_all add: run_validate_def)
  ultimately show ?thesis by auto
qed

end
