(* ===== verification/Maintenance.thy ===== *)
theory Maintenance
  imports Constants
begin

text \<open>
  \<open>maintenance.py\<close> with the node part of \<open>kube.py\<close>: the workload locks of nodes and clusters, how
  many nodes may be in maintenance at a time, and the internal lock a handler takes.  The state is
  what the Kubernetes API stores: the nodes and the lock objects by name.  A call on an object that
  is not there fails with \<open>ApiError\<close>, as the API answers.  Calls of one handler run on one
  thread; what several handlers do together is in \<open>MaintenanceSteps\<close>.
\<close>

section \<open>The cluster\<close>

record node =
  labels :: "(string \<times> string) list"
  annotations :: "(string \<times> string) list"
  node_spec :: json
  node_ready :: bool

datatype lock_kind = ClusterWorkloadLock | NodeWorkloadLock

text \<open>
  One lock object: \<open>original_node\<close> and \<open>inner_state\<close> are its annotations, \<open>status\<close> is None until the
  first patch of the status.
\<close>

record lock =
  controllerName :: string
  nodeName :: "string option"
  nodeDeletionRequestSupported :: bool
  original_node :: "node option"
  inner_state :: "string option"
  status :: "(string \<times> string) list option"

type_synonym lock_key = "lock_kind \<times> string"

record osdpl_object =
  osdpl_name :: string
  osdpl_namespace :: string
  osdpl_state :: string
  osdpl_mspec :: "json res"

record pod =
  pod_name :: string
  pod_namespace :: string
  pod_node :: string
  pod_ready :: bool
  job_child :: bool

record cluster =
  nodes :: "(string \<times> node) list"
  pods :: "pod list"
  locks :: "(lock_key \<times> lock) list"
  osdpl :: "osdpl_object option"
  disable_notifications :: "string list"
  clock :: string

text \<open>What \<open>settings.py\<close> contributes.\<close>

record maintenance_conf =
  OSCTL_CLUSTER_RELEASE :: string
  OSCTL_OPENSTACK_NODE_LABELS :: "node_role \<Rightarrow> (string \<times> string) list"
  nwl_parallel_max_gateway :: nat
  nwl_parallel_max_compute :: nat

definition workload :: string where
  "workload = ''openstack''"

definition get_max_parallel_by_role :: "maintenance_conf \<Rightarrow> node_role \<Rightarrow> nat" where
  "get_max_parallel_by_role conf role =
     (case role of
        controller \<Rightarrow> 1
      | gateway \<Rightarrow> nwl_parallel_max_gateway conf
      | compute \<Rightarrow> nwl_parallel_max_compute conf)"

section \<open>Nodes\<close>

definition has_role :: "maintenance_conf \<Rightarrow> (string \<times> string) list \<Rightarrow> node_role \<Rightarrow> bool" where
  "has_role conf ls role =
     list_ex (\<lambda>(k, v). map_of ls k = Some v) (OSCTL_OPENSTACK_NODE_LABELS conf role)"

definition has_os_role :: "maintenance_conf \<Rightarrow> (string \<times> string) list \<Rightarrow> bool" where
  "has_os_role conf ls = list_ex (has_role conf ls) NodeRole_members"

lemma has_os_role_iff: "has_os_role conf ls = (\<exists>role. has_role conf ls role)"
  using NodeRole_members_all by (auto simp: has_os_role_def list_ex_iff)

text \<open>The names of the locks: the node of a lock is found back from its name.\<close>

definition nwl_name :: "string \<Rightarrow> string" where
  "nwl_name node_name = workload @ ''-'' @ node_name"

definition cwl_name :: "string \<Rightarrow> string" where
  "cwl_name name = workload @ ''-'' @ name"

definition node_of_lock_name :: "string \<Rightarrow> string" where
  "node_of_lock_name name = py_join ''-'' (tl (py_split CHR ''-'' name))"

lemma node_of_nwl_name [simp]: "node_of_lock_name (nwl_name n) = n"
proof -
  have "py_split CHR ''-'' (nwl_name n) = workload # py_split CHR ''-'' n"
    unfolding nwl_name_def by (simp add: py_split_append workload_def)
  then show ?thesis by (simp add: node_of_lock_name_def py_join_split)
qed

lemma nwl_name_inj [simp]: "(nwl_name a = nwl_name b) = (a = b)"
  by (simp add: nwl_name_def)

text \<open>
  \<open>kube.safe_get_node\<close>: the node, or what the lock remembers of it, or a dummy.  A node that does
  not exist has no labels.
\<close>

record node_view =
  view_name :: string
  node_exists :: bool
  view_labels :: "(string \<times> string) list"
  view_annotations :: "(string \<times> string) list"
  view_spec :: json
  view_ready :: bool

definition safe_get_node :: "'w cluster_scheme \<Rightarrow> string \<Rightarrow> node_view" where
  "safe_get_node c name =
     (case map_of (nodes c) name of
        Some n \<Rightarrow> \<lparr>view_name = name, node_exists = True, view_labels = labels n,
           view_annotations = annotations n, view_spec = node_spec n, view_ready = node_ready n\<rparr>
      | None \<Rightarrow>
          let original = Option.bind (map_of (locks c) (NodeWorkloadLock, nwl_name name)) original_node
          in \<lparr>view_name = name, node_exists = False, view_labels = [],
               view_annotations = (case original of None \<Rightarrow> [] | Some n \<Rightarrow> annotations n),
               view_spec = (case original of None \<Rightarrow> jempty | Some n \<Rightarrow> node_spec n),
               view_ready = False\<rparr>)"

lemma safe_get_node_exists [simp]:
  "node_exists (safe_get_node c name) = (map_of (nodes c) name \<noteq> None)"
  by (simp add: safe_get_node_def Let_def split: option.splits)

lemma safe_get_node_labels:
  "view_labels (safe_get_node c name) = (case map_of (nodes c) name of None \<Rightarrow> [] | Some n \<Rightarrow> labels n)"
  by (simp add: safe_get_node_def Let_def split: option.splits)

definition required_for_node :: "maintenance_conf \<Rightarrow> 'w cluster_scheme \<Rightarrow> string \<Rightarrow> bool" where
  "required_for_node conf c node_name = has_os_role conf (view_labels (safe_get_node c node_name))"

section \<open>Lock objects\<close>

definition dummy_lock :: "'w cluster_scheme \<Rightarrow> lock_key \<Rightarrow> lock" where
  "dummy_lock c key =
     (case fst key of
        ClusterWorkloadLock \<Rightarrow>
          \<lparr>controllerName = workload, nodeName = None, nodeDeletionRequestSupported = False,
           original_node = None, inner_state = None, status = None\<rparr>
      | NodeWorkloadLock \<Rightarrow>
          let node_name = node_of_lock_name (snd key) in
          \<lparr>controllerName = workload, nodeName = Some node_name, nodeDeletionRequestSupported = True,
           original_node = map_of (nodes c) node_name, inner_state = None, status = None\<rparr>)"

text \<open>
  \<open>merger.merge(self.obj, self.dummy(self.name))\<close>: the specification of the dummy wins, the
  annotations it does not set and the status stay.
\<close>

definition merge_lock :: "lock \<Rightarrow> lock \<Rightarrow> lock" where
  "merge_lock l d = l\<lparr>controllerName := controllerName d,
     nodeName := (case nodeName d of None \<Rightarrow> nodeName l | Some n \<Rightarrow> Some n),
     nodeDeletionRequestSupported := nodeDeletionRequestSupported d \<or> nodeDeletionRequestSupported l,
     original_node := (case original_node d of None \<Rightarrow> original_node l | Some n \<Rightarrow> Some n)\<rparr>"

definition read_lock :: "lock_key \<Rightarrow> ('w cluster_scheme, lock) act" where
  "read_lock key = (\<lambda>c. (case map_of (locks c) key of None \<Rightarrow> Inl (ApiError) | Some l \<Rightarrow> Inr l, c))"

definition put_lock :: "lock_key \<Rightarrow> lock \<Rightarrow> ('w cluster_scheme, unit) act" where
  "put_lock key l = amod (\<lambda>c. c\<lparr>locks := AList.update key l (locks c)\<rparr>)"

definition patch_lock :: "lock_key \<Rightarrow> (lock \<Rightarrow> lock) \<Rightarrow> ('w cluster_scheme, unit) act" where
  "patch_lock key f = abind (read_lock key) (\<lambda>l. put_lock key (f l))"

definition lock_exists :: "lock_key \<Rightarrow> ('w cluster_scheme, bool) act" where
  "lock_exists key = aget (\<lambda>c. map_of (locks c) key \<noteq> None)"

definition patch_status :: "string \<Rightarrow> string \<Rightarrow> lock \<Rightarrow> lock" where
  "patch_status k v l =
     l\<lparr>status := Some (AList.update k v (case status l of None \<Rightarrow> [] | Some s \<Rightarrow> s))\<rparr>"

definition unpatch_status :: "string \<Rightarrow> lock \<Rightarrow> lock" where
  "unpatch_status k l = l\<lparr>status := Some (AList.delete k (case status l of None \<Rightarrow> [] | Some s \<Rightarrow> s))\<rparr>"

definition set_state :: "lock_key \<Rightarrow> string \<Rightarrow> ('w cluster_scheme, unit) act" where
  "set_state key st = patch_lock key (patch_status ''state'' st)"

abbreviation set_state_active :: "lock_key \<Rightarrow> ('w cluster_scheme, unit) act" where
  "set_state_active key \<equiv> set_state key ''active''"

abbreviation set_state_inactive :: "lock_key \<Rightarrow> ('w cluster_scheme, unit) act" where
  "set_state_inactive key \<equiv> set_state key ''inactive''"

definition set_release :: "lock_key \<Rightarrow> string \<Rightarrow> ('w cluster_scheme, unit) act" where
  "set_release key r = patch_lock key (patch_status ''release'' r)"

definition lock_status :: "lock_key \<Rightarrow> ('w cluster_scheme, (string \<times> string) list) act" where
  "lock_status key = abind (read_lock key) (\<lambda>l.
     alift (case status l of None \<Rightarrow> Inl (KeyError ''status'') | Some s \<Rightarrow> Inr s))"

definition get_release :: "lock_key \<Rightarrow> ('w cluster_scheme, string option) act" where
  "get_release key = abind (lock_status key) (\<lambda>s. aret (map_of s ''release''))"

definition is_active :: "lock_key \<Rightarrow> ('w cluster_scheme, bool) act" where
  "is_active key = abind (lock_status key) (\<lambda>s.
     alift (case map_of s ''state'' of None \<Rightarrow> Inl (KeyError ''state'') | Some x \<Rightarrow> Inr (x = ''active'')))"

definition is_maintenance :: "lock_key \<Rightarrow> ('w cluster_scheme, bool) act" where
  "is_maintenance key = abind (read_lock key) (\<lambda>l. aret (inner_state l = Some ''active''))"

definition set_inner_state :: "lock_key \<Rightarrow> string \<Rightarrow> ('w cluster_scheme, unit) act" where
  "set_inner_state key st = patch_lock key (\<lambda>l. l\<lparr>inner_state := Some st\<rparr>)"

abbreviation set_inner_state_active :: "lock_key \<Rightarrow> ('w cluster_scheme, unit) act" where
  "set_inner_state_active key \<equiv> set_inner_state key ''active''"

abbreviation set_inner_state_inactive :: "lock_key \<Rightarrow> ('w cluster_scheme, unit) act" where
  "set_inner_state_inactive key \<equiv> set_inner_state key ''inactive''"

definition set_error_message :: "lock_key \<Rightarrow> string \<Rightarrow> ('w cluster_scheme, unit) act" where
  "set_error_message key msg = abind (aget clock) (\<lambda>timestamp.
     patch_lock key (patch_status ''errorMessage'' (timestamp @ '' '' @ msg)))"

definition unset_error_message :: "lock_key \<Rightarrow> ('w cluster_scheme, unit) act" where
  "unset_error_message key = patch_lock key (unpatch_status ''errorMessage'')"

text \<open>The two halves of \<open>present\<close>: create or refresh the object, then reset it for a new release.\<close>

definition ensure_object :: "lock_key \<Rightarrow> ('w cluster_scheme, unit) act" where
  "ensure_object key =
     abind (aget (\<lambda>c. (map_of (locks c) key, dummy_lock c key))) (\<lambda>(found, d).
     case found of
       None \<Rightarrow> athen (put_lock key d) (set_state_active key)
     | Some l \<Rightarrow> put_lock key (merge_lock l d))"

definition reset_for_release :: "maintenance_conf \<Rightarrow> lock_key \<Rightarrow> ('w cluster_scheme, unit) act" where
  "reset_for_release conf key =
     (if OSCTL_CLUSTER_RELEASE conf \<noteq> [] then
        abind (get_release key) (\<lambda>r.
        if r \<noteq> Some (OSCTL_CLUSTER_RELEASE conf) then
          athen (set_state_active key) (set_release key (OSCTL_CLUSTER_RELEASE conf))
        else aret ())
      else aret ())"

definition present :: "maintenance_conf \<Rightarrow> lock_key \<Rightarrow> ('w cluster_scheme, unit) act" where
  "present conf key = athen (ensure_object key) (reset_for_release conf key)"

definition absent :: "lock_key \<Rightarrow> ('w cluster_scheme, unit) act" where
  "absent key = amod (\<lambda>c. c\<lparr>locks := AList.delete key (locks c)\<rparr>)"

section \<open>How many nodes are in maintenance\<close>

text \<open>The node locks of this controller whose inner state is active, with the view of their node.\<close>

definition in_maintenance :: "lock \<Rightarrow> bool" where
  "in_maintenance l \<longleftrightarrow> inner_state l = Some ''active''"

definition get_all :: "'w cluster_scheme \<Rightarrow> (string \<times> lock) list" where
  "get_all c = map (\<lambda>(k, l). (snd k, l))
     (filter (\<lambda>(k, l). fst k = NodeWorkloadLock \<and> controllerName l = workload) (locks c))"

definition lock_node :: "'w cluster_scheme \<Rightarrow> string \<times> lock \<Rightarrow> (string \<times> node_view) res" where
  "lock_node c nl =
     (case nodeName (snd nl) of
        None \<Rightarrow> Inl (KeyError ''nodeName'')
      | Some n \<Rightarrow> Inr (fst nl, safe_get_node c n))"

definition maintenance_locks ::
  "maintenance_conf \<Rightarrow> ('w cluster_scheme, (node_role \<times> string list) list) act" where
  "maintenance_locks conf = abind (aget id) (\<lambda>c.
     abind (alift (rmap (lock_node c) (filter (\<lambda>nl. in_maintenance (snd nl)) (get_all c)))) (\<lambda>views.
     aret (map (\<lambda>role. (role, map fst (filter (\<lambda>(_, v). node_exists v \<and> has_role conf (view_labels v) role)
              views))) NodeRole_members)))"

definition can_handle_nmr :: "maintenance_conf \<Rightarrow> ('w cluster_scheme, bool) act" where
  "can_handle_nmr conf = abind (maintenance_locks conf) (\<lambda>active_locks.
     aret (list_all (\<lambda>(role, ls). \<not> length ls \<ge> get_max_parallel_by_role conf role) active_locks))"

definition acquire_internal_lock :: "maintenance_conf \<Rightarrow> lock_key \<Rightarrow> ('w cluster_scheme, unit) act" where
  "acquire_internal_lock conf key =
     abind (is_maintenance key) (\<lambda>m.
     abind (if m then aret True else can_handle_nmr conf) (\<lambda>ok.
     if \<not> ok then
       athen (set_error_message key ''Number of inactive NodeWorkloadLocks exceeds allowed concurrency'')
         (araise (TemporaryError ''Number of inactive NodeWorkloadLocks exceeds allowed concurrency''))
     else set_inner_state_active key))"

definition find_ndn :: "'w cluster_scheme \<Rightarrow> string \<Rightarrow> bool" where
  "find_ndn c node_name = list_ex (\<lambda>n. hd (py_split CHR ''.'' n) = node_name) (disable_notifications c)"

section \<open>The per-node options\<close>

datatype opt_value = OStr string | OInt int | OBool bool

definition cast_to_type :: "string \<Rightarrow> string \<Rightarrow> opt_value res" where
  "cast_to_type value ty =
     (if ty = ''string'' then Inr (OStr value)
      else if ty = ''int'' then rbind (py_int value) (\<lambda>i. Inr (OInt i))
      else if ty = ''bool'' then
        (if py_lower value \<in> set TRUE_STRINGS then Inr (OBool True)
         else if py_lower value \<in> set FALSE_STRINGS then Inr (OBool False) else Inl TypeError)
      else Inl TypeError)"

definition MAINTENANCE_DEFAULT_NODE_CONFIG :: "(string \<times> string \<times> string) list" where
  "MAINTENANCE_DEFAULT_NODE_CONFIG =
     [(''instance_migration_mode'', ''live'', ''string''), (''instance_migration_attempts'', ''3'', ''int'')]"

definition node_maintenance_config ::
  "(string \<times> string) list \<Rightarrow> (string \<times> opt_value) list res" where
  "node_maintenance_config anns =
     rmap (\<lambda>(opt_name, dflt, ty).
       let opt_val = (case map_of anns (''openstack.lcm.mirantis.com/'' @ opt_name) of
             None \<Rightarrow> dflt | Some v \<Rightarrow> v)
       in rbind (cast_to_type opt_val ty) (\<lambda>v. Inr (opt_name, v)))
       MAINTENANCE_DEFAULT_NODE_CONFIG"

section \<open>Lemmas on single calls\<close>

lemma read_lock_iff: "(read_lock key c = (Inr l, t)) = (map_of (locks c) key = Some l \<and> t = c)"
  by (auto simp: read_lock_def split: option.splits)

lemma patch_lock_iff:
  "(patch_lock key f c = (Inr u, t)) =
     (\<exists>l. map_of (locks c) key = Some l \<and> t = c\<lparr>locks := AList.update key (f l) (locks c)\<rparr>)"
  by (auto simp: patch_lock_def abind_eq_Inr read_lock_iff put_lock_def amod_def)

lemma patch_lock_keeps_nodes [intro]: "keeps nodes (patch_lock key f)"
  by (intro keepsI)
     (auto simp: patch_lock_def abind_def read_lock_def put_lock_def amod_def split: option.splits)

lemma patch_lock_total: "map_of (locks c) key = Some l \<Longrightarrow> \<exists>t. patch_lock key f c = (Inr (), t)"
  by (auto simp: patch_lock_iff)

lemma map_of_locks_patch:
  "patch_lock key f c = (Inr u, t) \<Longrightarrow> map_of (locks t) = (map_of (locks c))(key \<mapsto> f (the (map_of (locks c) key)))"
  by (auto simp: patch_lock_iff)

section \<open>What a call may change\<close>

text \<open>
  The part of a lock that decides about maintenance: everything but the error message, the release
  and the remembered node.  Calls that only report keep it.
\<close>

definition lock_state :: "lock \<Rightarrow> string option" where
  "lock_state l = Option.bind (status l) (\<lambda>s. map_of s ''state'')"

definition lock_core :: "lock \<Rightarrow> string \<times> string option \<times> string option \<times> string option" where
  "lock_core l = (controllerName l, nodeName l, inner_state l, lock_state l)"

definition cores :: "'w cluster_scheme \<Rightarrow> lock_key \<Rightarrow> (string \<times> string option \<times> string option \<times> string option) option" where
  "cores c key = map_option lock_core (map_of (locks c) key)"

definition state_of :: "'w cluster_scheme \<Rightarrow> lock_key \<Rightarrow> string option" where
  "state_of c key = Option.bind (map_of (locks c) key) lock_state"

definition inner_of :: "'w cluster_scheme \<Rightarrow> lock_key \<Rightarrow> string option" where
  "inner_of c key = Option.bind (map_of (locks c) key) inner_state"

lemma cores_determine: "cores c = cores d \<Longrightarrow> state_of c key = state_of d key \<and> inner_of c key = inner_of d key"
proof -
  assume "cores c = cores d"
  then have "cores c key = cores d key" by simp
  then show ?thesis
    by (cases "map_of (locks c) key"; cases "map_of (locks d) key")
       (auto simp: cores_def state_of_def inner_of_def lock_core_def)
qed

lemma patch_lock_cores:
  "patch_lock key f c = (Inr u, t) \<Longrightarrow>
   cores t = (cores c)(key := map_option (\<lambda>l. lock_core (f l)) (map_of (locks c) key))"
  by (rule ext) (auto simp: patch_lock_iff cores_def)

lemma patch_lock_keeps_cores:
  assumes "\<And>l. lock_core (f l) = lock_core l"
  shows "keeps cores (patch_lock key f)"
proof (rule keepsI)
  fix s r t assume "patch_lock key f s = (r, t)"
  then show "cores t = cores s"
    by (cases r) (auto simp: assms patch_lock_def abind_def read_lock_def put_lock_def amod_def cores_def
        fun_eq_iff split: option.splits)
qed

lemma set_error_message_keeps [intro]: "keeps cores (set_error_message key msg)"
  unfolding set_error_message_def
  by (intro keeps_abind keeps_aget patch_lock_keeps_cores)
     (auto simp: lock_core_def lock_state_def patch_status_def split: option.splits)

lemma map_of_delete_other: "k \<noteq> k' \<Longrightarrow> map_of (AList.delete k d) k' = map_of d k'"
  by (simp add: delete_conv')

lemma unset_error_message_keeps [intro]: "keeps cores (unset_error_message key)"
  unfolding unset_error_message_def
  by (intro patch_lock_keeps_cores)
     (auto simp: lock_core_def lock_state_def unpatch_status_def map_of_delete_other split: option.splits)

lemma read_lock_keeps [intro]: "keeps P (read_lock key)"
  by (auto simp: keeps_def read_lock_def)

lemma is_maintenance_keeps [intro]: "keeps P (is_maintenance key)"
  unfolding is_maintenance_def by (intro keeps_abind) auto

lemma lock_status_keeps [intro]: "keeps P (lock_status key)"
  unfolding lock_status_def by (intro keeps_abind) auto

lemma is_active_keeps [intro]: "keeps P (is_active key)"
  unfolding is_active_def by (intro keeps_abind) auto

lemma get_release_keeps [intro]: "keeps P (get_release key)"
  unfolding get_release_def by (intro keeps_abind) auto

lemma maintenance_locks_keeps [intro]: "keeps P (maintenance_locks conf)"
  unfolding maintenance_locks_def by (intro keeps_abind) auto

lemma can_handle_nmr_keeps [intro]: "keeps P (can_handle_nmr conf)"
  unfolding can_handle_nmr_def by (intro keeps_abind) auto

lemma set_state_cores:
  assumes "set_state key st c = (Inr u, t)"
  shows "state_of t key = Some st" and "inner_of t = inner_of c"
    and "\<And>k. k \<noteq> key \<Longrightarrow> cores t k = cores c k" and "nodes t = nodes c"
  using assms
  by (auto simp: set_state_def patch_lock_iff state_of_def inner_of_def cores_def lock_state_def
      patch_status_def fun_eq_iff)

lemma set_inner_state_cores:
  assumes "set_inner_state key st c = (Inr u, t)"
  shows "inner_of t key = Some st" and "state_of t = state_of c"
    and "\<And>k. k \<noteq> key \<Longrightarrow> cores t k = cores c k" and "nodes t = nodes c"
  using assms
  by (auto simp: set_inner_state_def patch_lock_iff state_of_def inner_of_def cores_def lock_state_def
      fun_eq_iff)

text \<open>
  Two states that agree on what the maintenance logic reads, and calls that never leave that class:
  services are required to be \<open>calm\<close>.
\<close>

definition same :: "'w cluster_scheme \<Rightarrow> 'w cluster_scheme \<Rightarrow> bool" where
  "same c t \<longleftrightarrow> nodes t = nodes c \<and> cores t = cores c \<and> (dict_ok (locks c) \<longrightarrow> dict_ok (locks t))"

definition calm :: "('w cluster_scheme, 'a) act \<Rightarrow> bool" where
  "calm m \<longleftrightarrow> (\<forall>c. same c (snd (m c)))"

lemma same_refl [simp]: "same c c"
  by (simp add: same_def)

lemma same_trans: "same a b \<Longrightarrow> same b c \<Longrightarrow> same a c"
  by (auto simp: same_def)

lemma calmD: "calm m \<Longrightarrow> m c = (r, t) \<Longrightarrow> same c t"
  by (metis calm_def snd_conv)

lemma calmI: "(\<And>c r t. m c = (r, t) \<Longrightarrow> same c t) \<Longrightarrow> calm m"
  by (simp add: calm_def) (metis prod.exhaust_sel)

lemma calm_cores: "calm m \<Longrightarrow> keeps cores m"
  by (simp add: calm_def keeps_def same_def)

lemma calm_aret [simp, intro]: "calm (aret x)"
  by (simp add: calm_def aret_def)

lemma calm_araise [simp, intro]: "calm (araise e)"
  by (simp add: calm_def araise_def)

lemma calm_aget [simp, intro]: "calm (aget f)"
  by (simp add: calm_def aget_def)

lemma calm_alift [simp, intro]: "calm (alift r)"
  by (simp add: calm_def alift_def)

lemma calm_abind [intro]:
  assumes "calm m" and "\<And>x. calm (f x)"
  shows "calm (abind m f)"
proof (rule calmI)
  fix c r t assume "abind m f c = (r, t)"
  then show "same c t"
    using assms by (cases r) (auto simp: abind_eq_Inr abind_eq_Inl dest: calmD intro: same_trans)
qed

lemma calm_atry [intro]:
  assumes "calm m" and "\<And>e. calm (h e)"
  shows "calm (atry m h)"
proof (rule calmI)
  fix c r t assume run: "atry m h c = (r, t)"
  obtain r' t' where m: "m c = (r', t')" by (cases "m c")
  then have "same c t'" using assms(1) calmD by blast
  with run m assms(2) show "same c t" by (cases r') (auto simp: atry_def dest: calmD intro: same_trans)
qed

lemma calm_aforeach [intro]: "(\<And>x. x \<in> set xs \<Longrightarrow> calm (f x)) \<Longrightarrow> calm (aforeach f xs)"
  by (induction xs) auto

lemma calm_amap [intro]: "(\<And>x. x \<in> set xs \<Longrightarrow> calm (f x)) \<Longrightarrow> calm (amap f xs)"
  by (induction xs) auto

lemma calm_if [intro]: "calm m \<Longrightarrow> calm n \<Longrightarrow> calm (if b then m else n)"
  by simp

lemma calm_option [intro]:
  "calm m \<Longrightarrow> (\<And>x. calm (n x)) \<Longrightarrow> calm (case o' of None \<Rightarrow> m | Some x \<Rightarrow> n x)"
  by (cases o') auto

lemma calm_list [intro]:
  "calm m \<Longrightarrow> (\<And>x r. calm (n x r)) \<Longrightarrow> calm (case l of [] \<Rightarrow> m | x # r \<Rightarrow> n x r)"
  by (cases l) auto

lemma calm_amod: "(\<And>c. same c (f c)) \<Longrightarrow> calm (amod f)"
  by (simp add: calm_def amod_def)

lemma calm_wait_until [intro]:
  assumes "calm cond" and "\<And>c. same c (tick c)"
  shows "calm (wait_until n tick cond)"
proof (induction n)
  case (Suc n)
  show ?case unfolding wait_until.simps
    by (intro calm_abind calm_if calm_aret calm_amod assms Suc)
qed simp

lemma calm_read_lock [intro]: "calm (read_lock key)"
  by (simp add: calm_def read_lock_def)

lemma calm_reads [intro]:
  "calm (lock_status key)" "calm (get_release key)" "calm (is_active key)" "calm (is_maintenance key)"
  "calm (maintenance_locks conf)" "calm (can_handle_nmr conf)"
  unfolding lock_status_def get_release_def is_active_def is_maintenance_def maintenance_locks_def
    can_handle_nmr_def by (intro calm_abind; auto)+

lemma patch_lock_calm:
  assumes "\<And>l. lock_core (f l) = lock_core l"
  shows "calm (patch_lock key f)"
proof (rule calmI)
  fix s r t assume "patch_lock key f s = (r, t)"
  then show "same s t"
    by (cases r) (auto simp: assms patch_lock_def abind_def read_lock_def put_lock_def amod_def cores_def
        same_def fun_eq_iff split: option.splits)
qed

lemma calm_messages [intro]:
  "calm (set_error_message key msg)" "calm (unset_error_message key)" "calm (set_release key r)"
proof -
  show "calm (set_error_message key msg)"
    unfolding set_error_message_def
    by (intro calm_abind calm_aget patch_lock_calm)
       (auto simp: lock_core_def lock_state_def patch_status_def split: option.splits)
  show "calm (unset_error_message key)"
    unfolding unset_error_message_def
    by (intro patch_lock_calm)
       (auto simp: lock_core_def lock_state_def unpatch_status_def map_of_delete_other split: option.splits)
  show "calm (set_release key r)"
    unfolding set_release_def
    by (intro patch_lock_calm)
       (auto simp: lock_core_def lock_state_def patch_status_def split: option.splits)
qed

end
