(* ===== verification/MaintenanceHandlers.thy ===== *)
theory MaintenanceHandlers
  imports Maintenance
begin

text \<open>
  The kopf handlers of \<open>controllers/maintenance.py\<close> and \<open>controllers/node.py\<close>, and the maintenance
  part of \<open>services/base.py\<close> they call.  A handler is one action on the cluster; the methods a service
  overrides are the fields of \<open>maintenance_mixin\<close>, and \<open>ORDERED_SERVICES\<close> is a list of services, each
  with or without a maintenance API.  The loops that sleep until nodes and pods are ready take a bound
  on the number of rounds and the change \<open>tick\<close> of the world during one sleep; running out of rounds
  is the outcome \<open>Waiting\<close>.
\<close>

section \<open>Requests and services\<close>

record request =
  req_node_name :: string
  req_scope :: string

record 's maintenance_mixin =
  remove_node_from_scheduling :: "node_view \<Rightarrow> ('s, unit) act"
  prepare_node_for_reboot :: "node_view \<Rightarrow> ('s, unit) act"
  prepare_node_after_reboot :: "node_view \<Rightarrow> ('s, unit) act"
  add_node_to_scheduling :: "node_view \<Rightarrow> ('s, unit) act"
  svc_can_handle_nmr :: "node_view \<Rightarrow> (node_role \<times> string list) list \<Rightarrow> ('s, bool) act"
  process_ndr :: "node_view \<Rightarrow> lock_key \<Rightarrow> ('s, unit) act"
  cleanup_metadata :: "lock_key \<Rightarrow> ('s, unit) act"
  cleanup_persistent_data :: "lock_key \<Rightarrow> ('s, unit) act"

text \<open>The methods of \<open>MaintenanceApiMixin\<close> that no service overrides, and its defaults.\<close>

definition is_reboot_possible :: "request \<Rightarrow> bool" where
  "is_reboot_possible nmr \<longleftrightarrow> req_scope nmr = ''os''"

definition process_nmr :: "'s maintenance_mixin \<Rightarrow> node_view \<Rightarrow> request \<Rightarrow> ('s, unit) act" where
  "process_nmr svc node nmr =
     athen (remove_node_from_scheduling svc node)
       (if is_reboot_possible nmr then prepare_node_for_reboot svc node else aret ())"

definition delete_nmr :: "'s maintenance_mixin \<Rightarrow> node_view \<Rightarrow> request \<Rightarrow> ('s, unit) act" where
  "delete_nmr svc node nmr =
     athen (prepare_node_after_reboot svc node) (add_node_to_scheduling svc node)"

definition mixin_default :: "'s maintenance_mixin" where
  "mixin_default =
     \<lparr>remove_node_from_scheduling = \<lambda>_. aret (), prepare_node_for_reboot = \<lambda>_. aret (),
      prepare_node_after_reboot = \<lambda>_. aret (), add_node_to_scheduling = \<lambda>_. aret (),
      svc_can_handle_nmr = \<lambda>_ _. aret True, process_ndr = \<lambda>_ _. aret (),
      cleanup_metadata = \<lambda>_. aret (), cleanup_persistent_data = \<lambda>_. aret ()\<rparr>"

type_synonym 's ordered_services = "(string \<times> 's maintenance_mixin option) list"

definition maintenance_services :: "'s ordered_services \<Rightarrow> 's maintenance_mixin list" where
  "maintenance_services svcs = List.map_filter snd svcs"

definition maintenance_node_name :: "request \<Rightarrow> string" where
  "maintenance_node_name body = hd (py_split CHR ''.'' (req_node_name body))"

definition nwl_key :: "string \<Rightarrow> lock_key" where
  "nwl_key node_name = (NodeWorkloadLock, nwl_name node_name)"

lemma nwl_key_inj [simp]: "(nwl_key a = nwl_key b) = (a = b)"
  by (simp add: nwl_key_def)

section \<open>Node maintenance requests\<close>

definition release_lock :: "lock_key \<Rightarrow> ('w cluster_scheme, unit) act" where
  "release_lock key = athen (set_state_inactive key) (unset_error_message key)"

definition take_lock :: "lock_key \<Rightarrow> ('w cluster_scheme, unit) act" where
  "take_lock key =
     athen (set_inner_state_inactive key) (athen (set_state_active key) (unset_error_message key))"

definition drain_services ::
  "maintenance_conf \<Rightarrow> 'w cluster_scheme maintenance_mixin list \<Rightarrow> node_view \<Rightarrow> request \<Rightarrow> lock_key \<Rightarrow>
   ('w cluster_scheme, unit) act" where
  "drain_services conf svcs node nmr key =
     abind (maintenance_locks conf) (\<lambda>active_locks.
     abind (amap (\<lambda>svc. svc_can_handle_nmr svc node active_locks) svcs) (\<lambda>services_can_handle_nmr.
     if \<not> list_all id services_can_handle_nmr then
       athen (set_error_message key ''Some services blocks nmr handling'')
         (araise (TemporaryError ''Some services blocks nmr handling''))
     else athen (set_inner_state_active key) (aforeach (\<lambda>svc. process_nmr svc node nmr) svcs)))"

definition node_maintenance_request_change_handler ::
  "maintenance_conf \<Rightarrow> (json \<Rightarrow> 'w cluster_scheme ordered_services) \<Rightarrow> request \<Rightarrow> ('w cluster_scheme, unit) act" where
  "node_maintenance_request_change_handler conf services body =
     (let node_name = maintenance_node_name body; key = nwl_key node_name in
     abind (aget (\<lambda>c. safe_get_node c node_name)) (\<lambda>node.
     if \<not> node_exists node then aret ()
     else abind (aget (\<lambda>c. required_for_node conf c node_name)) (\<lambda>required.
     if \<not> required then aret ()
     else
       athen (present conf key) (
       athen (acquire_internal_lock conf key) (
       abind (aget osdpl) (\<lambda>osdpl.
       case osdpl of
         None \<Rightarrow> release_lock key
       | Some o' \<Rightarrow>
           abind (alift (osdpl_mspec o')) (\<lambda>mspec.
           abind (is_active key) (\<lambda>active.
           athen (if active then
                    drain_services conf (maintenance_services (services mspec)) node body key
                  else aret ())
             (release_lock key)))))))))"

datatype outcome = Done | Waiting

definition node_is_ready :: "string \<Rightarrow> ('w cluster_scheme, bool) act" where
  "node_is_ready node_name = (\<lambda>c. (case map_of (nodes c) node_name of
       None \<Rightarrow> Inl (ApiError) | Some n \<Rightarrow> Inr (node_ready n), c))"

definition not_ready_pods :: "string \<Rightarrow> string \<Rightarrow> 'w cluster_scheme \<Rightarrow> string list" where
  "not_ready_pods node_name ns c =
     map pod_name (filter (\<lambda>p. \<not> job_child p \<and> \<not> pod_ready p)
       (filter (\<lambda>p. pod_node p = node_name \<and> pod_namespace p = ns) (pods c)))"

definition node_maintenance_request_delete_handler ::
  "maintenance_conf \<Rightarrow> (json \<Rightarrow> 'w cluster_scheme ordered_services) \<Rightarrow> nat \<Rightarrow>
   ('w cluster_scheme \<Rightarrow> 'w cluster_scheme) \<Rightarrow> request \<Rightarrow> ('w cluster_scheme, outcome) act" where
  "node_maintenance_request_delete_handler conf services rounds tick body =
     (let node_name = maintenance_node_name body; key = nwl_key node_name in
     abind (aget (\<lambda>c. safe_get_node c node_name)) (\<lambda>node.
     if \<not> node_exists node then athen (take_lock key) (aret Done)
     else abind (aget (\<lambda>c. required_for_node conf c node_name)) (\<lambda>required.
     if \<not> required then athen (absent key) (aret Done)
     else abind (aget osdpl) (\<lambda>osdpl.
     case osdpl of
       None \<Rightarrow> athen (take_lock key) (aret Done)
     | Some o' \<Rightarrow>
         abind (is_maintenance key) (\<lambda>m.
         if \<not> m then athen (take_lock key) (aret Done)
         else
           abind (wait_until rounds tick (node_is_ready node_name)) (\<lambda>ready.
           if \<not> ready then aret Waiting
           else
             abind (wait_until rounds tick
                      (aget (\<lambda>c. not_ready_pods node_name (osdpl_namespace o') c = []))) (\<lambda>pods_ok.
             if \<not> pods_ok then aret Waiting
             else
               abind (alift (osdpl_mspec o')) (\<lambda>mspec.
               athen (aforeach (\<lambda>svc. delete_nmr svc node body)
                        (rev (maintenance_services (services mspec))))
                 (athen (take_lock key) (aret Done))))))))))"

section \<open>Cluster maintenance requests\<close>

definition cluster_maintenance_request_change_handler ::
  "maintenance_conf \<Rightarrow> (json \<Rightarrow> ('w cluster_scheme, unit) act) \<Rightarrow> ('w cluster_scheme, unit) act" where
  "cluster_maintenance_request_change_handler conf wait_services_healthy =
     abind (aget osdpl) (\<lambda>osdpl.
     case osdpl of
       None \<Rightarrow> aret ()
     | Some o' \<Rightarrow>
         abind (alift (osdpl_mspec o')) (\<lambda>mspec.
         let cwl = (ClusterWorkloadLock, cwl_name (osdpl_name o')) in
         abind (get_release cwl) (\<lambda>r.
         if r \<noteq> Some (OSCTL_CLUSTER_RELEASE conf) then
           athen (set_error_message cwl ''Waitinging for cwl release'')
             (araise (TemporaryError ''Waitinging for cwl release''))
         else if osdpl_state o' \<noteq> ''APPLIED'' then
           athen (set_error_message cwl ''Waiting osdpl status APPLIED'')
             (araise (TemporaryError ''Waiting osdpl status APPLIED''))
         else abind (is_active cwl) (\<lambda>active.
         if \<not> active then aret ()
         else
           athen (set_error_message cwl ''Waiting for all OpenStack services are healthy.'') (
           athen (wait_services_healthy mspec) (release_lock cwl))))))"

definition cluster_maintenance_request_delete_handler :: "('w cluster_scheme, unit) act" where
  "cluster_maintenance_request_delete_handler =
     abind (aget osdpl) (\<lambda>osdpl.
     case osdpl of
       None \<Rightarrow> aret ()
     | Some o' \<Rightarrow>
         let cwl = (ClusterWorkloadLock, cwl_name (osdpl_name o')) in
         athen (set_state_active cwl) (unset_error_message cwl))"

section \<open>Deletion of nodes and of their locks\<close>

definition node_deletion_request_change_handler ::
  "(json \<Rightarrow> 'w cluster_scheme ordered_services) \<Rightarrow> request \<Rightarrow> ('w cluster_scheme, unit) act" where
  "node_deletion_request_change_handler services body =
     (let node_name = maintenance_node_name body; key = nwl_key node_name in
     abind (aget osdpl) (\<lambda>osdpl.
     athen
       (case osdpl of
          None \<Rightarrow> aret ()
        | Some o' \<Rightarrow>
            abind (alift (osdpl_mspec o')) (\<lambda>mspec.
            abind (aget (\<lambda>c. safe_get_node c node_name)) (\<lambda>node.
            if node_exists node then
              aforeach (\<lambda>svc. process_ndr svc node key) (rev (maintenance_services (services mspec)))
            else aret ())))
       (release_lock key)))"

text \<open>\<open>lock_name\<close> is \<open>body["metadata"]["name"]\<close>, the name of the deleted lock.\<close>

definition node_workloadlock_request_delete_handler ::
  "(json \<Rightarrow> 'w cluster_scheme ordered_services) \<Rightarrow> string \<Rightarrow> lock \<Rightarrow> ('w cluster_scheme, unit) act" where
  "node_workloadlock_request_delete_handler services lock_name body =
     abind (alift (case nodeName body of None \<Rightarrow> Inl (KeyError ''nodeName'') | Some n \<Rightarrow> Inr n)) (\<lambda>node_name.
     if controllerName body \<noteq> ''openstack'' then aret ()
     else abind (aget osdpl) (\<lambda>osdpl.
     case osdpl of
       None \<Rightarrow> aret ()
     | Some o' \<Rightarrow>
         abind (aget (\<lambda>c. safe_get_node c lock_name)) (\<lambda>node.
         if node_exists node then araise (TemporaryError ''The kubernetes node still exists'')
         else
           abind (alift (osdpl_mspec o')) (\<lambda>mspec.
           aforeach (\<lambda>svc. athen (cleanup_metadata svc (nwl_key node_name))
                               (cleanup_persistent_data svc (nwl_key node_name)))
             (rev (maintenance_services (services mspec)))))))"

definition node_disable_notification_delete_handler :: "string \<Rightarrow> ('w cluster_scheme, unit) act" where
  "node_disable_notification_delete_handler node_name =
     abind (aget (\<lambda>c. safe_get_node c node_name)) (\<lambda>node.
     if \<not> node_exists node then absent (nwl_key node_name) else aret ())"

section \<open>Nodes\<close>

definition node_change_handler :: "maintenance_conf \<Rightarrow> string \<Rightarrow> ('w cluster_scheme, unit) act" where
  "node_change_handler conf name =
     abind (aget (\<lambda>c. required_for_node conf c name)) (\<lambda>required.
     if required then present conf (nwl_key name) else absent (nwl_key name))"

definition node_delete_handler :: "string \<Rightarrow> ('w cluster_scheme, unit) act" where
  "node_delete_handler name =
     abind (aget (\<lambda>c. find_ndn c name)) (\<lambda>disabled.
     if \<not> disabled then absent (nwl_key name) else aret ())"

text \<open>
  The conditions of the event's node with their transition times, in seconds; \<open>now\<close> is the time of
  the call.  The last condition of type Ready counts; without one the node just changed.
\<close>

definition last_transition_time :: "int \<Rightarrow> (string \<times> int) list \<Rightarrow> int" where
  "last_transition_time now conditions =
     foldl (\<lambda>t (ty, ts). if ty = ''Ready'' then ts else t) now conditions"

definition remove_pods :: "string \<Rightarrow> string \<Rightarrow> ('w cluster_scheme, unit) act" where
  "remove_pods node_name ns = amod (\<lambda>c. c\<lparr>pods :=
     filter (\<lambda>p. \<not> (pod_node p = node_name \<and> pod_namespace p = ns)) (pods c)\<rparr>)"

definition node_status_update_handler ::
  "maintenance_conf \<Rightarrow> string \<Rightarrow> int \<Rightarrow> (node_view \<Rightarrow> ('w cluster_scheme, unit) act) \<Rightarrow> int \<Rightarrow> string \<Rightarrow>
   (string \<times> int) list \<Rightarrow> ('w cluster_scheme, unit) act" where
  "node_status_update_handler conf os_ns flapping_timeout handle_masakari_host_down now name conditions =
     abind (aget osdpl) (\<lambda>osdpl.
     if osdpl = None then aret ()
     else abind (node_is_ready name) (\<lambda>ready.
     if ready then aret ()
     else if now - flapping_timeout < last_transition_time now conditions then
       araise (TemporaryError ''This may be a flap'')
     else
       athen (remove_pods name os_ns) (
       abind (aget (\<lambda>c. safe_get_node c name)) (\<lambda>node.
       if has_role conf (view_labels node) compute then handle_masakari_host_down node
       else aret ()))))"

section \<open>The contract of a service\<close>

text \<open>
  What the handlers rely on: a service may report on the lock, it neither releases it nor changes
  its inner state.
\<close>

locale maintenance_service =
  fixes svc :: "'w cluster_scheme maintenance_mixin"
  assumes can_handle_nmr_calm: "calm (svc_can_handle_nmr svc node active_locks)"
    and remove_calm: "calm (remove_node_from_scheduling svc node)"
    and prepare_calm: "calm (prepare_node_for_reboot svc node)"
    and after_calm: "calm (prepare_node_after_reboot svc node)"
    and add_calm: "calm (add_node_to_scheduling svc node)"
    and ndr_calm: "calm (process_ndr svc node key)"
    and cleanup_metadata_calm: "calm (cleanup_metadata svc key)"
    and cleanup_data_calm: "calm (cleanup_persistent_data svc key)"
begin

lemma process_nmr_calm: "calm (process_nmr svc node nmr)"
  unfolding process_nmr_def by (intro calm_abind calm_if remove_calm prepare_calm calm_aret)

lemma delete_nmr_calm: "calm (delete_nmr svc node nmr)"
  unfolding delete_nmr_def by (intro calm_abind after_calm add_calm)

end

interpretation mixin_default: maintenance_service mixin_default
  by unfold_locales (auto simp: mixin_default_def)

definition services_ok :: "(json \<Rightarrow> 'w cluster_scheme ordered_services) \<Rightarrow> bool" where
  "services_ok services \<longleftrightarrow>
     (\<forall>mspec. \<forall>svc \<in> set (maintenance_services (services mspec)). maintenance_service svc)"

section \<open>Releasing and taking locks\<close>

lemma state_keeps: "keeps cores m \<Longrightarrow> keeps (\<lambda>c. state_of c key) m"
  using cores_determine by (metis (mono_tags, lifting) keeps_def)

lemma inner_keeps: "keeps cores m \<Longrightarrow> keeps (\<lambda>c. inner_of c key) m"
  using cores_determine by (metis (mono_tags, lifting) keeps_def)

lemma state_of_exists: "state_of c key = Some st \<Longrightarrow> map_of (locks c) key \<noteq> None"
  by (cases "map_of (locks c) key") (simp_all add: state_of_def)

lemma patch_fails: "patch_lock key f c = (Inl e, t) \<Longrightarrow> map_of (locks c) key = None \<and> t = c"
  by (auto simp: patch_lock_def abind_eq_Inl read_lock_def put_lock_def amod_def split: option.splits)

lemma set_state_fails: "set_state key st c = (Inl e, t) \<Longrightarrow> t = c"
  by (auto simp: set_state_def dest: patch_fails)

lemma unset_error_fails: "unset_error_message key c = (Inl e, t) \<Longrightarrow> map_of (locks c) key = None"
  by (auto simp: unset_error_message_def dest: patch_fails)

text \<open>Releasing either releases or leaves everything as it was.\<close>

lemma release_lock_ok:
  assumes "release_lock key c = (Inr u, t)"
  shows "state_of t key = Some ''inactive''" and "inner_of t = inner_of c"
    and "\<And>k. k \<noteq> key \<Longrightarrow> cores t k = cores c k"
proof -
  from assms obtain d where d: "set_state_inactive key c = (Inr (), d)"
    and t: "unset_error_message key d = (Inr u, t)"
    by (auto simp: release_lock_def abind_eq_Inr)
  have e: "cores t = cores d" using unset_error_message_keeps t by (rule keepsD)
  show "state_of t key = Some ''inactive''"
    using set_state_cores(1)[OF d] cores_determine[OF e] by simp
  show "inner_of t = inner_of c"
    using set_state_cores(2)[OF d] cores_determine[OF e] by (auto simp: fun_eq_iff)
  show "cores t k = cores c k" if "k \<noteq> key" for k
    using set_state_cores(3)[OF d that] e by simp
qed

lemma release_lock_fails:
  assumes "release_lock key c = (Inl e, t)"
  shows "t = c"
proof (rule ccontr)
  assume ne: "t \<noteq> c"
  with assms obtain d where d: "set_state_inactive key c = (Inr (), d)"
    and t: "unset_error_message key d = (Inl e, t)"
    unfolding release_lock_def abind_eq_Inl by (auto dest: set_state_fails)
  then show False using set_state_cores(1)[OF d] state_of_exists unset_error_fails by metis
qed

lemma take_lock_ok:
  assumes "take_lock key c = (Inr u, t)"
  shows "state_of t key = Some ''active''" and "inner_of t key = Some ''inactive''"
    and "\<And>k. k \<noteq> key \<Longrightarrow> cores t k = cores c k"
proof -
  from assms obtain d d' where d: "set_inner_state_inactive key c = (Inr (), d)"
    and d': "set_state_active key d = (Inr (), d')" and t: "unset_error_message key d' = (Inr u, t)"
    by (auto simp: take_lock_def abind_eq_Inr)
  have e: "cores t = cores d'" using unset_error_message_keeps t by (rule keepsD)
  show "state_of t key = Some ''active''"
    using set_state_cores(1)[OF d'] cores_determine[OF e] by simp
  show "inner_of t key = Some ''inactive''"
    using set_state_cores(2)[OF d'] set_inner_state_cores(1)[OF d] cores_determine[OF e] by simp
  show "cores t k = cores c k" if "k \<noteq> key" for k
    using set_state_cores(3)[OF d' that] set_inner_state_cores(3)[OF d that] e by simp
qed

section \<open>A failed handler releases nothing\<close>

definition unreleased :: "lock_key \<Rightarrow> 'w cluster_scheme \<Rightarrow> bool" where
  "unreleased key c \<longleftrightarrow> state_of c key \<noteq> Some ''inactive''"

lemma unreleased_keeps:
  "keeps cores m \<Longrightarrow> triple (unreleased key) m (\<lambda>_. unreleased key) (\<lambda>_. unreleased key)"
  by (rule triple_keeps[OF state_keeps[of m key]]) (simp_all add: unreleased_def)

lemma set_state_unreleased:
  "st \<noteq> ''inactive'' \<Longrightarrow>
   triple (unreleased key) (set_state key st) (\<lambda>_. unreleased key) (\<lambda>_. unreleased key)"
  by (rule tripleI) (auto simp: unreleased_def dest: set_state_cores(1) set_state_fails)

lemma set_inner_state_unreleased:
  "triple (unreleased key) (set_inner_state key st) (\<lambda>_. unreleased key) (\<lambda>_. unreleased key)"
  by (rule tripleI)
     (auto simp: unreleased_def set_inner_state_def dest: patch_fails
      dest!: set_inner_state_cores(2)[unfolded set_inner_state_def])

lemma dummy_lock_fresh [simp]: "status (dummy_lock c key) = None" "inner_state (dummy_lock c key) = None"
  by (auto simp: dummy_lock_def Let_def split: lock_kind.splits)

lemma merge_lock_keeps [simp]: "lock_state (merge_lock l d) = lock_state l"
    "inner_state (merge_lock l d) = inner_state l"
  by (simp_all add: merge_lock_def lock_state_def)

text \<open>Refreshing the object: an old lock keeps its states, a new one starts active.\<close>

definition ensured :: "'w cluster_scheme \<Rightarrow> lock_key \<Rightarrow> lock" where
  "ensured c key =
     (case map_of (locks c) key of
        None \<Rightarrow> patch_status ''state'' ''active'' (dummy_lock c key)
      | Some l \<Rightarrow> merge_lock l (dummy_lock c key))"

lemma ensure_object_eq:
  "ensure_object key c = (Inr (), c\<lparr>locks := AList.update key (ensured c key) (locks c)\<rparr>)"
  by (cases "map_of (locks c) key")
     (simp_all add: ensure_object_def ensured_def abind_def aget_def put_lock_def amod_def set_state_def
      patch_lock_def read_lock_def)

lemma ensure_object_states:
  assumes "ensure_object key c = (r, t)"
  shows "r = Inr ()"
    and "state_of t key = (if map_of (locks c) key = None then Some ''active'' else state_of c key)"
    and "inner_of t key = inner_of c key"
    and "\<And>k. k \<noteq> key \<Longrightarrow> cores t k = cores c k" and "nodes t = nodes c"
  using assms
  by (auto simp: ensure_object_eq state_of_def inner_of_def cores_def ensured_def
      patch_status_def lock_state_def[of "_\<lparr>status := _\<rparr>"] split: option.splits)

lemma ensure_object_unreleased:
  "triple (unreleased key) (ensure_object key) (\<lambda>_. unreleased key) (\<lambda>_. unreleased key)"
proof (rule tripleI)
  fix c u t assume "unreleased key c" and e: "ensure_object key c = (Inr u, t)"
  then show "unreleased key t"
    using ensure_object_states(2)[OF e] by (simp add: unreleased_def split: if_splits)
next
  fix c e t assume "ensure_object key c = (Inl e, t)"
  then show "unreleased key t" using ensure_object_states(1) by fastforce
qed

lemmas unreleased_rules =
  triple_seq triple_if triple_option triple_leaf unreleased_keeps set_state_unreleased
  set_inner_state_unreleased ensure_object_unreleased triple_aforeach triple_amap

lemma reset_for_release_unreleased:
  "triple (unreleased key) (reset_for_release conf key) (\<lambda>_. unreleased key) (\<lambda>_. unreleased key)"
  unfolding reset_for_release_def by (intro unreleased_rules) (auto intro: calm_cores)

lemma present_unreleased:
  "triple (unreleased key) (present conf key) (\<lambda>_. unreleased key) (\<lambda>_. unreleased key)"
  unfolding present_def by (intro unreleased_rules reset_for_release_unreleased)

lemma acquire_unreleased:
  "triple (unreleased key) (acquire_internal_lock conf key) (\<lambda>_. unreleased key) (\<lambda>_. unreleased key)"
  unfolding acquire_internal_lock_def by (intro unreleased_rules) auto

lemma drain_unreleased:
  assumes "\<forall>svc \<in> set svcs. maintenance_service svc"
  shows "triple (unreleased key) (drain_services conf svcs node nmr key)
    (\<lambda>_. unreleased key) (\<lambda>_. unreleased key)"
  unfolding drain_services_def
  by (intro unreleased_rules)
     (use assms in \<open>auto intro: calm_cores maintenance_service.can_handle_nmr_calm
        maintenance_service.process_nmr_calm\<close>)

lemma release_unreleased: "triple (unreleased key) (release_lock key) (\<lambda>_ _. True) (\<lambda>_. unreleased key)"
  by (rule tripleI) (auto dest: release_lock_fails)

text \<open>
  The node stays locked unless every service was drained: a run of the handler that ends with an
  exception, whichever, leaves the lock unreleased.
\<close>

lemma nmr_change_failure:
  assumes "services_ok services"
  shows "triple (unreleased (nwl_key (maintenance_node_name body)))
    (node_maintenance_request_change_handler conf services body) (\<lambda>_ _. True)
    (\<lambda>_. unreleased (nwl_key (maintenance_node_name body)))"
proof -
  have svc: "\<forall>svc \<in> set (maintenance_services (services mspec)). maintenance_service svc" for mspec
    using assms by (simp add: services_ok_def)
  show ?thesis
    unfolding node_maintenance_request_change_handler_def Let_def
    by (intro unreleased_rules present_unreleased acquire_unreleased drain_unreleased[OF svc]
        release_unreleased triple_conseq[OF triple_leaf(1)]) auto
qed

section \<open>A successful handler\<close>

definition held :: "lock_key \<Rightarrow> 'w cluster_scheme \<Rightarrow> bool" where
  "held key c \<longleftrightarrow> inner_of c key = Some ''active''"

lemma held_keeps: "keeps cores m \<Longrightarrow> triple (held key) m (\<lambda>_. held key) (\<lambda>_ _. True)"
  by (rule triple_conseq[OF triple_keeps[OF inner_keeps[of m key], of "held key"]])
     (simp_all add: held_def)

lemma set_inner_held: "triple P (set_inner_state_active key) (\<lambda>_. held key) (\<lambda>_ _. True)"
  by (rule tripleI) (auto simp: held_def dest: set_inner_state_cores(1))

lemma acquire_held: "triple P (acquire_internal_lock conf key) (\<lambda>_. held key) (\<lambda>_ _. True)"
  unfolding acquire_internal_lock_def
  by (rule triple_abind[OF triple_any]) (rule triple_abind[OF triple_any],
      rule triple_if, rule triple_abind[OF triple_any], auto intro: triple_araise set_inner_held)

lemmas held_rules = triple_seq triple_if triple_option held_keeps triple_aforeach triple_amap

lemma held_leaf:
  "triple (held key) (aret x) (\<lambda>_. held key) (\<lambda>_ _. True)"
  "triple (held key) (aget f) (\<lambda>_. held key) (\<lambda>_ _. True)"
  "triple (held key) (alift r) (\<lambda>_. held key) (\<lambda>_ _. True)"
  "triple (held key) (araise e) Q (\<lambda>_ _. True)"
  by (auto intro: triple_aret triple_aget triple_alift triple_araise)

lemma drain_held:
  assumes "\<forall>svc \<in> set svcs. maintenance_service svc"
  shows "triple (held key) (drain_services conf svcs node nmr key) (\<lambda>_. held key) (\<lambda>_ _. True)"
  unfolding drain_services_def
  by (intro held_rules held_leaf set_inner_held)
     (use assms in \<open>auto intro: calm_cores maintenance_service.can_handle_nmr_calm
        maintenance_service.process_nmr_calm\<close>)

lemma release_held:
  "triple (held key) (release_lock key)
     (\<lambda>_ c. state_of c key = Some ''inactive'' \<and> held key c) (\<lambda>_ _. True)"
  by (rule tripleI) (auto simp: held_def release_lock_ok)

text \<open>
  When the handler returns for a node with an OpenStack role, the lock is released and the node is
  marked as in maintenance.
\<close>

lemma nmr_change_success:
  assumes "services_ok services"
  shows "triple (\<lambda>c. map_of (nodes c) (maintenance_node_name body) \<noteq> None \<and>
        required_for_node conf c (maintenance_node_name body))
    (node_maintenance_request_change_handler conf services body)
    (\<lambda>_ c. state_of c (nwl_key (maintenance_node_name body)) = Some ''inactive'' \<and>
        held (nwl_key (maintenance_node_name body)) c) (\<lambda>_ _. True)"
    (is "triple ?P ?h ?Q _")
proof -
  have svc: "\<forall>svc \<in> set (maintenance_services (services mspec)). maintenance_service svc" for mspec
    using assms by (simp add: services_ok_def)
  have rest: "triple (held (nwl_key (maintenance_node_name body)))
      (abind (aget osdpl) (\<lambda>osdpl. case osdpl of
         None \<Rightarrow> release_lock (nwl_key (maintenance_node_name body))
       | Some o' \<Rightarrow>
           abind (alift (osdpl_mspec o')) (\<lambda>mspec.
           abind (is_active (nwl_key (maintenance_node_name body))) (\<lambda>active.
           athen (if active then drain_services conf (maintenance_services (services mspec)) node body
                    (nwl_key (maintenance_node_name body))
                  else aret ())
             (release_lock (nwl_key (maintenance_node_name body)))))))
      ?Q (\<lambda>_ _. True)" for node
    by (intro held_rules held_leaf drain_held[OF svc] release_held) auto
  show ?thesis
    unfolding node_maintenance_request_change_handler_def Let_def
    apply (rule triple_abind[where R = "\<lambda>node c. node_exists node \<and> ?P c"])
     apply (rule triple_aget, simp)
    apply (rule triple_if)
     apply (rule triple_aret, simp)
    apply (rule triple_abind[where R = "\<lambda>req _. req"])
     apply (rule triple_aget, simp)
    apply (rule triple_if)
     apply (rule triple_aret, simp)
    apply (rule triple_abind[OF triple_any], rule triple_abind[OF acquire_held], rule rest)
    done
qed

section \<open>The end of maintenance\<close>

lemma take_lock_triple:
  "triple P (athen (take_lock key) (aret Done))
     (\<lambda>_ c. state_of c key = Some ''active'' \<and> inner_of c key = Some ''inactive'') (\<lambda>_ _. True)"
  by (rule tripleI) (auto simp: abind_eq_Inr aret_def take_lock_ok)

text \<open>A finished handler leaves the lock active and the node out of maintenance, or no lock at all.\<close>

lemma nmr_delete_done:
  "triple (\<lambda>_. True) (node_maintenance_request_delete_handler conf services rounds tick body)
     (\<lambda>r c. r = Done \<longrightarrow>
        map_of (locks c) (nwl_key (maintenance_node_name body)) = None \<or>
        state_of c (nwl_key (maintenance_node_name body)) = Some ''active'' \<and>
        inner_of c (nwl_key (maintenance_node_name body)) = Some ''inactive'') (\<lambda>_ _. True)"
    (is "triple _ _ ?Q _")
proof -
  let ?key = "nwl_key (maintenance_node_name body)"
  have t: "triple P (athen (take_lock ?key) (aret Done)) ?Q (\<lambda>_ _. True)" for P
    by (rule triple_conseq[OF take_lock_triple[of P ?key]]) auto
  have a: "triple P (athen (absent ?key) (aret Done)) ?Q (\<lambda>_ _. True)" for P
    by (rule tripleI) (auto simp: abind_def aret_def absent_def amod_def delete_conv')
  have w: "triple P (aret Waiting) ?Q (\<lambda>_ _. True)" for P
    by (rule triple_aret) simp
  show ?thesis
    unfolding node_maintenance_request_delete_handler_def Let_def
    by (intro t a w triple_if triple_option triple_skip)
qed

section \<open>Deleting a lock\<close>

text \<open>
  The check that the node is gone looks for a node with the name of the lock.  Unless there is such a
  node, the metadata and the persistent data are removed whether or not the node of the lock exists.
\<close>

lemma nwl_delete_no_guard:
  assumes "nodeName body = Some n" and "controllerName body = ''openstack''"
    and "osdpl c = Some o'" and "osdpl_mspec o' = Inr mspec" and "map_of (nodes c) (nwl_name n) = None"
  shows "node_workloadlock_request_delete_handler services (nwl_name n) body c =
    aforeach (\<lambda>svc. athen (cleanup_metadata svc (nwl_key n)) (cleanup_persistent_data svc (nwl_key n)))
      (rev (maintenance_services (services mspec))) c"
  using assms by (simp add: node_workloadlock_request_delete_handler_def abind_aget_at abind_alift_at)

end
