(* ===== verification/MaintenanceSteps.thy ===== *)
theory MaintenanceSteps
  imports MaintenanceHandlers
begin

text \<open>
  The handlers together.  Several node maintenance requests are handled at once, one thread each;
  only \<open>acquire_internal_lock\<close> runs under \<open>MAINTENANCE_LOCK\<close>.  The step relation interleaves the
  pieces of the handlers that run without another call in between; the invariant is that for every
  role at most the configured number of nodes is in maintenance.  The nodes and their labels do not
  change during a run.
\<close>

section \<open>Counting the nodes in maintenance\<close>

definition maintained :: "maintenance_conf \<Rightarrow> 'w cluster_scheme \<Rightarrow> node_role \<Rightarrow> string set" where
  "maintained conf c role =
     {name. \<exists>l n nd. map_of (locks c) (NodeWorkloadLock, name) = Some l \<and> controllerName l = workload \<and>
        in_maintenance l \<and> nodeName l = Some n \<and> map_of (nodes c) n = Some nd \<and>
        has_role conf (labels nd) role}"

definition within_limits :: "maintenance_conf \<Rightarrow> 'w cluster_scheme \<Rightarrow> bool" where
  "within_limits conf c \<longleftrightarrow>
     (\<forall>role. card (maintained conf c role) \<le> get_max_parallel_by_role conf role)"

lemma rmap_lock_node:
  "rmap (lock_node c) xs = Inr vs \<Longrightarrow>
   (\<forall>x \<in> set xs. nodeName (snd x) \<noteq> None) \<and>
   vs = map (\<lambda>x. (fst x, safe_get_node c (the (nodeName (snd x))))) xs"
proof (induction xs arbitrary: vs)
  case Nil
  then show ?case by simp
next
  case (Cons x xs)
  then show ?case by (auto simp: lock_node_def elim!: rbind_InrE split: option.splits)
qed

lemma filter_kind_distinct:
  "distinct (map fst d) \<Longrightarrow> distinct (map (\<lambda>x. snd (fst x)) (filter (\<lambda>x. fst (fst x) = k \<and> P x) d))"
  by (induction d) (auto simp: image_iff prod_eq_iff)

lemma get_all_eq: "get_all c = map (\<lambda>x. (snd (fst x), snd x))
    (filter (\<lambda>x. fst (fst x) = NodeWorkloadLock \<and> controllerName (snd x) = workload) (locks c))"
  by (simp add: get_all_def case_prod_unfold)

lemma get_all_distinct: "dict_ok (locks c) \<Longrightarrow> distinct (map fst (get_all c))"
  by (simp add: get_all_eq dict_ok_def comp_def filter_kind_distinct)

lemma get_all_mem:
  "dict_ok (locks c) \<Longrightarrow>
   ((name, l) \<in> set (get_all c)) =
     (map_of (locks c) (NodeWorkloadLock, name) = Some l \<and> controllerName l = workload)"
  by (auto simp: get_all_eq dict_ok_def image_iff intro: map_of_is_SomeI dest: map_of_SomeD)

definition counts :: "maintenance_conf \<Rightarrow> 'w cluster_scheme \<Rightarrow> node_role \<Rightarrow> string \<times> lock \<Rightarrow> bool" where
  "counts conf c role nl \<longleftrightarrow>
     in_maintenance (snd nl) \<and>
     (case nodeName (snd nl) of
        None \<Rightarrow> False
      | Some n \<Rightarrow> (case map_of (nodes c) n of None \<Rightarrow> False | Some nd \<Rightarrow> has_role conf (labels nd) role))"

lemma counts_iff:
  "counts conf c role nl \<longleftrightarrow> in_maintenance (snd nl) \<and>
     (\<exists>n nd. nodeName (snd nl) = Some n \<and> map_of (nodes c) n = Some nd \<and> has_role conf (labels nd) role)"
  by (cases "nodeName (snd nl)") (auto simp: counts_def split: option.splits)

lemma maintenance_locks_eq:
  assumes "maintenance_locks conf c = (Inr ls, t)"
  shows "ls = map (\<lambda>role. (role, map fst (filter (counts conf c role) (get_all c)))) NodeRole_members"
    and "t = c"
proof -
  let ?xs = "filter (\<lambda>nl. in_maintenance (snd nl)) (get_all c)"
  from assms obtain vs where vs: "rmap (lock_node c) ?xs = Inr vs"
    and ls: "ls = map (\<lambda>role. (role, map fst (filter (\<lambda>(_, v). node_exists v \<and>
       has_role conf (view_labels v) role) vs))) NodeRole_members" and t: "t = c"
    by (auto simp: maintenance_locks_def abind_eq_Inr aget_def alift_def aret_def)
  show "t = c" by (rule t)
  from rmap_lock_node[OF vs] have all: "\<forall>x \<in> set ?xs. nodeName (snd x) \<noteq> None"
    and v: "vs = map (\<lambda>x. (fst x, safe_get_node c (the (nodeName (snd x))))) ?xs" by auto
  have "map fst (filter (\<lambda>(_, v). node_exists v \<and> has_role conf (view_labels v) role) vs) =
      map fst (filter (counts conf c role) (get_all c))" for role
  proof -
    have "filter (\<lambda>x. node_exists (safe_get_node c (the (nodeName (snd x)))) \<and>
        has_role conf (view_labels (safe_get_node c (the (nodeName (snd x))))) role) ?xs =
      filter (counts conf c role) ?xs"
      using all by (intro filter_cong) (fastforce simp: counts_iff safe_get_node_labels)+
    moreover have "filter (counts conf c role) ?xs = filter (counts conf c role) (get_all c)"
      by (auto simp: counts_iff intro!: filter_cong)
    ultimately show ?thesis by (simp add: v filter_map comp_def)
  qed
  then show "ls = map (\<lambda>role. (role, map fst (filter (counts conf c role) (get_all c)))) NodeRole_members"
    by (simp add: ls)
qed

lemma counted_names:
  assumes "dict_ok (locks c)"
  shows "set (map fst (filter (counts conf c role) (get_all c))) = maintained conf c role"
    and "length (map fst (filter (counts conf c role) (get_all c))) = card (maintained conf c role)"
proof -
  show s: "set (map fst (filter (counts conf c role) (get_all c))) = maintained conf c role"
  proof (rule set_eqI)
    fix name
    have "(name \<in> set (map fst (filter (counts conf c role) (get_all c)))) =
        (\<exists>l. (name, l) \<in> set (get_all c) \<and> counts conf c role (name, l))" by force
    also have "\<dots> = (name \<in> maintained conf c role)"
      by (auto simp: get_all_mem[OF assms] maintained_def counts_iff)
    finally show "(name \<in> set (map fst (filter (counts conf c role) (get_all c)))) =
        (name \<in> maintained conf c role)" .
  qed
  have "distinct (map fst (filter (counts conf c role) (get_all c)))"
    using get_all_distinct[OF assms] by (rule distinct_map_filter)
  from distinct_card[OF this] show "length (map fst (filter (counts conf c role) (get_all c))) =
      card (maintained conf c role)" unfolding s by simp
qed

text \<open>A new request is accepted exactly when every role has a free place.\<close>

lemma can_handle_nmr_iff:
  assumes "dict_ok (locks c)" and "can_handle_nmr conf c = (Inr b, t)"
  shows "b = (\<forall>role. card (maintained conf c role) < get_max_parallel_by_role conf role)" and "t = c"
proof -
  from assms(2) obtain ls where ls: "maintenance_locks conf c = (Inr ls, t)"
    and b: "b = list_all (\<lambda>(role, ls). \<not> length ls \<ge> get_max_parallel_by_role conf role) ls"
    by (auto simp: can_handle_nmr_def abind_eq_Inr aret_def)
  show "t = c" using maintenance_locks_eq(2)[OF ls] .
  show "b = (\<forall>role. card (maintained conf c role) < get_max_parallel_by_role conf role)"
    unfolding b maintenance_locks_eq(1)[OF ls]
    using NodeRole_members_all counted_names(2)[OF assms(1)]
    by (auto simp: list_all_iff not_le simp del: length_map)
qed

section \<open>What a change of one lock does to the count\<close>

lemma maintained_finite [simp]: "finite (maintained conf c role)"
proof -
  have "maintained conf c role \<subseteq> snd ` set (map fst (locks c))"
    by (force simp: maintained_def dest: map_of_SomeD)
  then show ?thesis by (rule finite_subset) simp
qed

text \<open>Membership read off the cores.\<close>

lemma maintained_cores:
  "name \<in> maintained conf c role \<longleftrightarrow>
     (\<exists>n nd st. cores c (NodeWorkloadLock, name) = Some (workload, Some n, Some ''active'', st) \<and>
        map_of (nodes c) n = Some nd \<and> has_role conf (labels nd) role)"
  by (auto simp: maintained_def cores_def lock_core_def in_maintenance_def)

lemma maintained_same: "same c t \<Longrightarrow> maintained conf t role = maintained conf c role"
  by (rule set_eqI) (simp add: maintained_cores same_def)

lemma maintained_other:
  assumes "nodes t = nodes c" and "\<And>k. k \<noteq> key \<Longrightarrow> cores t k = cores c k"
  shows "maintained conf t role \<subseteq> insert (snd key) (maintained conf c role)"
proof
  fix name assume m: "name \<in> maintained conf t role"
  show "name \<in> insert (snd key) (maintained conf c role)"
  proof (cases "name = snd key")
    case False
    then have "cores t (NodeWorkloadLock, name) = cores c (NodeWorkloadLock, name)"
      by (intro assms(2)) auto
    with m assms(1) show ?thesis by (simp add: maintained_cores)
  qed simp
qed

lemma inner_of_cores: "cores c key = Some (cn, nn, i, st) \<Longrightarrow> inner_of c key = i"
  by (auto simp: cores_def inner_of_def lock_core_def)

lemma maintained_shrink:
  assumes "nodes t = nodes c" and "\<And>k. k \<noteq> key \<Longrightarrow> cores t k = cores c k"
    and "inner_of t key \<noteq> Some ''active'' \<or>
      (\<exists>cn nn i st st'. cores c key = Some (cn, nn, i, st) \<and> cores t key = Some (cn, nn, i, st'))"
  shows "maintained conf t role \<subseteq> maintained conf c role"
proof
  fix name assume m: "name \<in> maintained conf t role"
  show "name \<in> maintained conf c role"
  proof (cases "(NodeWorkloadLock, name) = key")
    case False
    with m assms(1,2) show ?thesis by (simp add: maintained_cores)
  next
    case True
    with m have "inner_of t key = Some ''active''"
      by (auto simp: maintained_cores dest: inner_of_cores)
    with assms(3) True m assms(1) show ?thesis by (auto simp: maintained_cores)
  qed
qed

lemma within_limits_mono:
  assumes "within_limits conf c" and "\<And>role. maintained conf t role \<subseteq> maintained conf c role"
  shows "within_limits conf t"
  unfolding within_limits_def
proof
  fix role
  have "card (maintained conf t role) \<le> card (maintained conf c role)"
    by (rule card_mono) (auto simp: assms(2))
  then show "card (maintained conf t role) \<le> get_max_parallel_by_role conf role"
    using assms(1) by (meson le_trans within_limits_def)
qed

lemma within_limits_add:
  assumes "\<forall>role. card (maintained conf c role) < get_max_parallel_by_role conf role"
    and "\<And>role. maintained conf t role \<subseteq> insert x (maintained conf c role)"
  shows "within_limits conf t"
  unfolding within_limits_def
proof
  fix role
  have "card (maintained conf t role) \<le> card (insert x (maintained conf c role))"
    by (rule card_mono) (auto simp: assms(2))
  also have "\<dots> \<le> Suc (card (maintained conf c role))" by (simp add: card_insert_if)
  also have "\<dots> \<le> get_max_parallel_by_role conf role" using assms(1) by (simp add: Suc_le_eq)
  finally show "card (maintained conf t role) \<le> get_max_parallel_by_role conf role" .
qed

section \<open>The pieces of the handlers\<close>

lemma set_inner_state_ok:
  assumes "set_inner_state key st c = (r, t)"
  shows "nodes t = nodes c" and "dict_ok (locks c) \<Longrightarrow> dict_ok (locks t)"
    and "\<And>k. k \<noteq> key \<Longrightarrow> cores t k = cores c k"
    and "(\<exists>cn nn i s. cores c key = Some (cn, nn, i, s) \<and> cores t key = Some (cn, nn, Some st, s)) \<or>
      t = c \<and> cores c key = None"
  using assms
  by (auto simp: set_inner_state_def patch_lock_def abind_def read_lock_def put_lock_def amod_def cores_def
      lock_core_def lock_state_def split: option.splits)

lemma set_state_ok:
  assumes "set_state key st c = (r, t)"
  shows "nodes t = nodes c" and "dict_ok (locks c) \<Longrightarrow> dict_ok (locks t)"
    and "\<And>k. k \<noteq> key \<Longrightarrow> cores t k = cores c k"
    and "(\<exists>cn nn i s. cores c key = Some (cn, nn, i, s) \<and> cores t key = Some (cn, nn, i, Some st)) \<or>
      t = c \<and> cores c key = None"
  using assms
  by (auto simp: set_state_def patch_lock_def abind_def read_lock_def put_lock_def amod_def cores_def
      lock_core_def lock_state_def patch_status_def split: option.splits)

definition defer_nmr :: "lock_key \<Rightarrow> ('w cluster_scheme, unit) act" where
  "defer_nmr key =
     athen (set_error_message key ''Number of inactive NodeWorkloadLocks exceeds allowed concurrency'')
       (araise (TemporaryError ''Number of inactive NodeWorkloadLocks exceeds allowed concurrency''))"

lemma defer_nmr_calm: "calm (defer_nmr key)"
  unfolding defer_nmr_def by (intro calm_abind) auto

lemma defer_nmr_raises: "\<exists>e t. defer_nmr key c = (Inl e, t)"
  by (auto simp: defer_nmr_def abind_def araise_def split: prod.splits sum.splits)

lemma acquire_eq:
  "acquire_internal_lock conf key c =
     (case map_of (locks c) key of
        None \<Rightarrow> (Inl (ApiError), c)
      | Some l \<Rightarrow>
          if inner_state l = Some ''active'' then set_inner_state_active key c
          else case can_handle_nmr conf c of
            (Inl e, d) \<Rightarrow> (Inl e, d)
          | (Inr b, d) \<Rightarrow> (if b then set_inner_state_active key d else defer_nmr key d))"
  by (simp add: acquire_internal_lock_def defer_nmr_def is_maintenance_def read_lock_def abind_def aret_def
      split: option.splits prod.splits sum.splits)

text \<open>A failed attempt changes nothing that counts, a successful one marks the node.\<close>

lemma acquire_cases:
  assumes "acquire_internal_lock conf key c = (r, t)" and "dict_ok (locks c)"
  shows "same c t \<and> (\<exists>e. r = Inl e) \<or>
    (r = Inr () \<and> set_inner_state_active key c = (Inr (), t) \<and>
       (inner_of c key = Some ''active'' \<or>
        (\<forall>role. card (maintained conf c role) < get_max_parallel_by_role conf role)))"
proof (cases "map_of (locks c) key")
  case None
  then show ?thesis using assms(1) by (auto simp: acquire_eq)
next
  case (Some l)
  have inner: "inner_of c key = inner_state l" using Some by (simp add: inner_of_def)
  obtain t' where set: "set_inner_state_active key c = (Inr (), t')"
    using Some by (auto simp: set_inner_state_def patch_lock_iff)
  show ?thesis
  proof (cases "inner_state l = Some ''active''")
    case True
    with assms(1) set inner Some show ?thesis by (simp add: acquire_eq)
  next
    case False
    obtain q d where q: "can_handle_nmr conf c = (q, d)" by fastforce
    have d: "same c d" using calm_reads(6) q by (rule calmD)
    show ?thesis
    proof (cases q)
      case (Inl e)
      with q assms(1) False Some d show ?thesis by (auto simp: acquire_eq)
    next
      case (Inr b)
      note b = can_handle_nmr_iff[OF assms(2) q[unfolded Inr]]
      have run: "(if b then set_inner_state_active key c else defer_nmr key c) = (r, t)"
        using assms(1) q Inr False Some b(2) by (simp add: acquire_eq)
      show ?thesis
      proof (cases b)
        case True
        with run set b(1) show ?thesis by simp
      next
        case False
        with run have run: "defer_nmr key c = (r, t)" by simp
        have "same c t" using calmD[OF defer_nmr_calm run] .
        then show ?thesis using run defer_nmr_raises[of key c] by simp
      qed
    qed
  qed
qed

section \<open>The interleaving\<close>

datatype phase = Idle | Acquired

type_synonym 'w system = "'w cluster_scheme \<times> (string \<Rightarrow> phase)"

text \<open>
  \<open>Acquired\<close> is the time between a successful \<open>acquire_internal_lock\<close> and the end of the handler of
  that node; kopf runs the handlers of one request one after the other.
\<close>

inductive step :: "maintenance_conf \<Rightarrow> 'w system \<Rightarrow> 'w system \<Rightarrow> bool" for conf where
  node_event: "node_change_handler conf n c = (r, t) \<Longrightarrow> step conf (c, ph) (t, ph)"
| nmr_present: "ph n = Idle \<Longrightarrow> present conf (nwl_key n) c = (r, t) \<Longrightarrow> step conf (c, ph) (t, ph)"
| nmr_acquire: "ph n = Idle \<Longrightarrow> required_for_node conf c n \<Longrightarrow>
    acquire_internal_lock conf (nwl_key n) c = (Inr u, t) \<Longrightarrow> step conf (c, ph) (t, ph(n := Acquired))"
| nmr_defer: "ph n = Idle \<Longrightarrow> acquire_internal_lock conf (nwl_key n) c = (Inl e, t) \<Longrightarrow>
    step conf (c, ph) (t, ph)"
| service_call: "same c t \<Longrightarrow> step conf (c, ph) (t, ph)"
| nmr_drain: "ph n = Acquired \<Longrightarrow> set_inner_state_active (nwl_key n) c = (r, t) \<Longrightarrow>
    step conf (c, ph) (t, ph)"
| release: "release_lock (nwl_key n) c = (r, t) \<Longrightarrow> step conf (c, ph) (t, ph(n := Idle))"
| nmr_abort: "step conf (c, ph) (c, ph(n := Idle))"
| nmr_delete: "ph n = Idle \<Longrightarrow> take_lock (nwl_key n) c = (r, t) \<Longrightarrow> step conf (c, ph) (t, ph)"

inductive_cases stepE: "step conf (c, ph) (t, ph')"

definition named :: "'w cluster_scheme \<Rightarrow> bool" where
  "named c \<longleftrightarrow> (\<forall>n cn nn i st. cores c (nwl_key n) = Some (cn, nn, i, st) \<longrightarrow>
     cn = workload \<and> nn = Some n)"

lemma namedD: "named c \<Longrightarrow> cores c (nwl_key n) = Some (cn, nn, i, st) \<Longrightarrow> cn = workload \<and> nn = Some n"
  unfolding named_def by blast

definition system_inv :: "maintenance_conf \<Rightarrow> 'w system \<Rightarrow> bool" where
  "system_inv conf s \<longleftrightarrow>
     dict_ok (locks (fst s)) \<and> named (fst s) \<and> within_limits conf (fst s) \<and>
     (\<forall>n. snd s n = Acquired \<longrightarrow>
        inner_of (fst s) (nwl_key n) = Some ''active'' \<and> required_for_node conf (fst s) n)"

section \<open>The invariant\<close>

definition local_change :: "string \<Rightarrow> 'w cluster_scheme \<Rightarrow> 'w cluster_scheme \<Rightarrow> bool" where
  "local_change n c t \<longleftrightarrow> nodes t = nodes c \<and> (dict_ok (locks c) \<longrightarrow> dict_ok (locks t)) \<and>
     (\<forall>k. k \<noteq> nwl_key n \<longrightarrow> cores t k = cores c k)"

lemma local_changeD:
  assumes "local_change n c t"
  shows "nodes t = nodes c" and "dict_ok (locks c) \<Longrightarrow> dict_ok (locks t)"
    and "k \<noteq> nwl_key n \<Longrightarrow> cores t k = cores c k"
  using assms unfolding local_change_def by blast+

text \<open>A change of the lock of one node that does not touch its inner state.\<close>

definition quiet :: "string \<Rightarrow> 'w cluster_scheme \<Rightarrow> 'w cluster_scheme \<Rightarrow> bool" where
  "quiet n c t \<longleftrightarrow> local_change n c t \<and> inner_of t (nwl_key n) = inner_of c (nwl_key n) \<and>
     (\<forall>cn nn i st. cores t (nwl_key n) = Some (cn, nn, i, st) \<longrightarrow>
        (\<exists>st'. cores c (nwl_key n) = Some (cn, nn, i, st')) \<or> cn = workload \<and> nn = Some n)"

lemma quiet_same: "same c t \<Longrightarrow> quiet n c t"
  using cores_determine[of t c] by (auto simp: quiet_def local_change_def same_def)

lemma quiet_refl [simp]: "quiet n c c"
  by (simp add: quiet_same)

lemma local_change_trans: "local_change n a b \<Longrightarrow> local_change n b c \<Longrightarrow> local_change n a c"
  unfolding local_change_def by simp

lemma quiet_trans:
  assumes "quiet n a b" and "quiet n b c"
  shows "quiet n a c"
proof -
  have "local_change n a c" using assms local_change_trans unfolding quiet_def by blast
  moreover have "inner_of c (nwl_key n) = inner_of a (nwl_key n)" using assms by (simp add: quiet_def)
  moreover have "(\<exists>st'. cores a (nwl_key n) = Some (cn, nn, i, st')) \<or> cn = workload \<and> nn = Some n"
    if "cores c (nwl_key n) = Some (cn, nn, i, st)" for cn nn i st
    using assms that unfolding quiet_def by blast
  ultimately show ?thesis unfolding quiet_def by blast
qed

lemma quiet_set_state:
  assumes "set_state (nwl_key n) st c = (r, t)"
  shows "quiet n c t"
proof -
  note ok = set_state_ok[OF assms]
  have "local_change n c t" using ok(1-3) unfolding local_change_def by blast
  moreover from ok(4) have "inner_of t (nwl_key n) = inner_of c (nwl_key n)"
  proof (elim disjE exE conjE)
    fix cn nn i s
    assume "cores c (nwl_key n) = Some (cn, nn, i, s)" "cores t (nwl_key n) = Some (cn, nn, i, Some st)"
    then show ?thesis by (simp add: inner_of_cores)
  qed simp
  moreover have "\<exists>st'. cores c (nwl_key n) = Some (cn, nn, i, st')"
    if "cores t (nwl_key n) = Some (cn, nn, i, s)" for cn nn i s
    using ok(4) that by auto
  ultimately show ?thesis unfolding quiet_def by blast
qed

lemma quiet_calm: "calm m \<Longrightarrow> m c = (r, t) \<Longrightarrow> quiet n c t"
  by (rule quiet_same) (rule calmD)

definition quiet_act :: "string \<Rightarrow> ('w cluster_scheme, 'a) act \<Rightarrow> bool" where
  "quiet_act n m \<longleftrightarrow> (\<forall>c r t. m c = (r, t) \<longrightarrow> quiet n c t)"

lemma quiet_act_calm: "calm m \<Longrightarrow> quiet_act n m"
  by (simp add: quiet_act_def quiet_calm)

lemma quiet_act_abind: "quiet_act n m \<Longrightarrow> (\<And>x. quiet_act n (f x)) \<Longrightarrow> quiet_act n (abind m f)"
  unfolding quiet_act_def
  by (auto simp: abind_def split: prod.splits sum.splits intro: quiet_trans) (metis quiet_trans)

lemma quiet_act_if: "quiet_act n m \<Longrightarrow> quiet_act n m' \<Longrightarrow> quiet_act n (if b then m else m')"
  by simp

lemma quiet_act_set_state: "quiet_act n (set_state (nwl_key n) st)"
  by (simp add: quiet_act_def quiet_set_state)

lemma quiet_ensure: "quiet_act n (ensure_object (nwl_key n))"
  unfolding quiet_act_def
proof (intro allI impI)
  fix c r t assume e: "ensure_object (nwl_key n) c = (r, t)"
  have "controllerName (ensured c (nwl_key n)) = workload \<and> nodeName (ensured c (nwl_key n)) = Some n"
    by (auto simp: ensured_def dummy_lock_def nwl_key_def merge_lock_def patch_status_def split: option.splits)
  with e ensure_object_states[OF e] show "quiet n c t"
    by (auto simp: quiet_def local_change_def ensure_object_eq cores_def lock_core_def)
qed

lemma quiet_release: "quiet_act n (release_lock (nwl_key n))"
  unfolding release_lock_def by (intro quiet_act_abind quiet_act_set_state) (auto intro: quiet_act_calm)

lemma quiet_present: "quiet_act n (present conf (nwl_key n))"
  unfolding present_def reset_for_release_def
  by (intro quiet_act_abind quiet_ensure quiet_act_if quiet_act_set_state) (auto intro: quiet_act_calm)

lemma named_quiet: "named c \<Longrightarrow> quiet n c t \<Longrightarrow> named t"
  unfolding named_def quiet_def local_change_def by (metis nwl_key_inj)

lemma maintained_quiet:
  assumes "named c" and "quiet n c t"
  shows "maintained conf t role \<subseteq> maintained conf c role"
proof
  fix name assume m: "name \<in> maintained conf t role"
  then obtain nn nd st where x: "cores t (NodeWorkloadLock, name) = Some (workload, Some nn, Some ''active'', st)"
    "map_of (nodes t) nn = Some nd" "has_role conf (labels nd) role" by (auto simp: maintained_cores)
  have nodes: "nodes t = nodes c" using assms(2) by (simp add: quiet_def local_change_def)
  show "name \<in> maintained conf c role"
  proof (cases "(NodeWorkloadLock, name) = nwl_key n")
    case False
    then have "cores t (NodeWorkloadLock, name) = cores c (NodeWorkloadLock, name)"
      using assms(2) by (simp add: quiet_def local_change_def)
    with x nodes show ?thesis by (auto simp: maintained_cores)
  next
    case True
    then have "nn = n" using namedD[OF named_quiet[OF assms]] x(1) by fastforce
    have "inner_of c (nwl_key n) = Some ''active''"
      using assms(2) inner_of_cores[OF x(1)] unfolding True quiet_def by simp
    then obtain l where "map_of (locks c) (nwl_key n) = Some l" "inner_state l = Some ''active''"
      by (cases "map_of (locks c) (nwl_key n)") (auto simp: inner_of_def)
    then have "cores c (nwl_key n) = Some (controllerName l, nodeName l, Some ''active'', lock_state l)"
      by (simp add: cores_def lock_core_def)
    moreover have "controllerName l = workload" "nodeName l = Some n"
      using namedD[OF assms(1) calculation] by auto
    ultimately show ?thesis using True x \<open>nn = n\<close> nodes by (auto simp: maintained_cores)
  qed
qed

lemma required_nodes: "nodes t = nodes c \<Longrightarrow> required_for_node conf t n = required_for_node conf c n"
  by (simp add: required_for_node_def safe_get_node_labels)

lemma inner_of_other: "cores t k = cores c k \<Longrightarrow> inner_of t k = inner_of c k"
  by (cases "map_of (locks t) k"; cases "map_of (locks c) k")
     (auto simp: cores_def inner_of_def lock_core_def)

lemma inv_local:
  assumes inv: "system_inv conf (c, ph)" and loc: "local_change n c t"
    and nm: "\<And>cn nn i st. cores t (nwl_key n) = Some (cn, nn, i, st) \<Longrightarrow> cn = workload \<and> nn = Some n"
    and lim: "within_limits conf t"
    and ph: "\<And>m. m \<noteq> n \<Longrightarrow> ph' m = Acquired \<Longrightarrow> ph m = Acquired"
    and here: "ph' n = Acquired \<Longrightarrow> inner_of t (nwl_key n) = Some ''active'' \<and> required_for_node conf c n"
  shows "system_inv conf (t, ph')"
proof -
  have "named t"
    unfolding named_def
  proof (intro allI impI)
    fix m cn nn i st assume m: "cores t (nwl_key m) = Some (cn, nn, i, st)"
    show "cn = workload \<and> nn = Some m"
    proof (cases "m = n")
      case True
      with m nm show ?thesis by blast
    next
      case False
      with m loc have "cores c (nwl_key m) = Some (cn, nn, i, st)" by (simp add: local_changeD(3))
      moreover have "named c" using inv by (simp add: system_inv_def)
      ultimately show ?thesis by (rule namedD[rotated])
    qed
  qed
  moreover have "inner_of t (nwl_key m) = Some ''active'' \<and> required_for_node conf t m"
    if "ph' m = Acquired" for m
  proof (cases "m = n")
    case True
    with here that show ?thesis by (simp add: required_nodes[OF local_changeD(1)[OF loc]])
  next
    case False
    then have "inner_of t (nwl_key m) = inner_of c (nwl_key m)"
      by (intro inner_of_other local_changeD(3)[OF loc]) simp
    moreover have "ph m = Acquired" using False ph that by blast
    ultimately show ?thesis
      using inv by (simp add: system_inv_def required_nodes[OF local_changeD(1)[OF loc]])
  qed
  moreover have "dict_ok (locks t)" using inv local_changeD(2)[OF loc] by (simp add: system_inv_def)
  ultimately show ?thesis using lim by (simp add: system_inv_def)
qed

lemma inv_quiet:
  assumes inv: "system_inv conf (c, ph)" and q: "quiet n c t"
    and ph: "\<And>m. ph' m = Acquired \<Longrightarrow> ph m = Acquired"
  shows "system_inv conf (t, ph')"
proof (rule inv_local[OF inv, of n])
  have n: "named c" using inv by (simp add: system_inv_def)
  show "local_change n c t" using q by (simp add: quiet_def)
  show "cores t (nwl_key n) = Some (cn, nn, i, st) \<Longrightarrow> cn = workload \<and> nn = Some n" for cn nn i st
    using namedD[OF named_quiet[OF n q]] by blast
  show "within_limits conf t"
    using inv within_limits_mono[OF _ maintained_quiet[OF n q]] by (simp add: system_inv_def)
  show "m \<noteq> n \<Longrightarrow> ph' m = Acquired \<Longrightarrow> ph m = Acquired" for m using ph by blast
  show "ph' n = Acquired \<Longrightarrow> inner_of t (nwl_key n) = Some ''active'' \<and> required_for_node conf c n"
    using ph[of n] inv q by (auto simp: system_inv_def quiet_def)
qed

lemma inv_drop:
  assumes inv: "system_inv conf (c, ph)" and loc: "local_change n c t"
    and off: "inner_of t (nwl_key n) \<noteq> Some ''active''"
    and nm: "\<And>cn nn i st. cores t (nwl_key n) = Some (cn, nn, i, st) \<Longrightarrow> cn = workload \<and> nn = Some n"
    and idle: "ph n \<noteq> Acquired"
  shows "system_inv conf (t, ph)"
proof (rule inv_local[OF inv loc nm])
  have "maintained conf t role \<subseteq> maintained conf c role" for role
    using loc off by (intro maintained_shrink[of t c "nwl_key n"]) (auto simp: local_change_def)
  moreover have "within_limits conf c" using inv by (simp add: system_inv_def)
  ultimately show "within_limits conf t" by (rule within_limits_mono[rotated])
qed (use idle in auto)

lemma absent_change:
  assumes "absent (nwl_key n) c = (r, t)"
  shows "local_change n c t" and "cores t (nwl_key n) = None" and "inner_of t (nwl_key n) = None"
proof -
  have t: "t = c\<lparr>locks := AList.delete (nwl_key n) (locks c)\<rparr>"
    using assms by (simp add: absent_def amod_def)
  show "local_change n c t"
    unfolding local_change_def t by (auto simp: cores_def map_of_delete_other dict_ok_def distinct_delete)
  show "cores t (nwl_key n) = None" "inner_of t (nwl_key n) = None"
    unfolding t by (simp_all add: cores_def inner_of_def delete_conv')
qed

lemma inner_of_None: "cores c key = None \<Longrightarrow> inner_of c key = None"
  by (simp add: cores_def inner_of_def)

lemma inv_inner_inactive:
  assumes inv: "system_inv conf (c, ph)" and d: "set_inner_state_inactive (nwl_key n) c = (q, d)"
    and idle: "ph n \<noteq> Acquired"
  shows "system_inv conf (d, ph)"
proof (rule inv_drop[OF inv])
  note ok = set_inner_state_ok[OF d]
  have named: "named c" using inv by (simp add: system_inv_def)
  show "local_change n c d" using ok(1-3) unfolding local_change_def by blast
  show "inner_of d (nwl_key n) \<noteq> Some ''active''"
    using ok(4) by (auto simp: inner_of_None dest: inner_of_cores)
  show "cores d (nwl_key n) = Some (cn, nn, i, st) \<Longrightarrow> cn = workload \<and> nn = Some n" for cn nn i st
    using ok(4) namedD[OF named] by (elim disjE exE conjE) auto
qed (rule idle)

lemma inv_take:
  assumes inv: "system_inv conf (c, ph)" and t: "take_lock (nwl_key n) c = (r, t)"
    and idle: "ph n \<noteq> Acquired"
  shows "system_inv conf (t, ph)"
proof -
  obtain q d where d: "set_inner_state_inactive (nwl_key n) c = (q, d)" by fastforce
  have "quiet_act n (athen (set_state_active (nwl_key n)) (unset_error_message (nwl_key n)))"
    by (intro quiet_act_abind quiet_act_set_state) (auto intro: quiet_act_calm)
  then have q: "quiet n d t"
    using t d unfolding take_lock_def quiet_act_def
    by (cases q) (auto simp: abind_def[of "set_inner_state_inactive _"])
  show ?thesis by (rule inv_quiet[OF inv_inner_inactive[OF inv d idle] q])
qed

lemma inv_acquire:
  assumes inv: "system_inv conf (c, ph)" and acq: "acquire_internal_lock conf (nwl_key n) c = (Inr u, t)"
    and req: "required_for_node conf c n"
  shows "system_inv conf (t, ph(n := Acquired))"
proof (rule inv_local[OF inv])
  have ok: "dict_ok (locks c)" and named: "named c" using inv by (simp_all add: system_inv_def)
  from acquire_cases[OF acq ok] have set: "set_inner_state_active (nwl_key n) c = (Inr (), t)"
    and free: "inner_of c (nwl_key n) = Some ''active'' \<or>
        (\<forall>role. card (maintained conf c role) < get_max_parallel_by_role conf role)"
    by auto
  note st = set_inner_state_ok[OF set]
  show loc: "local_change n c t" using st(1-3) unfolding local_change_def by blast
  show nm: "cores t (nwl_key n) = Some (cn, nn, i, s) \<Longrightarrow> cn = workload \<and> nn = Some n" for cn nn i s
    using st(4) namedD[OF named] by (elim disjE exE conjE) auto
  have act: "inner_of t (nwl_key n) = Some ''active''" using set_inner_state_cores(1)[OF set] .
  show "within_limits conf t"
    using free
  proof
    assume "inner_of c (nwl_key n) = Some ''active''"
    then have "quiet n c t" using loc act nm unfolding quiet_def by simp
    note sub = maintained_quiet[OF named this, of conf]
    have "within_limits conf c" using inv by (simp add: system_inv_def)
    then show ?thesis by (rule within_limits_mono) (rule sub)
  next
    assume "\<forall>role. card (maintained conf c role) < get_max_parallel_by_role conf role"
    then show ?thesis
      by (rule within_limits_add[where x = "snd (nwl_key n)"])
         (rule maintained_other[OF st(1) st(3)])
  qed
  show "(ph(n := Acquired)) n = Acquired \<Longrightarrow>
      inner_of t (nwl_key n) = Some ''active'' \<and> required_for_node conf c n"
    using act req by simp
qed auto

lemma inv_drain:
  assumes inv: "system_inv conf (c, ph)" and ph: "ph n = Acquired"
    and t: "set_inner_state_active (nwl_key n) c = (r, t)"
  shows "system_inv conf (t, ph)"
proof (rule inv_quiet[OF inv])
  note st = set_inner_state_ok[OF t]
  have act: "inner_of c (nwl_key n) = Some ''active''" and named: "named c"
    using inv ph by (auto simp: system_inv_def)
  have "local_change n c t" using st(1-3) unfolding local_change_def by blast
  moreover have "inner_of t (nwl_key n) = Some ''active''"
    using st(4) act by (auto dest: inner_of_cores inner_of_None)
  moreover have "cn = workload \<and> nn = Some n" if "cores t (nwl_key n) = Some (cn, nn, i, s)" for cn nn i s
    using st(4) namedD[OF named] that by (elim disjE exE conjE) auto
  ultimately show "quiet n c t" using act unfolding quiet_def by simp
qed

lemma inv_node_event:
  assumes inv: "system_inv conf (c, ph)" and t: "node_change_handler conf n c = (r, t)"
  shows "system_inv conf (t, ph)"
proof (cases "required_for_node conf c n")
  case True
  with t have "present conf (nwl_key n) c = (r, t)"
    by (simp add: node_change_handler_def abind_def aget_def)
  then have "quiet n c t" using quiet_present unfolding quiet_act_def by blast
  then show ?thesis by (rule inv_quiet[OF inv])
next
  case False
  with t have a: "absent (nwl_key n) c = (r, t)"
    by (simp add: node_change_handler_def abind_def aget_def)
  have "ph n \<noteq> Acquired" using False inv by (auto simp: system_inv_def)
  then show ?thesis using absent_change[OF a] by (intro inv_drop[OF inv]) auto
qed

theorem step_inv: "step conf s s' \<Longrightarrow> system_inv conf s \<Longrightarrow> system_inv conf s'"
proof (induction rule: step.induct)
  case (node_event n c r t ph)
  then show ?case by (rule inv_node_event[rotated])
next
  case (nmr_present ph n c r t)
  then have "quiet n c t" using quiet_present unfolding quiet_act_def by blast
  then show ?case by (rule inv_quiet[OF nmr_present.prems])
next
  case (nmr_acquire ph n c u t)
  show ?case by (rule inv_acquire[OF nmr_acquire.prems nmr_acquire.hyps(3,2)])
next
  case (nmr_defer ph n c e t)
  then have "same c t" using acquire_cases[of conf "nwl_key n" c "Inl e" t] by (simp add: system_inv_def)
  then show ?case by (rule inv_quiet[OF nmr_defer.prems quiet_same])
next
  case (service_call c t ph)
  show ?case by (rule inv_quiet[OF service_call.prems quiet_same[OF service_call.hyps]])
next
  case (nmr_drain ph n c r t)
  show ?case by (rule inv_drain[OF nmr_drain.prems nmr_drain.hyps])
next
  case (release n c r t ph)
  then have "quiet n c t" using quiet_release unfolding quiet_act_def by blast
  then show ?case by (rule inv_quiet[OF release.prems]) (auto split: if_splits)
next
  case (nmr_abort c ph n)
  show ?case by (rule inv_quiet[OF nmr_abort.prems quiet_refl]) (auto split: if_splits)
next
  case (nmr_delete ph n c r t)
  show ?case by (rule inv_take[OF nmr_delete.prems nmr_delete.hyps(2)]) (simp add: nmr_delete.hyps(1))
qed

lemma reachable_inv: "(step conf)\<^sup>*\<^sup>* s s' \<Longrightarrow> system_inv conf s \<Longrightarrow> system_inv conf s'"
  by (induction rule: rtranclp_induct) (auto intro: step_inv)

section \<open>The handler is a sequence of steps\<close>

text \<open>Actions that run within a phase, and actions that end it.\<close>

definition in_phase :: "maintenance_conf \<Rightarrow> (string \<Rightarrow> phase) \<Rightarrow> ('w cluster_scheme, 'a) act \<Rightarrow> bool" where
  "in_phase conf ph m \<longleftrightarrow> (\<forall>c r t. m c = (r, t) \<longrightarrow> (step conf)\<^sup>*\<^sup>* (c, ph) (t, ph))"

definition ends :: "maintenance_conf \<Rightarrow> (string \<Rightarrow> phase) \<Rightarrow> string \<Rightarrow> ('w cluster_scheme, 'a) act \<Rightarrow> bool" where
  "ends conf ph n m \<longleftrightarrow> (\<forall>c r t. m c = (r, t) \<longrightarrow> (step conf)\<^sup>*\<^sup>* (c, ph(n := Acquired)) (t, ph))"

lemma in_phase_calm: "calm m \<Longrightarrow> in_phase conf ph m"
  unfolding in_phase_def by (blast intro: r_into_rtranclp service_call dest: calmD)

lemma in_phase_abind:
  assumes "in_phase conf ph m" and "\<And>x. in_phase conf ph (f x)"
  shows "in_phase conf ph (abind m f)"
  unfolding in_phase_def
proof (intro allI impI)
  fix c r t assume run: "abind m f c = (r, t)"
  obtain q d where q: "m c = (q, d)" by fastforce
  then have "(step conf)\<^sup>*\<^sup>* (c, ph) (d, ph)" using assms(1) by (simp add: in_phase_def)
  moreover have "(step conf)\<^sup>*\<^sup>* (d, ph) (t, ph)"
    using run q assms(2) by (cases q) (auto simp: abind_def in_phase_def)
  ultimately show "(step conf)\<^sup>*\<^sup>* (c, ph) (t, ph)" by (rule rtranclp_trans)
qed

lemma in_phase_if: "in_phase conf ph m \<Longrightarrow> in_phase conf ph m' \<Longrightarrow> in_phase conf ph (if b then m else m')"
  by simp

lemma in_phase_drain: "ph n = Acquired \<Longrightarrow> in_phase conf ph (set_inner_state_active (nwl_key n))"
  unfolding in_phase_def by (blast intro: r_into_rtranclp nmr_drain)

lemma idle_again: "ph n = Idle \<Longrightarrow> ph(n := Acquired, n := Idle) = ph"
  by auto

lemma ends_abort:
  assumes "in_phase conf (ph(n := Acquired)) m" and "ph n = Idle"
  shows "ends conf ph n m"
  unfolding ends_def
proof (intro allI impI)
  fix c r t assume "m c = (r, t)"
  with assms(1) have "(step conf)\<^sup>*\<^sup>* (c, ph(n := Acquired)) (t, ph(n := Acquired))" by (simp add: in_phase_def)
  also have "step conf (t, ph(n := Acquired)) (t, ph(n := Acquired, n := Idle))" by (rule nmr_abort)
  finally show "(step conf)\<^sup>*\<^sup>* (c, ph(n := Acquired)) (t, ph)" by (simp only: idle_again[of ph n, OF assms(2)])
qed

lemma ends_release:
  assumes "ph n = Idle"
  shows "ends conf ph n (release_lock (nwl_key n))"
  unfolding ends_def
proof (intro allI impI)
  fix c :: "'a cluster_scheme" and r t assume "release_lock (nwl_key n) c = (r, t)"
  then have "step conf (c, ph(n := Acquired)) (t, ph(n := Acquired, n := Idle))" by (rule release)
  then show "(step conf)\<^sup>*\<^sup>* (c, ph(n := Acquired)) (t, ph)"
    unfolding idle_again[of ph n, OF assms] by (rule r_into_rtranclp)
qed

lemma ends_abind:
  assumes m: "in_phase conf (ph(n := Acquired)) m" and f: "\<And>x. ends conf ph n (f x)" and ph: "ph n = Idle"
  shows "ends conf ph n (abind m f)"
  unfolding ends_def
proof (intro allI impI)
  fix c r t assume run: "abind m f c = (r, t)"
  obtain q d where q: "m c = (q, d)" by fastforce
  show "(step conf)\<^sup>*\<^sup>* (c, ph(n := Acquired)) (t, ph)"
  proof (cases q)
    case (Inl e)
    with run q have "d = t" by (simp add: abind_def)
    with ends_abort[OF m ph] q show ?thesis by (simp add: ends_def)
  next
    case (Inr x)
    with run q have "f x d = (r, t)" by (simp add: abind_def)
    with f have "(step conf)\<^sup>*\<^sup>* (d, ph(n := Acquired)) (t, ph)" by (simp add: ends_def)
    moreover have "(step conf)\<^sup>*\<^sup>* (c, ph(n := Acquired)) (d, ph(n := Acquired))"
      using m q by (simp add: in_phase_def)
    ultimately show ?thesis by (rule rtranclp_trans[rotated])
  qed
qed

lemma ends_option:
  "ends conf ph n m \<Longrightarrow> (\<And>x. ends conf ph n (m' x)) \<Longrightarrow>
   ends conf ph n (case o' of None \<Rightarrow> m | Some x \<Rightarrow> m' x)"
  by (cases o') auto

lemma in_phase_drain_services:
  assumes "\<forall>svc \<in> set svcs. maintenance_service svc" and "ph n = Acquired"
  shows "in_phase conf ph (drain_services conf svcs node nmr (nwl_key n))"
proof -
  have "calm (amap (\<lambda>svc. svc_can_handle_nmr svc node ls) svcs)" for ls
    using assms(1) by (intro calm_amap) (blast intro: maintenance_service.can_handle_nmr_calm)
  moreover have "calm (aforeach (\<lambda>svc. process_nmr svc node nmr) svcs)"
    using assms(1) by (intro calm_aforeach) (blast intro: maintenance_service.process_nmr_calm)
  ultimately show ?thesis
    unfolding drain_services_def
    by (intro in_phase_abind in_phase_if in_phase_drain[of _ n] assms(2)) (auto intro: in_phase_calm)
qed

lemma nmr_change_steps:
  assumes ok: "services_ok services" and ph: "ph (maintenance_node_name body) = Idle"
    and run: "node_maintenance_request_change_handler conf services body c = (r, t)"
  shows "(step conf)\<^sup>*\<^sup>* (c, ph) (t, ph)"
proof (cases "map_of (nodes c) (maintenance_node_name body) \<noteq> None \<and>
    required_for_node conf c (maintenance_node_name body)")
  case False
  then have "t = c"
    using run by (auto simp: node_maintenance_request_change_handler_def Let_def abind_def aget_def aret_def
        split: if_splits)
  then show ?thesis by simp
next
  case True
  let ?n = "maintenance_node_name body"
  let ?node = "safe_get_node c ?n"
  let ?rest = "abind (aget osdpl) (\<lambda>osdpl.
       case osdpl of
         None \<Rightarrow> release_lock (nwl_key ?n)
       | Some o' \<Rightarrow>
           abind (alift (osdpl_mspec o')) (\<lambda>mspec.
           abind (is_active (nwl_key ?n)) (\<lambda>active.
           athen (if active then
                    drain_services conf (maintenance_services (services mspec)) ?node body (nwl_key ?n)
                  else aret ())
             (release_lock (nwl_key ?n)))))"
  have svc: "\<forall>svc \<in> set (maintenance_services (services mspec)). maintenance_service svc" for mspec
    using ok by (simp add: services_ok_def)
  have rest: "ends conf ph ?n ?rest"
    by (intro ends_abind ends_option ends_release ph in_phase_if in_phase_drain_services[OF svc])
       (auto intro: in_phase_calm)
  have run': "athen (present conf (nwl_key ?n)) (athen (acquire_internal_lock conf (nwl_key ?n)) ?rest) c = (r, t)"
    using run True unfolding node_maintenance_request_change_handler_def Let_def abind_aget_at by simp
  obtain p d where p: "present conf (nwl_key ?n) c = (p, d)" by fastforce
  have s1: "(step conf)\<^sup>*\<^sup>* (c, ph) (d, ph)" using nmr_present[of ph ?n, OF ph p] by (rule r_into_rtranclp)
  have "quiet ?n c d" using quiet_present p unfolding quiet_act_def by blast
  then have nodes: "nodes d = nodes c" by (simp add: quiet_def local_change_def)
  obtain a e where a: "acquire_internal_lock conf (nwl_key ?n) d = (a, e)" by fastforce
  show ?thesis
  proof (cases p)
    case (Inl x)
    with run' p s1 show ?thesis by (simp add: abind_def)
  next
    case pr: (Inr x)
    show ?thesis
    proof (cases a)
      case (Inl y)
      with a have "step conf (d, ph) (e, ph)" using nmr_defer[of ph ?n, OF ph] by blast
      moreover have "e = t" using run' p pr a Inl by (simp add: abind_def)
      ultimately show ?thesis using s1 by (auto intro: rtranclp.rtrancl_into_rtrancl)
    next
      case (Inr y)
      have "required_for_node conf d ?n" using True required_nodes[OF nodes] by simp
      with a Inr have "step conf (d, ph) (e, ph(?n := Acquired))" using nmr_acquire[of ph ?n, OF ph] by blast
      moreover have "?rest e = (r, t)" using run' p pr a Inr by (simp add: abind_def[of "present _ _"] abind_def[of "acquire_internal_lock _ _"])
      with rest have "(step conf)\<^sup>*\<^sup>* (e, ph(?n := Acquired)) (t, ph)" by (simp add: ends_def)
      ultimately show ?thesis using s1 by (meson converse_rtranclp_into_rtranclp rtranclp_trans)
    qed
  qed
qed

end
