(* ===== verification/Kube.thy ===== *)
theory Kube
  imports Maintenance Utils
begin

text \<open>
  The object classes of \<open>kube.py\<close>: when a Deployment, StatefulSet, DaemonSet, Job or Node is ready,
  when a StatefulSet locks a node, the generations and finalizers of a DaemonSet, and the bounded
  waits.  Objects are the JSON values of the API; the list of the pods of an object is an argument
  where the source selects it by labels.
\<close>

section \<open>Readiness\<close>

text \<open>\<open>Deployment.ready\<close> and \<open>StatefulSet.ready\<close>; \<open>replicas\<close> is \<open>spec.replicas\<close>.\<close>

definition replicated_ready :: "json \<Rightarrow> bool res" where
  "replicated_ready obj =
     rbind (jitem_path obj [''status'', ''observedGeneration'']) (\<lambda>observed.
     rbind (jitem_path obj [''metadata'', ''generation'']) (\<lambda>generation.
     rbind (jless observed generation) (\<lambda>behind.
     if behind then Inr False
     else rbind (jitem obj ''status'') (\<lambda>status.
     rbind (jget status ''updatedReplicas'' JNull) (\<lambda>updated.
     rbind (jitem_path obj [''spec'', ''replicas'']) (\<lambda>replicas.
     if \<not> py_eq updated replicas then Inr False
     else rbind (jget status ''readyReplicas'' JNull) (\<lambda>ready. Inr (py_eq ready replicas))))))))"

definition daemonset_ready :: "json \<Rightarrow> bool res" where
  "daemonset_ready obj =
     rbind (jitem_path obj [''status'', ''observedGeneration'']) (\<lambda>observed.
     rbind (jitem_path obj [''metadata'', ''generation'']) (\<lambda>generation.
     rbind (jless observed generation) (\<lambda>behind.
     if behind then Inr False
     else rbind (jitem obj ''status'') (\<lambda>status.
     rbind (jget status ''desiredNumberScheduled'' (JInt 0)) (\<lambda>desired.
     rbind (jget status ''numberReady'' (JInt 0)) (\<lambda>ready.
     rbind (jitem obj ''spec'') (\<lambda>spec.
     rbind (jpath_get spec [''updateStrategy''] ''type'' JNull) (\<lambda>update_strategy.
     if py_eq update_strategy (JStr ''OnDelete'') then Inr (py_eq desired ready)
     else rbind (jget status ''updatedNumberScheduled'' (JInt 0)) (\<lambda>updated.
          Inr (py_eq ready updated))))))))))"

text \<open>The conditions of a Job or a Node.\<close>

definition job_ready :: "json \<Rightarrow> bool res" where
  "job_ready obj =
     rbind (jpath_get obj [''status''] ''conditions'' (JList [])) (\<lambda>cs.
     rbind (jelems cs) (\<lambda>conditions.
     rbind (rmap (\<lambda>c. rbind (jitem c ''type'') (\<lambda>t.
              if py_eq t (JStr ''Ready'') \<or> py_eq t (JStr ''Complete'')
              then rbind (jitem c ''status'') (\<lambda>s. Inr [py_eq s (JStr ''True'')])
              else Inr [])) conditions) (\<lambda>flags.
     let completed = concat flags in Inr (completed \<noteq> [] \<and> list_all id completed))))"

fun any_condition :: "string list \<Rightarrow> json list \<Rightarrow> bool res" where
  "any_condition types [] = Inr False"
| "any_condition types (c # cs) =
     rbind (jitem c ''type'') (\<lambda>t.
     rbind (if list_ex (\<lambda>ty. py_eq t (JStr ty)) types
            then rbind (jitem c ''status'') (\<lambda>s. Inr (py_eq s (JStr ''True''))) else Inr False) (\<lambda>yes.
     if yes then Inr True else any_condition types cs))"

definition job_completed :: "json \<Rightarrow> bool res" where
  "job_completed obj =
     rbind (jitem obj ''status'') (\<lambda>st.
     rbind (jget st ''conditions'' (JList [])) (\<lambda>cs.
     rbind (jelems cs) (any_condition [''Ready'', ''Complete'', ''Failed''])))"

definition node_obj_ready :: "json \<Rightarrow> bool res" where
  "node_obj_ready obj =
     rbind (jpath_get obj [''status''] ''conditions'' (JList [])) (\<lambda>cs.
     rbind (jelems cs) (any_condition [''Ready'']))"

text \<open>Ready means, for well-formed conditions, that one of them says so.\<close>

definition condition :: "string \<Rightarrow> string \<Rightarrow> json" where
  "condition ty st = JObj [(''type'', JStr ty), (''status'', JStr st)]"

lemma any_condition_iff:
  "any_condition types (map (\<lambda>(ty, st). condition ty st) cs) =
     Inr (\<exists>(ty, st) \<in> set cs. ty \<in> set types \<and> st = ''True'')"
proof (induction cs)
  case Nil
  then show ?case by simp
next
  case (Cons c cs)
  obtain ty st where c: "c = (ty, st)" by (cases c)
  have "list_ex (\<lambda>t. py_eq (JStr ty) (JStr t)) types = (ty \<in> set types)"
    by (auto simp: list_ex_iff)
  then show ?case using Cons c by (cases "ty \<in> set types"; cases "st = ''True''") (auto simp: condition_def)
qed

section \<open>Nodes locked by a StatefulSet\<close>

text \<open>
  \<open>StatefulSet.is_node_locked\<close>: \<open>pods\<close> are the pods the set owns, a pod without a node has the empty
  name.
\<close>

definition is_node_locked :: "int \<Rightarrow> pod list \<Rightarrow> string \<Rightarrow> bool" where
  "is_node_locked replicas ps node_name =
     (let ready_pods = length (filter pod_ready ps);
          min_ready_pods = replicas - 1
      in if int ready_pods < min_ready_pods then True
         else let other_nodes_pods = filter (\<lambda>p. pod_node p \<noteq> [] \<and> pod_node p \<noteq> node_name) ps
              in if int (length other_nodes_pods) < min_ready_pods then True
                 else if \<not> list_all id (map pod_ready (filter pod_ready other_nodes_pods)) then True
                 else False)"

text \<open>The last test looks at the ready pods only, so it never fails.\<close>

lemma is_node_locked_iff:
  "is_node_locked replicas ps node_name \<longleftrightarrow>
     int (length (filter pod_ready ps)) < replicas - 1 \<or>
     int (length (filter (\<lambda>p. pod_node p \<noteq> [] \<and> pod_node p \<noteq> node_name) ps)) < replicas - 1"
  by (simp add: is_node_locked_def Let_def list_all_iff)

definition ready_elsewhere :: "pod list \<Rightarrow> string \<Rightarrow> nat" where
  "ready_elsewhere ps node_name =
     length (filter (\<lambda>p. pod_ready p \<and> pod_node p \<noteq> node_name) ps)"

lemma unlocked_at_most_one_missing:
  assumes "\<not> is_node_locked replicas ps node_name"
    and "length (filter (\<lambda>p. pod_node p = node_name) ps) \<le> 1"
  shows "int (ready_elsewhere ps node_name) \<ge> replicas - 2"
proof -
  have "length (filter pod_ready ps) =
      length (filter (\<lambda>p. pod_ready p \<and> pod_node p = node_name) ps) + ready_elsewhere ps node_name"
    unfolding ready_elsewhere_def by (induction ps) auto
  moreover have "length (filter (\<lambda>p. pod_ready p \<and> pod_node p = node_name) ps) \<le>
      length (filter (\<lambda>p. pod_node p = node_name) ps)"
    by (induction ps) auto
  moreover have "replicas - 1 \<le> int (length (filter pod_ready ps))"
    using assms(1) by (simp add: is_node_locked_iff)
  ultimately show ?thesis using assms(2) by linarith
qed

lemma locked_when_all_ready:
  assumes "\<not> is_node_locked replicas ps node_name" and "list_all pod_ready ps"
  shows "int (ready_elsewhere ps node_name) \<ge> replicas - 1"
proof -
  have "length (filter (\<lambda>p. pod_node p \<noteq> [] \<and> pod_node p \<noteq> node_name) ps) \<le>
      length (filter (\<lambda>p. pod_ready p \<and> pod_node p \<noteq> node_name) ps)"
    using assms(2) by (induction ps) auto
  then show ?thesis using assms(1) by (simp add: is_node_locked_iff ready_elsewhere_def)
qed

section \<open>Owners, volumes, images\<close>

fun owned_by :: "json \<Rightarrow> json list \<Rightarrow> bool res" where
  "owned_by u [] = Inr False"
| "owned_by u (ref # refs) =
     rbind (jget ref ''uid'' JNull) (\<lambda>r. if py_eq r u then Inr True else owned_by u refs)"

definition is_owned_by :: "json \<Rightarrow> json \<Rightarrow> bool res" where
  "is_owned_by obj u =
     rbind (jitem obj ''metadata'') (\<lambda>m.
     rbind (jget m ''ownerReferences'' (JList [])) (\<lambda>refs.
     rbind (jelems refs) (owned_by u)))"

fun expressions_match :: "string \<Rightarrow> json list \<Rightarrow> bool res" where
  "expressions_match node_name [] = Inr False"
| "expressions_match node_name (e # es) =
     rbind (jget e ''key'' JNull) (\<lambda>k.
     rbind (if py_eq k (JStr ''kubernetes.io/hostname'') then
              rbind (jget e ''operator'' JNull) (\<lambda>operator.
              if py_eq operator (JStr ''In'')
              then rbind (jget e ''values'' (JList [])) (jin node_name) else Inr False)
            else Inr False) (\<lambda>yes.
     if yes then Inr True else expressions_match node_name es))"

fun terms_match :: "string \<Rightarrow> json list \<Rightarrow> bool res" where
  "terms_match node_name [] = Inr False"
| "terms_match node_name (t # ts) =
     rbind (jget t ''matchExpressions'' (JList [])) (\<lambda>es.
     rbind (jelems es) (\<lambda>es'.
     rbind (expressions_match node_name es') (\<lambda>yes.
     if yes then Inr True else terms_match node_name ts)))"

definition is_bound_to_node :: "json \<Rightarrow> string \<Rightarrow> bool res" where
  "is_bound_to_node pv node_name =
     rbind (jitem pv ''spec'') (\<lambda>spec.
     rbind (jpath_get spec [''nodeAffinity'', ''required''] ''nodeSelectorTerms'' (JList [])) (\<lambda>ts.
     rbind (jelems ts) (terms_match node_name)))"

fun container_with_image :: "json \<Rightarrow> json list \<Rightarrow> bool res" where
  "container_with_image v [] = Inr False"
| "container_with_image v (c # cs) =
     rbind (jitem c ''image'') (\<lambda>i.
     if py_eq i v then rbind (jitem c ''name'') (\<lambda>_. Inr True) else container_with_image v cs)"

definition image_applied :: "json \<Rightarrow> json \<Rightarrow> bool res" where
  "image_applied obj v =
     rbind (jitem_path obj [''spec'', ''template'', ''spec'', ''containers'']) (\<lambda>cs.
     rbind (jelems cs) (container_with_image v))"

text \<open>\<open>get_image\<close> is the lookup of an image of the chart in a release.\<close>

definition need_apply_images :: "(string \<Rightarrow> json res) \<Rightarrow> string list \<Rightarrow> json \<Rightarrow> bool res" where
  "need_apply_images get_image images obj =
     rbind (rmap (\<lambda>image. rbind (get_image image) (image_applied obj)) images) (\<lambda>applied_images.
     Inr (\<not> list_all id applied_images))"

definition pod_job_child :: "json \<Rightarrow> (string \<times> string) list \<Rightarrow> bool res" where
  "pod_job_child metadata ls =
     rbind (jget metadata ''ownerReferences'' (JList [])) (\<lambda>owners.
     rbind (jelems owners) (\<lambda>os.
     rbind (rmap (\<lambda>o'. rbind (jitem o' ''kind'') (\<lambda>k. Inr (py_eq k (JStr ''Job'')))) os) (\<lambda>kinds.
     Inr (list_ex id kinds \<or> ''job-name'' \<in> set (keys ls) \<or>
          ''batch.kubernetes.io/job-name'' \<in> set (keys ls)))))"

fun ingress_ips :: "json list \<Rightarrow> json list res" where
  "ingress_ips [] = Inr []"
| "ingress_ips (i # is) =
     rbind (jget i ''ip'' JNull) (\<lambda>ip.
     rbind (ingress_ips is) (\<lambda>r. Inr (if jtruthy ip then ip # r else r)))"

definition loadbalancer_ips :: "json \<Rightarrow> json list res" where
  "loadbalancer_ips obj =
     rbind (jitem obj ''status'') (\<lambda>st.
     rbind (jpath_get st [''loadBalancer''] ''ingress'' (JList [])) (\<lambda>is.
     rbind (jelems is) ingress_ips))"

section \<open>Generations and finalizers of a DaemonSet\<close>

definition as_int :: "json \<Rightarrow> json res" where
  "as_int g =
     (case g of
        JStr s \<Rightarrow> rbind (py_int s) (\<lambda>i. Inr (JInt i))
      | JInt i \<Rightarrow> Inr (JInt i)
      | JBool b \<Rightarrow> Inr (JInt (if b then 1 else 0))
      | JFloat r \<Rightarrow> Inr (JInt (if 0 \<le> r then \<lfloor>r\<rfloor> else \<lceil>r\<rceil>))
      | _ \<Rightarrow> Inl TypeError)"

definition daemonset_generation :: "json \<Rightarrow> json res" where
  "daemonset_generation obj =
     rbind (jitem obj ''metadata'') (\<lambda>m.
     rbind (jpath_get m [''annotations''] ''deprecated.daemonset.template.generation'' JNull) (\<lambda>t.
     rbind (if jtruthy t then Inr t else jget m ''generation'' JNull) (\<lambda>g.
     if jtruthy g then as_int g else Inr g)))"

definition pod_generation :: "json \<Rightarrow> json res" where
  "pod_generation obj =
     rbind (jitem_path obj [''metadata'', ''labels'']) (\<lambda>ls.
     rbind (jget ls ''pod-template-generation'' JNull) (\<lambda>g.
     if jtruthy g then as_int g else Inr g))"

text \<open>A pod is restarted when both generations are known and differ.\<close>

definition needs_restart :: "json \<Rightarrow> json \<Rightarrow> bool res" where
  "needs_restart ds p =
     rbind (pod_generation p) (\<lambda>pg.
     rbind (daemonset_generation ds) (\<lambda>dg.
     Inr (jtruthy pg \<and> jtruthy dg \<and> \<not> py_eq pg dg)))"

definition ensure_finalizer_present :: "string \<Rightarrow> string list \<Rightarrow> string list" where
  "ensure_finalizer_present finalizer finalizers =
     (if finalizer \<notin> set finalizers then finalizers @ [finalizer] else finalizers)"

definition ensure_finalizer_absent :: "string \<Rightarrow> string list \<Rightarrow> string list" where
  "ensure_finalizer_absent finalizer finalizers =
     (if finalizer \<in> set finalizers then remove1 finalizer finalizers else finalizers)"

lemma finalizer_present: "finalizer \<in> set (ensure_finalizer_present finalizer fs)"
  by (simp add: ensure_finalizer_present_def)

lemma finalizer_roundtrip:
  "finalizer \<notin> set fs \<Longrightarrow> ensure_finalizer_absent finalizer (ensure_finalizer_present finalizer fs) = fs"
  by (simp add: ensure_finalizer_present_def ensure_finalizer_absent_def remove1_append)

section \<open>Jobs\<close>

definition jpop_quiet :: "string \<Rightarrow> json \<Rightarrow> json res" where
  "jpop_quiet k j = (case j of JObj d \<Rightarrow> Inr (JObj (AList.delete k d)) | _ \<Rightarrow> Inl AttributeError)"

fun jmod :: "string list \<Rightarrow> (json \<Rightarrow> json res) \<Rightarrow> json \<Rightarrow> json res" where
  "jmod [] f j = f j"
| "jmod (k # ks) f j = rbind (jitem j k) (\<lambda>v. rbind (jmod ks f v) (jset j k))"

text \<open>\<open>_prepare_for_rerun\<close>: what the API set on the old job is removed.\<close>

definition prepare_for_rerun :: "json \<Rightarrow> json res" where
  "prepare_for_rerun obj =
     rfold (\<lambda>(path, k). jmod path (jpop_quiet k))
       [([], ''status''), ([''metadata''], ''creationTimestamp''), ([''metadata''], ''resourceVersion''),
        ([''metadata''], ''selfLink''), ([''metadata''], ''uid''),
        ([''metadata'', ''labels''], ''controller-uid''),
        ([''metadata'', ''labels''], ''batch.kubernetes.io/controller-uid''),
        ([''spec'', ''template'', ''metadata''], ''creationTimestamp''),
        ([''spec'', ''template'', ''metadata'', ''labels''], ''controller-uid''),
        ([''spec'', ''template'', ''metadata'', ''labels''], ''batch.kubernetes.io/controller-uid''),
        ([''spec''], ''selector'')] obj"

text \<open>\<open>CronJob.get_latest_job\<close>: jobs with their start time, if any, and whether they have the status.\<close>

record job_info =
  job_start_time :: "int option"
  job_has_status :: bool

fun latest_first :: "(int \<times> 'a) \<Rightarrow> (int \<times> 'a) list \<Rightarrow> (int \<times> 'a) list" where
  "latest_first x [] = [x]"
| "latest_first x (y # ys) = (if fst y \<ge> fst x then y # latest_first x ys else x # y # ys)"

definition sort_latest :: "(int \<times> 'a) list \<Rightarrow> (int \<times> 'a) list" where
  "sort_latest xs = foldl (\<lambda>acc x. latest_first x acc) [] xs"

definition started_jobs :: "job_info list \<Rightarrow> (int \<times> job_info) list" where
  "started_jobs js = List.map_filter (\<lambda>j. case job_start_time j of
     None \<Rightarrow> None | Some t \<Rightarrow> if t = 0 then None else Some (t, j)) js"

definition get_latest_job :: "bool \<Rightarrow> job_info list \<Rightarrow> job_info option" where
  "get_latest_job any_status js =
     (let sorted_jobs = sort_latest (started_jobs js) in
      if any_status then (case sorted_jobs of [] \<Rightarrow> None | x # _ \<Rightarrow> Some (snd x))
      else map_option snd (find (\<lambda>x. job_has_status (snd x)) sorted_jobs))"

lemma latest_first_set: "set (latest_first x ys) = insert x (set ys)"
  by (induction ys) auto

lemma latest_first_sorted:
  "sorted_wrt (\<lambda>a b. fst a \<ge> fst b) ys \<Longrightarrow> sorted_wrt (\<lambda>a b. fst a \<ge> fst b) (latest_first x ys)"
  by (induction ys) (auto simp: latest_first_set)

lemma sort_latest_props:
  "set (sort_latest xs) = set xs" "sorted_wrt (\<lambda>a b. fst a \<ge> fst b) (sort_latest xs)"
proof -
  have "set (foldl (\<lambda>acc x. latest_first x acc) acc xs) = set acc \<union> set xs" for acc
    by (induction xs arbitrary: acc) (auto simp: latest_first_set)
  then show "set (sort_latest xs) = set xs" by (simp add: sort_latest_def)
  have "sorted_wrt (\<lambda>a b. fst a \<ge> fst b) acc \<Longrightarrow>
      sorted_wrt (\<lambda>a b. fst a \<ge> fst b) (foldl (\<lambda>acc x. latest_first x acc) acc xs)" for acc
    by (induction xs arbitrary: acc) (auto simp: latest_first_sorted)
  then show "sorted_wrt (\<lambda>a b. fst a \<ge> fst b) (sort_latest xs)" by (simp add: sort_latest_def)
qed

definition job_candidate :: "bool \<Rightarrow> job_info list \<Rightarrow> int \<times> job_info \<Rightarrow> bool" where
  "job_candidate any_status js x \<longleftrightarrow> x \<in> set (started_jobs js) \<and> (any_status \<or> job_has_status (snd x))"

lemma find_sorted:
  assumes "sorted_wrt (\<lambda>a b. fst a \<ge> fst b) xs" and "find P xs = Some x"
  shows "x \<in> set xs \<and> P x \<and> (\<forall>y \<in> set xs. P y \<longrightarrow> fst y \<le> (fst x :: int))"
  using assms by (induction xs) (auto split: if_splits)

lemma latest_job_is_latest:
  assumes "get_latest_job any_status js = Some j"
  shows "\<exists>u. job_candidate any_status js (u, j) \<and> (\<forall>x. job_candidate any_status js x \<longrightarrow> fst x \<le> u)"
proof -
  let ?P = "\<lambda>x :: int \<times> job_info. any_status \<or> job_has_status (snd x)"
  from assms obtain x where x: "find ?P (sort_latest (started_jobs js)) = Some x" "j = snd x"
    by (cases any_status; cases "sort_latest (started_jobs js)") (auto simp: get_latest_job_def Let_def)
  from find_sorted[OF sort_latest_props(2) x(1)] x(2) show ?thesis
    by (intro exI[of _ "fst x"]) (auto simp: job_candidate_def sort_latest_props(1))
qed

lemma latest_job_none:
  "get_latest_job any_status js = None \<longleftrightarrow> (\<forall>x. \<not> job_candidate any_status js x)"
proof -
  have "sort_latest (started_jobs js) = [] \<longleftrightarrow> set (started_jobs js) = {}"
    using sort_latest_props(1)[of "started_jobs js"] by (metis set_empty)
  then show ?thesis
    by (cases any_status)
       (auto simp: get_latest_job_def Let_def job_candidate_def find_None_iff sort_latest_props(1)
        split: list.splits)
qed

section \<open>Bounded waits and lookups\<close>

definition wait_for_deleted :: "nat \<Rightarrow> ('s \<Rightarrow> 's) \<Rightarrow> ('s \<Rightarrow> bool) \<Rightarrow> ('s, bool) act" where
  "wait_for_deleted n_times tick exists = wait_until n_times tick (aget (\<lambda>s. \<not> exists s))"

definition wait_for_replicas :: "nat \<Rightarrow> ('s \<Rightarrow> 's) \<Rightarrow> ('s \<Rightarrow> json) \<Rightarrow> int \<Rightarrow> ('s, bool) act" where
  "wait_for_replicas n_times tick obj count =
     abind (wait_until n_times tick (abind (aget obj) (\<lambda>o'.
       alift (rbind (jitem o' ''status'') (\<lambda>st.
              rbind (jget st ''readyReplicas'' (JInt 0)) (\<lambda>r. Inr (py_eq r (JInt count)))))))) (\<lambda>ok.
     if ok then aret True else araise ValueError)"

text \<open>\<open>found\<close> is the answer of the API: the object, or \<open>ObjectDoesNotExist\<close>, or another error.\<close>

definition find_object :: "bool \<Rightarrow> json res \<Rightarrow> json option res" where
  "find_object silent found =
     (case found of
        Inr o' \<Rightarrow> Inr (Some o')
      | Inl ObjectDoesNotExist \<Rightarrow> if silent then Inr None else Inl ObjectDoesNotExist
      | Inl e \<Rightarrow> Inl e)"

definition wait_for_resource :: "json res \<Rightarrow> unit res" where
  "wait_for_resource found =
     (case find_object False found of
        Inr _ \<Rightarrow> Inr ()
      | Inl ObjectDoesNotExist \<Rightarrow> Inl (TemporaryError ''The object is not found yet.'')
      | Inl _ \<Rightarrow> Inl (TemporaryError ''Unknown error occured while getting object''))"

definition wait_for_daemonset_ready :: "json res \<Rightarrow> unit res" where
  "wait_for_daemonset_ready found =
     (case rbind (find_object False found) (\<lambda>ds.
            rbind (case ds of None \<Rightarrow> Inl AttributeError | Some o' \<Rightarrow> jitem o' ''status'') (\<lambda>st.
            rbind (rbind (jitem st ''desiredNumberScheduled'') as_int) (\<lambda>desired.
            if \<not> jtruthy desired then Inl ValueError
            else rbind (rbind (jitem st ''numberReady'') as_int) (\<lambda>ready.
                 if \<not> py_eq desired ready then Inl ValueError else Inr ())))) of
        Inr _ \<Rightarrow> Inr ()
      | Inl ObjectDoesNotExist \<Rightarrow> Inl (TemporaryError ''The DaemonSet is not found yet.'')
      | Inl _ \<Rightarrow> Inl (TemporaryError ''An error occured while getting DaemonSet''))"

lemma wait_for_resource_temporary:
  "wait_for_resource found = Inl e \<Longrightarrow> \<exists>m. e = TemporaryError m"
  by (auto simp: wait_for_resource_def split: sum.splits py_exc.splits)

lemma wait_for_resource_iff: "(wait_for_resource found = Inr ()) = (\<exists>o'. found = Inr o')"
  by (auto simp: wait_for_resource_def find_object_def split: sum.splits py_exc.splits)

lemma wait_for_daemonset_temporary:
  "wait_for_daemonset_ready found = Inl e \<Longrightarrow> \<exists>m. e = TemporaryError m"
  by (auto simp: wait_for_daemonset_ready_def split: sum.splits py_exc.splits)

section \<open>Commands in a pod\<close>

text \<open>
  The end of \<open>Pod.exec\<close>: \<open>error\<close> is the content of the error channel, if there is one, as
  \<open>json.loads\<close> reads it.  The exception for a failed command is raised inside the block whose
  handler catches every exception.
\<close>

definition exec_error_json :: "bool \<Rightarrow> json res option \<Rightarrow> json res" where
  "exec_error_json raise_on_error error =
     (case error of
        None \<Rightarrow> Inr jempty
      | Some parsed \<Rightarrow>
          (case rbind parsed (\<lambda>j.
                 rbind (jget j ''status'' JNull) (\<lambda>st.
                 if \<not> py_eq st (JStr ''Success'') \<and> raise_on_error
                 then Inl (OtherException ''PodExecCommandFailed'') else Inr ())) of
             Inr _ \<Rightarrow> parsed
           | Inl _ \<Rightarrow> (case parsed of Inr j \<Rightarrow> Inr j | Inl _ \<Rightarrow> Inr jempty)))"

lemma exec_never_raises: "\<exists>j. exec_error_json raise_on_error error = Inr j"
  by (auto simp: exec_error_json_def rbind_def split: option.splits sum.splits)

end
