(* ===== verification/Workloads.thy ===== *)
theory Workloads
  imports Kube
begin

text \<open>
  The Kubernetes objects the services touch during maintenance: the stateful sets of the databases
  with their pods and volume claims, and daemon sets whose pods are restarted on one node (the
  classes \<open>StatefulSet\<close>, \<open>DaemonSet\<close>, \<open>PersistentVolumeClaim\<close> of \<open>kube.py\<close>).  The state extends the
  cluster of \<open>Maintenance\<close>.
\<close>

section \<open>State\<close>

text \<open>
  A pod of a set with the names of its volume claims; a claim with the object of its volume, None
  when no volume is associated.
\<close>

record set_pod = pod +
  pod_generation_of :: "int option"
  terminating :: bool
  claim_names :: "string list"

record stateful_set =
  set_replicas :: int
  set_pods :: "set_pod list"

record daemon_set =
  ds_generation :: "int option"
  ds_pods :: "set_pod list"

record workloads = cluster +
  stateful_sets :: "(string \<times> stateful_set) list"
  daemon_sets :: "(string \<times> daemon_set) list"
  claims :: "(string \<times> json option) list"

section \<open>Stateful sets\<close>

text \<open>\<open>reload\<close> of a set that is not there fails.\<close>

definition reload_set :: "string \<Rightarrow> ('w workloads_scheme, stateful_set) act" where
  "reload_set name = (\<lambda>c. (case map_of (stateful_sets c) name of None \<Rightarrow> Inl ApiError | Some s \<Rightarrow> Inr s, c))"

definition set_is_node_locked :: "string \<Rightarrow> string \<Rightarrow> ('w workloads_scheme, bool) act" where
  "set_is_node_locked name node_name = abind (reload_set name) (\<lambda>s.
     aret (is_node_locked (set_replicas s) (map pod.truncate (set_pods s)) node_name))"

text \<open>\<open>PersistentVolumeClaim.pv\<close>, and the loop over the claims of all pods of the set.\<close>

definition claim_volume :: "string \<Rightarrow> ('w workloads_scheme, json option) act" where
  "claim_volume claim = (\<lambda>c. (case map_of (claims c) claim of
       None \<Rightarrow> Inl ObjectDoesNotExist | Some pv \<Rightarrow> Inr pv, c))"

definition delete_claim :: "string \<Rightarrow> ('w workloads_scheme, unit) act" where
  "delete_claim claim = amod (\<lambda>c. c\<lparr>claims := AList.delete claim (claims c)\<rparr>)"

definition release_claim :: "string \<Rightarrow> string \<Rightarrow> ('w workloads_scheme, unit) act" where
  "release_claim node_name claim =
     abind (claim_volume claim) (\<lambda>pv.
     case pv of
       None \<Rightarrow> aret ()
     | Some v \<Rightarrow> abind (alift (is_bound_to_node v node_name)) (\<lambda>bound.
         if bound then delete_claim claim else aret ()))"

definition release_persistent_volume_claims :: "string \<Rightarrow> string \<Rightarrow> ('w workloads_scheme, unit) act" where
  "release_persistent_volume_claims name node_name =
     abind (reload_set name) (\<lambda>s.
     aforeach (\<lambda>p. aforeach (release_claim node_name) (claim_names p)) (set_pods s))"

section \<open>Daemon sets\<close>

definition get_pod_on_node :: "string \<Rightarrow> string \<Rightarrow> ('w workloads_scheme, set_pod option) act" where
  "get_pod_on_node ds node_name = (\<lambda>c. (case map_of (daemon_sets c) ds of
       None \<Rightarrow> Inl ApiError
     | Some d \<Rightarrow> Inr (find (\<lambda>p. pod_node p = node_name) (ds_pods d)), c))"

definition get_generation :: "string \<Rightarrow> ('w workloads_scheme, int option) act" where
  "get_generation ds = (\<lambda>c. (case map_of (daemon_sets c) ds of
       None \<Rightarrow> Inl ApiError | Some d \<Rightarrow> Inr (ds_generation d), c))"

definition delete_pod :: "string \<Rightarrow> string \<Rightarrow> ('w workloads_scheme, unit) act" where
  "delete_pod ds name = amod (\<lambda>c. c\<lparr>daemon_sets := map (\<lambda>(n, d).
     (n, if n = ds then d\<lparr>ds_pods := filter (\<lambda>p. pod_name p \<noteq> name) (ds_pods d)\<rparr> else d)) (daemon_sets c)\<rparr>)"

text \<open>\<open>wait_pod_on_node\<close>: no bound in the source; here the number of polls, False when it runs out.\<close>

definition wait_pod_on_node ::
  "nat \<Rightarrow> ('w workloads_scheme \<Rightarrow> 'w workloads_scheme) \<Rightarrow> string \<Rightarrow> string \<Rightarrow> ('w workloads_scheme, bool) act" where
  "wait_pod_on_node rounds tick ds node_name =
     wait_until rounds tick (abind (get_pod_on_node ds node_name) (\<lambda>p.
       aret (case p of None \<Rightarrow> False | Some p \<Rightarrow> \<not> terminating p \<and> pod_ready p)))"

text \<open>A generation of None or 0 is false in Python.\<close>

definition generations_differ :: "int option \<Rightarrow> int option \<Rightarrow> bool" where
  "generations_differ p d \<longleftrightarrow> p \<notin> {None, Some 0} \<and> d \<notin> {None, Some 0} \<and> p \<noteq> d"

definition ensure_pod_generation_on_node ::
  "nat \<Rightarrow> ('w workloads_scheme \<Rightarrow> 'w workloads_scheme) \<Rightarrow> string \<Rightarrow> string \<Rightarrow> ('w workloads_scheme, bool) act" where
  "ensure_pod_generation_on_node rounds tick ds node_name =
     abind (get_pod_on_node ds node_name) (\<lambda>pod.
     case pod of
       None \<Rightarrow> aret True
     | Some p \<Rightarrow>
         abind (get_generation ds) (\<lambda>g.
         if generations_differ (pod_generation_of p) g then
           athen (delete_pod ds (pod_name p)) (wait_pod_on_node rounds tick ds node_name)
         else aret True))"

section \<open>What the operations touch\<close>

lemma same_more:
  "nodes t = nodes c \<Longrightarrow> locks t = locks c \<Longrightarrow> same c t"
  by (simp add: same_def cores_def fun_eq_iff)

lemma workloads_calm [intro]:
  "calm (reload_set name)" "calm (set_is_node_locked name node_name)" "calm (claim_volume claim)"
  "calm (delete_claim claim)" "calm (get_pod_on_node ds node_name)" "calm (get_generation ds)"
  "calm (delete_pod ds pname)"
  by (auto simp: calm_def reload_set_def set_is_node_locked_def claim_volume_def delete_claim_def
      get_pod_on_node_def get_generation_def delete_pod_def amod_def abind_def aret_def same_more
      split: option.splits)

lemma release_claim_calm [intro]: "calm (release_claim node_name claim)"
  unfolding release_claim_def by (intro calm_abind calm_option calm_if calm_alift calm_aret workloads_calm)

lemma release_claims_calm [intro]: "calm (release_persistent_volume_claims name node_name)"
  unfolding release_persistent_volume_claims_def by (intro calm_abind calm_aforeach workloads_calm release_claim_calm)

lemma ensure_generation_calm [intro]:
  "(\<And>c. same c (tick c)) \<Longrightarrow> calm (ensure_pod_generation_on_node rounds tick ds node_name)"
  unfolding ensure_pod_generation_on_node_def wait_pod_on_node_def
  by (intro calm_abind calm_option calm_if calm_wait_until calm_aret workloads_calm)

section \<open>Releasing claims\<close>

text \<open>A successful release deletes the claims of the set that are bound to the node, and no other.\<close>

definition bound_claim :: "string \<Rightarrow> 'w workloads_scheme \<Rightarrow> string \<Rightarrow> bool" where
  "bound_claim node_name c claim \<longleftrightarrow>
     (\<exists>v. map_of (claims c) claim = Some (Some v) \<and> is_bound_to_node v node_name = Inr True)"

lemma release_claim_effect:
  assumes "release_claim node_name claim c = (Inr u, t)"
  shows "map_of (claims t) x = (if x = claim \<and> bound_claim node_name c claim then None else map_of (claims c) x)"
    and "stateful_sets t = stateful_sets c"
  using assms
  by (auto simp: release_claim_def claim_volume_def delete_claim_def bound_claim_def abind_def alift_def
      amod_def aret_def delete_conv' split: option.splits if_splits sum.splits)

lemma release_claim_list:
  "aforeach (release_claim node_name) cs c = (Inr u, t) \<Longrightarrow>
   map_of (claims t) x = (if x \<in> set cs \<and> bound_claim node_name c x then None else map_of (claims c) x)"
proof (induction cs arbitrary: c)
  case Nil
  then show ?case by (simp add: aret_def)
next
  case (Cons y ys)
  then obtain s where s: "release_claim node_name y c = (Inr (), s)"
    "aforeach (release_claim node_name) ys s = (Inr u, t)"
    by (auto simp: abind_eq_Inr)
  from Cons.IH[OF s(2)] release_claim_effect(1)[OF s(1)] show ?case
    by (auto simp: bound_claim_def)
qed

lemma aforeach_append:
  "aforeach f (xs @ ys) = abind (aforeach f xs) (\<lambda>_. aforeach f ys)"
  by (induction xs) (auto simp: abind_assoc)

lemma aforeach_concat: "aforeach (\<lambda>x. aforeach f (g x)) xs = aforeach f (concat (map g xs))"
  by (induction xs) (auto simp: aforeach_append)

lemma release_claims_effect:
  assumes "release_persistent_volume_claims name node_name c = (Inr u, t)"
    and "map_of (stateful_sets c) name = Some s"
  shows "map_of (claims t) x =
    (if x \<in> set (concat (map claim_names (set_pods s))) \<and> bound_claim node_name c x then None
     else map_of (claims c) x)"
  using assms release_claim_list[of node_name "concat (map claim_names (set_pods s))" c u t x]
  by (simp add: release_persistent_volume_claims_def reload_set_def abind_def aforeach_concat)

end
