(* ===== verification/OpenStackApi.thy ===== *)
theory OpenStackApi
  imports MaintenanceHandlers Workloads
begin

text \<open>
  The OpenStack client of \<open>openstack_utils.py\<close>.  The openstacksdk package is not part of the source:
  the record \<open>openstack_sdk\<close> holds its calls as actions on the state, and the locale \<open>openstack_cloud\<close>
  says what the maintenance logic relies on, that these calls never touch the nodes and the locks
  kept in Kubernetes.  \<open>sim_sdk\<close> is a small cloud with this behaviour.
\<close>

section \<open>Objects of the cloud\<close>

record server =
  srv_id :: string
  srv_status :: string
  vm_state :: string
  power_state :: int
  task_state :: "string option"

record compute_service =
  cs_id :: string
  cs_host :: string
  cs_state :: string
  cs_status :: string
  cs_reason :: "string option"
  cs_zone :: "string option"

record volume_service =
  vs_host :: string
  vs_state :: string
  vs_reason :: "string option"

record agent =
  ag_id :: string
  ag_alive :: bool
  ag_admin_up :: bool

record volume =
  vol_id :: string
  vol_host :: "string option"

datatype service_update = Enable | Disable "string option" | ForceDown bool

definition SERVER_STOPPED_POWER_STATES :: "int list" where
  "SERVER_STOPPED_POWER_STATES = [4, 6, 7]"

definition SERVER_STATES_SAFE_FOR_REBOOT :: "string list" where
  "SERVER_STATES_SAFE_FOR_REBOOT = [''building'', ''deleted'', ''soft_deleted'', ''stopped'',
     ''suspended'', ''shelved'', ''shelve_offloaded'']"

definition COMPUTE_SERVICE_DISABLE_REASON :: string where
  "COMPUTE_SERVICE_DISABLE_REASON = ''OSDPL: Node is under maintenance''"

definition VOLUME_SERVICE_DISABLED_REASON :: string where
  "VOLUME_SERVICE_DISABLED_REASON = COMPUTE_SERVICE_DISABLE_REASON"

section \<open>The calls of the SDK\<close>

text \<open>
  \<open>sdk_connect\<close> is the construction of the client; \<open>sdk_volume_services\<close> answers None when the
  response is not ok; \<open>sdk_port_open\<close> is the connection to port 22 of an address, and
  \<open>sdk_service_remove\<close> the run of \<open>cinder-manage service remove\<close> in a pod of the volume API.
\<close>

record 's openstack_sdk =
  sdk_connect :: "('s, unit) act"
  sdk_volume_services :: "string \<Rightarrow> string \<Rightarrow> ('s, volume_service list option) act"
  sdk_volumes :: "('s, volume list) act"
  sdk_volume_disable :: "string \<Rightarrow> string \<Rightarrow> string option \<Rightarrow> ('s, unit) act"
  sdk_volume_enable :: "string \<Rightarrow> string \<Rightarrow> ('s, unit) act"
  sdk_service_remove :: "string \<Rightarrow> ('s, unit) act"
  sdk_compute_services :: "string option \<Rightarrow> string option \<Rightarrow> ('s, compute_service list) act"
  sdk_update_service :: "string \<Rightarrow> service_update \<Rightarrow> ('s, unit) act"
  sdk_delete_service :: "compute_service \<Rightarrow> ('s, unit) act"
  sdk_list_servers :: "string option \<Rightarrow> string option \<Rightarrow> ('s, server list) act"
  sdk_live_migrate :: "server \<Rightarrow> ('s, unit) act"
  sdk_agents :: "string option \<Rightarrow> bool option \<Rightarrow> ('s, agent list) act"
  sdk_update_agent :: "string \<Rightarrow> bool \<Rightarrow> ('s, unit) act"
  sdk_delete_agent :: "agent \<Rightarrow> ('s, unit) act"
  sdk_ports :: "string option \<Rightarrow> ('s, string list) act"
  sdk_delete_port :: "string \<Rightarrow> ('s, unit) act"
  sdk_providers :: "('s, string list) act"
  sdk_delete_provider :: "string \<Rightarrow> ('s, unit) act"
  sdk_notify :: "string \<Rightarrow> ('s, unit) act"
  sdk_port_open :: "string \<Rightarrow> ('s, bool) act"

text \<open>\<open>except exceptions.SDKException\<close> also catches its subclass for HTTP errors.\<close>

definition is_sdk :: "py_exc \<Rightarrow> bool" where
  "is_sdk e \<longleftrightarrow> (case e of SDKException \<Rightarrow> True | HttpException _ \<Rightarrow> True | _ \<Rightarrow> False)"

section \<open>The client\<close>

definition volume_get_services :: "'s openstack_sdk \<Rightarrow> string \<Rightarrow> string \<Rightarrow> ('s, volume_service list) act" where
  "volume_get_services sdk host binary = abind (sdk_volume_services sdk host binary) (\<lambda>r.
     aret (case r of None \<Rightarrow> [] | Some l \<Rightarrow> l))"

definition match_host :: "string option \<Rightarrow> volume \<Rightarrow> bool" where
  "match_host host vol =
     (case host of
        None \<Rightarrow> True
      | Some h \<Rightarrow> (case vol_host vol of None \<Rightarrow> False | Some vh \<Rightarrow> h = hd (py_split CHR ''@'' vh)))"

definition volume_get_volumes :: "'s openstack_sdk \<Rightarrow> string option \<Rightarrow> ('s, volume list) act" where
  "volume_get_volumes sdk host = abind (sdk_volumes sdk) (\<lambda>vs. aret (filter (match_host host) vs))"

definition compute_get_services ::
  "'s openstack_sdk \<Rightarrow> string option \<Rightarrow> string option \<Rightarrow> ('s, compute_service list) act" where
  "compute_get_services sdk host binary = sdk_compute_services sdk host binary"

definition nova_compute :: "string option" where
  "nova_compute = Some ''nova-compute''"

text \<open>\<open>compute_get_services(host=...)[0]\<close>.\<close>

definition first_service :: "'s openstack_sdk \<Rightarrow> string \<Rightarrow> ('s, compute_service) act" where
  "first_service sdk host = abind (compute_get_services sdk (Some host) nova_compute) (\<lambda>l.
     alift (case l of [] \<Rightarrow> Inl IndexError | s # _ \<Rightarrow> Inr s))"

definition compute_ensure_service_enabled :: "'s openstack_sdk \<Rightarrow> compute_service \<Rightarrow> ('s, unit) act" where
  "compute_ensure_service_enabled sdk svc =
     (if py_lower (cs_status svc) \<noteq> ''enabled'' then sdk_update_service sdk (cs_id svc) Enable else aret ())"

definition compute_ensure_service_disabled ::
  "'s openstack_sdk \<Rightarrow> compute_service \<Rightarrow> string option \<Rightarrow> ('s, unit) act" where
  "compute_ensure_service_disabled sdk svc reason =
     (if py_lower (cs_status svc) \<noteq> ''disabled'' then sdk_update_service sdk (cs_id svc) (Disable reason)
      else aret ())"

definition compute_ensure_service_force_down ::
  "'s openstack_sdk \<Rightarrow> compute_service \<Rightarrow> bool \<Rightarrow> ('s, unit) act" where
  "compute_ensure_service_force_down sdk svc forced_down =
     (if py_lower (cs_state svc) \<noteq> (if forced_down then ''down'' else ''up'')
      then sdk_update_service sdk (cs_id svc) (ForceDown forced_down) else aret ())"

definition compute_ensure_services_absent :: "'s openstack_sdk \<Rightarrow> string \<Rightarrow> ('s, unit) act" where
  "compute_ensure_services_absent sdk host =
     abind (compute_get_services sdk (Some host) None) (aforeach (sdk_delete_service sdk))"

text \<open>The loop ends when every service of the host has the state, at once when there is none.\<close>

definition compute_wait_service_state ::
  "nat \<Rightarrow> ('s \<Rightarrow> 's) \<Rightarrow> 's openstack_sdk \<Rightarrow> string \<Rightarrow> string \<Rightarrow> ('s, bool) act" where
  "compute_wait_service_state rounds tick sdk host st =
     wait_until rounds tick (abind (compute_get_services sdk (Some host) None) (\<lambda>l.
       aret (list_all (\<lambda>s. cs_state s = st) l)))"

text \<open>An empty string is no filter.\<close>

definition no_filter :: "string option \<Rightarrow> string option" where
  "no_filter x = (if x = Some [] then None else x)"

definition compute_get_all_servers ::
  "'s openstack_sdk \<Rightarrow> string option \<Rightarrow> string option \<Rightarrow> ('s, server list) act" where
  "compute_get_all_servers sdk host st = sdk_list_servers sdk (no_filter host) (no_filter st)"

definition compute_get_servers_valid_for_live_migration ::
  "'s openstack_sdk \<Rightarrow> string \<Rightarrow> ('s, server list) act" where
  "compute_get_servers_valid_for_live_migration sdk host =
     abind (amap (\<lambda>st. compute_get_all_servers sdk (Some host) (Some st)) [''ACTIVE'', ''PAUSED'']) (\<lambda>ls.
     aret (filter (\<lambda>s. task_state s \<noteq> Some ''migrating'') (concat ls)))"

definition compute_get_servers_in_migrating_state :: "'s openstack_sdk \<Rightarrow> string \<Rightarrow> ('s, server list) act" where
  "compute_get_servers_in_migrating_state sdk host =
     compute_get_all_servers sdk (Some host) (Some ''MIGRATING'')"

text \<open>\<open>ResourceNotFound\<close> is the HTTP error 404.\<close>

definition network_get_agents :: "'s openstack_sdk \<Rightarrow> string option \<Rightarrow> bool option \<Rightarrow> ('s, agent list) act" where
  "network_get_agents sdk host is_alive =
     atry (sdk_agents sdk host is_alive) (\<lambda>e. if e = HttpException 404 then aret [] else araise e)"

definition network_ensure_agent_enabled :: "'s openstack_sdk \<Rightarrow> agent \<Rightarrow> ('s, unit) act" where
  "network_ensure_agent_enabled sdk a = (if \<not> ag_admin_up a then sdk_update_agent sdk (ag_id a) True else aret ())"

definition network_ensure_agent_disabled :: "'s openstack_sdk \<Rightarrow> agent \<Rightarrow> ('s, unit) act" where
  "network_ensure_agent_disabled sdk a = (if ag_admin_up a then sdk_update_agent sdk (ag_id a) False else aret ())"

definition network_ensure_agents_absent :: "'s openstack_sdk \<Rightarrow> string \<Rightarrow> ('s, unit) act" where
  "network_ensure_agents_absent sdk host =
     abind (network_get_agents sdk (Some host) None) (aforeach (sdk_delete_agent sdk))"

definition network_wait_agent_state ::
  "nat \<Rightarrow> ('s \<Rightarrow> 's) \<Rightarrow> 's openstack_sdk \<Rightarrow> string \<Rightarrow> bool \<Rightarrow> ('s, bool) act" where
  "network_wait_agent_state rounds tick sdk host is_alive =
     wait_until rounds tick (abind (network_get_agents sdk (Some host) None) (\<lambda>l.
       aret (list_all (\<lambda>a. ag_alive a = is_alive) l)))"

definition network_get_ports :: "'s openstack_sdk \<Rightarrow> string option \<Rightarrow> ('s, string list) act" where
  "network_get_ports sdk device_owner =
     atry (sdk_ports sdk device_owner) (\<lambda>e. if e = HttpException 404 then aret [] else araise e)"

definition network_ensure_ports_absent :: "'s openstack_sdk \<Rightarrow> string \<Rightarrow> ('s, unit) act" where
  "network_ensure_ports_absent sdk device_owner =
     abind (network_get_ports sdk (Some device_owner)) (aforeach (sdk_delete_port sdk))"

definition placement_resource_provider_absent :: "'s openstack_sdk \<Rightarrow> string \<Rightarrow> ('s, unit) act" where
  "placement_resource_provider_absent sdk host =
     abind (sdk_providers sdk) (aforeach (\<lambda>rp.
       if hd (py_split CHR ''.'' rp) = host then sdk_delete_provider sdk rp else aret ()))"

section \<open>Masakari\<close>

definition notify_masakari_host_down :: "'s openstack_sdk \<Rightarrow> string \<Rightarrow> ('s, unit) act" where
  "notify_masakari_host_down sdk name =
     atry (athen (sdk_connect sdk) (sdk_notify sdk name)) (\<lambda>e.
       case e of
         EndpointNotFound \<Rightarrow> aret ()
       | HttpException n \<Rightarrow>
           if n \<in> {400, 409} then aret () else araise (TemporaryError ''Failed to notify Masakari'')
       | _ \<Rightarrow> araise (TemporaryError ''Failed to notify Masakari''))"

text \<open>The first internal address of the node, None when there is none or it is empty.\<close>

fun internal_ip :: "json list \<Rightarrow> string option res" where
  "internal_ip [] = Inr None"
| "internal_ip (a # as) =
     rbind (jget a ''type'' JNull) (\<lambda>t.
     rbind (jin ''address'' a) (\<lambda>has.
     if py_eq t (JStr ''InternalIP'') \<and> has then
       rbind (jitem a ''address'') (\<lambda>v. rbind (jstr v) (\<lambda>s. Inr (if s = [] then None else Some s)))
     else internal_ip as))"

definition check_host_down ::
  "'w cluster_scheme openstack_sdk \<Rightarrow> json list \<Rightarrow> string \<Rightarrow> ('w cluster_scheme, unit) act" where
  "check_host_down sdk addresses name =
     athen (sdk_connect sdk) (
     abind (compute_get_all_servers sdk (Some name) None) (\<lambda>servers.
     if servers = [] then aret ()
     else
       abind (compute_get_services sdk (Some name) nova_compute) (\<lambda>compute_services.
       if list_ex (\<lambda>s. cs_state s = ''up'') compute_services then
         araise (TemporaryError ''Some compute services are still alive'')
       else
         abind (network_get_agents sdk (Some name) (Some True)) (\<lambda>alive.
         if alive \<noteq> [] then araise (TemporaryError ''Some network agents are alive'')
         else
           abind (alift (internal_ip addresses)) (\<lambda>ip.
           case ip of
             None \<Rightarrow> aret ()
           | Some a \<Rightarrow>
               abind (sdk_port_open sdk a) (\<lambda>open22.
               if open22 then araise (TemporaryError ''Port 22 is opened'')
               else notify_masakari_host_down sdk name))))))"

definition unschedulable :: "node_view \<Rightarrow> bool" where
  "unschedulable node = (case view_spec node of
     JObj d \<Rightarrow> (case map_of d ''unschedulable'' of None \<Rightarrow> False | Some v \<Rightarrow> jtruthy v) | _ \<Rightarrow> False)"

text \<open>\<open>addresses\<close> is \<open>node.obj["status"]["addresses"]\<close>.  Every exception but a missing endpoint becomes temporary.\<close>

definition handle_masakari_host_down ::
  "'w cluster_scheme openstack_sdk \<Rightarrow> json list \<Rightarrow> node_view \<Rightarrow> ('w cluster_scheme, unit) act" where
  "handle_masakari_host_down sdk addresses node =
     abind (node_is_ready (view_name node)) (\<lambda>ready.
     if ready then aret ()
     else abind (is_active (nwl_key (view_name node))) (\<lambda>active.
     if \<not> active then aret ()
     else if unschedulable node then aret ()
     else atry (check_host_down sdk addresses (view_name node)) (\<lambda>e.
       if e = EndpointNotFound then aret ()
       else araise (case e of TemporaryError m \<Rightarrow> TemporaryError m | _ \<Rightarrow> TemporaryError ''Failed to handle host down''))))"

section \<open>The contract\<close>

locale openstack_cloud =
  fixes sdk :: "'w cluster_scheme openstack_sdk"
  assumes connect_calm: "calm (sdk_connect sdk)"
    and volume_services_calm: "calm (sdk_volume_services sdk h b)"
    and volumes_calm: "calm (sdk_volumes sdk)"
    and volume_disable_calm: "calm (sdk_volume_disable sdk h b r)"
    and volume_enable_calm: "calm (sdk_volume_enable sdk h b)"
    and service_remove_calm: "calm (sdk_service_remove sdk h)"
    and compute_services_calm: "calm (sdk_compute_services sdk oh ob)"
    and update_service_calm: "calm (sdk_update_service sdk i upd)"
    and delete_service_calm: "calm (sdk_delete_service sdk cs)"
    and list_servers_calm: "calm (sdk_list_servers sdk oh os)"
    and live_migrate_calm: "calm (sdk_live_migrate sdk srv)"
    and agents_calm: "calm (sdk_agents sdk oh al)"
    and delete_agent_calm: "calm (sdk_delete_agent sdk ag)"
    and providers_calm: "calm (sdk_providers sdk)"
    and delete_provider_calm: "calm (sdk_delete_provider sdk rp)"
    and notify_calm: "calm (sdk_notify sdk host)"
    and port_open_calm: "calm (sdk_port_open sdk ip)"
begin

lemmas sdk_calm = connect_calm volume_services_calm volumes_calm volume_disable_calm volume_enable_calm
  service_remove_calm compute_services_calm update_service_calm delete_service_calm list_servers_calm
  live_migrate_calm agents_calm delete_agent_calm providers_calm delete_provider_calm notify_calm port_open_calm

lemmas flow_calm = calm_abind calm_atry calm_if calm_option calm_list calm_aforeach calm_amap calm_aret calm_araise
  calm_alift calm_aget

lemma client_calm:
  "calm (volume_get_services sdk host binary)" "calm (volume_get_volumes sdk oh)"
  "calm (compute_get_services sdk oh ob)" "calm (first_service sdk host)"
  "calm (compute_ensure_service_enabled sdk cs)" "calm (compute_ensure_service_disabled sdk cs reason)"
  "calm (compute_ensure_services_absent sdk host)" "calm (compute_get_all_servers sdk oh os)"
  "calm (network_get_agents sdk oh al)" "calm (network_ensure_agents_absent sdk host)"
  "calm (placement_resource_provider_absent sdk host)"
  unfolding volume_get_services_def volume_get_volumes_def compute_get_services_def first_service_def
    compute_ensure_service_enabled_def compute_ensure_service_disabled_def compute_ensure_services_absent_def
    compute_get_all_servers_def network_get_agents_def network_ensure_agents_absent_def
    placement_resource_provider_absent_def
  by (intro flow_calm sdk_calm)+

lemma servers_calm:
  "calm (compute_get_servers_valid_for_live_migration sdk host)"
  "calm (compute_get_servers_in_migrating_state sdk host)"
  unfolding compute_get_servers_valid_for_live_migration_def compute_get_servers_in_migrating_state_def
  by (intro flow_calm client_calm)+

lemma wait_calm:
  assumes "\<And>c. same c (tick c)"
  shows "calm (compute_wait_service_state rounds tick sdk host st)"
    "calm (network_wait_agent_state rounds tick sdk host al)"
  unfolding compute_wait_service_state_def network_wait_agent_state_def
  by (intro calm_wait_until flow_calm client_calm assms)+

lemma notify_masakari_calm: "calm (notify_masakari_host_down sdk name)"
  unfolding notify_masakari_host_down_def
  by (intro flow_calm sdk_calm) (auto split: py_exc.split intro: calm_if)

lemma handle_masakari_calm: "calm (handle_masakari_host_down sdk addresses node)"
proof -
  have r: "calm (node_is_ready n)" for n by (simp add: node_is_ready_def calm_def)
  show ?thesis unfolding handle_masakari_host_down_def check_host_down_def
    by (intro flow_calm sdk_calm client_calm notify_masakari_calm calm_reads r)
qed

end

end
