(* ===== verification/ServiceMaintenance.thy ===== *)
theory ServiceMaintenance
  imports OpenStackApi MaintenanceSteps
begin

text \<open>
  The maintenance hooks of the services (\<open>services/__init__.py\<close>): Nova, Cinder, Neutron and the
  clustered databases (Coordination, Redis, MariaDB).  Each becomes a \<open>maintenance_mixin\<close>; that it
  keeps to the contract \<open>maintenance_service\<close> follows from the contract \<open>openstack_cloud\<close> of the API.
  A loop that has no bound in the source gets a number of rounds here; running out of them is the
  exception \<open>still_waiting\<close>, which nothing in the source raises or catches.
\<close>

section \<open>Shared pieces\<close>

record maintenance_opts =
  respect_nova_az :: bool
  ndr_skip_instance_check :: bool
  ndr_skip_volume_check :: bool
  instance_migrate_concurrency :: int

definition still_waiting :: py_exc where
  "still_waiting = OtherException ''still waiting''"

text \<open>\<open>nwl.obj["spec"]["nodeName"]\<close> of the lock, or of the dummy that stands for a missing one.\<close>

definition lock_node_name :: "lock_key \<Rightarrow> ('w cluster_scheme, string) act" where
  "lock_node_name key = (\<lambda>c. (case map_of (locks c) key of
       None \<Rightarrow> Inr (node_of_lock_name (snd key))
     | Some l \<Rightarrow> (case nodeName l of None \<Rightarrow> Inl (KeyError ''nodeName'') | Some n \<Rightarrow> Inr n), c))"

definition fail_with :: "lock_key \<Rightarrow> string \<Rightarrow> ('w cluster_scheme, 'a) act" where
  "fail_with key msg = abind (set_error_message key msg) (\<lambda>_. araise (TemporaryError msg))"

text \<open>\<open>try: m except SDKException: nwl.set_error_message(msg); raise TemporaryError(msg)\<close>\<close>

definition sdk_guard :: "lock_key \<Rightarrow> string \<Rightarrow> ('w cluster_scheme, 'a) act \<Rightarrow> ('w cluster_scheme, 'a) act" where
  "sdk_guard key msg m = atry m (\<lambda>e. if is_sdk e then fail_with key msg else araise e)"

text \<open>\<open>asyncio.wait_for(utils.async_retry(cond), timeout)\<close>: at most \<open>rounds\<close> polls fit into the timeout.\<close>

definition wait_for :: "nat \<Rightarrow> ('s \<Rightarrow> 's) \<Rightarrow> ('s, bool) act \<Rightarrow> ('s, unit) act" where
  "wait_for rounds tick cond =
     abind (wait_until rounds tick cond) (\<lambda>ok. if ok then aret () else araise TimeoutError)"

definition wait_unbounded :: "('s, bool) act \<Rightarrow> ('s, unit) act" where
  "wait_unbounded m = abind m (\<lambda>ok. if ok then aret () else araise still_waiting)"

section \<open>Databases with a quorum\<close>

definition quorum_mixin ::
  "(string \<Rightarrow> ('w cluster_scheme, bool) act) \<Rightarrow> (string \<Rightarrow> ('w cluster_scheme, unit) act) \<Rightarrow> string \<Rightarrow>
   'w cluster_scheme maintenance_mixin" where
  "quorum_mixin node_locked release_claims app = mixin_default\<lparr>
     svc_can_handle_nmr := \<lambda>node _. abind (node_locked (view_name node)) (\<lambda>l. aret (\<not> l)),
     process_ndr := \<lambda>node key. abind (lock_node_name key) (\<lambda>n.
       abind (node_locked n) (\<lambda>l.
       if l then araise (TemporaryError (''The node is hard locked by '' @ app)) else aret ())),
     cleanup_persistent_data := \<lambda>key. abind (lock_node_name key) (\<lambda>n.
       abind (node_locked n) (\<lambda>l.
       if l then fail_with key (''The node is hard locked by '' @ app) else release_claims n))\<rparr>"

definition coordination_mixin :: "'w workloads_scheme maintenance_mixin" where
  "coordination_mixin =
     quorum_mixin (set_is_node_locked ''etcd-etcd'') (release_persistent_volume_claims ''etcd-etcd'') ''etcd''"

definition mariadb_mixin :: "'w workloads_scheme maintenance_mixin" where
  "mariadb_mixin = quorum_mixin (set_is_node_locked ''mariadb-server'')
     (release_persistent_volume_claims ''mariadb-server'') ''mariadb''"

text \<open>The set of Redis is looked up silently: without it the node is not locked.\<close>

definition redis_set :: string where
  "redis_set = ''rfr-openstack-redis''"

definition redis_is_node_locked :: "string \<Rightarrow> ('w workloads_scheme, bool) act" where
  "redis_is_node_locked node_name = abind (aget (\<lambda>c. map_of (stateful_sets c) redis_set \<noteq> None)) (\<lambda>found.
     if found then set_is_node_locked redis_set node_name else aret False)"

definition redis_release_claims :: "string \<Rightarrow> ('w workloads_scheme, unit) act" where
  "redis_release_claims node_name = abind (aget (\<lambda>c. map_of (stateful_sets c) redis_set \<noteq> None)) (\<lambda>found.
     if found then release_persistent_volume_claims redis_set node_name else aret ())"

definition redis_mixin :: "'w workloads_scheme maintenance_mixin" where
  "redis_mixin = quorum_mixin redis_is_node_locked redis_release_claims ''redis''"

section \<open>Cinder\<close>

definition cinder_volume :: string where
  "cinder_volume = ''cinder-volume''"

definition cinder_remove_node_from_scheduling ::
  "'w cluster_scheme openstack_sdk \<Rightarrow> node_view \<Rightarrow> ('w cluster_scheme, unit) act" where
  "cinder_remove_node_from_scheduling sdk node =
     sdk_guard (nwl_key (view_name node)) ''Can not disable block-storage service on a host to be deleted'' (
       athen (sdk_connect sdk) (
       abind (volume_get_services sdk (view_name node) cinder_volume) (\<lambda>volume_services.
       if volume_services \<noteq> [] then
         sdk_volume_disable sdk (view_name node) cinder_volume (Some VOLUME_SERVICE_DISABLED_REASON)
       else aret ())))"

definition cinder_add_node_to_scheduling ::
  "'w cluster_scheme openstack_sdk \<Rightarrow> node_view \<Rightarrow> ('w cluster_scheme, unit) act" where
  "cinder_add_node_to_scheduling sdk node =
     sdk_guard (nwl_key (view_name node)) ''Can not enable block-storage service on the host'' (
       athen (sdk_connect sdk) (
       abind (volume_get_services sdk (view_name node) cinder_volume) (\<lambda>volume_services.
       case volume_services of
         [] \<Rightarrow> aret ()
       | s # _ \<Rightarrow>
           if vs_reason s = Some VOLUME_SERVICE_DISABLED_REASON then
             sdk_volume_enable sdk (view_name node) cinder_volume
           else aret ())))"

definition cinder_process_ndr ::
  "maintenance_opts \<Rightarrow> 'w cluster_scheme openstack_sdk \<Rightarrow> node_view \<Rightarrow> lock_key \<Rightarrow> ('w cluster_scheme, unit) act" where
  "cinder_process_ndr opts sdk node key =
     athen (cinder_remove_node_from_scheduling sdk node) (
     if ndr_skip_volume_check opts then aret ()
     else athen (sdk_connect sdk) (
       abind (volume_get_volumes sdk (Some (view_name node))) (\<lambda>vols.
       if vols \<noteq> [] then fail_with key ''Some volumes are still present on host'' else aret ())))"

text \<open>\<open>api_pods\<close> are the pods of the volume API; the first runs the command.\<close>

definition cinder_cleanup_metadata ::
  "nat \<Rightarrow> ('w cluster_scheme \<Rightarrow> 'w cluster_scheme) \<Rightarrow> ('w cluster_scheme \<Rightarrow> string list) \<Rightarrow>
   'w cluster_scheme openstack_sdk \<Rightarrow> lock_key \<Rightarrow> ('w cluster_scheme, unit) act" where
  "cinder_cleanup_metadata rounds tick api_pods sdk key =
     abind (lock_node_name key) (\<lambda>node_name.
     athen (sdk_connect sdk) (
     athen (wait_for rounds tick (abind (volume_get_services sdk node_name cinder_volume) (\<lambda>l.
              aret (\<not> list_ex (\<lambda>s. py_lower (vs_state s) = ''up'') l)))) (
     abind (aget api_pods) (\<lambda>ps.
     if ps = [] then araise IndexError
     else abind (volume_get_services sdk node_name cinder_volume)
            (aforeach (\<lambda>s. sdk_service_remove sdk (vs_host s)))))))"

definition cinder_mixin ::
  "maintenance_opts \<Rightarrow> nat \<Rightarrow> ('w cluster_scheme \<Rightarrow> 'w cluster_scheme) \<Rightarrow> ('w cluster_scheme \<Rightarrow> string list) \<Rightarrow>
   'w cluster_scheme openstack_sdk \<Rightarrow> 'w cluster_scheme maintenance_mixin" where
  "cinder_mixin opts rounds tick api_pods sdk = mixin_default\<lparr>
     remove_node_from_scheduling := cinder_remove_node_from_scheduling sdk,
     add_node_to_scheduling := cinder_add_node_to_scheduling sdk,
     process_ndr := cinder_process_ndr opts sdk,
     cleanup_metadata := cinder_cleanup_metadata rounds tick api_pods sdk\<rparr>"

section \<open>Neutron\<close>

text \<open>\<open>backend\<close> is \<open>features.neutron.backend\<close>; \<open>child_sets\<close> finds the daemon sets of a name.\<close>

definition neutron_daemonsets :: "string list" where
  "neutron_daemonsets = [''ovn-controller'', ''openvswitch-vswitchd'', ''neutron-l3-agent'']"

definition neutron_prepare_node_after_reboot ::
  "maintenance_conf \<Rightarrow> json res \<Rightarrow> (string \<Rightarrow> string list) \<Rightarrow> nat \<Rightarrow> ('w workloads_scheme \<Rightarrow> 'w workloads_scheme) \<Rightarrow>
   'w workloads_scheme openstack_sdk \<Rightarrow> node_view \<Rightarrow> ('w workloads_scheme, unit) act" where
  "neutron_prepare_node_after_reboot conf backend child_sets rounds tick sdk node =
     abind (alift backend) (\<lambda>backend.
      if py_eq backend (JStr ''tungstenfabric'') then aret ()
      else if \<not> list_ex (has_role conf (view_labels node)) [compute, gateway] then aret ()
      else
        athen (aforeach (\<lambda>ds. aforeach (\<lambda>d.
                 wait_unbounded (ensure_pod_generation_on_node rounds tick d (view_name node))) (child_sets ds))
               neutron_daemonsets) (
        sdk_guard (nwl_key (view_name node)) ''Got error while waiting for network agents.'' (
          athen (sdk_connect sdk) (
          atry (wait_for rounds tick (abind (network_get_agents sdk (Some (view_name node)) (Some False)) (\<lambda>l.
                  aret (l = []))))
            (\<lambda>e. if e = TimeoutError then
                 fail_with (nwl_key (view_name node)) ''Timeout waiting for network agents on the host''
               else araise e)))))"

definition neutron_cleanup_metadata ::
  "nat \<Rightarrow> ('w cluster_scheme \<Rightarrow> 'w cluster_scheme) \<Rightarrow> 'w cluster_scheme openstack_sdk \<Rightarrow> lock_key \<Rightarrow>
   ('w cluster_scheme, unit) act" where
  "neutron_cleanup_metadata rounds tick sdk key =
     abind (lock_node_name key) (\<lambda>node_name.
     athen (sdk_connect sdk) (
     athen (wait_unbounded (network_wait_agent_state rounds tick sdk node_name False))
       (network_ensure_agents_absent sdk node_name)))"

definition neutron_mixin ::
  "maintenance_conf \<Rightarrow> json res \<Rightarrow> (string \<Rightarrow> string list) \<Rightarrow> nat \<Rightarrow> ('w workloads_scheme \<Rightarrow> 'w workloads_scheme) \<Rightarrow>
   'w workloads_scheme openstack_sdk \<Rightarrow> 'w workloads_scheme maintenance_mixin" where
  "neutron_mixin conf backend child_sets rounds tick sdk = mixin_default\<lparr>
     prepare_node_after_reboot := neutron_prepare_node_after_reboot conf backend child_sets rounds tick sdk,
     cleanup_metadata := neutron_cleanup_metadata rounds tick sdk\<rparr>"

end
