(* ===== verification/NovaMaintenance.thy ===== *)
theory NovaMaintenance
  imports ServiceMaintenance
begin

text \<open>
  The maintenance hooks of Nova (\<open>class Nova\<close> of \<open>services/__init__.py\<close>), with the loop that migrates
  the servers away from a host.  The dictionary \<open>servers_migrating_count\<close> is the loop's own state; the
  number of rounds is fuel, and \<open>migration_ends\<close> says how much of it is enough.
\<close>

section \<open>Live migration\<close>

text \<open>
  \<open>pick\<close> is the random choice of a server, \<open>sleep n\<close> what happens to the world in \<open>n\<close> seconds.  The
  first attempt sets the count to 2, and a server with a count above the limit is left alone.
\<close>

type_synonym migration_counts = "(string \<times> int) list"

definition bump :: "migration_counts \<Rightarrow> string \<Rightarrow> migration_counts" where
  "bump cnts i = AList.update i ((case map_of cnts i of None \<Rightarrow> 1 | Some n \<Rightarrow> n) + 1) cnts"

definition given_up :: "int \<Rightarrow> migration_counts \<Rightarrow> string \<Rightarrow> bool" where
  "given_up attempts cnts i = (case map_of cnts i of None \<Rightarrow> False | Some n \<Rightarrow> n > attempts)"

record 's migration_env =
  env_sdk :: "'s openstack_sdk"
  env_pick :: "'s \<Rightarrow> server list \<Rightarrow> nat"
  env_sleep :: "nat \<Rightarrow> 's \<Rightarrow> 's"

definition start_migration ::
  "'w cluster_scheme migration_env \<Rightarrow> lock_key \<Rightarrow> server list \<Rightarrow> migration_counts \<Rightarrow>
   ('w cluster_scheme, migration_counts) act" where
  "start_migration env key servers cnts =
     abind (aget (\<lambda>s. servers ! (env_pick env s servers mod length servers))) (\<lambda>srv.
     abind (set_error_message key ''Starting migration'') (\<lambda>_.
     abind (atry (abind (sdk_live_migrate (env_sdk env) srv) (\<lambda>_. amod (env_sleep env 5)))
              (\<lambda>e. set_error_message key ''Got error while trying to migrate server'')) (\<lambda>_.
     aret (bump cnts (srv_id srv)))))"

definition migrate_round ::
  "'w cluster_scheme migration_env \<Rightarrow> string \<Rightarrow> lock_key \<Rightarrow> int \<Rightarrow> int \<Rightarrow> server list \<Rightarrow> migration_counts \<Rightarrow>
   ('w cluster_scheme, server list \<times> migration_counts) act" where
  "migrate_round env host key attempts concurrency servers cnts =
     abind (compute_get_servers_in_migrating_state (env_sdk env) host) (\<lambda>migrating.
     abind (if int (length migrating) < concurrency then start_migration env key servers cnts
            else abind (set_error_message key ''Waiting servers migration is completed'') (\<lambda>_.
                 abind (amod (env_sleep env 30)) (\<lambda>_. aret cnts))) (\<lambda>cnts.
     abind (amod (env_sleep env 5)) (\<lambda>_.
     abind (compute_get_servers_valid_for_live_migration (env_sdk env) host) (\<lambda>servers.
     aret (filter (\<lambda>s. \<not> given_up attempts cnts (srv_id s)) servers, cnts)))))"

fun migrate_loop ::
  "nat \<Rightarrow> 'w cluster_scheme migration_env \<Rightarrow> string \<Rightarrow> lock_key \<Rightarrow> int \<Rightarrow> int \<Rightarrow> server list \<Rightarrow> migration_counts \<Rightarrow>
   ('w cluster_scheme, migration_counts option) act" where
  "migrate_loop 0 env host key attempts concurrency servers cnts =
     aret (if servers = [] then Some cnts else None)"
| "migrate_loop (Suc n) env host key attempts concurrency servers cnts =
     (if servers = [] then aret (Some cnts)
      else abind (migrate_round env host key attempts concurrency servers cnts) (\<lambda>(servers, cnts).
           migrate_loop n env host key attempts concurrency servers cnts))"

definition do_servers_migration ::
  "nat \<Rightarrow> 'w cluster_scheme migration_env \<Rightarrow> string \<Rightarrow> lock_key \<Rightarrow> int \<Rightarrow> int \<Rightarrow> ('w cluster_scheme, unit) act" where
  "do_servers_migration fuel env host key attempts concurrency =
     abind (compute_get_servers_valid_for_live_migration (env_sdk env) host) (\<lambda>servers.
     abind (migrate_loop fuel env host key attempts concurrency servers []) (\<lambda>r.
     case r of None \<Rightarrow> araise still_waiting | Some _ \<Rightarrow> aret ()))"

definition safe_for_reboot :: "server \<Rightarrow> bool" where
  "safe_for_reboot s \<longleftrightarrow> vm_state s \<in> set SERVER_STATES_SAFE_FOR_REBOOT \<or>
     power_state s \<in> set SERVER_STOPPED_POWER_STATES"

definition check_migration_completed ::
  "'w cluster_scheme openstack_sdk \<Rightarrow> string \<Rightarrow> lock_key \<Rightarrow> ('w cluster_scheme, unit) act" where
  "check_migration_completed sdk host key =
     abind (compute_get_all_servers sdk (Some host) None) (\<lambda>all_servers.
     if filter (\<lambda>s. \<not> safe_for_reboot s) all_servers \<noteq> []
     then fail_with key ''Some servers are still present on host'' else aret ())"

definition migrate_servers ::
  "nat \<Rightarrow> 'w cluster_scheme migration_env \<Rightarrow> string \<Rightarrow> lock_key \<Rightarrow> string \<Rightarrow> int \<Rightarrow> int \<Rightarrow> ('w cluster_scheme, unit) act" where
  "migrate_servers fuel env host key mode attempts concurrency =
     (if mode = ''skip'' then aret ()
      else abind (if mode = ''live'' then do_servers_migration fuel env host key attempts concurrency else aret ())
             (\<lambda>_. check_migration_completed (env_sdk env) host key))"

section \<open>The hooks\<close>

definition nova_can_handle_nmr ::
  "maintenance_conf \<Rightarrow> maintenance_opts \<Rightarrow> 'w cluster_scheme openstack_sdk \<Rightarrow> node_view \<Rightarrow>
   (node_role \<times> string list) list \<Rightarrow> ('w cluster_scheme, bool) act" where
  "nova_can_handle_nmr conf opts sdk node active_locks =
     (if \<not> has_role conf (view_labels node) compute then aret True
      else if \<not> respect_nova_az opts then aret True
      else
        abind (sdk_connect sdk) (\<lambda>_.
        abind (first_service sdk (view_name node)) (\<lambda>s.
        case map_of active_locks compute of
          None \<Rightarrow> araise (KeyError ''compute'')
        | Some [] \<Rightarrow> aret True
        | Some (nwl # _) \<Rightarrow>
            abind (lock_node_name (NodeWorkloadLock, nwl)) (\<lambda>hostname.
            abind (first_service sdk hostname) (\<lambda>s'.
            aret (cs_zone s = None \<or> cs_zone s = cs_zone s'))))))"

definition nova_remove_node_from_scheduling ::
  "maintenance_conf \<Rightarrow> 'w cluster_scheme openstack_sdk \<Rightarrow> node_view \<Rightarrow> ('w cluster_scheme, unit) act" where
  "nova_remove_node_from_scheduling conf sdk node =
     (if \<not> has_role conf (view_labels node) compute then aret ()
      else sdk_guard (nwl_key (view_name node)) ''Can not disable compute service on a host to be deleted'' (
        abind (sdk_connect sdk) (\<lambda>_.
        abind (first_service sdk (view_name node)) (\<lambda>s.
        compute_ensure_service_disabled sdk s (Some COMPUTE_SERVICE_DISABLE_REASON)))))"

definition node_options :: "node_view \<Rightarrow> ('w cluster_scheme, (string \<times> opt_value) list) act" where
  "node_options node = (\<lambda>c. (case map_of (nodes c) (view_name node) of
       None \<Rightarrow> Inl ApiError | Some n \<Rightarrow> node_maintenance_config (annotations n), c))"

definition cfg_str :: "(string \<times> opt_value) list \<Rightarrow> string \<Rightarrow> string res" where
  "cfg_str cfg k = (case map_of cfg k of Some (OStr s) \<Rightarrow> Inr s | _ \<Rightarrow> Inl AttributeError)"

definition cfg_int :: "(string \<times> opt_value) list \<Rightarrow> string \<Rightarrow> int res" where
  "cfg_int cfg k = (case map_of cfg k of Some (OInt i) \<Rightarrow> Inr i | _ \<Rightarrow> Inl AttributeError)"

definition nova_prepare_node_for_reboot ::
  "maintenance_conf \<Rightarrow> maintenance_opts \<Rightarrow> nat \<Rightarrow> 'w cluster_scheme migration_env \<Rightarrow> node_view \<Rightarrow>
   ('w cluster_scheme, unit) act" where
  "nova_prepare_node_for_reboot conf opts fuel env node =
     (if \<not> has_role conf (view_labels node) compute then aret ()
      else
        abind (node_options node) (\<lambda>cfg.
        abind (alift (cfg_str cfg ''instance_migration_mode'')) (\<lambda>mode.
        abind (alift (cfg_int cfg ''instance_migration_attempts'')) (\<lambda>attempts.
        sdk_guard (nwl_key (view_name node)) ''Retrying migrate instances from host'' (
          abind (sdk_connect (env_sdk env)) (\<lambda>_.
          migrate_servers fuel env (view_name node) (nwl_key (view_name node)) mode attempts
            (instance_migrate_concurrency opts)))))))"

definition nova_prepare_node_after_reboot ::
  "maintenance_conf \<Rightarrow> nat \<Rightarrow> ('w cluster_scheme \<Rightarrow> 'w cluster_scheme) \<Rightarrow> 'w cluster_scheme openstack_sdk \<Rightarrow>
   node_view \<Rightarrow> ('w cluster_scheme, unit) act" where
  "nova_prepare_node_after_reboot conf rounds tick sdk node =
     (if \<not> has_role conf (view_labels node) compute then aret ()
      else sdk_guard (nwl_key (view_name node)) ''Got error while waiting services to be UP on the host'' (
        abind (sdk_connect sdk) (\<lambda>_.
        atry (wait_for rounds tick (abind (compute_get_services sdk (Some (view_name node)) nova_compute) (\<lambda>l.
                aret (l \<noteq> [] \<and> list_all (\<lambda>s. py_lower (cs_state s) = ''up'') l))))
          (\<lambda>e. if e = TimeoutError then
               fail_with (nwl_key (view_name node)) ''Timeout waiting for compute services up on the host''
             else araise e))))"

definition nova_add_node_to_scheduling ::
  "maintenance_conf \<Rightarrow> 'w cluster_scheme openstack_sdk \<Rightarrow> node_view \<Rightarrow> ('w cluster_scheme, unit) act" where
  "nova_add_node_to_scheduling conf sdk node =
     (if \<not> has_role conf (view_labels node) compute then aret ()
      else sdk_guard (nwl_key (view_name node)) ''Can not bring node back to scheduling'' (
        abind (sdk_connect sdk) (\<lambda>_.
        abind (first_service sdk (view_name node)) (\<lambda>s.
        if cs_reason s = Some COMPUTE_SERVICE_DISABLE_REASON then compute_ensure_service_enabled sdk s
        else aret ()))))"

definition nova_process_ndr ::
  "maintenance_conf \<Rightarrow> maintenance_opts \<Rightarrow> 'w cluster_scheme openstack_sdk \<Rightarrow> node_view \<Rightarrow> lock_key \<Rightarrow>
   ('w cluster_scheme, unit) act" where
  "nova_process_ndr conf opts sdk node key =
     abind (nova_remove_node_from_scheduling conf sdk node) (\<lambda>_.
     if ndr_skip_instance_check opts then aret ()
     else
       abind (sdk_connect sdk) (\<lambda>_.
       abind (compute_get_all_servers sdk (Some (view_name node)) None) (\<lambda>servers.
       if servers \<noteq> [] then fail_with key ''Some servers are still present on host'' else aret ())))"

definition nova_cleanup_metadata ::
  "nat \<Rightarrow> ('w cluster_scheme \<Rightarrow> 'w cluster_scheme) \<Rightarrow> 'w cluster_scheme openstack_sdk \<Rightarrow> lock_key \<Rightarrow>
   ('w cluster_scheme, unit) act" where
  "nova_cleanup_metadata rounds tick sdk key =
     abind (lock_node_name key) (\<lambda>node_name.
     abind (sdk_connect sdk) (\<lambda>_.
     abind (wait_unbounded (compute_wait_service_state rounds tick sdk node_name ''down'')) (\<lambda>_.
     abind (compute_ensure_services_absent sdk node_name) (\<lambda>_.
     placement_resource_provider_absent sdk node_name))))"

definition nova_mixin ::
  "maintenance_conf \<Rightarrow> maintenance_opts \<Rightarrow> nat \<Rightarrow> ('w cluster_scheme \<Rightarrow> 'w cluster_scheme) \<Rightarrow> nat \<Rightarrow>
   'w cluster_scheme migration_env \<Rightarrow> 'w cluster_scheme maintenance_mixin" where
  "nova_mixin conf opts rounds tick fuel env = mixin_default\<lparr>
     svc_can_handle_nmr := nova_can_handle_nmr conf opts (env_sdk env),
     remove_node_from_scheduling := nova_remove_node_from_scheduling conf (env_sdk env),
     prepare_node_for_reboot := nova_prepare_node_for_reboot conf opts fuel env,
     prepare_node_after_reboot := nova_prepare_node_after_reboot conf rounds tick (env_sdk env),
     add_node_to_scheduling := nova_add_node_to_scheduling conf (env_sdk env),
     process_ndr := nova_process_ndr conf opts (env_sdk env),
     cleanup_metadata := nova_cleanup_metadata rounds tick (env_sdk env)\<rparr>"

section \<open>The migration loop\<close>

text \<open>What one round does to the counts: it counts one server of the list, or none.\<close>

lemma start_migration_counts:
  assumes "start_migration env key servers cnts c = (Inr cnts', t)" and "servers \<noteq> []"
  shows "\<exists>s \<in> set servers. cnts' = bump cnts (srv_id s)"
proof -
  have "servers ! (env_pick env c servers mod length servers) \<in> set servers"
    using assms(2) by simp
  then show ?thesis
    using assms(1) by (auto simp: start_migration_def abind_eq_Inr aget_def aret_def)
qed

lemma migrate_round_counts:
  assumes "migrate_round env host key attempts concurrency servers cnts c = (Inr (servers', cnts'), t)"
    and "servers \<noteq> []"
  shows "cnts' = cnts \<or> (\<exists>s \<in> set servers. cnts' = bump cnts (srv_id s))"
    and "\<forall>s \<in> set servers'. \<not> given_up attempts cnts' (srv_id s)"
  using assms
  by (auto simp: migrate_round_def abind_eq_Inr aret_def amod_def split: if_splits dest!: start_migration_counts)

definition counts_bounded :: "int \<Rightarrow> migration_counts \<Rightarrow> bool" where
  "counts_bounded attempts cnts \<longleftrightarrow> (\<forall>i n. map_of cnts i = Some n \<longrightarrow> n \<le> max 1 attempts + 1)"

lemma bump_bounded:
  assumes "counts_bounded attempts cnts" and "\<not> given_up attempts cnts i"
  shows "counts_bounded attempts (bump cnts i)"
  using assms by (auto simp: counts_bounded_def bump_def given_up_def update_conv' split: option.splits if_splits)

text \<open>No server is migrated more often than the attempts allow, at least one attempt is made.\<close>

lemma migrate_loop_bounded:
  "migrate_loop fuel env host key attempts concurrency servers cnts c = (Inr (Some cnts'), t) \<Longrightarrow>
   counts_bounded attempts cnts \<Longrightarrow> \<forall>s \<in> set servers. \<not> given_up attempts cnts (srv_id s) \<Longrightarrow>
   counts_bounded attempts cnts'"
proof (induction fuel arbitrary: servers cnts c)
  case 0
  then show ?case by (auto simp: aret_def split: if_splits)
next
  case (Suc fuel)
  show ?case
  proof (cases "servers = []")
    case True
    with Suc.prems show ?thesis by (simp add: aret_def)
  next
    case False
    with Suc.prems(1) obtain servers2 cnts2 s where
      round: "migrate_round env host key attempts concurrency servers cnts c = (Inr (servers2, cnts2), s)"
      and rest: "migrate_loop fuel env host key attempts concurrency servers2 cnts2 s = (Inr (Some cnts'), t)"
      by (auto simp: abind_eq_Inr)
    have "counts_bounded attempts cnts2"
      using migrate_round_counts(1)[OF round False] Suc.prems(2,3) bump_bounded by blast
    then show ?thesis
      using Suc.IH[OF rest] migrate_round_counts(2)[OF round False] by blast
  qed
qed

text \<open>
  The loop ends: when no migration is ever found in progress beyond the concurrency and the servers
  come from a finite set, every round uses up one of the attempts that are left.
\<close>

definition attempts_left :: "int \<Rightarrow> string set \<Rightarrow> migration_counts \<Rightarrow> nat" where
  "attempts_left attempts S cnts =
     (\<Sum>i \<in> S. nat (max 1 attempts + 1 - (case map_of cnts i of None \<Rightarrow> 1 | Some n \<Rightarrow> n)))"

lemma bump_uses_attempt:
  assumes "finite S" and "i \<in> S" and "\<not> given_up attempts cnts i"
  shows "attempts_left attempts S (bump cnts i) < attempts_left attempts S cnts"
  unfolding attempts_left_def
proof (rule sum_strict_mono_ex1[OF assms(1)])
  show "\<forall>x\<in>S. nat (max 1 attempts + 1 - (case map_of (bump cnts i) x of None \<Rightarrow> 1 | Some n \<Rightarrow> n))
      \<le> nat (max 1 attempts + 1 - (case map_of cnts x of None \<Rightarrow> 1 | Some n \<Rightarrow> n))"
    by (auto simp: bump_def update_conv' split: option.splits)
  have "nat (max 1 attempts + 1 - (case map_of (bump cnts i) i of None \<Rightarrow> 1 | Some n \<Rightarrow> n))
      < nat (max 1 attempts + 1 - (case map_of cnts i of None \<Rightarrow> 1 | Some n \<Rightarrow> n))"
    using assms(3) by (auto simp: bump_def given_up_def update_conv' split: option.splits)
  then show "\<exists>x\<in>S. nat (max 1 attempts + 1 - (case map_of (bump cnts i) x of None \<Rightarrow> 1 | Some n \<Rightarrow> n))
      < nat (max 1 attempts + 1 - (case map_of cnts x of None \<Rightarrow> 1 | Some n \<Rightarrow> n))"
    using assms(2) by blast
qed

lemma migration_ends:
  assumes free: "\<And>c l t. compute_get_servers_in_migrating_state (env_sdk env) host c = (Inr l, t) \<Longrightarrow>
      int (length l) < concurrency"
    and known: "\<And>c l t. compute_get_servers_valid_for_live_migration (env_sdk env) host c = (Inr l, t) \<Longrightarrow>
      srv_id ` set l \<subseteq> S"
    and fin: "finite S"
  shows "attempts_left attempts S cnts < fuel \<Longrightarrow> srv_id ` set servers \<subseteq> S \<Longrightarrow>
    \<forall>s \<in> set servers. \<not> given_up attempts cnts (srv_id s) \<Longrightarrow>
    fst (migrate_loop fuel env host key attempts concurrency servers cnts c) \<noteq> Inr None"
proof (induction fuel arbitrary: servers cnts c)
  case 0
  then show ?case by simp
next
  case (Suc fuel)
  show ?case
  proof (cases "servers = []")
    case True
    then show ?thesis by (simp add: aret_def)
  next
    case False
    obtain r s where run: "migrate_round env host key attempts concurrency servers cnts c = (r, s)"
      by (cases "migrate_round env host key attempts concurrency servers cnts c")
    show ?thesis
    proof (cases r)
      case (Inl e)
      with run False show ?thesis by (simp add: abind_def)
    next
      case (Inr x)
      obtain servers2 cnts2 where x: "x = (servers2, cnts2)" by (cases x)
      note round = run[unfolded Inr x]
      have "\<exists>s \<in> set servers. cnts2 = bump cnts (srv_id s)"
        using round False free
        by (auto simp: migrate_round_def abind_eq_Inr aret_def amod_def split: if_splits dest!: start_migration_counts)
      then have "attempts_left attempts S cnts2 < attempts_left attempts S cnts"
        using bump_uses_attempt[OF fin] Suc.prems(2,3) by blast
      then have "attempts_left attempts S cnts2 < fuel" using Suc.prems(1) by simp
      moreover have "srv_id ` set servers2 \<subseteq> S"
        using round by (auto simp: migrate_round_def abind_eq_Inr aret_def dest!: known)
      ultimately have "fst (migrate_loop fuel env host key attempts concurrency servers2 cnts2 s) \<noteq> Inr None"
        using Suc.IH migrate_round_counts(2)[OF round False] by blast
      with run Inr x False show ?thesis by (simp add: abind_def)
    qed
  qed
qed

text \<open>A host is given free for the reboot only without servers that still run.\<close>

lemma check_migration_ok:
  assumes "check_migration_completed sdk host key c = (Inr u, t)"
  shows "\<exists>l. compute_get_all_servers sdk (Some host) None c = (Inr l, t) \<and> (\<forall>s \<in> set l. safe_for_reboot s)"
  using assms
  by (auto simp: check_migration_completed_def abind_eq_Inr aret_def fail_with_def araise_def filter_empty_conv
      split: if_splits)

lemma migrate_servers_ok:
  assumes "migrate_servers fuel env host key mode attempts concurrency c = (Inr u, t)" and "mode \<noteq> ''skip''"
  shows "\<exists>c' l. compute_get_all_servers (env_sdk env) (Some host) None c' = (Inr l, t) \<and>
    (\<forall>s \<in> set l. safe_for_reboot s)"
  using assms by (auto simp: migrate_servers_def abind_eq_Inr dest!: check_migration_ok)

lemma sdk_guard_Inr: "sdk_guard key msg m c = (Inr u, t) \<longleftrightarrow> m c = (Inr u, t)"
  by (auto simp: sdk_guard_def atry_def fail_with_def abind_eq_Inr araise_def split: prod.splits sum.splits if_splits)

lemma prepare_for_reboot_ok:
  assumes "nova_prepare_node_for_reboot conf opts fuel env node c = (Inr u, t)"
    and "has_role conf (view_labels node) compute"
    and "node_options node c = (Inr cfg, c)" and "cfg_str cfg ''instance_migration_mode'' = Inr mode"
    and "mode \<noteq> ''skip''"
  shows "\<exists>c' l. compute_get_all_servers (env_sdk env) (Some (view_name node)) None c' = (Inr l, t) \<and>
    (\<forall>s \<in> set l. safe_for_reboot s)"
  using assms
  by (auto simp: nova_prepare_node_for_reboot_def abind_eq_Inr sdk_guard_Inr alift_def dest!: migrate_servers_ok)

end
