(* ===== verification/OrderedServices.thy ===== *)
theory OrderedServices
  imports NovaMaintenance
begin

text \<open>
  The services in the order in which the maintenance handlers call them (\<open>ORDERED_SERVICES\<close> at the
  end of \<open>services/__init__.py\<close>), the proof that each of them keeps to the contract of a maintenance
  service, and a simulated cloud that satisfies the contract of the API.
\<close>

section \<open>The order\<close>

text \<open>
  \<open>sorted(filter(lambda t: t[0] in SERVICE_ORDER, registry.items()), key=...)\<close>; Python's sort is
  stable, as \<open>sort_key\<close> is.
\<close>

definition ordered_services :: "(string \<times> 'a) list \<Rightarrow> (string \<times> 'a) list" where
  "ordered_services registry =
     sort_key (\<lambda>t. case map_of SERVICE_ORDER (fst t) of None \<Rightarrow> 0 | Some n \<Rightarrow> n)
       (filter (\<lambda>t. map_of SERVICE_ORDER (fst t) \<noteq> None) registry)"

record 'w services_env =
  se_conf :: maintenance_conf
  se_opts :: maintenance_opts
  se_rounds :: nat
  se_fuel :: nat
  se_tick :: "'w \<Rightarrow> 'w"
  se_migration :: "'w migration_env"
  se_api_pods :: "'w \<Rightarrow> string list"
  se_child_sets :: "string \<Rightarrow> string list"

definition neutron_backend :: "json \<Rightarrow> json res" where
  "neutron_backend mspec = rbind (jitem mspec ''features'') (\<lambda>features.
     get_in_str features [''neutron'', ''backend''] JNull)"

text \<open>The services of the registry that take part, in the order of their classes.\<close>

definition maintenance_registry ::
  "'w workloads_scheme services_env \<Rightarrow> json \<Rightarrow> (string \<times> 'w workloads_scheme maintenance_mixin option) list" where
  "maintenance_registry env mspec =
     [(''coordination'', Some coordination_mixin),
      (''redis'', Some redis_mixin),
      (''database'', Some mariadb_mixin),
      (''block-storage'', Some (cinder_mixin (se_opts env) (se_rounds env) (se_tick env) (se_api_pods env)
          (env_sdk (se_migration env)))),
      (''networking'', Some (neutron_mixin (se_conf env) (neutron_backend mspec) (se_child_sets env)
          (se_rounds env) (se_tick env) (env_sdk (se_migration env)))),
      (''compute'', Some (nova_mixin (se_conf env) (se_opts env) (se_rounds env) (se_tick env) (se_fuel env)
          (se_migration env)))]"

definition controller_services ::
  "'w workloads_scheme services_env \<Rightarrow> json \<Rightarrow> 'w workloads_scheme ordered_services" where
  "controller_services env mspec = ordered_services (maintenance_registry env mspec)"

lemma controller_services_order:
  "map fst (controller_services env mspec) =
     [''compute'', ''networking'', ''block-storage'', ''database'', ''coordination'', ''redis'']"
  by (simp add: controller_services_def ordered_services_def maintenance_registry_def SERVICE_ORDER_def)

lemma controller_services_set: "set (controller_services env mspec) = set (maintenance_registry env mspec)"
  by (auto simp: controller_services_def ordered_services_def maintenance_registry_def SERVICE_ORDER_def)

section \<open>Every service keeps to the contract\<close>

lemma lock_node_name_calm: "calm (lock_node_name key)"
  by (simp add: lock_node_name_def calm_def)

lemma node_options_calm: "calm (node_options node)"
  by (simp add: node_options_def calm_def)

lemma fail_with_calm: "calm (fail_with key msg)"
  unfolding fail_with_def by (intro calm_abind calm_messages calm_araise)

lemma sdk_guard_calm: "calm m \<Longrightarrow> calm (sdk_guard key msg m)"
  unfolding sdk_guard_def by (intro calm_atry calm_if fail_with_calm calm_araise)

lemma wait_for_calm: "calm cond \<Longrightarrow> (\<And>c. same c (tick c)) \<Longrightarrow> calm (wait_for rounds tick cond)"
  unfolding wait_for_def by (intro calm_abind calm_wait_until calm_if calm_aret calm_araise)

lemma wait_unbounded_calm: "calm m \<Longrightarrow> calm (wait_unbounded m)"
  unfolding wait_unbounded_def by (intro calm_abind calm_if calm_aret calm_araise)

lemma quorum_service:
  assumes "\<And>n. calm (node_locked n)" and "\<And>n. calm (release_claims n)"
  shows "maintenance_service (quorum_mixin node_locked release_claims app)"
proof unfold_locales
  fix node key
  show "calm (process_ndr (quorum_mixin node_locked release_claims app) node key)"
    by (simp add: quorum_mixin_def) (intro calm_abind calm_if calm_aret calm_araise lock_node_name_calm assms)
  show "calm (cleanup_persistent_data (quorum_mixin node_locked release_claims app) key)"
    by (simp add: quorum_mixin_def) (intro calm_abind calm_if fail_with_calm lock_node_name_calm assms)
  show "calm (svc_can_handle_nmr (quorum_mixin node_locked release_claims app) node active_locks)" for active_locks
    by (simp add: quorum_mixin_def) (intro calm_abind calm_aret assms)
qed (simp_all add: quorum_mixin_def mixin_default_def)

interpretation coordination: maintenance_service coordination_mixin
  unfolding coordination_mixin_def by (rule quorum_service) auto

interpretation mariadb: maintenance_service mariadb_mixin
  unfolding mariadb_mixin_def by (rule quorum_service) auto

interpretation redis: maintenance_service redis_mixin
  unfolding redis_mixin_def
proof (rule quorum_service)
  show "calm (redis_is_node_locked n)" for n
    unfolding redis_is_node_locked_def by (intro calm_abind calm_aget calm_if calm_aret workloads_calm)
  show "calm (redis_release_claims n)" for n
    unfolding redis_release_claims_def by (intro calm_abind calm_aget calm_if calm_aret release_claims_calm)
qed

locale cloud_services = openstack_cloud "env_sdk (se_migration env)"
  for env :: "'w workloads_scheme services_env" +
  assumes tick_same: "same c (se_tick env c)"
    and sleep_same: "same c (env_sleep (se_migration env) n c)"
begin

lemmas hooks_calm = flow_calm sdk_calm client_calm servers_calm lock_node_name_calm node_options_calm
  fail_with_calm sdk_guard_calm calm_messages

lemma start_migration_calm: "calm (start_migration (se_migration env) key servers cnts)"
  unfolding start_migration_def by (intro hooks_calm calm_amod sleep_same)

lemma migrate_round_calm:
  "calm (migrate_round (se_migration env) host key attempts concurrency servers cnts)"
  unfolding migrate_round_def by (intro hooks_calm calm_amod sleep_same start_migration_calm)

lemma migrate_loop_calm:
  "calm (migrate_loop fuel (se_migration env) host key attempts concurrency servers cnts)"
proof (induction fuel arbitrary: servers cnts)
  case (Suc fuel)
  have "calm (abind (migrate_round (se_migration env) host key attempts concurrency servers cnts)
      (\<lambda>(servers, cnts). migrate_loop fuel (se_migration env) host key attempts concurrency servers cnts))"
    by (rule calm_abind[OF migrate_round_calm]) (use Suc in \<open>auto split: prod.splits\<close>)
  then show ?case by simp
qed simp

lemma migrate_servers_calm:
  "calm (migrate_servers fuel (se_migration env) host key mode attempts concurrency)"
  unfolding migrate_servers_def do_servers_migration_def check_migration_completed_def
  by (intro hooks_calm migrate_loop_calm)

lemma nova_can_handle_calm:
  "calm (nova_can_handle_nmr conf opts (env_sdk (se_migration env)) node active_locks)"
  unfolding nova_can_handle_nmr_def by (intro hooks_calm)

end

sublocale cloud_services \<subseteq> nova: maintenance_service
  "nova_mixin (se_conf env) (se_opts env) (se_rounds env) (se_tick env) (se_fuel env) (se_migration env)"
proof unfold_locales
  fix node key active_locks
  note d = nova_mixin_def mixin_default_def
  let ?m = "nova_mixin (se_conf env) (se_opts env) (se_rounds env) (se_tick env) (se_fuel env) (se_migration env)"
  show "calm (svc_can_handle_nmr ?m node active_locks)" by (simp add: d nova_can_handle_calm)
  have remove: "calm (nova_remove_node_from_scheduling (se_conf env) (env_sdk (se_migration env)) node)"
    unfolding nova_remove_node_from_scheduling_def by (intro hooks_calm)
  then show "calm (remove_node_from_scheduling ?m node)" by (simp add: d)
  show "calm (prepare_node_for_reboot ?m node)"
    by (simp add: d nova_prepare_node_for_reboot_def) (intro conjI impI hooks_calm migrate_servers_calm)
  show "calm (prepare_node_after_reboot ?m node)"
    by (simp add: d nova_prepare_node_after_reboot_def)
       (intro conjI impI hooks_calm wait_for_calm tick_same)
  show "calm (add_node_to_scheduling ?m node)"
    by (simp add: d nova_add_node_to_scheduling_def) (intro conjI impI hooks_calm)
  show "calm (process_ndr ?m node key)"
    by (simp add: d nova_process_ndr_def) (intro conjI impI hooks_calm remove)
  show "calm (cleanup_metadata ?m key)"
    by (simp add: d nova_cleanup_metadata_def) (intro hooks_calm wait_unbounded_calm wait_calm tick_same)
  show "calm (cleanup_persistent_data ?m key)" by (simp add: d)
qed

sublocale cloud_services \<subseteq> cinder: maintenance_service
  "cinder_mixin (se_opts env) (se_rounds env) (se_tick env) (se_api_pods env) (env_sdk (se_migration env))"
proof unfold_locales
  fix node key active_locks
  note d = cinder_mixin_def mixin_default_def
  let ?m = "cinder_mixin (se_opts env) (se_rounds env) (se_tick env) (se_api_pods env) (env_sdk (se_migration env))"
  have remove: "calm (cinder_remove_node_from_scheduling (env_sdk (se_migration env)) node)"
    unfolding cinder_remove_node_from_scheduling_def by (intro hooks_calm)
  then show "calm (remove_node_from_scheduling ?m node)" by (simp add: d)
  show "calm (add_node_to_scheduling ?m node)"
    by (simp add: d cinder_add_node_to_scheduling_def)
       (intro hooks_calm)
  show "calm (process_ndr ?m node key)"
    by (simp add: d cinder_process_ndr_def) (intro conjI impI hooks_calm remove)
  show "calm (cleanup_metadata ?m key)"
    by (simp add: d cinder_cleanup_metadata_def) (intro hooks_calm wait_for_calm tick_same)
qed (simp_all add: cinder_mixin_def mixin_default_def)

sublocale cloud_services \<subseteq> neutron: maintenance_service
  "neutron_mixin (se_conf env) backend (se_child_sets env) (se_rounds env) (se_tick env) (env_sdk (se_migration env))"
  for backend
proof unfold_locales
  fix node key
  note d = neutron_mixin_def mixin_default_def
  let ?m = "neutron_mixin (se_conf env) backend (se_child_sets env) (se_rounds env) (se_tick env)
    (env_sdk (se_migration env))"
  show "calm (prepare_node_after_reboot ?m node)"
    by (simp add: d neutron_prepare_node_after_reboot_def)
       (intro conjI impI hooks_calm wait_for_calm wait_unbounded_calm ensure_generation_calm tick_same)
  show "calm (cleanup_metadata ?m key)"
    by (simp add: d neutron_cleanup_metadata_def) (intro hooks_calm wait_unbounded_calm wait_calm tick_same)
qed (simp_all add: neutron_mixin_def mixin_default_def)

context cloud_services
begin

lemma registry_ok: "services_ok (controller_services env)"
  unfolding services_ok_def
proof (intro allI ballI)
  fix mspec svc
  assume "svc \<in> set (maintenance_services (controller_services env mspec))"
  then have "Some svc \<in> snd ` set (maintenance_registry env mspec)"
    by (force simp: maintenance_services_def List.map_filter_def controller_services_set)
  then show "maintenance_service svc"
    unfolding maintenance_registry_def
    using nova.maintenance_service_axioms cinder.maintenance_service_axioms
      neutron.maintenance_service_axioms coordination.maintenance_service_axioms
      mariadb.maintenance_service_axioms redis.maintenance_service_axioms
    by auto
qed

end

end
