(* ===== verification/SimCloud.thy ===== *)
theory SimCloud
  imports OrderedServices
begin

text \<open>
  A cloud whose state is part of the cluster's, with the documented behaviour of the API calls that
  the maintenance hooks use: queries answer from the state, updates change the object they name, and
  every call fails while the API is down.  It satisfies the contract of the API and serves as a
  concrete instance of it.
\<close>

record cloud = workloads +
  sim_up :: bool
  sim_servers :: "(string \<times> server) list"
  sim_services :: "compute_service list"
  sim_volume_services :: "volume_service list"
  sim_volumes :: "volume list"
  sim_agents :: "(string \<times> agent) list"
  sim_providers :: "string list"
  sim_notified :: "string list"
  sim_open_ports :: "string list"

definition ask :: "(cloud \<Rightarrow> 'a) \<Rightarrow> (cloud, 'a) act" where
  "ask f = (\<lambda>c. (if sim_up c then Inr (f c) else Inl SDKException, c))"

definition tell :: "(cloud \<Rightarrow> cloud) \<Rightarrow> (cloud, unit) act" where
  "tell f = (\<lambda>c. if sim_up c then (Inr (), f c) else (Inl SDKException, c))"

definition selects :: "'a option \<Rightarrow> 'a \<Rightarrow> bool" where
  "selects f x \<longleftrightarrow> f = None \<or> f = Some x"

definition apply_update :: "service_update \<Rightarrow> compute_service \<Rightarrow> compute_service" where
  "apply_update u s = (case u of
       Enable \<Rightarrow> s\<lparr>cs_status := ''enabled'', cs_reason := None\<rparr>
     | Disable r \<Rightarrow> s\<lparr>cs_status := ''disabled'', cs_reason := r\<rparr>
     | ForceDown d \<Rightarrow> s\<lparr>cs_state := (if d then ''down'' else ''up'')\<rparr>)"

definition sim_sdk :: "cloud openstack_sdk" where
  "sim_sdk = \<lparr>
     sdk_connect = ask (\<lambda>_. ()),
     sdk_volume_services = \<lambda>h b. ask (\<lambda>c. Some (filter (\<lambda>s. vs_host s = h) (sim_volume_services c))),
     sdk_volumes = ask sim_volumes,
     sdk_volume_disable = \<lambda>h b r. tell (\<lambda>c. c\<lparr>sim_volume_services :=
       map (\<lambda>s. if vs_host s = h then s\<lparr>vs_reason := r\<rparr> else s) (sim_volume_services c)\<rparr>),
     sdk_volume_enable = \<lambda>h b. tell (\<lambda>c. c\<lparr>sim_volume_services :=
       map (\<lambda>s. if vs_host s = h then s\<lparr>vs_reason := None\<rparr> else s) (sim_volume_services c)\<rparr>),
     sdk_service_remove = \<lambda>h. tell (\<lambda>c. c\<lparr>sim_volume_services :=
       filter (\<lambda>s. vs_host s \<noteq> h) (sim_volume_services c)\<rparr>),
     sdk_compute_services = \<lambda>h b. ask (\<lambda>c. filter (\<lambda>s. selects h (cs_host s)) (sim_services c)),
     sdk_update_service = \<lambda>i u. tell (\<lambda>c. c\<lparr>sim_services :=
       map (\<lambda>s. if cs_id s = i then apply_update u s else s) (sim_services c)\<rparr>),
     sdk_delete_service = \<lambda>s. tell (\<lambda>c. c\<lparr>sim_services := filter (\<lambda>x. cs_id x \<noteq> cs_id s) (sim_services c)\<rparr>),
     sdk_list_servers = \<lambda>h st. ask (\<lambda>c. map snd (filter (\<lambda>(k, s). selects h k \<and> selects st (srv_status s))
       (sim_servers c))),
     sdk_live_migrate = \<lambda>s. tell (\<lambda>c. c\<lparr>sim_servers := filter (\<lambda>(k, x). srv_id x \<noteq> srv_id s) (sim_servers c)\<rparr>),
     sdk_agents = \<lambda>h al. ask (\<lambda>c. map snd (filter (\<lambda>(k, a). selects h k \<and> selects al (ag_alive a)) (sim_agents c))),
     sdk_update_agent = \<lambda>i up. tell (\<lambda>c. c\<lparr>sim_agents :=
       map (\<lambda>(k, a). (k, if ag_id a = i then a\<lparr>ag_admin_up := up\<rparr> else a)) (sim_agents c)\<rparr>),
     sdk_delete_agent = \<lambda>a. tell (\<lambda>c. c\<lparr>sim_agents := filter (\<lambda>(k, x). ag_id x \<noteq> ag_id a) (sim_agents c)\<rparr>),
     sdk_ports = \<lambda>_. ask (\<lambda>_. []),
     sdk_delete_port = \<lambda>_. tell id,
     sdk_providers = ask sim_providers,
     sdk_delete_provider = \<lambda>rp. tell (\<lambda>c. c\<lparr>sim_providers := filter (\<lambda>x. x \<noteq> rp) (sim_providers c)\<rparr>),
     sdk_notify = \<lambda>h. tell (\<lambda>c. c\<lparr>sim_notified := h # sim_notified c\<rparr>),
     sdk_port_open = \<lambda>ip. ask (\<lambda>c. ip \<in> set (sim_open_ports c))\<rparr>"

definition sim_env :: "maintenance_conf \<Rightarrow> maintenance_opts \<Rightarrow> cloud services_env" where
  "sim_env conf opts = \<lparr>se_conf = conf, se_opts = opts, se_rounds = 1, se_fuel = 8, se_tick = id,
     se_migration = \<lparr>env_sdk = sim_sdk, env_pick = \<lambda>_ _. 0, env_sleep = \<lambda>_ c. c\<rparr>,
     se_api_pods = \<lambda>_. [''cinder-api-0''], se_child_sets = \<lambda>_. []\<rparr>"

lemma ask_calm: "calm (ask f)"
  by (simp add: calm_def ask_def)

lemma tell_calm: "(\<And>c. nodes (f c) = nodes c \<and> locks (f c) = locks c) \<Longrightarrow> calm (tell f)"
  by (auto simp: calm_def tell_def intro: same_more)

interpretation sim: cloud_services "sim_env conf opts" for conf opts
  by unfold_locales (simp_all add: sim_env_def sim_sdk_def ask_calm tell_calm)

section \<open>Reads of the cloud\<close>

text \<open>The maintenance hooks of Nova on a service that an operator disabled.\<close>

lemma first_service_read:
  assumes "sdk_compute_services sdk (Some host) nova_compute c = (Inr (s # l), c)"
  shows "first_service sdk host c = (Inr s, c)"
  using assms by (simp add: first_service_def compute_get_services_def abind_def alift_def)

lemma operator_disabled_untouched:
  assumes "sdk_connect sdk c = (Inr (), c)"
    and "sdk_compute_services sdk (Some (view_name node)) nova_compute c = (Inr (s # l), c)"
    and "py_lower (cs_status s) = ''disabled''" and "cs_reason s \<noteq> Some COMPUTE_SERVICE_DISABLE_REASON"
  shows "nova_remove_node_from_scheduling conf sdk node c = (Inr (), c)"
    and "nova_add_node_to_scheduling conf sdk node c = (Inr (), c)"
proof -
  note f = first_service_read[OF assms(2)]
  show "nova_remove_node_from_scheduling conf sdk node c = (Inr (), c)"
    using assms f by (simp add: nova_remove_node_from_scheduling_def sdk_guard_def atry_def abind_def
        compute_ensure_service_disabled_def aret_def)
  show "nova_add_node_to_scheduling conf sdk node c = (Inr (), c)"
    using assms f by (simp add: nova_add_node_to_scheduling_def sdk_guard_def atry_def abind_def aret_def)
qed

text \<open>The check of the availability zone looks at the first lock only, which may be the node's own.\<close>

lemma own_lock_passes_zone_check:
  assumes "sdk_connect sdk c = (Inr (), c)"
    and "sdk_compute_services sdk (Some (view_name node)) nova_compute c = (Inr (s # l), c)"
    and "map_of active_locks compute = Some (nwl # nwls)"
    and "lock_node_name (NodeWorkloadLock, nwl) c = (Inr (view_name node), c)"
  shows "nova_can_handle_nmr conf opts sdk node active_locks c = (Inr True, c)"
  using assms first_service_read[OF assms(2)]
  by (simp add: nova_can_handle_nmr_def abind_def aret_def)

section \<open>Masakari\<close>

text \<open>What the answers of the API say at one moment, when the queries change nothing.\<close>

definition host_down ::
  "'w cluster_scheme openstack_sdk \<Rightarrow> json list \<Rightarrow> node_view \<Rightarrow> 'w cluster_scheme \<Rightarrow> bool" where
  "host_down sdk addresses node c \<longleftrightarrow>
     node_is_ready (view_name node) c = (Inr False, c) \<and>
     is_active (nwl_key (view_name node)) c = (Inr True, c) \<and> \<not> unschedulable node \<and>
     (\<exists>servers. compute_get_all_servers sdk (Some (view_name node)) None c = (Inr servers, c) \<and> servers \<noteq> []) \<and>
     (\<exists>svcs. compute_get_services sdk (Some (view_name node)) nova_compute c = (Inr svcs, c) \<and>
        (\<forall>s \<in> set svcs. cs_state s \<noteq> ''up'')) \<and>
     network_get_agents sdk (Some (view_name node)) (Some True) c = (Inr [], c) \<and>
     (\<exists>ip. internal_ip addresses = Inr (Some ip) \<and> sdk_port_open sdk ip c = (Inr False, c))"

locale reading_sdk =
  fixes sdk :: "'w cluster_scheme openstack_sdk"
  assumes connect_reads: "snd (sdk_connect sdk c) = c"
    and servers_reads: "snd (sdk_list_servers sdk h st c) = c"
    and services_reads: "snd (sdk_compute_services sdk h b c) = c"
    and agents_reads: "snd (sdk_agents sdk h al c) = c"
    and port_reads: "snd (sdk_port_open sdk ip c) = c"
begin

lemma query_reads:
  "snd (compute_get_all_servers sdk h st c) = c" "snd (compute_get_services sdk h b c) = c"
  "snd (network_get_agents sdk h al c) = c"
  using agents_reads[of h al c]
  by (auto simp: compute_get_all_servers_def compute_get_services_def servers_reads services_reads
      network_get_agents_def atry_def aret_def araise_def split: prod.splits sum.splits)

lemma abind_read:
  "snd (m c) = c \<Longrightarrow> abind m f c = (case fst (m c) of Inl e \<Rightarrow> (Inl e, c) | Inr x \<Rightarrow> f x c)"
  by (auto simp: abind_def split: prod.splits sum.splits)

lemma node_reads: "snd (node_is_ready n c) = c" "snd (is_active key c) = c"
  by (auto simp: node_is_ready_def is_active_def lock_status_def abind_def read_lock_def alift_def
      split: option.splits)

lemmas masakari_reads = node_reads connect_reads query_reads port_reads

lemma fst_read: "snd (m c) = c \<Longrightarrow> fst (m c) = r \<Longrightarrow> m c = (r, c)"
  by (metis prod.collapse)

lemma check_host_down_read:
  assumes "snd (check_host_down sdk addresses name c) \<noteq> c"
  shows "(\<exists>servers. compute_get_all_servers sdk (Some name) None c = (Inr servers, c) \<and> servers \<noteq> []) \<and>
     (\<exists>svcs. compute_get_services sdk (Some name) nova_compute c = (Inr svcs, c) \<and>
        (\<forall>s \<in> set svcs. cs_state s \<noteq> ''up'')) \<and>
     network_get_agents sdk (Some name) (Some True) c = (Inr [], c) \<and>
     (\<exists>ip. internal_ip addresses = Inr (Some ip) \<and> sdk_port_open sdk ip c = (Inr False, c))"
  using assms
  by (auto simp: check_host_down_def abind_read masakari_reads abind_def[of "alift _"] alift_def aret_def
      araise_def list_ex_iff split: sum.splits if_splits option.splits
      dest: fst_read[OF query_reads(1)] fst_read[OF query_reads(2)] fst_read[OF query_reads(3)]
        fst_read[OF port_reads])

lemma masakari_only_when_down:
  assumes "\<not> host_down sdk addresses node c"
  shows "snd (handle_masakari_host_down sdk addresses node c) = c"
proof (rule ccontr)
  let ?n = "view_name node"
  assume a: "snd (handle_masakari_host_down sdk addresses node c) \<noteq> c"
  have r: "node_is_ready ?n c = (Inr False, c)"
    using a by (auto simp: handle_masakari_host_down_def abind_read node_reads aret_def split: sum.splits
        if_splits intro!: fst_read[OF node_reads(1)])
  have l: "is_active (nwl_key ?n) c = (Inr True, c)"
    using a r by (auto simp: handle_masakari_host_down_def abind_read node_reads aret_def split: sum.splits
        if_splits intro!: fst_read[OF node_reads(2)])
  have "\<not> unschedulable node" and ch: "snd (check_host_down sdk addresses ?n c) \<noteq> c"
    using a r l by (auto simp: handle_masakari_host_down_def abind_def aret_def araise_def atry_def
        split: if_splits prod.splits sum.splits)
  with r l check_host_down_read[OF ch] assms show False unfolding host_down_def by blast
qed

lemma masakari_when_down:
  assumes "host_down sdk addresses node c" and "fst (sdk_connect sdk c) = Inr ()"
  shows "check_host_down sdk addresses (view_name node) c = notify_masakari_host_down sdk (view_name node) c"
  using assms fst_read[of "sdk_connect sdk", OF connect_reads assms(2)]
  by (auto simp: host_down_def check_host_down_def abind_Inr list_ex_iff alift_def)

end

interpretation sim_reads: reading_sdk sim_sdk
  by unfold_locales (simp_all add: sim_sdk_def ask_def)

end
