(* ===== verification/StatusObject.thy ===== *)
theory StatusObject
  imports PyValue
begin

text \<open>
  The OpenStackDeploymentStatus object (\<open>osdplstatus.py\<close>).  The object is a JSON value; a write is a
  patch, and the API applies it as a JSON merge patch: dictionaries merge key by key, a null removes
  its key, everything else replaces.  The lemmas say what a patch at one path does to another path.
\<close>

section \<open>Merge patches\<close>

definition jdict_of :: "json \<Rightarrow> jdict" where
  "jdict_of j = (case j of JObj d \<Rightarrow> d | _ \<Rightarrow> [])"

function merge_patch :: "json \<Rightarrow> json \<Rightarrow> json"
  and merge_patch_items :: "jdict \<Rightarrow> jdict \<Rightarrow> jdict" where
  "merge_patch target p = (case p of JObj d \<Rightarrow> JObj (merge_patch_items (jdict_of target) d) | _ \<Rightarrow> p)"
| "merge_patch_items d [] = d"
| "merge_patch_items d (kv # r) =
     merge_patch_items
       (if snd kv = JNull then AList.delete (fst kv) d
        else AList.update (fst kv)
               (merge_patch (case map_of d (fst kv) of None \<Rightarrow> JNull | Some w \<Rightarrow> w) (snd kv)) d) r"
  by pat_completeness auto
termination
  by (relation "measure (\<lambda>x. case x of Inl (t, p) \<Rightarrow> Suc (2 * size p)
        | Inr (d, p) \<Rightarrow> 2 * size_list (size_prod (\<lambda>_. 0) size) p)") auto

declare merge_patch.simps [simp del]

lemma merge_patch_obj: "merge_patch t (JObj p) = JObj (merge_patch_items (jdict_of t) p)"
  by (subst merge_patch.simps) simp

lemma merge_patch_leaf: "(\<And>d. p \<noteq> JObj d) \<Longrightarrow> merge_patch t p = p"
  by (subst merge_patch.simps) (simp split: json.splits)

lemmas merge_patch_simps = merge_patch_obj merge_patch_leaf

text \<open>What a patch leaves at a key.\<close>

definition patched :: "json option \<Rightarrow> json option \<Rightarrow> json option" where
  "patched old p =
     (case p of
        None \<Rightarrow> old
      | Some v \<Rightarrow> if v = JNull then None
                else Some (merge_patch (case old of None \<Rightarrow> JNull | Some w \<Rightarrow> w) v))"

lemma merge_patch_items_at:
  "dict_ok p \<Longrightarrow> map_of (merge_patch_items d p) k = patched (map_of d k) (map_of p k)"
proof (induction p arbitrary: d)
  case Nil
  then show ?case by (simp add: patched_def)
next
  case (Cons kv r)
  have ok: "dict_ok r" and new: "fst kv \<notin> set (keys r)" using Cons.prems by (cases kv, simp)+
  show ?case
  proof (cases "fst kv = k")
    case True
    with new have "map_of r k = None" by (simp add: map_of_eq_None_iff)
    with True Cons.IH[OF ok] show ?thesis by (cases kv) (simp add: patched_def delete_conv')
  next
    case False
    with Cons.IH[OF ok] show ?thesis by (cases kv) (simp add: delete_conv')
  qed
qed

text \<open>A patch that writes one value at a path: \<open>{k1: {k2: ... v}}\<close>.\<close>

fun nest :: "string list \<Rightarrow> json \<Rightarrow> json" where
  "nest [] v = v"
| "nest (k # ks) v = JObj [(k, nest ks v)]"

fun diverge :: "string list \<Rightarrow> string list \<Rightarrow> bool" where
  "diverge (k # ks) (l # ls) = (k \<noteq> l \<or> diverge ks ls)"
| "diverge _ _ = False"

definition patch_at :: "json \<Rightarrow> string list \<Rightarrow> json \<Rightarrow> json" where
  "patch_at obj ks v = merge_patch obj (nest ks v)"

lemma patch_at_Nil: "patch_at obj [] v = merge_patch obj v"
  by (simp add: patch_at_def)

lemma nest_not_null: "v \<noteq> JNull \<Longrightarrow> nest ks v \<noteq> JNull"
  by (cases ks) auto

lemma patch_at_Cons:
  "nest ks v \<noteq> JNull \<Longrightarrow>
   patch_at obj (k # ks) v =
     JObj (AList.update k (patch_at (case map_of (jdict_of obj) k of None \<Rightarrow> JNull | Some w \<Rightarrow> w) ks v) (jdict_of obj))"
  by (simp add: patch_at_def merge_patch_simps)

lemma patch_at_same:
  "v \<noteq> JNull \<Longrightarrow>
   jlookup (patch_at obj ks v) ks =
     Some (merge_patch (case jlookup obj ks of None \<Rightarrow> JNull | Some w \<Rightarrow> w) v)"
proof (induction ks arbitrary: obj)
  case Nil
  then show ?case by (simp add: patch_at_Nil)
next
  case (Cons k ks)
  have null: "jlookup JNull ks = (if ks = [] then Some JNull else None)" by (cases ks) auto
  have "(case jlookup (case map_of (jdict_of obj) k of None \<Rightarrow> JNull | Some w \<Rightarrow> w) ks of None \<Rightarrow> JNull | Some w \<Rightarrow> w)
      = (case jlookup obj (k # ks) of None \<Rightarrow> JNull | Some w \<Rightarrow> w)"
    by (auto simp: jdict_of_def null split: json.splits option.splits)
  with Cons show ?case by (simp add: patch_at_Cons nest_not_null)
qed

lemma patch_at_leaf: "v \<noteq> JNull \<Longrightarrow> (\<And>d. v \<noteq> JObj d) \<Longrightarrow> jlookup (patch_at obj ks v) ks = Some v"
  by (simp add: patch_at_same merge_patch_leaf)

lemma patch_at_remove: "ks \<noteq> [] \<Longrightarrow> jlookup (patch_at obj ks JNull) ks = None"
proof (induction ks arbitrary: obj)
  case (Cons k ks)
  show ?case
  proof (cases "ks = []")
    case True
    then show ?thesis by (simp add: patch_at_def merge_patch_simps delete_conv')
  next
    case False
    then have "nest ks JNull \<noteq> JNull" by (cases ks) auto
    with False Cons.IH show ?thesis by (simp add: patch_at_Cons)
  qed
qed simp

lemma patch_at_other: "diverge ks ls \<Longrightarrow> jlookup (patch_at obj ks v) ls = jlookup obj ls"
proof (induction ks ls arbitrary: obj rule: diverge.induct)
  case (1 k ks l ls)
  have obj: "jlookup obj (l # ls) = (case map_of (jdict_of obj) l of None \<Rightarrow> None | Some w \<Rightarrow> jlookup w ls)"
    by (auto simp: jdict_of_def split: json.splits)
  show ?case
  proof (cases "nest ks v = JNull")
    case True
    then have "ks = []" by (cases ks) auto
    with 1 have "k \<noteq> l" by simp
    with True obj show ?thesis by (simp add: patch_at_def merge_patch_simps delete_conv')
  next
    case False
    show ?thesis
    proof (cases "k = l")
      case True
      with 1 have d: "diverge ks ls" by simp
      then have "jlookup JNull ls = None" by (cases ls; cases ks) auto
      with 1(1)[OF d] True False obj show ?thesis
        by (auto simp: patch_at_Cons split: option.splits)
    next
      case False
      with \<open>nest ks v \<noteq> JNull\<close> obj show ?thesis by (simp add: patch_at_Cons)
    qed
  qed
qed auto

text \<open>Well-formed values stay well-formed.\<close>

lemma set_update: "kv \<in> set (AList.update k v d) \<Longrightarrow> kv = (k, v) \<or> kv \<in> set d"
  by (induction d) (auto split: if_splits)

lemma jwf_update: "jwf (JObj d) \<Longrightarrow> jwf v \<Longrightarrow> jwf (JObj (AList.update k v d))"
  using set_update[of _ k v d] by (simp only: jwf.simps dict_ok_update) (metis snd_conv)

lemma set_delete: "set (AList.delete k d) \<subseteq> set d"
  by (induction d) auto

lemma jwf_delete: "jwf (JObj d) \<Longrightarrow> jwf (JObj (AList.delete k d))"
  using set_delete[of k d] by (simp add: dict_ok_def distinct_delete) blast

lemma jwf_patch:
  "jwf p \<Longrightarrow> jwf t \<Longrightarrow> jwf (merge_patch t p)"
  "jwf (JObj r) \<Longrightarrow> jwf (JObj d) \<Longrightarrow> jwf (JObj (merge_patch_items d r))"
proof (induction t p and d r rule: merge_patch_merge_patch_items.induct)
  case (1 t p)
  show ?case
  proof (cases p)
    case (JObj d)
    have "jwf (JObj (jdict_of t))" using 1(3) by (cases t) (simp_all add: jdict_of_def)
    then show ?thesis using 1(1)[OF JObj] 1(2) unfolding JObj merge_patch_obj by blast
  qed (use 1(2) in \<open>simp_all add: merge_patch_leaf\<close>)
next
  case (2 d)
  then show ?case by simp
next
  case (3 d kv r)
  have kv: "jwf (snd kv)" "jwf (JObj r)" using 3(3) by (simp_all add: dict_ok_def)
  have old: "jwf (case map_of d (fst kv) of None \<Rightarrow> JNull | Some w \<Rightarrow> w)"
    using jwf_map_of[OF 3(4)] by (simp split: option.splits)
  show ?case
  proof (cases "snd kv = JNull")
    case True
    have "jwf (JObj (AList.delete (fst kv) d))" by (rule jwf_delete[OF 3(4)])
    with 3(2)[OF kv(2)] True show ?thesis by (simp del: jwf.simps)
  next
    case False
    have "jwf (JObj (AList.update (fst kv)
        (merge_patch (case map_of d (fst kv) of None \<Rightarrow> JNull | Some w \<Rightarrow> w) (snd kv)) d))"
      by (rule jwf_update[OF 3(4) 3(1)[OF False kv(1) old]])
    with 3(2)[OF kv(2)] False show ?thesis by (simp del: jwf.simps)
  qed
qed

section \<open>Numbers as text\<close>

function show_nat :: "nat \<Rightarrow> string" where
  "show_nat n = (if n < 10 then [''0123456789'' ! n] else show_nat (n div 10) @ [''0123456789'' ! (n mod 10)])"
  by pat_completeness auto
termination by (relation "measure id") auto

declare show_nat.simps [simp del]

lemma digit_char:
  assumes "n < 10"
  shows "digit_value (''0123456789'' ! n) = int n" "is_digit (''0123456789'' ! n)"
proof -
  have "n \<in> {0, 1, 2, 3, 4, 5, 6, 7, 8, 9}" using assms by auto
  then show "digit_value (''0123456789'' ! n) = int n" "is_digit (''0123456789'' ! n)"
    by (auto simp: digit_value_def is_digit_def)
qed

lemma int_of_digits_append: "int_of_digits (s @ [c]) = 10 * int_of_digits s + digit_value c"
  by (simp add: int_of_digits_def)

lemma int_of_show_nat: "int_of_digits (show_nat n) = int n"
proof (induction n rule: show_nat.induct)
  case (1 n)
  show ?case
  proof (cases "n < 10")
    case True
    then show ?thesis by (subst show_nat.simps) (simp add: int_of_digits_def digit_char)
  next
    case False
    with 1 have "int_of_digits (show_nat (n div 10) @ [''0123456789'' ! (n mod 10)]) = 10 * int (n div 10) + int (n mod 10)"
      by (simp add: int_of_digits_append digit_char)
    moreover have "10 * int (n div 10) + int (n mod 10) = int n" by presburger
    ultimately show ?thesis using False by (subst show_nat.simps) simp
  qed
qed

lemma show_nat_inj: "show_nat m = show_nat n \<Longrightarrow> m = n"
  by (metis int_of_show_nat of_nat_eq_iff)

section \<open>The status object\<close>

text \<open>
  \<open>APPLYING\<close>, \<open>APPLIED\<close>, \<open>DELETING\<close> and \<open>WAITING\<close> are plain strings.  \<open>status_env\<close> holds the
  version of the controller, the release of the cluster, the time, and the stable hash of a specification.
\<close>

record status_env =
  release_string :: string
  cluster_release :: string
  timestamp :: string
  spec_hash :: "json \<Rightarrow> string"

definition generate_osdpl_status_generic :: "status_env \<Rightarrow> json \<Rightarrow> jdict res" where
  "generate_osdpl_status_generic env mspec =
     rbind (jitem mspec ''openstack_version'') (\<lambda>v.
     Inr ([(''openstack_version'', v), (''controller_version'', JStr (release_string env)),
           (''fingerprint'', JStr (spec_hash env mspec)), (''timestamp'', JStr (timestamp env))] @
          (if cluster_release env \<noteq> [] then [(''release'', JStr (cluster_release env))] else [])))"

definition set_osdpl_state :: "string \<Rightarrow> json \<Rightarrow> json" where
  "set_osdpl_state st obj = patch_at obj [''status'', ''osdpl'', ''state''] (JStr st)"

definition set_osdpl_status :: "status_env \<Rightarrow> string \<Rightarrow> json \<Rightarrow> string \<Rightarrow> string \<Rightarrow> json \<Rightarrow> json res" where
  "set_osdpl_status env st mspec changes cause obj =
     rbind (generate_osdpl_status_generic env mspec) (\<lambda>p.
     Inr (patch_at obj [''status'', ''osdpl'']
       (JObj (p @ [(''changes'', JStr changes), (''cause'', JStr cause), (''state'', JStr st)]))))"

definition get_osdpl_status :: "json \<Rightarrow> json res" where
  "get_osdpl_status obj = jitem_path obj [''status'', ''osdpl'', ''state'']"

definition set_service_status :: "status_env \<Rightarrow> string \<Rightarrow> string \<Rightarrow> json \<Rightarrow> json \<Rightarrow> json res" where
  "set_service_status env service st mspec obj =
     rbind (generate_osdpl_status_generic env mspec) (\<lambda>p.
     Inr (patch_at obj [''status'', ''services'', service] (JObj (p @ [(''state'', JStr st)]))))"

definition set_service_state :: "string \<Rightarrow> string \<Rightarrow> json \<Rightarrow> json" where
  "set_service_state service st obj = patch_at obj [''status'', ''services'', service, ''state''] (JStr st)"

definition remove_service_status :: "string \<Rightarrow> json \<Rightarrow> json" where
  "remove_service_status service obj = patch_at obj [''status'', ''services'', service] JNull"

definition get_credentials_rotation_status :: "string \<Rightarrow> json \<Rightarrow> json res" where
  "get_credentials_rotation_status grp obj =
     rbind (jitem obj ''status'') (\<lambda>s. get_in_str s [''credentials'', ''rotation'', grp] jempty)"

definition set_credentials_rotation_status :: "string \<Rightarrow> string \<Rightarrow> json \<Rightarrow> json" where
  "set_credentials_rotation_status grp rotation_ts obj =
     patch_at obj [''status'', ''credentials'', ''rotation'', grp] (JObj [(''timestamp'', JStr rotation_ts)])"

definition set_osdpl_health :: "jdict \<Rightarrow> json \<Rightarrow> json" where
  "set_osdpl_health health obj = patch_at obj [''status'', ''health''] (JObj health)"

definition get_osdpl_health :: "json \<Rightarrow> json res" where
  "get_osdpl_health obj = jitem_path obj [''status'', ''health'']"

definition remove_osdpl_service_health :: "string \<Rightarrow> string \<Rightarrow> json \<Rightarrow> json" where
  "remove_osdpl_service_health application component obj =
     patch_at obj [''status'', ''health'', application, component] JNull"

definition get_osdpl_fingerprint :: "json \<Rightarrow> json res" where
  "get_osdpl_fingerprint obj = jitem_path obj [''status'', ''osdpl'', ''fingerprint'']"

definition get_osdpl_controller_version :: "json \<Rightarrow> json res" where
  "get_osdpl_controller_version obj = jitem_path obj [''status'', ''osdpl'', ''controller_version'']"

definition set_overall_health :: "string \<Rightarrow> json \<Rightarrow> json" where
  "set_overall_health value obj = patch_at obj [''status'', ''osdpl'', ''health''] (JStr value)"

text \<open>\<open>update_osdpl_lcm_progress\<close>; the comparisons of one service stop at the first difference.\<close>

definition item_differs :: "json \<Rightarrow> json \<Rightarrow> string \<Rightarrow> bool res" where
  "item_differs a b k = rbind (jitem a k) (\<lambda>x. rbind (jitem b k) (\<lambda>y. Inr (\<not> py_eq x y)))"

definition service_not_ready :: "json \<Rightarrow> json \<Rightarrow> bool res" where
  "service_not_ready osdpl_status st =
     rbind (item_differs osdpl_status st ''fingerprint'') (\<lambda>b. if b then Inr True
     else rbind (item_differs osdpl_status st ''controller_version'') (\<lambda>b. if b then Inr True
     else rbind (jitem st ''state'') (\<lambda>s. Inr (\<not> py_eq s (JStr ''APPLIED'')))))"

definition not_ready_services :: "json \<Rightarrow> jdict \<Rightarrow> string list res" where
  "not_ready_services osdpl_status services =
     rbind (rmap (\<lambda>(service, st). rbind (service_not_ready osdpl_status st) (\<lambda>b. Inr (service, b))) services)
       (\<lambda>l. Inr (map fst (filter snd l)))"

definition progress_text :: "nat \<Rightarrow> nat \<Rightarrow> string" where
  "progress_text ready n = show_nat ready @ ''/'' @ show_nat n"

definition update_osdpl_lcm_progress :: "json \<Rightarrow> json res" where
  "update_osdpl_lcm_progress obj =
     rbind (rbind (jitem_path obj [''status'', ''services'']) jitems) (\<lambda>services.
     rbind (jitem_path obj [''status'', ''osdpl'']) (\<lambda>osdpl_status.
     rbind (not_ready_services osdpl_status services) (\<lambda>not_ready.
     Inr (patch_at obj [''status'', ''osdpl'', ''lcm_progress'']
       (JStr (progress_text (length services - length not_ready) (length services)))))))"

text \<open>\<open>OpenStackDeployment.is_applied\<close>: \<open>st\<close> is the status of the deployment itself.\<close>

definition is_applied :: "json \<Rightarrow> json \<Rightarrow> bool res" where
  "is_applied st obj =
     rbind (get_osdpl_status obj) (\<lambda>s. if \<not> py_eq s (JStr ''APPLIED'') then Inr False
     else rbind (get_osdpl_fingerprint obj) (\<lambda>f. rbind (jget st ''fingerprint'' JNull) (\<lambda>f'.
          if \<not> py_eq f f' then Inr False
     else rbind (get_osdpl_controller_version obj) (\<lambda>v. rbind (jget st ''version'' JNull) (\<lambda>v'.
          Inr (py_eq v v'))))))"

section \<open>Progress\<close>

lemma progress_text_inj:
  assumes "progress_text a b = progress_text c d"
  shows "a = c \<and> b = d"
proof -
  have dig: "CHR ''/'' \<notin> set (show_nat n)" for n
  proof (induction n rule: show_nat.induct)
    case (1 n)
    have no: "''0123456789'' ! m \<noteq> CHR ''/''" if "m < 10" for m :: nat
      using digit_char(2)[OF that] by (auto simp: is_digit_def)
    show ?case using 1 no[of n] no[of "n mod 10"] by (subst show_nat.simps) auto
  qed
  have "py_split CHR ''/'' (progress_text x y) = [show_nat x, show_nat y]" for x y
    using dig py_split_append[of "CHR ''/''" "show_nat x" "show_nat y"]
    by (simp add: progress_text_def py_split_no_sep)
  with assms have "[show_nat a, show_nat b] = [show_nat c, show_nat d]" by metis
  then show ?thesis using show_nat_inj by auto
qed

text \<open>A service counts as done when it was applied by this controller for this specification.\<close>

definition settled :: "json \<Rightarrow> json \<Rightarrow> bool" where
  "settled osdpl_status st \<longleftrightarrow> service_not_ready osdpl_status st = Inr False"

lemma not_ready_length:
  "not_ready_services osdpl_status services = Inr l \<Longrightarrow>
   length l \<le> length services \<and>
   length services - length l = length (filter (\<lambda>(service, st). settled osdpl_status st) services)"
proof -
  assume "not_ready_services osdpl_status services = Inr l"
  then obtain r where r: "rmap (\<lambda>(service, st). rbind (service_not_ready osdpl_status st) (\<lambda>b. Inr (service, b))) services
      = Inr r" "l = map fst (filter snd r)"
    by (auto simp: not_ready_services_def res_simps)
  from r(1) have "length (filter snd r) + length (filter (\<lambda>(service, st). settled osdpl_status st) services)
      = length services"
  proof (induction services arbitrary: r)
    case Nil
    then show ?case by simp
  next
    case (Cons x xs)
    then show ?case by (cases x) (auto simp: res_simps settled_def split: if_splits)
  qed
  with r(2) show ?thesis by simp
qed

lemma lcm_progress_written:
  assumes "update_osdpl_lcm_progress obj = Inr obj'"
  shows "\<exists>services osdpl_status.
    jlookup obj [''status'', ''services''] = Some (JObj services) \<and>
    jlookup obj [''status'', ''osdpl''] = Some osdpl_status \<and>
    jlookup obj' [''status'', ''osdpl'', ''lcm_progress''] =
      Some (JStr (progress_text (length (filter (\<lambda>(service, st). settled osdpl_status st) services))
        (length services)))"
proof -
  obtain sv services osdpl_status l where g: "jitem_path obj [''status'', ''services''] = Inr sv"
    "jitems sv = Inr services" "jitem_path obj [''status'', ''osdpl''] = Inr osdpl_status"
    "not_ready_services osdpl_status services = Inr l"
    "obj' = patch_at obj [''status'', ''osdpl'', ''lcm_progress'']
       (JStr (progress_text (length services - length l) (length services)))"
    using assms unfolding update_osdpl_lcm_progress_def
    by (auto simp del: jitem_path.simps elim!: rbind_InrE)
  have "sv = JObj services" using g(2) by (cases sv) auto
  then have "jlookup obj [''status'', ''services''] = Some (JObj services)"
    using g(1) unfolding jitem_path_lookup by simp
  moreover have "jlookup obj [''status'', ''osdpl''] = Some osdpl_status"
    using g(3) unfolding jitem_path_lookup .
  moreover have "jlookup obj' [''status'', ''osdpl'', ''lcm_progress''] =
      Some (JStr (progress_text (length services - length l) (length services)))"
    unfolding g(5) by (rule patch_at_leaf) simp_all
  ultimately show ?thesis using not_ready_length[OF g(4)] by auto
qed

text \<open>What writing the status of a service leaves.\<close>

lemma patch_obj_at:
  assumes "dict_ok d"
  shows "jlookup (patch_at obj p (JObj d)) (p @ [k]) = patched (jlookup obj (p @ [k])) (map_of d k)"
proof -
  define old where "old = (case jlookup obj p of None \<Rightarrow> JNull | Some w \<Rightarrow> w)"
  have "jlookup (patch_at obj p (JObj d)) p = Some (JObj (merge_patch_items (jdict_of old) d))"
    by (simp add: patch_at_same merge_patch_obj old_def)
  then have "jlookup (patch_at obj p (JObj d)) (p @ [k]) = map_of (merge_patch_items (jdict_of old) d) k"
    by (simp add: jlookup_append split: option.splits)
  moreover have "map_of (jdict_of old) k = jlookup obj (p @ [k])"
    by (auto simp: old_def jlookup_append jdict_of_def split: option.splits json.splits)
  ultimately show ?thesis by (simp add: merge_patch_items_at[OF assms])
qed

lemma set_service_status_at:
  assumes "set_service_status env n st spec obj = Inr obj'"
  shows "jlookup obj' [''status'', ''services'', n, ''state''] = Some (JStr st)"
    and "jlookup obj' [''status'', ''services'', n, ''fingerprint''] = Some (JStr (spec_hash env spec))"
    and "jlookup obj' [''status'', ''services'', n, ''controller_version''] = Some (JStr (release_string env))"
    and "diverge [''status'', ''services'', n] ks \<Longrightarrow> jlookup obj' ks = jlookup obj ks"
proof -
  obtain v where obj': "obj' = patch_at obj [''status'', ''services'', n] (JObj
      ([(''openstack_version'', v), (''controller_version'', JStr (release_string env)),
        (''fingerprint'', JStr (spec_hash env spec)), (''timestamp'', JStr (timestamp env))] @
       (if cluster_release env \<noteq> [] then [(''release'', JStr (cluster_release env))] else []) @
       [(''state'', JStr st)]))" (is "_ = patch_at obj ?p (JObj ?d)")
    using assms by (auto simp: set_service_status_def generate_osdpl_status_generic_def res_simps)
  have ok: "dict_ok ?d" by (simp add: dict_ok_def)
  have at: "jlookup obj' (?p @ [k]) = patched (jlookup obj (?p @ [k])) (map_of ?d k)" for k
    unfolding obj' by (rule patch_obj_at[OF ok])
  show "jlookup obj' [''status'', ''services'', n, ''state''] = Some (JStr st)"
    using at[of "''state''"] by (simp add: patched_def merge_patch_leaf del: jlookup.simps)
  show "jlookup obj' [''status'', ''services'', n, ''fingerprint''] = Some (JStr (spec_hash env spec))"
    using at[of "''fingerprint''"] by (simp add: patched_def merge_patch_leaf del: jlookup.simps)
  show "jlookup obj' [''status'', ''services'', n, ''controller_version''] = Some (JStr (release_string env))"
    using at[of "''controller_version''"] by (simp add: patched_def merge_patch_leaf del: jlookup.simps)
  show "diverge ?p ks \<Longrightarrow> jlookup obj' ks = jlookup obj ks"
    unfolding obj' by (rule patch_at_other)
qed

end
