(* ===== verification/Health.thy ===== *)
theory Health
  imports StatusObject Constants Kube
begin

text \<open>
  Health of the applications: \<open>health.py\<close>, \<open>batch_health.py\<close> and \<open>controllers/health.py\<close>.  Every
  Deployment, DaemonSet and StatefulSet belongs to a component of an application; the batch updater
  writes the health of all of them into the status object and removes what is no longer there.
\<close>

section \<open>Identities\<close>

text \<open>\<open>s.split(sep, maxsplit=1)[-1]\<close>: what follows the first separator, or all of \<open>s\<close>.\<close>

fun after_first :: "string \<Rightarrow> string \<Rightarrow> string option" where
  "after_first sep [] = None"
| "after_first sep (x # xs) =
     (if py_prefix sep (x # xs) then Some (drop (length sep) (x # xs)) else after_first sep xs)"

definition split_once_last :: "string \<Rightarrow> string \<Rightarrow> string" where
  "split_once_last sep s = (case after_first sep s of None \<Rightarrow> s | Some r \<Rightarrow> r)"

text \<open>\<open>prefix, component, *parts = name.split("-")\<close>\<close>

definition split_name :: "string \<Rightarrow> (string \<times> string list) res" where
  "split_name name = (case py_split CHR ''-'' name of
     _ # c # parts \<Rightarrow> Inr (c, parts) | _ \<Rightarrow> Inl ValueError)"

definition ident :: "json \<Rightarrow> (string \<times> string) res" where
  "ident meta =
     rbind (rbind (jitem meta ''name'') jstr) (\<lambda>name.
     rbind (rbind (jpath_get meta [''labels''] ''application'' (JStr name)) jstr) (\<lambda>application.
     rbind (rbind (jpath_get meta [''labels''] ''component'' (JStr name)) jstr) (\<lambda>component.
     if py_prefix ''prometheus'' application \<and> component = ''exporter'' then
       rbind (split_name name) (\<lambda>(c, parts).
       case parts of
         [] \<Rightarrow> Inl IndexError
       | p # _ \<Rightarrow> Inr (''prometheus-exporter'',
           if p = ''rabbitmq'' \<and> c \<noteq> ''rabbitmq'' then c @ ''-rabbitmq'' else c))
     else if application = ''rabbitmq'' \<and> component = ''server'' then
       rbind (split_name name) (\<lambda>(service, parts).
       Inr (if service \<noteq> ''rabbitmq'' then (service, ''rabbitmq'') else (application, component)))
     else
       let short = split_once_last (application @ ''-'') name
       in Inr (application, if short \<noteq> [] then short else component))))"

section \<open>Readiness of an application\<close>

definition is_application_ready :: "string \<Rightarrow> json \<Rightarrow> bool res" where
  "is_application_ready application obj =
     rbind (jpath_get obj [''status'', ''health''] application JNull) (\<lambda>app_status.
     if \<not> jtruthy app_status then Inr False
     else rbind (jitems app_status) (\<lambda>components.
          rbind (rmap (\<lambda>(_, h). rbind (jitem h ''status'') (\<lambda>s. Inr (py_eq s (JStr (health_value OK))))) components)
            (\<lambda>oks. Inr (list_all id oks))))"

text \<open>\<open>_wait_application_ready\<close> with the polls that fit into the timeout.\<close>

definition wait_application_ready ::
  "nat \<Rightarrow> ('s \<Rightarrow> 's) \<Rightarrow> ('s \<Rightarrow> json) \<Rightarrow> string \<Rightarrow> ('s, unit) act" where
  "wait_application_ready rounds tick osdplst application =
     abind (wait_until rounds tick (abind (aget osdplst) (\<lambda>obj. alift (is_application_ready application obj)))) (\<lambda>ok.
     if ok then aret () else araise TimeoutError)"

definition wait_service_healthy ::
  "(string \<Rightarrow> nat) \<Rightarrow> ('s \<Rightarrow> 's) \<Rightarrow> ('s \<Rightarrow> json) \<Rightarrow> string list \<Rightarrow> ('s, unit) act" where
  "wait_service_healthy rounds tick osdplst health_groups =
     aforeach (\<lambda>g. wait_application_ready (rounds g) tick osdplst g) health_groups"

definition wait_services_healthy ::
  "(string \<Rightarrow> nat) \<Rightarrow> ('s \<Rightarrow> 's) \<Rightarrow> ('s \<Rightarrow> json) \<Rightarrow> string list list \<Rightarrow> ('s, unit) act" where
  "wait_services_healthy rounds tick osdplst svcs =
     aforeach (\<lambda>health_groups. atry (wait_service_healthy rounds tick osdplst health_groups)
       (\<lambda>_. araise (TemporaryError ''Services are not healthy''))) svcs"

definition health_status :: "bool \<Rightarrow> string" where
  "health_status ready = health_value (if ready then OK else BAD)"

section \<open>The batch updater\<close>

record k8s_object =
  obj_meta :: json
  obj_json :: json
  obj_ready :: "bool res"

definition calculate_status :: "k8s_object \<Rightarrow> ((string \<times> string) \<times> string \<times> json) res" where
  "calculate_status k =
     rbind (ident (obj_meta k)) (\<lambda>i.
     rbind (obj_ready k) (\<lambda>ready.
     rbind (get_in_str (obj_json k) [''status'', ''observedGeneration''] (JInt 0)) (\<lambda>gen.
     Inr (i, health_status ready, gen))))"

text \<open>The dictionary keeps the last object of an identity.\<close>

definition calculate_statuses :: "k8s_object list \<Rightarrow> ((string \<times> string) \<times> string \<times> json) list res" where
  "calculate_statuses ks = rbind (rmap calculate_status ks) (\<lambda>l.
     Inr (foldl (\<lambda>d (k, v). AList.update k v d) [] l))"

definition health_entry :: "string \<times> json \<Rightarrow> json" where
  "health_entry sg = JObj [(''status'', JStr (fst sg)), (''generation'', snd sg)]"

text \<open>\<open>health_all[ident[0]][ident[1]] = ...\<close> on a \<open>defaultdict(dict)\<close>.\<close>

type_synonym health_map = "(string \<times> jdict) list"

definition set_entry :: "(string \<times> string) \<times> string \<times> json \<Rightarrow> health_map \<Rightarrow> health_map" where
  "set_entry x d = (case x of ((app, cmp), sg) \<Rightarrow>
     AList.update app (AList.update cmp (health_entry sg) (case map_of d app of None \<Rightarrow> [] | Some c \<Rightarrow> c)) d)"

definition get_health_statuses :: "k8s_object list \<Rightarrow> health_map res" where
  "get_health_statuses ks = rbind (calculate_statuses ks) (\<lambda>l. Inr (foldl (\<lambda>d x. set_entry x d) [] l))"

definition health_json :: "health_map \<Rightarrow> jdict" where
  "health_json d = map (\<lambda>(app, comps). (app, JObj comps)) d"

text \<open>The patch that removes what is not in the new statuses; a component is removed by a null.\<close>

definition stale_components :: "jdict \<Rightarrow> jdict \<Rightarrow> jdict" where
  "stale_components old new = map (\<lambda>k. (k, JNull)) (filter (\<lambda>k. k \<notin> set (keys new)) (keys old))"

definition stale_patch :: "(string \<times> jdict) list \<Rightarrow> health_map \<Rightarrow> jdict" where
  "stale_patch old statuses =
     map (\<lambda>k. (k, JNull)) (filter (\<lambda>k. k \<notin> set (keys statuses)) (keys old)) @
     concat (map (\<lambda>(service, components).
       case map_of statuses service of
         None \<Rightarrow> []
       | Some new \<Rightarrow> (let p = stale_components components new in if p = [] then [] else [(service, JObj p)])) old)"

definition component_dicts :: "json \<Rightarrow> (string \<times> jdict) list res" where
  "component_dicts health = rbind (jitems health) (\<lambda>items.
     rmap (\<lambda>(service, c). rbind (jitems c) (\<lambda>d. Inr (service, d))) items)"

definition remove_stale_statuses :: "health_map \<Rightarrow> json \<Rightarrow> json res" where
  "remove_stale_statuses statuses obj =
     rbind (get_osdpl_health obj) (\<lambda>old.
     rbind (component_dicts old) (\<lambda>old.
     let p = stale_patch old statuses in Inr (if p = [] then obj else set_osdpl_health p obj)))"

text \<open>An application counts as not ready once for any number of bad components.\<close>

definition application_bad :: "jdict \<Rightarrow> bool" where
  "application_bad components =
     list_ex (\<lambda>(_, h). jlookup h [''status''] = Some (JStr (health_value BAD))) components"

definition get_overall_health :: "health_map \<Rightarrow> string" where
  "get_overall_health statuses =
     progress_text (length statuses - length (filter (\<lambda>(_, c). application_bad c) statuses)) (length statuses)"

definition update_health_statuses :: "k8s_object list \<Rightarrow> json \<Rightarrow> json res" where
  "update_health_statuses ks obj =
     rbind (get_health_statuses ks) (\<lambda>statuses.
     rbind (remove_stale_statuses statuses (set_osdpl_health (health_json statuses) obj)) (\<lambda>obj.
     Inr (set_overall_health (get_overall_health statuses) obj)))"

section \<open>Events of daemon sets\<close>

datatype hook = run_nova_cell_setup | run_octavia_create_resources

definition DAEMONSET_HOOKS :: "((string \<times> string) \<times> (string \<times> hook) list) list" where
  "DAEMONSET_HOOKS =
     [((''Unhealthy'', ''Ready''), [(''nova-compute-default'', run_nova_cell_setup)]),
      ((''Ready'', ''Unhealthy''), [(''octavia-health-manager-default'', run_octavia_create_resources)])]"

definition find_hook :: "string \<Rightarrow> string \<Rightarrow> string \<Rightarrow> string \<Rightarrow> hook option" where
  "find_hook prev now application component =
     Option.bind (map_of DAEMONSET_HOOKS (prev, now)) (\<lambda>d. map_of d (application @ ''-'' @ component))"

text \<open>The delete handlers of deployments and stateful sets, \<open>osdpl_found\<close> says whether there is a deployment.\<close>

definition forget_health :: "bool \<Rightarrow> json \<Rightarrow> json \<Rightarrow> json res" where
  "forget_health osdpl_found meta obj =
     (if \<not> osdpl_found then Inr obj
      else rbind (ident meta) (\<lambda>(application, component).
        Inr (remove_osdpl_service_health application component obj)))"

text \<open>
  The handler of daemon sets: the new status object, and the hook to run together with the number of
  scheduled pods it compares with.
\<close>

definition daemonsets ::
  "bool \<Rightarrow> bool \<Rightarrow> bool \<Rightarrow> json \<Rightarrow> bool res \<Rightarrow> json \<Rightarrow> (json \<times> (hook \<times> json) option) res" where
  "daemonsets osdpl_found osdplst_exists deleted meta ready obj =
     (if \<not> osdpl_found \<or> \<not> osdplst_exists then Inr (obj, None)
      else rbind (ident meta) (\<lambda>(application, component).
     if deleted then Inr (remove_osdpl_service_health application component obj, None)
     else rbind ready (\<lambda>r.
       rbind (get_osdpl_health obj) (\<lambda>h.
       rbind (get_in_str h [application, component] (JObj [(''status'', JStr [])])) (\<lambda>prev.
       rbind (rbind (jitem prev ''status'') jstr) (\<lambda>prev_status.
       rbind (jget prev ''OK_desiredNumberScheduled'' (JInt 0)) (\<lambda>desired.
       Inr (obj, map_option (\<lambda>k. (k, desired)) (find_hook prev_status (health_status r) application component)))))))))"

definition new_node_added :: "json \<Rightarrow> json \<Rightarrow> bool res" where
  "new_node_added desired_scheduled ok_desired =
     rbind (jless_eq desired_scheduled ok_desired) (\<lambda>b. Inr (\<not> b))"

section \<open>The stored health is the health of the objects\<close>

definition entry_of :: "(string \<times> (string \<times> 'v) list) list \<Rightarrow> string \<Rightarrow> string \<Rightarrow> 'v option" where
  "entry_of d a c = Option.bind (map_of d a) (\<lambda>m. map_of m c)"

definition health_map_ok :: "(string \<times> (string \<times> 'v) list) list \<Rightarrow> bool" where
  "health_map_ok d \<longleftrightarrow> dict_ok d \<and> (\<forall>m \<in> set d. dict_ok (snd m))"

lemma set_entry_at:
  "entry_of (set_entry ((a, c), sg) d) x y = (if x = a \<and> y = c then Some (health_entry sg) else entry_of d x y)"
  by (auto simp: entry_of_def set_entry_def split: option.splits)

lemma health_map_okD: "health_map_ok d \<Longrightarrow> map_of d a = Some m \<Longrightarrow> dict_ok m"
  by (auto simp: health_map_ok_def dest!: map_of_SomeD)

lemma set_entry_ok: "health_map_ok d \<Longrightarrow> health_map_ok (set_entry x d)"
proof -
  assume ok: "health_map_ok d"
  obtain a c sg where x: "x = ((a, c), sg)" by (metis prod.exhaust)
  have "dict_ok (AList.update c (health_entry sg) (case map_of d a of None \<Rightarrow> [] | Some m \<Rightarrow> m))"
    using health_map_okD[OF ok] by (auto split: option.splits)
  then show ?thesis using ok set_update[of _ a _ d]
    by (fastforce simp: health_map_ok_def set_entry_def x)
qed

lemma fold_entries:
  "health_map_ok d \<Longrightarrow> dict_ok l \<Longrightarrow>
   health_map_ok (foldl (\<lambda>d x. set_entry x d) d l) \<and>
   entry_of (foldl (\<lambda>d x. set_entry x d) d l) a c =
     (case map_of l (a, c) of None \<Rightarrow> entry_of d a c | Some sg \<Rightarrow> Some (health_entry sg))"
proof (induction l arbitrary: d)
  case Nil
  then show ?case by simp
next
  case (Cons x l)
  obtain a' c' sg where x: "x = ((a', c'), sg)" by (metis prod.exhaust)
  have l: "dict_ok l" "(a', c') \<notin> set (keys l)" using Cons.prems x by auto
  then have "map_of l (a', c') = None" by (simp add: map_of_eq_None_iff)
  with Cons.IH[OF set_entry_ok[OF Cons.prems(1)] l(1)] show ?case
    by (auto simp: x set_entry_at split: option.splits)
qed

lemma foldl_dict_ok: "dict_ok d \<Longrightarrow> dict_ok (foldl (\<lambda>d (k, v). AList.update k v d) d l)"
  by (induction l arbitrary: d) (auto split: prod.splits)

lemma get_health_statuses_at:
  assumes "get_health_statuses ks = Inr statuses"
  shows "health_map_ok statuses \<and> (\<exists>l. calculate_statuses ks = Inr l \<and>
    (\<forall>a c. entry_of statuses a c = map_option health_entry (map_of l (a, c))))"
proof -
  obtain l where l: "calculate_statuses ks = Inr l" "statuses = foldl (\<lambda>d x. set_entry x d) [] l"
    using assms by (auto simp: get_health_statuses_def res_simps)
  then have "dict_ok l" by (auto simp: calculate_statuses_def res_simps foldl_dict_ok)
  moreover have "health_map_ok ([] :: health_map)" by (simp add: health_map_ok_def)
  ultimately show ?thesis using l fold_entries[of "[]" l]
    by (auto simp: entry_of_def split: option.splits)
qed

text \<open>The patch with the new statuses, then the patch without the stale ones.\<close>

lemma map_of_health_json: "map_of (health_json d) a = map_option JObj (map_of d a)"
  by (induction d) (auto simp: health_json_def)

lemma dict_ok_health_json: "dict_ok d \<Longrightarrow> dict_ok (health_json d)"
  by (simp add: health_json_def dict_ok_def comp_def case_prod_beta')

definition stored :: "jdict \<Rightarrow> string \<Rightarrow> string \<Rightarrow> json option" where
  "stored h a c = jlookup (JObj h) [a, c]"

lemma stored_Some: "map_of h a = Some (JObj m) \<Longrightarrow> stored h a c = map_of m c"
  by (simp add: stored_def split: option.splits)

lemma health_written:
  assumes "health_map_ok d" and "entry_of d a c = Some e" and "e \<noteq> JNull"
  shows "stored (merge_patch_items h (health_json d)) a c =
    Some (merge_patch (case stored h a c of None \<Rightarrow> JNull | Some w \<Rightarrow> w) e)"
proof -
  obtain m where m: "map_of d a = Some m" "map_of m c = Some e"
    using assms(2) by (auto simp: entry_of_def split: Option.bind_splits)
  have "map_of (merge_patch_items h (health_json d)) a =
      Some (JObj (merge_patch_items (jdict_of (case map_of h a of None \<Rightarrow> JNull | Some w \<Rightarrow> w)) m))"
    using assms(1) m(1)
    by (simp add: merge_patch_items_at dict_ok_health_json health_map_ok_def map_of_health_json patched_def
        merge_patch_obj)
  then have "stored (merge_patch_items h (health_json d)) a c =
      patched (map_of (jdict_of (case map_of h a of None \<Rightarrow> JNull | Some w \<Rightarrow> w)) c) (Some e)"
    using m(2) health_map_okD[OF assms(1) m(1)] by (simp add: stored_Some merge_patch_items_at)
  moreover have "map_of (jdict_of (case map_of h a of None \<Rightarrow> JNull | Some w \<Rightarrow> w)) c = stored h a c"
    by (auto simp: stored_def jdict_of_def split: option.splits json.splits)
  ultimately show ?thesis using assms(3) by (simp add: patched_def)
qed

lemma map_of_nulls: "map_of (map (\<lambda>k. (k, JNull)) ks) x = (if x \<in> set ks then Some JNull else None)"
  by (induction ks) auto

lemma stale_components_at:
  "map_of (stale_components old new) c =
     (if map_of old c \<noteq> None \<and> map_of new c = None then Some JNull else None)"
  by (auto simp: stale_components_def map_of_nulls map_of_eq_None_iff)

lemma stale_components_ok: "dict_ok old \<Longrightarrow> dict_ok (stale_components old new)"
  by (simp add: stale_components_def dict_ok_def comp_def)

definition component_patch :: "health_map \<Rightarrow> string \<Rightarrow> jdict \<Rightarrow> json option" where
  "component_patch statuses service components = Option.bind (map_of statuses service) (\<lambda>new.
     if stale_components components new = [] then None else Some (JObj (stale_components components new)))"

definition component_patches :: "health_map \<Rightarrow> (string \<times> jdict) list \<Rightarrow> jdict" where
  "component_patches statuses old = concat (map (\<lambda>(service, components).
       case map_of statuses service of
         None \<Rightarrow> []
       | Some new \<Rightarrow> (let p = stale_components components new in if p = [] then [] else [(service, JObj p)])) old)"

lemma component_patches_simps [simp]:
  "component_patches statuses [] = []"
  "component_patches statuses ((s, c) # old) =
     (case component_patch statuses s c of None \<Rightarrow> [] | Some p \<Rightarrow> [(s, p)]) @ component_patches statuses old"
  by (auto simp: component_patches_def component_patch_def Let_def split: option.splits)

lemma component_patches_at:
  "dict_ok old \<Longrightarrow> map_of (component_patches statuses old) a = Option.bind (map_of old a) (component_patch statuses a)"
proof (induction old)
  case (Cons x old)
  then have "map_of old (fst x) = None" by (cases x) (simp add: map_of_eq_None_iff)
  with Cons show ?case by (cases x) (auto split: option.splits)
qed simp

lemma component_patch_known: "component_patch statuses s c = Some p \<Longrightarrow> s \<in> set (keys statuses)"
  by (auto simp: component_patch_def split: Option.bind_splits dest: map_of_in_keys)

lemma component_patches_keys: "set (keys (component_patches statuses old)) \<subseteq> set (keys old) \<inter> set (keys statuses)"
proof (induction old)
  case (Cons x old)
  then show ?case by (cases x) (auto split: option.splits dest: component_patch_known[OF sym])
qed simp

lemma component_patches_ok: "dict_ok old \<Longrightarrow> dict_ok (component_patches statuses old)"
proof (induction old)
  case (Cons x old)
  then show ?case using component_patches_keys[of statuses old] by (cases x) (auto split: option.splits)
qed simp

lemma stale_patch_split:
  "stale_patch old statuses =
     map (\<lambda>k. (k, JNull)) (filter (\<lambda>k. k \<notin> set (keys statuses)) (keys old)) @ component_patches statuses old"
  by (simp add: stale_patch_def component_patches_def)

lemma stale_patch_ok: "dict_ok old \<Longrightarrow> dict_ok (stale_patch old statuses)"
  using component_patches_ok[of old statuses] component_patches_keys[of statuses old]
  by (auto simp: stale_patch_split dict_ok_def comp_def)

lemma stale_patch_at:
  "dict_ok old \<Longrightarrow> map_of (stale_patch old statuses) a =
     (case map_of old a of
        None \<Rightarrow> None
      | Some m \<Rightarrow> if map_of statuses a = None then Some JNull else component_patch statuses a m)"
proof -
  assume ok: "dict_ok old"
  have "map_of old a = None \<longleftrightarrow> a \<notin> set (keys old)" "map_of statuses a = None \<longleftrightarrow> a \<notin> set (keys statuses)"
    by (simp_all add: map_of_eq_None_iff)
  then show ?thesis
    by (cases "map_of old a"; cases "map_of statuses a")
      (simp_all add: stale_patch_split map_add_def map_of_nulls component_patches_at[OF ok] component_patch_def
        split: option.splits)
qed

lemma component_dicts_at:
  "component_dicts (JObj h) = Inr old \<Longrightarrow> keys old = keys h \<and> (\<forall>a. map_of h a = map_option JObj (map_of old a))"
proof -
  assume "component_dicts (JObj h) = Inr old"
  then have "rmap (\<lambda>(service, c). rbind (jitems c) (\<lambda>d. Inr (service, d))) h = Inr old"
    by (simp add: component_dicts_def)
  then show ?thesis
  proof (induction h arbitrary: old)
    case Nil
    then show ?case by simp
  next
    case (Cons x h)
    obtain a c where x: "x = (a, c)" by (cases x)
    with Cons.prems obtain d old' where d: "jitems c = Inr d" "old = (a, d) # old'"
      "rmap (\<lambda>(service, c). rbind (jitems c) (\<lambda>d. Inr (service, d))) h = Inr old'"
      by (auto simp: res_simps)
    have "c = JObj d" using d(1) by (cases c) auto
    with Cons.IH[OF d(3)] d(2) x show ?case by auto
  qed
qed

lemma stale_removed:
  assumes "component_dicts (JObj h) = Inr old" and "dict_ok h"
    and comps: "\<And>a m. map_of h a = Some (JObj m) \<Longrightarrow> dict_ok m"
    and new: "\<And>a c. entry_of d a c \<noteq> None \<Longrightarrow> stored h a c \<noteq> None"
  shows "stored (merge_patch_items h (stale_patch old d)) a c =
    (if entry_of d a c = None then None else stored h a c)"
proof -
  note o = component_dicts_at[OF assms(1)]
  have ok: "dict_ok old" using o assms(2) by (simp add: dict_ok_def)
  have at: "map_of (merge_patch_items h (stale_patch old d)) a =
      patched (map_of h a) (map_of (stale_patch old d) a)"
    by (rule merge_patch_items_at[OF stale_patch_ok[OF ok]])
  show ?thesis
  proof (cases "map_of old a")
    case None
    then have "map_of h a = None" using o by simp
    then have "stored h a c = None" by (simp add: stored_def)
    moreover from this have "entry_of d a c = None" using new[of a c] by blast
    moreover have "map_of (merge_patch_items h (stale_patch old d)) a = None"
      using at None \<open>map_of h a = None\<close> by (simp add: stale_patch_at[OF ok] patched_def)
    ultimately show ?thesis by (simp add: stored_def)
  next
    case (Some m)
    then have h: "map_of h a = Some (JObj m)" using o by simp
    show ?thesis
    proof (cases "map_of d a")
      case None
      then show ?thesis using at Some by (simp add: stale_patch_at[OF ok] patched_def stored_def entry_of_def)
    next
      case (Some nw)
      have e: "entry_of d a c = map_of nw c" using Some by (simp add: entry_of_def)
      have "stored (merge_patch_items h (stale_patch old d)) a c =
          patched (map_of m c) (map_of (stale_components m nw) c)"
      proof (cases "stale_components m nw = []")
        case True
        then show ?thesis using at h \<open>map_of old a = Some m\<close> Some
          by (simp add: stale_patch_at[OF ok] component_patch_def patched_def stored_Some)
      next
        case False
        have "dict_ok (stale_components m nw)" using comps[OF h] by (rule stale_components_ok)
        then show ?thesis using False at h \<open>map_of old a = Some m\<close> Some
          by (simp add: stale_patch_at[OF ok] component_patch_def patched_def[of "Some (JObj m)"] stored_Some merge_patch_obj
              merge_patch_items_at jdict_of_def)
      qed
      then show ?thesis using e h by (auto simp: stored_Some stale_components_at patched_def)
    qed
  qed
qed

lemma dict_ok_delete: "dict_ok d \<Longrightarrow> dict_ok (AList.delete k d)"
  by (simp add: dict_ok_def distinct_delete)

lemma dict_ok_patch: "dict_ok d \<Longrightarrow> dict_ok (merge_patch_items d p)"
  by (induction p arbitrary: d) (simp_all add: dict_ok_delete dict_ok_update)

lemma merged_components_ok:
  assumes "jwf (JObj h)" and "health_map_ok d" and "map_of (merge_patch_items h (health_json d)) a = Some (JObj m)"
  shows "dict_ok m"
proof -
  have in_h: "dict_ok n" if "map_of h a = Some (JObj n)" for n
    using jwf_map_of[OF assms(1) that] by simp
  have "patched (map_of h a) (map_option JObj (map_of d a)) = Some (JObj m)"
    using assms(2,3) by (simp add: merge_patch_items_at dict_ok_health_json health_map_ok_def map_of_health_json)
  moreover have "dict_ok (jdict_of (case map_of h a of None \<Rightarrow> JNull | Some w \<Rightarrow> w))"
    using in_h by (auto simp: jdict_of_def split: option.splits json.splits)
  ultimately show ?thesis using in_h
    by (cases "map_of d a") (auto simp: patched_def merge_patch_obj dict_ok_patch)
qed

text \<open>The health that the status object holds after the two patches.\<close>

lemma health_at_path: "jlookup obj [''status'', ''health''] = Some (JObj h) \<Longrightarrow>
    jlookup obj ([''status'', ''health'', a, c] @ ks) = Option.bind (stored h a c) (\<lambda>e. jlookup e ks)"
  using jlookup_append[of obj "[''status'', ''health'']" "[a, c] @ ks"] jlookup_append[of "JObj h" "[a, c]" ks]
  by (simp add: stored_def split: option.splits)

lemma remove_stale_health:
  assumes "jlookup obj [''status'', ''health''] = Some (JObj h)" and "remove_stale_statuses d obj = Inr obj'"
  shows "\<exists>old. component_dicts (JObj h) = Inr old \<and>
    jlookup obj' [''status'', ''health''] = Some (JObj (merge_patch_items h (stale_patch old d)))"
proof -
  have "get_osdpl_health obj = Inr (JObj h)"
    using assms(1) unfolding get_osdpl_health_def jitem_path_lookup .
  with assms(2) obtain old where old: "component_dicts (JObj h) = Inr old"
    "obj' = (if stale_patch old d = [] then obj else set_osdpl_health (stale_patch old d) obj)"
    by (auto simp: remove_stale_statuses_def Let_def simp del: jitem_path.simps elim!: rbind_InrE)
  show ?thesis
    using assms(1) old patch_at_same[of "JObj (stale_patch old d)" obj "[''status'', ''health'']"]
    by (auto simp: set_osdpl_health_def merge_patch_obj jdict_of_def simp del: jlookup.simps)
qed

lemma written_status: "jlookup (merge_patch w (health_entry sg)) [''status''] = Some (JStr (fst sg))"
  by (cases sg) (simp add: health_entry_def merge_patch_simps delete_conv')

lemma health_stored:
  assumes "jwf obj" and "update_health_statuses ks obj = Inr obj'" and "calculate_statuses ks = Inr l"
  shows "jlookup obj' [''status'', ''health'', a, c, ''status''] = map_option (\<lambda>sg. JStr (fst sg)) (map_of l (a, c)) \<and>
    (jlookup obj' [''status'', ''health'', a, c] = None \<longleftrightarrow> map_of l (a, c) = None)"
proof -
  obtain d obj2 where d: "get_health_statuses ks = Inr d"
    "remove_stale_statuses d (set_osdpl_health (health_json d) obj) = Inr obj2"
    "obj' = set_overall_health (get_overall_health d) obj2"
    using assms(2) by (auto simp: update_health_statuses_def res_simps)
  have ok: "health_map_ok d" and entries: "\<And>a c. entry_of d a c = map_option health_entry (map_of l (a, c))"
    using get_health_statuses_at[OF d(1)] assms(3) by auto
  define h0 where "h0 = jdict_of (case jlookup obj [''status'', ''health''] of None \<Rightarrow> JNull | Some w \<Rightarrow> w)"
  have wf: "jwf (JObj h0)"
  proof (cases "jlookup obj [''status'', ''health'']")
    case (Some w)
    then show ?thesis using jwf_lookup[OF assms(1) Some]
      by (cases w) (simp_all add: h0_def jdict_of_def del: jlookup.simps)
  qed (simp add: h0_def jdict_of_def del: jlookup.simps)
  define h1 where "h1 = merge_patch_items h0 (health_json d)"
  have "jlookup (set_osdpl_health (health_json d) obj) [''status'', ''health''] = Some (JObj h1)"
    unfolding set_osdpl_health_def h1_def h0_def
    by (subst patch_at_same) (simp_all add: merge_patch_obj del: jlookup.simps)
  from remove_stale_health[OF this d(2)] obtain old where old: "component_dicts (JObj h1) = Inr old"
    "jlookup obj2 [''status'', ''health''] = Some (JObj (merge_patch_items h1 (stale_patch old d)))" by blast
  have new: "stored h1 x y = Some (merge_patch (case stored h0 x y of None \<Rightarrow> JNull | Some w \<Rightarrow> w) (health_entry sg))"
    if "map_of l (x, y) = Some sg" for x y sg
    using health_written[OF ok, of x y "health_entry sg" h0] that
    by (simp add: entries h1_def health_entry_def)
  have "stored (merge_patch_items h1 (stale_patch old d)) a c = (if entry_of d a c = None then None else stored h1 a c)"
  proof (rule stale_removed[OF old(1)])
    show "dict_ok h1" using wf by (simp add: h1_def dict_ok_patch)
    show "dict_ok m" if "map_of h1 x = Some (JObj m)" for x m
      using merged_components_ok[OF wf ok] that by (simp add: h1_def)
    show "stored h1 x y \<noteq> None" if "entry_of d x y \<noteq> None" for x y
      using that new by (auto simp: entries)
  qed
  with new[of a c] have at: "stored (merge_patch_items h1 (stale_patch old d)) a c =
      map_option (\<lambda>sg. merge_patch (case stored h0 a c of None \<Rightarrow> JNull | Some w \<Rightarrow> w) (health_entry sg)) (map_of l (a, c))"
    by (cases "map_of l (a, c)") (simp_all add: entries)
  have "jlookup obj' ([''status'', ''health'', a, c] @ ks) = jlookup obj2 ([''status'', ''health'', a, c] @ ks)" for ks
    unfolding d(3) set_overall_health_def by (rule patch_at_other) simp
  then have "jlookup obj' ([''status'', ''health'', a, c] @ ks) =
      Option.bind (stored (merge_patch_items h1 (stale_patch old d)) a c) (\<lambda>e. jlookup e ks)" for ks
    using health_at_path[OF old(2), of a c ks] by simp
  from this[of "[''status'']"] this[of "[]"] show ?thesis
    unfolding at by (cases "map_of l (a, c)") (simp_all add: written_status del: jlookup.simps(2))
qed

end
