(* ===== verification/Helm.thy ===== *)
theory Helm
  imports Layers StatusObject
begin

text \<open>
  The Helm client (\<open>helm.py\<close>).  The binary \<open>helm3\<close> is a parameter: a command gives a return code, the
  parsed output and the error text.  A command that fails because of an immutable field or a stuck
  release repairs that and is tried again; the number of tries is fuel.
\<close>

section \<open>Commands\<close>

datatype helm_cmd =
    HelmList
  | HelmGetValues string
  | HelmUpgrade string string json bool
  | HelmDelete string
  | HelmRollbackCmd string

record helm_result =
  returncode :: int
  std_out :: json
  std_err :: string

text \<open>
  \<open>k8s_known\<close> is \<open>get_object_by_kind\<close> (a class for the kind is found), \<open>k8s_exists\<close> and
  \<open>k8s_delete\<close> are calls of the cluster, \<open>helm_tick\<close> is one sleep of \<open>wait_for_deleted\<close>.
\<close>

record 's helm_env =
  helm_run :: "helm_cmd \<Rightarrow> ('s, helm_result) act"
  k8s_known :: "string \<Rightarrow> bool"
  k8s_exists :: "string \<Rightarrow> string \<Rightarrow> ('s, bool) act"
  k8s_delete :: "string \<Rightarrow> string \<Rightarrow> ('s, unit) act"
  helm_tick :: "'s \<Rightarrow> 's"
  delete_rounds :: nat
  helm_tries :: nat
  charts_dir :: string

definition get_chart_url :: "string \<Rightarrow> string \<Rightarrow> string res" where
  "get_chart_url dir chart =
     (case filter (\<lambda>(_, charts). chart \<in> set charts) CHART_GROUP_MAPPING of
        [] \<Rightarrow> Inl IndexError
      | (grp, _) # _ \<Rightarrow> Inr (dir @ ''/'' @ grp @ ''/'' @ chart))"

section \<open>Immutable fields\<close>

text \<open>
  \<open>re.findall(r'cannot patch "(.*?)" with kind ([a-zA-Z]+):', stderr)\<close>: the name is as short as
  possible and has no line break, the kind is a maximal run of letters before a colon.
\<close>

definition is_alpha :: "char \<Rightarrow> bool" where
  "is_alpha c = (let n = (of_char c :: nat) in 97 \<le> n \<and> n \<le> 122 \<or> 65 \<le> n \<and> n \<le> 90)"

definition kind_at :: "string \<Rightarrow> (string \<times> string) option" where
  "kind_at s = (case dropWhile is_alpha s of
       [] \<Rightarrow> None
     | c # r \<Rightarrow> if takeWhile is_alpha s \<noteq> [] \<and> c = CHR '':'' then Some (takeWhile is_alpha s, r) else None)"

fun name_and_kind :: "string \<Rightarrow> string \<Rightarrow> ((string \<times> string) \<times> string) option" where
  "name_and_kind acc [] = None"
| "name_and_kind acc (c # s) =
     (case (if py_prefix ''\" with kind '' (c # s) then kind_at (drop 12 (c # s)) else None) of
        Some (k, r) \<Rightarrow> Some ((acc, k), r)
      | None \<Rightarrow> if c = CHR 0x0A then None else name_and_kind (acc @ [c]) s)"

lemma kind_at_shorter: "kind_at s = Some (k, r) \<Longrightarrow> length r \<le> length s"
  using length_dropWhile_le[of is_alpha s]
  by (auto simp: kind_at_def split: list.splits if_splits)

lemma name_and_kind_shorter: "name_and_kind acc s = Some (m, r) \<Longrightarrow> length r \<le> length s"
proof (induction acc s rule: name_and_kind.induct)
  case (2 acc c s)
  show ?case
  proof (cases "if py_prefix ''\" with kind '' (c # s) then kind_at (drop 12 (c # s)) else None")
    case None
    with 2 show ?thesis by (auto split: if_splits)
  next
    case (Some x)
    with 2(2) obtain k where "kind_at (drop 12 (c # s)) = Some (k, r)" by (cases x) (auto split: if_splits)
    from kind_at_shorter[OF this] show ?thesis by simp
  qed
qed simp

function immutable_matches :: "string \<Rightarrow> (string \<times> string) list" where
  "immutable_matches [] = []"
| "immutable_matches (c # s) =
     (case (if py_prefix ''cannot patch \"'' (c # s) then name_and_kind [] (drop 14 (c # s)) else None) of
        Some (m, r) \<Rightarrow> m # immutable_matches r
      | None \<Rightarrow> immutable_matches s)"
  by pat_completeness auto
termination
proof (relation "measure length")
  fix c :: char and s x m r
  assume *: "(if py_prefix ''cannot patch \"'' (c # s) then name_and_kind [] (drop 14 (c # s)) else None) = Some x"
    and "(m, r) = x"
  then have "name_and_kind [] (drop 14 (c # s)) = Some (m, r)" by (auto split: if_splits)
  from name_and_kind_shorter[OF this] show "(r, c # s) \<in> measure length" by simp
qed auto

text \<open>
  The two \<open>kopf.TemporaryError(...)\<close> without \<open>raise\<close> have no effect, so an unknown kind fails as the
  attribute access on \<open>None\<close> in \<open>kube.find\<close> does.
\<close>

definition remove_immutable :: "'s helm_env \<Rightarrow> string \<times> string \<Rightarrow> ('s, unit) act" where
  "remove_immutable env m = (case m of (name, kind) \<Rightarrow>
     if kind \<in> set KINDS_FOR_MANUAL_UPDATE then
       araise (TemporaryError (''The '' @ kind @ '' object can't be updated automatically. Please do this update manually.''))
     else if \<not> k8s_known env kind then araise AttributeError
     else abind (k8s_exists env kind name) (\<lambda>found.
       if found then
         abind (k8s_delete env kind name) (\<lambda>_.
         abind (wait_until (delete_rounds env) (helm_tick env) (abind (k8s_exists env kind name) (\<lambda>b. aret (\<not> b))))
           (\<lambda>_. aret ()))
       else aret ()))"

definition guess_and_delete :: "'s helm_env \<Rightarrow> string \<Rightarrow> ('s, unit) act" where
  "guess_and_delete env err = aforeach (remove_immutable env) (immutable_matches err)"

section \<open>Running a command\<close>

definition py_rstrip :: "string \<Rightarrow> string" where
  "py_rstrip s = rev (dropWhile is_space (rev s))"

definition py_endswith :: "string \<Rightarrow> string \<Rightarrow> bool" where
  "py_endswith e s = py_prefix (rev e) (rev s)"

definition immutable_error :: "string \<Rightarrow> bool" where
  "immutable_error err \<longleftrightarrow>
     py_endswith ''field is immutable'' (py_rstrip err) \<or> py_endswith ''are forbidden'' (py_rstrip err)"

definition helm_failure :: "'s helm_env \<Rightarrow> string \<Rightarrow> string option \<Rightarrow> ('s, helm_result) act" where
  "helm_failure env err release_name =
     (if immutable_error err then abind (guess_and_delete env err) (\<lambda>_. araise HelmImmutableFieldChange)
      else if py_substr ''another operation (install/upgrade/rollback) is in progress'' err \<and>
              release_name \<noteq> None \<and> release_name \<noteq> Some [] then
        abind (helm_run env (HelmRollbackCmd (the release_name))) (\<lambda>_. araise HelmRollback)
      else araise (TemporaryError ''Helm command failed''))"

definition helm_attempt :: "'s helm_env \<Rightarrow> helm_cmd \<Rightarrow> bool \<Rightarrow> string option \<Rightarrow> ('s, helm_result) act" where
  "helm_attempt env cmd raise_on_error release_name =
     abind (helm_run env cmd) (\<lambda>r.
     if returncode r \<noteq> 0 \<and> raise_on_error then helm_failure env (std_err r) release_name else aret r)"

definition helm_retriable :: "py_exc \<Rightarrow> bool" where
  "helm_retriable e \<longleftrightarrow> e \<in> {HelmImmutableFieldChange, HelmRollback, TimeoutError}"

definition out_of_tries :: py_exc where
  "out_of_tries = OtherException ''helm is still retried''"

fun helm_retry :: "nat \<Rightarrow> ('s, 'a) act \<Rightarrow> ('s, 'a) act" where
  "helm_retry 0 m = araise out_of_tries"
| "helm_retry (Suc n) m = atry m (\<lambda>e. if helm_retriable e then helm_retry n m else araise e)"

definition run_cmd :: "'s helm_env \<Rightarrow> helm_cmd \<Rightarrow> bool \<Rightarrow> string option \<Rightarrow> ('s, helm_result) act" where
  "run_cmd env cmd raise_on_error release_name =
     helm_retry (helm_tries env) (helm_attempt env cmd raise_on_error release_name)"

section \<open>Releases\<close>

definition helm_list :: "'s helm_env \<Rightarrow> ('s, json) act" where
  "helm_list env = abind (run_cmd env HelmList True None) (\<lambda>r. aret (std_out r))"

definition release_names :: "json list \<Rightarrow> string list res" where
  "release_names rels = rmap (\<lambda>r. rbind (jitem r ''name'') jstr) rels"

definition helm_exist :: "'s helm_env \<Rightarrow> string \<Rightarrow> ('s, bool) act" where
  "helm_exist env name =
     abind (helm_list env) (\<lambda>out.
     abind (alift (rbind (jelems out) release_names)) (\<lambda>names. aret (name \<in> set names)))"

definition get_release_values :: "'s helm_env \<Rightarrow> string \<Rightarrow> ('s, json) act" where
  "get_release_values env name = abind (run_cmd env (HelmGetValues name) True None) (\<lambda>r. aret (std_out r))"

definition set_release_values :: "merge_fun \<Rightarrow> 's helm_env \<Rightarrow> string \<Rightarrow> json \<Rightarrow> string \<Rightarrow> ('s, unit) act" where
  "set_release_values vs env name values chart =
     abind (alift (get_chart_url (charts_dir env) chart)) (\<lambda>url.
     abind (get_release_values env name) (\<lambda>current.
     abind (alift (vs [] current values)) (\<lambda>merged.
     abind (run_cmd env (HelmUpgrade name url merged False) True (Some name)) (\<lambda>_. aret ()))))"

definition helm_install :: "'s helm_env \<Rightarrow> string \<Rightarrow> json \<Rightarrow> string \<Rightarrow> ('s, unit) act" where
  "helm_install env name values chart =
     abind (alift (get_chart_url (charts_dir env) chart)) (\<lambda>url.
     abind (run_cmd env (HelmUpgrade name url values True) True (Some name)) (\<lambda>_. aret ()))"

definition install_release :: "'s helm_env \<Rightarrow> json \<Rightarrow> ('s, unit) act" where
  "install_release env release =
     abind (alift (rbind (jitem release ''chart'') jstr)) (\<lambda>chart.
     abind (alift (rbind (jitem release ''name'') jstr)) (\<lambda>name.
     abind (alift (jitem release ''values'')) (\<lambda>values. helm_install env name values chart)))"

definition install_bundle :: "'s helm_env \<Rightarrow> json \<Rightarrow> ('s, unit) act" where
  "install_bundle env data = abind (alift (helm_releases data)) (aforeach (install_release env))"

definition helm_delete :: "'s helm_env \<Rightarrow> string \<Rightarrow> ('s, unit) act" where
  "helm_delete env name =
     abind (run_cmd env (HelmDelete name) False None) (\<lambda>r.
     if std_err r \<noteq> [] \<and> \<not> py_substr ''Release not loaded'' (std_err r)
     then araise (TemporaryError (''Helm command failed: '' @ std_err r)) else aret ())"

text \<open>The sets of Python have no order; here the releases are deleted in the order of the list.\<close>

definition delete_bundle :: "'s helm_env \<Rightarrow> string list \<Rightarrow> ('s, unit) act" where
  "delete_bundle env available_releases =
     abind (helm_list env) (\<lambda>out.
     abind (alift (rbind (jelems out) release_names)) (\<lambda>current_releases.
     aforeach (helm_delete env) (filter (\<lambda>r. r \<in> set available_releases) (remdups current_releases))))"

definition delete_not_active_releases :: "'s helm_env \<Rightarrow> json \<Rightarrow> string list \<Rightarrow> ('s, unit) act" where
  "delete_not_active_releases env data available_releases =
     (if available_releases = [] then aret ()
      else abind (alift (rbind (helm_releases data) release_names)) (\<lambda>current_releases.
           aforeach (helm_delete env) (filter (\<lambda>r. r \<notin> set current_releases) (remdups available_releases))))"

section \<open>The contract of the binary\<close>

text \<open>
  \<open>installed\<close> maps the names of the installed releases to their values.  A command touches the release
  it names only; one that succeeds does what it says.  The rest of the state, seen through \<open>other\<close>, is
  not touched by Helm, nor by the deletion of objects or the passing of time.
\<close>

fun cmd_target :: "helm_cmd \<Rightarrow> string option" where
  "cmd_target HelmList = None"
| "cmd_target (HelmGetValues n) = None"
| "cmd_target (HelmUpgrade n url v i) = Some n"
| "cmd_target (HelmDelete n) = Some n"
| "cmd_target (HelmRollbackCmd n) = Some n"

lemma keeps_comp: "keeps P m \<Longrightarrow> (\<And>s t. P s = P t \<Longrightarrow> Q s = Q t) \<Longrightarrow> keeps Q m"
  unfolding keeps_def by metis

locale helm_binary =
  fixes env :: "'s helm_env" and installed :: "'s \<Rightarrow> string \<Rightarrow> json option" and other :: "'s \<Rightarrow> 'o"
  assumes run_other: "helm_run env cmd s = (ro, t) \<Longrightarrow> other t = other s"
    and run_frame: "helm_run env cmd s = (ro, t) \<Longrightarrow> cmd_target cmd \<noteq> Some m \<Longrightarrow> installed t m = installed s m"
    and run_upgrade: "helm_run env (HelmUpgrade n url v i) s = (Inr r, t) \<Longrightarrow> returncode r = 0 \<Longrightarrow>
      installed t n = Some v"
    and run_delete: "helm_run env (HelmDelete n) s = (Inr r, t) \<Longrightarrow>
      std_err r = [] \<or> py_substr ''Release not loaded'' (std_err r) \<Longrightarrow> installed t n = None"
    and run_list: "helm_run env HelmList s = (Inr r, t) \<Longrightarrow> returncode r = 0 \<Longrightarrow>
      rbind (jelems (std_out r)) release_names = Inr names \<Longrightarrow> set names = {n. installed s n \<noteq> None}"
    and k8s_keeps: "keeps (\<lambda>s. (installed s, other s)) (k8s_exists env k n)"
      "keeps (\<lambda>s. (installed s, other s)) (k8s_delete env k n)"
    and tick_keeps: "(installed (helm_tick env s), other (helm_tick env s)) = (installed s, other s)"
begin

definition frame_but :: "string option \<Rightarrow> 's \<Rightarrow> 's \<Rightarrow> bool" where
  "frame_but n s t \<longleftrightarrow> other t = other s \<and> (\<forall>m. n \<noteq> Some m \<longrightarrow> installed t m = installed s m)"

lemma frame_trans: "frame_but n s t \<Longrightarrow> frame_but n t u \<Longrightarrow> frame_but n s u"
  by (simp add: frame_but_def)

lemma frame_keeps: "keeps (\<lambda>s. (installed s, other s)) m \<Longrightarrow> m s = (r, t) \<Longrightarrow> frame_but n s t"
  using keepsD[of "\<lambda>s. (installed s, other s)" m s r t] by (simp add: frame_but_def)

lemma wait_keeps:
  "keeps P cond \<Longrightarrow> (\<And>s. P (tick s) = P s) \<Longrightarrow> keeps P (wait_until n tick cond)"
proof (induction n)
  case (Suc n)
  then have "keeps P (amod tick)" by (simp add: keeps_def amod_def)
  with Suc show ?case by (simp, intro keeps_abind keeps_if keeps_aret) auto
qed simp

lemma guess_keeps: "keeps (\<lambda>s. (installed s, other s)) (guess_and_delete env err)"
  unfolding guess_and_delete_def remove_immutable_def
  by (intro keeps_aforeach) (auto split: prod.splits intro!: keeps_abind keeps_if k8s_keeps wait_keeps tick_keeps)

lemma run_frame_but:
  "helm_run env cmd s = (r, t) \<Longrightarrow> cmd_target cmd = n \<or> cmd_target cmd = None \<Longrightarrow> frame_but n s t"
  using run_other run_frame by (fastforce simp: frame_but_def)

lemma abind_frame:
  assumes "abind m f s = (r, t)" and "\<And>s r t. m s = (r, t) \<Longrightarrow> frame_but n s t"
    and "\<And>x s r t. f x s = (r, t) \<Longrightarrow> frame_but n s t"
  shows "frame_but n s t"
proof -
  obtain r1 s1 where m: "m s = (r1, s1)" by (cases "m s")
  then have s1: "frame_but n s s1" by (rule assms(2))
  show ?thesis
  proof (cases r1)
    case (Inl e)
    with assms(1) m s1 show ?thesis by (simp add: abind_def)
  next
    case (Inr x)
    with assms(1) m have "f x s1 = (r, t)" by (simp add: abind_def)
    from frame_trans[OF s1 assms(3)[OF this]] show ?thesis .
  qed
qed

lemma pure_frame: "aret x s = (r, t) \<Longrightarrow> frame_but n s t" "araise e s = (r', t) \<Longrightarrow> frame_but n s t"
  by (simp_all add: aret_def araise_def frame_but_def)

lemma failure_frame:
  assumes "helm_failure env err rel s = (r, t)" and "rel = None \<or> rel = n"
  shows "frame_but n s t"
proof -
  have rollback: "frame_but n s t" if "helm_run env (HelmRollbackCmd (the rel)) s = (r, t)" "rel \<noteq> None" for s r t
    using run_frame_but[OF that(1)] assms(2) that(2) by auto
  show ?thesis
    using assms(1) unfolding helm_failure_def
    by (auto split: if_splits intro: rollback pure_frame frame_keeps[OF guess_keeps] elim!: abind_frame)
qed

lemma attempt_frame:
  assumes "helm_attempt env cmd b rel s = (r, t)" and "rel = None \<or> rel = cmd_target cmd"
  shows "frame_but (cmd_target cmd) s t"
  using assms(1) unfolding helm_attempt_def
proof (rule abind_frame)
  show "frame_but (cmd_target cmd) s t" if "helm_run env cmd s = (r, t)" for s r t
    using run_frame_but[OF that] by simp
  show "frame_but (cmd_target cmd) s t"
    if "(if returncode x \<noteq> 0 \<and> b then helm_failure env (std_err x) rel else aret x) s = (r, t)" for x s r t
    using that failure_frame[OF _ assms(2)] pure_frame(1) by (auto split: if_splits)
qed

lemma failure_raises: "helm_failure env err rel s \<noteq> (Inr r, t)"
  by (auto simp: helm_failure_def abind_eq_Inr araise_def)

lemma attempt_ok:
  assumes "helm_attempt env cmd b rel s = (Inr r, t)"
  shows "helm_run env cmd s = (Inr r, t) \<and> (b \<longrightarrow> returncode r = 0)"
  using assms by (auto simp: helm_attempt_def abind_eq_Inr aret_def failure_raises split: if_splits)

lemma retry_frame:
  assumes "rel = None \<or> rel = cmd_target cmd"
  shows "helm_retry n (helm_attempt env cmd b rel) s = (r, t) \<Longrightarrow> frame_but (cmd_target cmd) s t"
proof (induction n arbitrary: s)
  case 0
  then show ?case by (simp add: araise_def frame_but_def)
next
  case (Suc n)
  obtain r1 s1 where a: "helm_attempt env cmd b rel s = (r1, s1)" by (cases "helm_attempt env cmd b rel s")
  note f = attempt_frame[OF a assms]
  show ?case
    using Suc.prems Suc.IH[of s1] f frame_trans[OF f]
    by (auto simp: atry_def a araise_def split: sum.splits if_splits)
qed

lemma retry_ok:
  assumes "rel = None \<or> rel = cmd_target cmd"
  shows "helm_retry n (helm_attempt env cmd b rel) s = (Inr r, t) \<Longrightarrow>
   \<exists>s'. frame_but (cmd_target cmd) s s' \<and> helm_run env cmd s' = (Inr r, t) \<and> (b \<longrightarrow> returncode r = 0)"
proof (induction n arbitrary: s)
  case (Suc n)
  obtain r1 s1 where a: "helm_attempt env cmd b rel s = (r1, s1)" by (cases "helm_attempt env cmd b rel s")
  show ?case
  proof (cases r1)
    case (Inl e)
    then have "helm_retry n (helm_attempt env cmd b rel) s1 = (Inr r, t)"
      using Suc.prems a by (simp add: atry_def araise_def split: if_splits)
    from Suc.IH[OF this] frame_trans[OF attempt_frame[OF a assms]] show ?thesis by blast
  next
    case (Inr x)
    then have "x = r" "s1 = t" using Suc.prems a by (simp_all add: atry_def)
    with attempt_ok[OF a[unfolded Inr]] show ?thesis by (auto simp: frame_but_def)
  qed
qed (simp add: araise_def)

lemma install_ok:
  assumes "helm_install env n v chart s = (Inr u, t)"
  shows "installed t = (installed s)(n \<mapsto> v) \<and> other t = other s"
proof -
  obtain url r where run: "run_cmd env (HelmUpgrade n url v True) True (Some n) s = (Inr r, t)"
    using assms by (auto simp: helm_install_def abind_eq_Inr alift_def aret_def)
  have rel: "Some n = None \<or> Some n = cmd_target (HelmUpgrade n url v True)" by simp
  from retry_ok[OF rel run[unfolded run_cmd_def]] have "installed t n = Some v" using run_upgrade by blast
  with retry_frame[OF rel run[unfolded run_cmd_def]] show ?thesis by (auto simp: frame_but_def)
qed

lemma delete_ok:
  assumes "helm_delete env n s = (Inr u, t)"
  shows "installed t = (installed s)(n := None) \<and> other t = other s"
proof -
  obtain r where run: "run_cmd env (HelmDelete n) False None s = (Inr r, t)"
    and err: "std_err r = [] \<or> py_substr ''Release not loaded'' (std_err r)"
    using assms by (auto simp: helm_delete_def abind_eq_Inr aret_def araise_def split: if_splits)
  have rel: "(None :: string option) = None \<or> None = cmd_target (HelmDelete n)" by simp
  from retry_ok[OF rel run[unfolded run_cmd_def]] have "installed t n = None" using run_delete err by blast
  with retry_frame[OF rel run[unfolded run_cmd_def]] show ?thesis by (auto simp: frame_but_def)
qed

lemma delete_list:
  "aforeach (helm_delete env) ns s = (Inr u, t) \<Longrightarrow>
   installed t = (\<lambda>m. if m \<in> set ns then None else installed s m) \<and> other t = other s"
proof (induction ns arbitrary: s)
  case (Cons n ns)
  then obtain s1 where s1: "helm_delete env n s = (Inr (), s1)" "aforeach (helm_delete env) ns s1 = (Inr u, t)"
    by (auto simp: abind_eq_Inr)
  from Cons.IH[OF s1(2)] delete_ok[OF s1(1)] show ?case by auto
qed (simp add: aret_def)

lemma list_ok:
  assumes "helm_list env s = (Inr out, t)" and "rbind (jelems out) release_names = Inr names"
  shows "set names = {n. installed s n \<noteq> None} \<and> installed t = installed s \<and> other t = other s"
proof -
  obtain r where run: "run_cmd env HelmList True None s = (Inr r, t)" and out: "out = std_out r"
    using assms(1) by (auto simp: helm_list_def abind_eq_Inr aret_def)
  have rel: "(None :: string option) = None \<or> None = cmd_target HelmList" by simp
  from retry_ok[OF rel run[unfolded run_cmd_def]] obtain s' where s': "frame_but None s s'"
    "helm_run env HelmList s' = (Inr r, t)" "returncode r = 0" by auto
  have "set names = {n. installed s' n \<noteq> None}" using run_list[OF s'(2,3)] assms(2) out by simp
  moreover have "installed s' = installed s" using s'(1) by (auto simp: frame_but_def)
  ultimately show ?thesis using retry_frame[OF rel run[unfolded run_cmd_def]] by (auto simp: frame_but_def)
qed

text \<open>What the operations on a bundle leave installed.\<close>

lemma delete_bundle_ok:
  assumes "delete_bundle env available_releases s = (Inr u, t)"
  shows "installed t = (\<lambda>m. if m \<in> set available_releases then None else installed s m) \<and> other t = other s"
proof -
  obtain out s1 names where l: "helm_list env s = (Inr out, s1)" "rbind (jelems out) release_names = Inr names"
    "aforeach (helm_delete env) (filter (\<lambda>r. r \<in> set available_releases) (remdups names)) s1 = (Inr u, t)"
    using assms by (auto simp: delete_bundle_def abind_eq_Inr alift_def)
  from list_ok[OF l(1,2)] delete_list[OF l(3)] show ?thesis by auto
qed

lemma delete_not_active_ok:
  assumes "delete_not_active_releases env data available_releases s = (Inr u, t)"
    and "rbind (helm_releases data) release_names = Inr names"
  shows "installed t = (\<lambda>m. if m \<in> set available_releases \<and> m \<notin> set names then None else installed s m) \<and>
    other t = other s"
  using assms delete_list[of "filter (\<lambda>r. r \<notin> set names) (remdups available_releases)" s u t]
  by (auto simp: delete_not_active_releases_def abind_def alift_def aret_def split: if_splits)

text \<open>Nothing but the releases changes, also when an operation fails.\<close>

lemma run_cmd_other [intro]: "rel = None \<or> rel = cmd_target cmd \<Longrightarrow> keeps other (run_cmd env cmd b rel)"
  using retry_frame unfolding run_cmd_def by (intro keepsI) (auto simp: frame_but_def)

lemma run_read_keeps: "cmd_target cmd = None \<Longrightarrow> keeps (\<lambda>s. (installed s, other s)) (run_cmd env cmd b None)"
  using retry_frame[of None cmd] unfolding run_cmd_def by (intro keepsI) (fastforce simp: frame_but_def)

lemma read_keeps:
  "keeps (\<lambda>s. (installed s, other s)) (helm_list env)"
  "keeps (\<lambda>s. (installed s, other s)) (get_release_values env n)"
  unfolding helm_list_def get_release_values_def by (intro keeps_abind keeps_aret run_read_keeps; simp)+

lemma install_bundle_other [intro]: "keeps other (install_bundle env data)"
  unfolding install_bundle_def install_release_def helm_install_def
  by (intro keeps_abind keeps_alift keeps_aforeach keeps_aret run_cmd_other; simp)

lemma delete_other [intro]: "keeps other (helm_delete env n)"
  unfolding helm_delete_def by (intro keeps_abind keeps_if keeps_aret keeps_araise run_cmd_other; simp)

lemma delete_bundle_other [intro]: "keeps other (delete_bundle env ns)"
  unfolding delete_bundle_def by (intro keeps_abind keeps_alift keeps_aforeach delete_other keeps_comp[OF read_keeps(1)]) simp

lemma delete_not_active_other [intro]: "keeps other (delete_not_active_releases env data ns)"
  unfolding delete_not_active_releases_def
  by (intro keeps_if keeps_aret keeps_abind keeps_alift keeps_aforeach delete_other)

lemma amod_tick_keeps: "keeps (\<lambda>s. (installed s, other s)) (amod (helm_tick env))"
  using tick_keeps by (auto simp: keeps_def amod_def)

lemmas cluster_keeps = k8s_keeps read_keeps amod_tick_keeps

text \<open>A bundle installs its releases with their values, later ones over earlier ones.\<close>

lemma install_release_ok:
  assumes "install_release env r s = (Inr u, t)"
  shows "\<exists>n v. rbind (jitem r ''name'') jstr = Inr n \<and> jitem r ''values'' = Inr v \<and>
    installed t = (installed s)(n \<mapsto> v)"
  using assms by (auto simp: install_release_def abind_eq_Inr alift_def dest!: install_ok)

end

definition release_values :: "json \<Rightarrow> (string \<times> json) res" where
  "release_values r = rbind (rbind (jitem r ''name'') jstr) (\<lambda>n. rbind (jitem r ''values'') (\<lambda>v. Inr (n, v)))"

context helm_binary
begin

lemma install_list_ok:
  "aforeach (install_release env) rels s = (Inr u, t) \<Longrightarrow>
   \<exists>ps. rmap release_values rels = Inr ps \<and> installed t = installed s ++ map_of (rev ps)"
proof (induction rels arbitrary: s)
  case (Cons r rels)
  then obtain s1 where s1: "install_release env r s = (Inr (), s1)" "aforeach (install_release env) rels s1 = (Inr u, t)"
    by (auto simp: abind_eq_Inr)
  obtain n v where r: "rbind (jitem r ''name'') jstr = Inr n" "jitem r ''values'' = Inr v"
    "installed s1 = installed s ++ [n \<mapsto> v]" using install_release_ok[OF s1(1)] by auto
  obtain ps where ps: "rmap release_values rels = Inr ps" "installed t = installed s1 ++ map_of (rev ps)"
    using Cons.IH[OF s1(2)] by blast
  have "rmap release_values (r # rels) = Inr ((n, v) # ps)" using r ps by (simp add: release_values_def)
  moreover have "installed t = installed s ++ map_of (rev ((n, v) # ps))" using r ps by simp
  ultimately show ?case by blast
qed (simp add: aret_def)

lemma install_bundle_ok:
  assumes "install_bundle env data s = (Inr u, t)"
  shows "\<exists>rels ps. helm_releases data = Inr rels \<and> rmap release_values rels = Inr ps \<and>
    installed t = installed s ++ map_of (rev ps)"
  using assms by (auto simp: install_bundle_def abind_eq_Inr alift_def dest!: install_list_ok)

end

lemma release_values_names: "rmap release_values rels = Inr ps \<Longrightarrow> release_names rels = Inr (map fst ps)"
  by (induction rels arbitrary: ps) (auto simp: release_names_def release_values_def res_simps)

end
