(* ===== verification/ServicesBase.thy ===== *)
theory ServicesBase
  imports Helm Health MaintenanceHandlers
begin

text \<open>
  The class \<open>Service\<close> of \<open>services/base.py\<close>: how a service is rendered, applied, upgraded and deleted,
  with the resources that have to be removed before.  The state holds the status object and the
  layered specification, which all services share and \<open>render\<close> changes; Helm and the cluster come with
  the environment.
\<close>

record svc_world = cluster +
  osdplst :: json
  mspec :: json

text \<open>
  \<open>ce_jsonpath\<close> is \<open>parse(field).find(values)\<close> of jsonpath_ng, \<open>ce_sha256\<close> the digest of the sorted
  JSON text of a value, \<open>ce_adopt\<close> is \<open>kopf.adopt\<close> with the deployment as the owner, \<open>ce_class\<close> says
  that \<open>kube.py\<close> has a class of that name.
\<close>

record 's controller_env =
  ce_helm :: "'s helm_env"
  ce_status :: status_env
  ce_vs :: merge_fun
  ce_jsonpath :: "json \<Rightarrow> json \<Rightarrow> json list res"
  ce_sha256 :: "json \<Rightarrow> string"
  ce_adopt :: "json \<Rightarrow> json res"
  ce_class :: "string \<Rightarrow> bool"
  ce_purge_rounds :: nat
  ce_health_rounds :: "string \<Rightarrow> nat"
  ce_tick :: "'s \<Rightarrow> 's"

text \<open>
  What a service brings along: its name, the releases it may install, the applications that make up its
  health, the rendered tree of child objects, the arguments of its templates, the rendered and layered
  bundle, what its own \<open>apply\<close> does before and after that of the base class, and what it does in \<open>_upgrade\<close>.
\<close>

record 's service =
  svc_name :: string
  available_releases :: "string list"
  health_groups :: "string list"
  render_children :: "json \<Rightarrow> json res"
  template_args :: "('s, json) act"
  svc_layers :: "json \<Rightarrow> json \<Rightarrow> json res"
  before_apply :: "('s, unit) act"
  after_apply :: "('s, unit) act"
  upgrade_hook :: "('s, unit) act"

section \<open>Child objects\<close>

record child_object =
  co_chart :: string
  co_kind :: string
  co_name :: string
  co_images :: json
  co_hash_fields :: json
  co_manifest :: json

definition co_immutable :: "child_object \<Rightarrow> bool" where
  "co_immutable co \<longleftrightarrow> co_kind co = ''Job''"

text \<open>\<open>HelmBundleExt(**m_ext)\<close> fails without \<open>images\<close> or \<open>manifest\<close>.\<close>

definition make_child :: "(string \<Rightarrow> bool) \<Rightarrow> string \<Rightarrow> string \<Rightarrow> string \<Rightarrow> json \<Rightarrow> child_object res" where
  "make_child known chart kind name meta =
     rbind (jitems meta) (\<lambda>d.
     case (map_of d ''images'', map_of d ''manifest'') of
       (Some images, Some manifest) \<Rightarrow>
         if known kind then
           Inr \<lparr>co_chart = chart, co_kind = kind, co_name = name, co_images = images,
             co_hash_fields = (case map_of d ''hash_fields'' of None \<Rightarrow> JList [] | Some h \<Rightarrow> h),
             co_manifest = manifest\<rparr>
         else Inl AttributeError
     | _ \<Rightarrow> Inl TypeError)"

text \<open>The loop over charts, kinds and objects as one list.\<close>

definition child_tree :: "json \<Rightarrow> (string \<times> string \<times> string \<times> json) list res" where
  "child_tree tree =
     rbind (jitems tree) (\<lambda>charts.
     rbind (rmap (\<lambda>(chart, kinds). rbind (jitems kinds) (\<lambda>kinds.
       rbind (rmap (\<lambda>(kind, objects). rbind (jitems objects) (\<lambda>objects.
         Inr (map (\<lambda>(name, meta). (chart, kind, name, meta)) objects))) kinds)
       (\<lambda>l. Inr (concat l)))) charts) (\<lambda>l. Inr (concat l)))"

fun static_children :: "(string \<Rightarrow> bool) \<Rightarrow> (string \<times> string \<times> string \<times> json) list \<Rightarrow> child_object list res" where
  "static_children known [] = Inr []"
| "static_children known ((chart, kind, name, meta) # l) =
     rbind (jget meta ''type'' (JStr ''static'')) (\<lambda>ty.
     if \<not> py_eq ty (JStr ''static'') then static_children known l
     else rbind (make_child known chart kind name meta) (\<lambda>co.
          rbind (static_children known l) (\<lambda>chs. Inr (co # chs))))"

definition child_objects :: "'s controller_env \<Rightarrow> 's service \<Rightarrow> json \<Rightarrow> child_object list res" where
  "child_objects ce svc spec =
     rbind (render_children svc spec) (\<lambda>tree. rbind (child_tree tree) (static_children (ce_class ce)))"

definition get_child_object :: "'s controller_env \<Rightarrow> 's service \<Rightarrow> json \<Rightarrow> string \<Rightarrow> string \<Rightarrow> child_object res" where
  "get_child_object ce svc spec kind name =
     rbind (child_objects ce svc spec) (\<lambda>chs.
     case filter (\<lambda>co. co_kind co = kind \<and> co_name co = name) chs of [] \<Rightarrow> Inl IndexError | co # _ \<Rightarrow> Inr co)"

text \<open>
  \<open>get_child_objects_dynamic\<close>: its inner loop reuses the name \<open>kinds\<close>, so the kind of the tree is not
  compared with the one that is asked for.  \<open>list_objects\<close> are the names of the objects with the labels.
\<close>

fun dynamic_children ::
  "(string \<Rightarrow> bool) \<Rightarrow> (string \<Rightarrow> json \<Rightarrow> string list res) \<Rightarrow> string \<Rightarrow> string \<Rightarrow>
   (string \<times> string \<times> string \<times> json) list \<Rightarrow> child_object list res" where
  "dynamic_children known list_objects kind abstract_name [] = Inr []"
| "dynamic_children known list_objects kind abstract_name ((chart, k, name, meta) # l) =
     rbind (jget meta ''type'' (JStr ''static'')) (\<lambda>ty.
     if \<not> py_eq ty (JStr ''dynamic'') \<or> name \<noteq> abstract_name
     then dynamic_children known list_objects kind abstract_name l
     else rbind (jitem meta ''pod_labels'') (\<lambda>pod_labels.
          rbind (list_objects kind pod_labels) (\<lambda>names.
          rbind (rmap (\<lambda>n. make_child known chart kind n meta) names) (\<lambda>chs.
          rbind (dynamic_children known list_objects kind abstract_name l) (\<lambda>rest. Inr (chs @ rest))))))"

definition get_child_objects_dynamic ::
  "'s controller_env \<Rightarrow> (string \<Rightarrow> json \<Rightarrow> string list res) \<Rightarrow> 's service \<Rightarrow> json \<Rightarrow> string \<Rightarrow> string \<Rightarrow>
   child_object list res" where
  "get_child_objects_dynamic ce list_objects svc spec kind abstract_name =
     rbind (render_children svc spec) (\<lambda>tree. rbind (child_tree tree)
       (dynamic_children (ce_class ce) list_objects kind abstract_name))"

section \<open>Hashes of child objects\<close>

definition internal_key :: string where
  "internal_key = ''lcm.mirantis.com/v1alpha1''"

definition get_child_object_current_hash :: "child_object \<Rightarrow> json \<Rightarrow> json res" where
  "get_child_object_current_hash co values =
     rbind (jpath values [internal_key, ''openstack-controller'', ''child-objects'',
              co_chart co, co_kind co, co_name co]) (\<lambda>m. jget m ''hash'' JNull)"

definition generate_child_object_hash :: "'s controller_env \<Rightarrow> child_object \<Rightarrow> json \<Rightarrow> json res" where
  "generate_child_object_hash ce co values =
     (if \<not> jtruthy (co_hash_fields co) then Inr JNull
      else rbind (jelems (co_hash_fields co)) (\<lambda>fields.
           rbind (rmap (\<lambda>f. rbind (jstr f) (\<lambda>name. rbind (ce_jsonpath ce f values) (\<lambda>l. Inr (name, JList l)))) fields)
             (\<lambda>d. Inr (JStr (ce_sha256 ce (JObj (foldl (\<lambda>d (k, v). AList.update k v d) [] d)))))))"

definition is_child_object_hash_changed ::
  "'s controller_env \<Rightarrow> child_object \<Rightarrow> json \<Rightarrow> json \<Rightarrow> bool res" where
  "is_child_object_hash_changed ce co old_values new_values =
     rbind (get_child_object_current_hash co old_values) (\<lambda>current_hash.
     rbind (generate_child_object_hash ce co new_values) (\<lambda>new_hash. Inr (\<not> py_eq new_hash current_hash)))"

definition new_values_of :: "json list \<Rightarrow> (string \<times> json) list res" where
  "new_values_of rels =
     rbind (rmap (\<lambda>r. rbind (rbind (jitem r ''chart'') jstr) (\<lambda>c. rbind (jitem r ''values'') (\<lambda>v. Inr (c, v)))) rels)
       (\<lambda>l. Inr (foldl (\<lambda>d (k, v). AList.update k v d) [] l))"

fun merge_child_hashes :: "'s controller_env \<Rightarrow> (string \<times> json) list \<Rightarrow> child_object list \<Rightarrow> json \<Rightarrow> json res" where
  "merge_child_hashes ce mapping [] out = Inr out"
| "merge_child_hashes ce mapping (co # chs) out =
     rbind (generate_child_object_hash ce co (case map_of mapping (co_chart co) of None \<Rightarrow> jempty | Some v \<Rightarrow> v)) (\<lambda>h.
     rbind (ce_vs ce [] out (nest [co_chart co, co_kind co, co_name co, ''hash''] h))
       (merge_child_hashes ce mapping chs))"

definition generate_child_object_hashes ::
  "'s controller_env \<Rightarrow> 's service \<Rightarrow> json \<Rightarrow> json \<Rightarrow> json res" where
  "generate_child_object_hashes ce svc spec data =
     rbind (helm_releases data) (\<lambda>rels.
     rbind (new_values_of rels) (\<lambda>mapping.
     rbind (child_objects ce svc spec) (\<lambda>chs. merge_child_hashes ce mapping chs jempty)))"

section \<open>Rendering\<close>

text \<open>\<open>data.update(self.resource_def)\<close>\<close>

definition resource_name :: "'s service \<Rightarrow> string" where
  "resource_name svc = ''openstack-'' @ svc_name svc"

definition add_resource_def :: "'s service \<Rightarrow> json \<Rightarrow> json res" where
  "add_resource_def svc data =
     rbind (jset data ''apiVersion'' (JStr internal_key)) (\<lambda>data.
     rbind (jset data ''kind'' (JStr ''HelmBundle'')) (\<lambda>data.
     jset data ''metadata'' (JObj [(''name'', JStr (resource_name svc))])))"

definition internal_data :: "'s controller_env \<Rightarrow> 's service \<Rightarrow> json \<Rightarrow> json \<Rightarrow> json \<Rightarrow> json" where
  "internal_data ce svc spec child_hashes owners =
     nest [internal_key, ''openstack-controller''] (JObj
       [(''version'', JStr (release_string (ce_status ce))),
        (''fingerprint'', JStr (spec_hash (ce_status ce) spec)),
        (''child-objects'', child_hashes),
        (''ownerReferences'', owners),
        (''helmbundle'', JObj [(''name'', JStr (resource_name svc))])])"

definition finish_bundle :: "'s controller_env \<Rightarrow> 's service \<Rightarrow> json \<Rightarrow> json \<Rightarrow> json res" where
  "finish_bundle ce svc spec data =
     rbind (add_resource_def svc data) (\<lambda>data.
     rbind (ce_adopt ce data) (\<lambda>data.
     rbind (generate_child_object_hashes ce svc spec data) (\<lambda>child_hashes.
     rbind (jitem_path data [''metadata'', ''ownerReferences'']) (\<lambda>owners.
     rbind (helm_releases data) (\<lambda>rels.
     rbind (rmap (\<lambda>r. merge_item (ce_vs ce) r ''values'' (internal_data ce svc spec child_hashes owners)) rels)
       (set_helm_releases data))))))"

definition with_kopf_exception :: "('s, 'a) act \<Rightarrow> ('s, 'a) act" where
  "with_kopf_exception m = (\<lambda>s. case m s of (r, t) \<Rightarrow> (kopf_exception r, t))"

definition set_openstack_version :: "string \<Rightarrow> ('w svc_world_scheme, unit) act" where
  "set_openstack_version v = abind (aget mspec) (\<lambda>spec.
     abind (alift (jset spec ''openstack_version'' (JStr v))) (\<lambda>spec. amod (\<lambda>s. s\<lparr>mspec := spec\<rparr>)))"

definition render :: "'w svc_world_scheme controller_env \<Rightarrow> 'w svc_world_scheme service \<Rightarrow> string \<Rightarrow>
    ('w svc_world_scheme, json) act" where
  "render ce svc openstack_version = with_kopf_exception (
     abind (if openstack_version \<noteq> [] then set_openstack_version openstack_version else aret ()) (\<lambda>_.
     abind (template_args svc) (\<lambda>args.
     abind (aget mspec) (\<lambda>spec.
     abind (alift (svc_layers svc spec args)) (\<lambda>data. alift (finish_bundle ce svc spec data))))))"

fun values_at :: "json \<Rightarrow> string list \<Rightarrow> json res" where
  "values_at v [] = Inr v"
| "values_at v (k # ks) = rbind (jitem v k) (\<lambda>w. values_at w ks)"

text \<open>A missing key gives the default at once; otherwise the last release of the chart counts.\<close>

fun chart_value :: "string \<Rightarrow> string list \<Rightarrow> json \<Rightarrow> json list \<Rightarrow> json \<Rightarrow> json res" where
  "chart_value chart path default_value [] value = Inr value"
| "chart_value chart path default_value (r # rels) value =
     rbind (jitem r ''chart'') (\<lambda>c.
     if py_eq c (JStr chart) then
       rbind (jitem r ''values'') (\<lambda>v.
       case values_at v path of
         Inl (KeyError _) \<Rightarrow> Inr default_value
       | Inl e \<Rightarrow> Inl e
       | Inr w \<Rightarrow> chart_value chart path default_value rels w)
     else chart_value chart path default_value rels value)"

definition get_chart_value_or_none ::
  "'w svc_world_scheme controller_env \<Rightarrow> 'w svc_world_scheme service \<Rightarrow> string \<Rightarrow> string list \<Rightarrow> string \<Rightarrow> json \<Rightarrow>
   ('w svc_world_scheme, json) act" where
  "get_chart_value_or_none ce svc chart path openstack_version default_value =
     abind (render ce svc openstack_version) (\<lambda>data.
     abind (alift (helm_releases data)) (\<lambda>rels. alift (chart_value chart path default_value rels JNull)))"

definition get_image ::
  "'w svc_world_scheme controller_env \<Rightarrow> 'w svc_world_scheme service \<Rightarrow> string \<Rightarrow> string \<Rightarrow> string \<Rightarrow>
   ('w svc_world_scheme, json) act" where
  "get_image ce svc name chart openstack_version =
     get_chart_value_or_none ce svc chart [''images'', ''tags'', name] openstack_version JNull"

section \<open>Immutable resources\<close>

text \<open>
  The loop stops at the first release that is not installed (\<open>break\<close>), so the charts after it are not
  in the mapping.
\<close>

fun release_mapping ::
  "'s helm_env \<Rightarrow> string list \<Rightarrow> json list \<Rightarrow> (string \<times> json \<times> json) list \<Rightarrow>
   ('s, (string \<times> json \<times> json) list) act" where
  "release_mapping env names [] out = aret out"
| "release_mapping env names (r # rels) out =
     abind (alift (rbind (jitem r ''name'') jstr)) (\<lambda>name.
     if name \<notin> set names then aret out
     else abind (alift (rbind (jitem r ''chart'') jstr)) (\<lambda>chart.
          abind (get_release_values env name) (\<lambda>old_values.
          abind (alift (jitem r ''values'')) (\<lambda>new_values.
          release_mapping env names rels (AList.update chart (old_values, new_values) out)))))"

definition is_immutable_changed :: "json \<Rightarrow> json \<Rightarrow> json \<Rightarrow> bool res" where
  "is_immutable_changed old_values new_values img =
     (if \<not> jtruthy old_values \<and> \<not> jtruthy new_values then Inr False
      else
        rbind (jstr img) (\<lambda>i.
        rbind (rbind (jitem_path old_values [''images'', ''tags'']) (\<lambda>t. jget t i JNull)) (\<lambda>old_image.
        rbind (rbind (jitem_path new_values [''images'', ''tags'']) (\<lambda>t. jitem t i)) (\<lambda>new_image.
        Inr (old_image = JNull \<or> \<not> py_eq old_image new_image)))))"

fun any_image :: "bool \<Rightarrow> json \<Rightarrow> json \<Rightarrow> json list \<Rightarrow> bool res" where
  "any_image force old_values new_values [] = Inr False"
| "any_image force old_values new_values (i # is) =
     (if force then Inr True
      else rbind (is_immutable_changed old_values new_values i) (\<lambda>b.
           if b then Inr True else any_image force old_values new_values is))"

definition needs_cleanup ::
  "'s controller_env \<Rightarrow> bool \<Rightarrow> (string \<times> json \<times> json) list \<Rightarrow> child_object \<Rightarrow> bool res" where
  "needs_cleanup ce force mapping co =
     (if \<not> co_immutable co \<and> \<not> jtruthy (co_hash_fields co) then Inr False
      else
        let (old_values, new_values) = (case map_of mapping (co_chart co) of None \<Rightarrow> (jempty, jempty) | Some m \<Rightarrow> m)
        in if \<not> jtruthy old_values \<and> \<not> jtruthy new_values then Inr False
           else
             rbind (is_child_object_hash_changed ce co old_values new_values) (\<lambda>changed.
             rbind (if co_immutable co
                    then rbind (jelems (co_images co)) (any_image force old_values new_values)
                    else Inr False) (\<lambda>img.
             Inr (changed \<or> img))))"

fun to_cleanup ::
  "'s controller_env \<Rightarrow> bool \<Rightarrow> (string \<times> json \<times> json) list \<Rightarrow> child_object list \<Rightarrow> ('s, child_object list) act" where
  "to_cleanup ce force mapping [] = aret []"
| "to_cleanup ce force mapping (co # chs) =
     abind (k8s_exists (ce_helm ce) (co_kind co) (co_name co)) (\<lambda>found.
     abind (if found then alift (needs_cleanup ce force mapping co) else aret False) (\<lambda>b.
     abind (to_cleanup ce force mapping chs) (\<lambda>rest. aret (if b then co # rest else rest))))"

fun purge_loop :: "nat \<Rightarrow> 's controller_env \<Rightarrow> child_object \<Rightarrow> ('s, unit) act" where
  "purge_loop 0 ce co = araise TimeoutError"
| "purge_loop (Suc n) ce co =
     abind (k8s_exists (ce_helm ce) (co_kind co) (co_name co)) (\<lambda>found.
     if \<not> found then aret ()
     else abind (k8s_delete (ce_helm ce) (co_kind co) (co_name co)) (\<lambda>_.
          abind (amod (helm_tick (ce_helm ce))) (\<lambda>_. purge_loop n ce co)))"

definition purge :: "'s controller_env \<Rightarrow> child_object \<Rightarrow> ('s, unit) act" where
  "purge ce co = purge_loop (ce_purge_rounds ce) ce co"

definition cleanup_immutable_resources ::
  "'w svc_world_scheme controller_env \<Rightarrow> 'w svc_world_scheme service \<Rightarrow> json \<Rightarrow> bool \<Rightarrow> ('w svc_world_scheme, unit) act" where
  "cleanup_immutable_resources ce svc new_obj force =
     abind (helm_list (ce_helm ce)) (\<lambda>out.
     abind (alift (rbind (jelems out) release_names)) (\<lambda>installed_releases.
     abind (alift (helm_releases new_obj)) (\<lambda>rels.
     abind (release_mapping (ce_helm ce) installed_releases rels []) (\<lambda>mapping.
     abind (aget mspec) (\<lambda>spec.
     abind (alift (child_objects ce svc spec)) (\<lambda>chs.
     abind (to_cleanup ce force mapping chs) (\<lambda>cs. aforeach (purge ce) cs)))))))"

section \<open>Apply, upgrade, delete\<close>

datatype child_status = Applying | Upgrading | Applied | Deleting | Deleted

definition patch_osdplst :: "(json \<Rightarrow> json res) \<Rightarrow> ('w svc_world_scheme, unit) act" where
  "patch_osdplst f = abind (aget osdplst) (\<lambda>obj. abind (alift (f obj)) (\<lambda>obj. amod (\<lambda>s. s\<lparr>osdplst := obj\<rparr>)))"

definition set_children_status ::
  "'w svc_world_scheme controller_env \<Rightarrow> 'w svc_world_scheme service \<Rightarrow> child_status \<Rightarrow> ('w svc_world_scheme, unit) act" where
  "set_children_status ce svc st =
     abind (aget mspec) (\<lambda>spec. patch_osdplst (
       case st of
         Deleted \<Rightarrow> (\<lambda>obj. Inr (remove_service_status (svc_name svc) obj))
       | _ \<Rightarrow> set_service_status (ce_status ce) (svc_name svc)
                (case st of Applied \<Rightarrow> ''APPLIED'' | Deleting \<Rightarrow> ''DELETING'' | _ \<Rightarrow> ''APPLYING'') spec))"

definition merge_helm_override :: "merge_fun \<Rightarrow> json \<Rightarrow> jdict \<Rightarrow> json res" where
  "merge_helm_override vs data overrides =
     rbind (helm_releases data) (\<lambda>rels.
     rbind (rmap (\<lambda>r. rbind (rbind (jitem r ''name'') jstr) (\<lambda>name.
       case map_of overrides name of None \<Rightarrow> Inr r | Some o' \<Rightarrow> merge_item vs r ''values'' o')) rels)
       (set_helm_releases data))"

definition override_bundle :: "merge_fun \<Rightarrow> jdict \<Rightarrow> json \<Rightarrow> json res" where
  "override_bundle vs overrides data =
     (if overrides \<noteq> [] then merge_helm_override vs data overrides else Inr data)"

definition apply_service ::
  "'w svc_world_scheme controller_env \<Rightarrow> 'w svc_world_scheme service \<Rightarrow> jdict \<Rightarrow> ('w svc_world_scheme, unit) act" where
  "apply_service ce svc helmobj_overrides =
     abind (set_children_status ce svc Applying) (\<lambda>_.
     abind (render ce svc []) (\<lambda>data.
     abind (alift (override_bundle (ce_vs ce) helmobj_overrides data)) (\<lambda>data.
     abind (alift (helm_releases data)) (\<lambda>rels.
     abind (aforeach (\<lambda>_. cleanup_immutable_resources ce svc data False) rels) (\<lambda>_.
     abind (install_bundle (ce_helm ce) data) (\<lambda>_.
     abind (delete_not_active_releases (ce_helm ce) data (available_releases svc)) (\<lambda>_.
     set_children_status ce svc Applied)))))))"

definition service_apply ::
  "'w svc_world_scheme controller_env \<Rightarrow> 'w svc_world_scheme service \<Rightarrow> jdict \<Rightarrow> ('w svc_world_scheme, unit) act" where
  "service_apply ce svc helmobj_overrides =
     abind (before_apply svc) (\<lambda>_. abind (apply_service ce svc helmobj_overrides) (\<lambda>_. after_apply svc))"

definition service_healthy ::
  "'w svc_world_scheme controller_env \<Rightarrow> 'w svc_world_scheme service \<Rightarrow> ('w svc_world_scheme, unit) act" where
  "service_healthy ce svc = wait_service_healthy (ce_health_rounds ce) (ce_tick ce) osdplst (health_groups svc)"

definition upgrade_service ::
  "'w svc_world_scheme controller_env \<Rightarrow> 'w svc_world_scheme service \<Rightarrow> jdict \<Rightarrow> ('w svc_world_scheme, unit) act" where
  "upgrade_service ce svc helmobj_overrides =
     abind (set_children_status ce svc Upgrading) (\<lambda>_.
     abind (atry
       (abind (service_healthy ce svc) (\<lambda>_.
        abind (upgrade_hook svc) (\<lambda>_.
        abind (service_apply ce svc helmobj_overrides) (\<lambda>_.
        abind (amod (ce_tick ce)) (\<lambda>_. service_healthy ce svc)))))
       (\<lambda>_. araise (TemporaryError (''Retrying to upgrade '' @ svc_name svc)))) (\<lambda>_.
     set_children_status ce svc Applied))"

definition delete_service ::
  "'w svc_world_scheme controller_env \<Rightarrow> 'w svc_world_scheme service \<Rightarrow> ('w svc_world_scheme, unit) act" where
  "delete_service ce svc =
     abind (set_children_status ce svc Deleting) (\<lambda>_.
     abind (delete_bundle (ce_helm ce) (available_releases svc)) (\<lambda>_.
     set_children_status ce svc Deleted))"

section \<open>The services in their cluster\<close>

text \<open>
  The interface of a cluster that runs Helm: Helm and the deletion of objects touch neither the status
  object nor the specification, and computing the arguments of a template touches none of the three.
\<close>

locale service_cluster =
  helm_binary "ce_helm ce" installed "\<lambda>s. (osdplst s, mspec s)"
  for ce :: "'w svc_world_scheme controller_env" and installed :: "'w svc_world_scheme \<Rightarrow> string \<Rightarrow> json option" +
  assumes clock_keeps: "installed (ce_tick ce s) = installed s" "mspec (ce_tick ce s) = mspec s"
    "jlookup (osdplst (ce_tick ce s)) (''status'' # ''services'' # ks) = jlookup (osdplst s) (''status'' # ''services'' # ks)"
    "jlookup (osdplst (ce_tick ce s)) (''status'' # ''osdpl'' # ks) = jlookup (osdplst s) (''status'' # ''osdpl'' # ks)"
    and installed_local: "installed (s\<lparr>osdplst := obj\<rparr>) = installed s" "installed (s\<lparr>mspec := spec\<rparr>) = installed s"

text \<open>
  What a service may do of its own: its hooks around \<open>apply\<close> keep the specification and the statuses of
  the other services, and the one after \<open>apply\<close> keeps its own as well.
\<close>

definition at_service :: "string \<Rightarrow> string list \<Rightarrow> 'w svc_world_scheme \<Rightarrow> json option" where
  "at_service n ks s = jlookup (osdplst s) ([''status'', ''services'', n] @ ks)"

definition hooks_ok :: "'w svc_world_scheme service \<Rightarrow> bool" where
  "hooks_ok svc \<longleftrightarrow> keeps mspec (before_apply svc) \<and> keeps (\<lambda>s. (osdplst s, mspec s)) (after_apply svc) \<and>
     (\<forall>m ks. m \<noteq> svc_name svc \<longrightarrow> keeps (at_service m ks) (before_apply svc))"

definition args_ok :: "('w svc_world_scheme \<Rightarrow> string \<Rightarrow> json option) \<Rightarrow> 'w svc_world_scheme service \<Rightarrow> bool" where
  "args_ok installed svc \<longleftrightarrow> keeps (\<lambda>s. (installed s, osdplst s, mspec s)) (template_args svc)"

lemma keeps_with_kopf [intro]: "keeps P m \<Longrightarrow> keeps P (with_kopf_exception m)"
  by (simp add: keeps_def with_kopf_exception_def case_prod_beta)

lemma with_kopf_Inr [simp]: "(with_kopf_exception m s = (Inr x, t)) = (m s = (Inr x, t))"
  by (auto simp: with_kopf_exception_def split: prod.splits)

lemma render_keeps:
  assumes "args_ok installed svc"
  shows "keeps (\<lambda>s. (installed s, osdplst s, mspec s)) (render ce svc [])"
proof -
  have args: "keeps (\<lambda>s. (installed s, osdplst s, mspec s)) (template_args svc)"
    using assms by (simp add: args_ok_def)
  show ?thesis unfolding render_def
    by (simp, intro keeps_with_kopf keeps_abind keeps_aget keeps_alift args)
qed

lemma status_written:
  assumes "set_children_status ce svc st s = (Inr u, t)"
  shows "\<exists>obj. t = s\<lparr>osdplst := obj\<rparr> \<and>
    (if st = Deleted then obj = remove_service_status (svc_name svc) (osdplst s)
     else set_service_status (ce_status ce) (svc_name svc)
       (case st of Applied \<Rightarrow> ''APPLIED'' | Deleting \<Rightarrow> ''DELETING'' | _ \<Rightarrow> ''APPLYING'') (mspec s) (osdplst s) = Inr obj)"
  using assms
  by (cases st) (auto simp: set_children_status_def patch_osdplst_def abind_eq_Inr aget_def alift_def amod_def)

lemma status_failed: "set_children_status ce svc st s = (Inl e, t) \<Longrightarrow> t = s"
  by (auto simp: set_children_status_def patch_osdplst_def abind_eq_Inl aget_def alift_def amod_def)

text \<open>The status of one service does not touch the path of another, nor the specification.\<close>

lemma status_frame:
  assumes "diverge [''status'', ''services'', svc_name svc] ks"
  shows "keeps (\<lambda>s. (jlookup (osdplst s) ks, mspec s)) (set_children_status ce svc st)"
proof (rule keepsI)
  fix s r t assume run: "set_children_status ce svc st s = (r, t)"
  show "(jlookup (osdplst t) ks, mspec t) = (jlookup (osdplst s) ks, mspec s)"
  proof (cases r)
    case (Inl e)
    then show ?thesis using status_failed[of ce svc st s e t] run by simp
  next
    case (Inr u)
    then obtain obj where "t = s\<lparr>osdplst := obj\<rparr>"
      "if st = Deleted then obj = remove_service_status (svc_name svc) (osdplst s)
       else set_service_status (ce_status ce) (svc_name svc)
         (case st of Applied \<Rightarrow> ''APPLIED'' | Deleting \<Rightarrow> ''DELETING'' | _ \<Rightarrow> ''APPLYING'') (mspec s) (osdplst s) = Inr obj"
      using status_written[of ce svc st s u t] run by blast
    then show ?thesis using set_service_status_at(4)[OF _ assms] patch_at_other[OF assms]
      by (auto simp: remove_service_status_def split: if_splits)
  qed
qed

context service_cluster
begin

lemma purge_keeps: "keeps (\<lambda>s. (installed s, osdplst s, mspec s)) (purge ce co)"
proof -
  have "keeps (\<lambda>s. (installed s, osdplst s, mspec s)) (purge_loop n ce co)" for n
  proof (induction n)
    case (Suc n)
    then show ?case by (simp, intro keeps_abind keeps_if keeps_aret cluster_keeps) auto
  qed simp
  then show ?thesis by (simp add: purge_def)
qed

lemma mapping_keeps: "keeps (\<lambda>s. (installed s, osdplst s, mspec s)) (release_mapping (ce_helm ce) names rels out)"
proof (induction rels arbitrary: out)
  case (Cons r rels)
  then show ?case by (simp, intro keeps_abind keeps_if keeps_aret keeps_alift cluster_keeps) auto
qed simp

lemma to_cleanup_keeps: "keeps (\<lambda>s. (installed s, osdplst s, mspec s)) (to_cleanup ce force mapping chs)"
proof (induction chs)
  case (Cons co chs)
  then show ?case by (simp, intro keeps_abind keeps_if keeps_aret keeps_alift cluster_keeps) auto
qed simp

lemma cleanup_keeps: "keeps (\<lambda>s. (installed s, osdplst s, mspec s)) (cleanup_immutable_resources ce svc data force)"
  unfolding cleanup_immutable_resources_def
  by (intro keeps_abind keeps_alift keeps_aget keeps_aforeach cluster_keeps mapping_keeps to_cleanup_keeps purge_keeps)

text \<open>What lies between the first and the last write of \<open>apply\<close>.\<close>

definition apply_body :: "'w svc_world_scheme service \<Rightarrow> jdict \<Rightarrow> ('w svc_world_scheme, unit) act" where
  "apply_body svc helmobj_overrides =
     abind (render ce svc []) (\<lambda>data.
     abind (alift (override_bundle (ce_vs ce) helmobj_overrides data)) (\<lambda>data.
     abind (alift (helm_releases data)) (\<lambda>rels.
     abind (aforeach (\<lambda>_. cleanup_immutable_resources ce svc data False) rels) (\<lambda>_.
     abind (install_bundle (ce_helm ce) data) (\<lambda>_.
     delete_not_active_releases (ce_helm ce) data (available_releases svc))))))"

lemma apply_split:
  "apply_service ce svc ov = abind (set_children_status ce svc Applying) (\<lambda>_.
     abind (apply_body svc ov) (\<lambda>_. set_children_status ce svc Applied))"
  by (simp add: apply_service_def apply_body_def abind_assoc)

lemma apply_body_other: "args_ok installed svc \<Longrightarrow> keeps (\<lambda>s. (osdplst s, mspec s)) (apply_body svc ov)"
  unfolding apply_body_def
  by (intro keeps_abind keeps_if keeps_alift keeps_aret keeps_aforeach install_bundle_other
      delete_not_active_other keeps_comp[OF cleanup_keeps] keeps_comp[OF render_keeps]) auto

text \<open>Success writes \<open>APPLIED\<close>; failure leaves \<open>APPLYING\<close>, or the old state when nothing was written.\<close>

lemma apply_status:
  assumes "args_ok installed svc" and "apply_service ce svc ov s = (r, t)"
  shows "mspec t = mspec s"
    and "r = Inr u \<Longrightarrow> jlookup (osdplst t) [''status'', ''services'', svc_name svc, ''state''] = Some (JStr ''APPLIED'') \<and>
      jlookup (osdplst t) [''status'', ''services'', svc_name svc, ''fingerprint''] =
        Some (JStr (spec_hash (ce_status ce) (mspec s))) \<and>
      jlookup (osdplst t) [''status'', ''services'', svc_name svc, ''controller_version''] =
        Some (JStr (release_string (ce_status ce)))"
    and "r = Inl e \<Longrightarrow> t = s \<or>
      jlookup (osdplst t) [''status'', ''services'', svc_name svc, ''state''] = Some (JStr ''APPLYING'')"
    and "diverge [''status'', ''services'', svc_name svc] ks \<Longrightarrow> jlookup (osdplst t) ks = jlookup (osdplst s) ks"
proof -
  note body = keepsD[OF apply_body_other[OF assms(1)]]
  have frame: "keeps (\<lambda>s. (jlookup (osdplst s) ls, mspec s)) (apply_service ce svc ov)"
    if "diverge [''status'', ''services'', svc_name svc] ls" for ls
    unfolding apply_split
    by (intro keeps_abind status_frame[OF that] keeps_comp[OF apply_body_other[OF assms(1)]]) auto
  show "mspec t = mspec s" using keepsD[OF frame[of "[[]]"] assms(2)] by simp
  show "diverge [''status'', ''services'', svc_name svc] ks \<Longrightarrow> jlookup (osdplst t) ks = jlookup (osdplst s) ks"
    using keepsD[OF frame assms(2)] by simp
  show "jlookup (osdplst t) [''status'', ''services'', svc_name svc, ''state''] = Some (JStr ''APPLIED'') \<and>
      jlookup (osdplst t) [''status'', ''services'', svc_name svc, ''fingerprint''] =
        Some (JStr (spec_hash (ce_status ce) (mspec s))) \<and>
      jlookup (osdplst t) [''status'', ''services'', svc_name svc, ''controller_version''] =
        Some (JStr (release_string (ce_status ce)))" if "r = Inr u"
  proof -
    from assms(2) that obtain s1 s2 where run: "set_children_status ce svc Applying s = (Inr (), s1)"
      "apply_body svc ov s1 = (Inr (), s2)" "set_children_status ce svc Applied s2 = (Inr (), t)"
      by (auto simp: apply_split abind_eq_Inr)
    have "mspec s2 = mspec s" using status_written[OF run(1)] body[OF run(2)] by auto
    with status_written[OF run(3)] set_service_status_at(1-3) show ?thesis by fastforce
  qed
  show "t = s \<or> jlookup (osdplst t) [''status'', ''services'', svc_name svc, ''state''] = Some (JStr ''APPLYING'')"
    if "r = Inl e"
  proof (cases "fst (set_children_status ce svc Applying s)")
    case (Inl e')
    then have "set_children_status ce svc Applying s = (Inl e', t)" "r = Inl e'"
      using assms(2) by (auto simp: apply_split abind_def split: prod.splits)
    with status_failed show ?thesis by blast
  next
    case (Inr u)
    then obtain s1 where s1: "set_children_status ce svc Applying s = (Inr (), s1)"
      by (cases "set_children_status ce svc Applying s") auto
    then have rest: "abind (apply_body svc ov) (\<lambda>_. set_children_status ce svc Applied) s1 = (Inl e, t)"
      using assms(2) that by (simp add: apply_split abind_def)
    have "osdplst t = osdplst s1"
      using rest by (auto simp: abind_eq_Inl dest!: body status_failed)
    with status_written[OF s1] set_service_status_at(1) show ?thesis by fastforce
  qed
qed

text \<open>
  A successful \<open>apply\<close> leaves the releases of the bundle installed with their values, and none of the
  other releases that the service may install; releases of other services are not touched.
\<close>

lemma apply_installed:
  assumes "args_ok installed svc" and "apply_service ce svc ov s = (Inr u, t)"
  shows "\<exists>data rels ps. helm_releases data = Inr rels \<and> rmap release_values rels = Inr ps \<and>
    (\<exists>d s' t'. render ce svc [] s' = (Inr d, t') \<and> override_bundle (ce_vs ce) ov d = Inr data) \<and>
    (\<forall>n. installed t n = (if n \<in> fst ` set ps then map_of (rev ps) n
       else if n \<in> set (available_releases svc) then None else installed s n))"
proof -
  from assms(2) obtain s1 s2 where run: "set_children_status ce svc Applying s = (Inr (), s1)"
    "apply_body svc ov s1 = (Inr (), s2)" "set_children_status ce svc Applied s2 = (Inr (), t)"
    by (auto simp: apply_split abind_eq_Inr)
  have ends: "installed s1 = installed s" "installed t = installed s2"
    using status_written[OF run(1)] status_written[OF run(3)] installed_local by auto
  from run(2) obtain d s3 data rels s4 s5 where body: "render ce svc [] s1 = (Inr d, s3)"
    "override_bundle (ce_vs ce) ov d = Inr data"
    "helm_releases data = Inr rels"
    "aforeach (\<lambda>_. cleanup_immutable_resources ce svc data False) rels s3 = (Inr (), s4)"
    "install_bundle (ce_helm ce) data s4 = (Inr (), s5)"
    "delete_not_active_releases (ce_helm ce) data (available_releases svc) s5 = (Inr (), s2)"
    unfolding apply_body_def by (auto simp: abind_eq_Inr alift_def)
  have s3: "installed s3 = installed s1" using keepsD[OF render_keeps[OF assms(1)] body(1)] by simp
  have "keeps (\<lambda>s. (installed s, osdplst s, mspec s)) (aforeach (\<lambda>_. cleanup_immutable_resources ce svc data False) rels)"
    by (intro keeps_aforeach cleanup_keeps)
  from keepsD[OF this body(4)] have s4: "installed s4 = installed s3" by simp
  obtain ps where ps: "rmap release_values rels = Inr ps" "installed s5 = installed s4 ++ map_of (rev ps)"
    using install_bundle_ok[OF body(5)] body(3) by auto
  have "rbind (helm_releases data) release_names = Inr (map fst ps)"
    using body(3) release_values_names[OF ps(1)] by simp
  from delete_not_active_ok[OF body(6) this] have
    "installed t n = (if n \<in> set (available_releases svc) \<and> n \<notin> fst ` set ps then None
      else (installed s ++ map_of (rev ps)) n)" for n
    using ends s3 s4 ps(2) by (simp add: image_image)
  moreover have "(installed s ++ map_of (rev ps)) n = (if n \<in> fst ` set ps then map_of (rev ps) n else installed s n)" for n
    using map_of_eq_None_iff[of "rev ps" n] by (auto simp: map_add_def split: option.splits)
  ultimately have "\<forall>n. installed t n = (if n \<in> fst ` set ps then map_of (rev ps) n
       else if n \<in> set (available_releases svc) then None else installed s n)" by simp
  with body(1-3) ps(1) show ?thesis by blast
qed

text \<open>After a deletion nothing of the service is left, and an upgrade only ever asks to be retried.\<close>

lemma delete_service_ok:
  assumes "delete_service ce svc s = (Inr u, t)"
  shows "jlookup (osdplst t) [''status'', ''services'', svc_name svc] = None \<and>
    (\<forall>n. installed t n = (if n \<in> set (available_releases svc) then None else installed s n))"
proof -
  obtain s1 s2 where run: "set_children_status ce svc Deleting s = (Inr (), s1)"
    "delete_bundle (ce_helm ce) (available_releases svc) s1 = (Inr (), s2)"
    "set_children_status ce svc Deleted s2 = (Inr (), t)"
    using assms by (auto simp: delete_service_def abind_eq_Inr)
  have "installed s1 = installed s" "installed t = installed s2"
    using status_written[OF run(1)] status_written[OF run(3)] installed_local by auto
  moreover have "osdplst t = remove_service_status (svc_name svc) (osdplst s2)"
    using status_written[OF run(3)] by auto
  ultimately show ?thesis using delete_bundle_ok[OF run(2)]
    by (simp add: remove_service_status_def patch_at_remove del: jlookup.simps)
qed

lemma diverge_services: "diverge [''status'', ''services'', n] ([''status'', ''services'', m] @ ks) \<longleftrightarrow> m \<noteq> n"
  by (cases ks) auto

lemma apply_keeps:
  assumes "args_ok installed svc"
  shows "keeps mspec (apply_service ce svc ov)" and "m \<noteq> svc_name svc \<Longrightarrow> keeps (at_service m ks) (apply_service ce svc ov)"
  using apply_status(1)[OF assms] apply_status(4)[OF assms, of _ _ _ _ "[''status'', ''services'', m] @ ks"]
  unfolding diverge_services at_service_def by (auto intro!: keepsI)

lemma after_apply_keeps:
  assumes "hooks_ok svc"
  shows "keeps mspec (after_apply svc)" "keeps (at_service m ks) (after_apply svc)"
proof -
  have after: "keeps (\<lambda>s. (osdplst s, mspec s)) (after_apply svc)" using assms by (simp add: hooks_ok_def)
  show "keeps mspec (after_apply svc)" by (rule keeps_comp[OF after]) simp
  show "keeps (at_service m ks) (after_apply svc)" by (rule keeps_comp[OF after]) (simp add: at_service_def)
qed

lemma service_apply_keeps:
  assumes "args_ok installed svc" and "hooks_ok svc"
  shows "keeps mspec (service_apply ce svc ov)"
    and "m \<noteq> svc_name svc \<Longrightarrow> keeps (at_service m ks) (service_apply ce svc ov)"
proof -
  have before: "keeps mspec (before_apply svc)" "\<And>m. m \<noteq> svc_name svc \<Longrightarrow> keeps (at_service m ks) (before_apply svc)"
    using assms(2) by (simp_all add: hooks_ok_def)
  show "keeps mspec (service_apply ce svc ov)" unfolding service_apply_def
    by (intro keeps_abind before apply_keeps(1)[OF assms(1)] after_apply_keeps[OF assms(2)])
  show "keeps (at_service m ks) (service_apply ce svc ov)" if "m \<noteq> svc_name svc" unfolding service_apply_def
    by (intro keeps_abind before(2)[OF that] apply_keeps(2)[OF assms(1) that] after_apply_keeps[OF assms(2)])
qed

lemma delete_keeps:
  "keeps mspec (delete_service ce svc)" "m \<noteq> svc_name svc \<Longrightarrow> keeps (at_service m ks) (delete_service ce svc)"
proof -
  have frame: "keeps (\<lambda>s. (jlookup (osdplst s) ls, mspec s)) (delete_service ce svc)"
    if "diverge [''status'', ''services'', svc_name svc] ls" for ls
    unfolding delete_service_def
    by (intro keeps_abind status_frame[OF that] keeps_comp[OF delete_bundle_other]) auto
  show "keeps mspec (delete_service ce svc)"
    by (rule keeps_comp[OF frame[of "[[]]"]]) simp_all
  assume "m \<noteq> svc_name svc"
  then have "diverge [''status'', ''services'', svc_name svc] ([''status'', ''services'', m] @ ks)"
    unfolding diverge_services by simp
  then show "keeps (at_service m ks) (delete_service ce svc)"
    by (rule keeps_comp[OF frame]) (simp add: at_service_def del: jlookup.simps)
qed

text \<open>An upgrade that fails always asks to be retried.\<close>

lemma health_keeps: "keeps mspec (service_healthy ce svc)"
  unfolding service_healthy_def wait_service_healthy_def wait_application_ready_def
  using clock_keeps(2) by (intro keeps_aforeach keeps_abind wait_keeps keeps_aget keeps_alift keeps_if keeps_aret keeps_araise) auto

lemma status_total:
  "jitem (mspec s) ''openstack_version'' = Inr v \<Longrightarrow> fst (set_children_status ce svc st s) = Inr ()"
  by (cases st) (simp_all add: set_children_status_def patch_osdplst_def abind_def aget_def alift_def amod_def
      set_service_status_def generate_osdpl_status_generic_def)

lemma upgrade_error:
  assumes "upgrade_service ce svc ov s = (Inl e, t)" and "jitem (mspec s) ''openstack_version'' = Inr v"
    and "keeps mspec (upgrade_hook svc)" and "args_ok installed svc" and "hooks_ok svc"
  shows "e = TemporaryError (''Retrying to upgrade '' @ svc_name svc)"
proof -
  let ?body = "abind (service_healthy ce svc) (\<lambda>_. abind (upgrade_hook svc) (\<lambda>_. abind (service_apply ce svc ov) (\<lambda>_.
    abind (amod (ce_tick ce)) (\<lambda>_. service_healthy ce svc))))"
  have tick: "keeps mspec (amod (ce_tick ce))" using clock_keeps(2) by (simp add: keeps_def amod_def)
  have body: "keeps mspec ?body"
    by (intro keeps_abind health_keeps assms(3) service_apply_keeps(1)[OF assms(4,5)] tick)
  obtain s1 where s1: "set_children_status ce svc Upgrading s = (Inr (), s1)"
    using status_total[OF assms(2), of svc Upgrading] by (metis prod.collapse)
  then have m1: "mspec s1 = mspec s" using status_written[OF s1] by auto
  obtain r s2 where b: "?body s1 = (r, s2)" by (cases "?body s1")
  then have m2: "mspec s2 = mspec s" using keepsD[OF body b] m1 by simp
  have ok: "fst (set_children_status ce svc Applied s2) = Inr ()" using status_total assms(2) m2 by metis
  define E where "E = TemporaryError (''Retrying to upgrade '' @ svc_name svc)"
  have "abind (atry ?body (\<lambda>_. araise E)) (\<lambda>_. set_children_status ce svc Applied) s1 = (Inl e, t)"
    using assms(1) s1 unfolding upgrade_service_def E_def by (simp add: abind_Inr)
  moreover have "atry ?body (\<lambda>_. araise E) s1 = (case r of Inl _ \<Rightarrow> Inl E | Inr x \<Rightarrow> Inr x, s2)"
    using b by (cases r) (simp_all add: atry_def araise_def)
  ultimately have "e = E" using ok by (cases r) (auto simp: abind_eq_Inl)
  then show ?thesis by (simp add: E_def)
qed

end

end
