(* ===== verification/OsdplController.thy ===== *)
theory OsdplController
  imports ServicesBase
begin

text \<open>
  The handlers of the OpenStackDeployment (\<open>controllers/openstackdeployment.py\<close>) with the cache of
  images (\<open>cache.py\<close>).  A service is what the registry gives for its name: its operations on the state.
  The tasks of one call run one after the other, each as a whole; \<open>asyncio\<close> may switch between them
  while one of them waits.
\<close>

section \<open>The image cache\<close>

record cache_daemon =
  daemon_name :: string
  containers :: "(string \<times> string) list"
  daemon_object :: json

record osdpl_world = svc_world +
  status_exists :: bool
  kopf_patch :: json
  cache_daemons :: "cache_daemon list"

text \<open>\<open>s.replace(a, "")\<close> and \<open>s.replace("_", "-")\<close>\<close>

function py_remove :: "string \<Rightarrow> string \<Rightarrow> string" where
  "py_remove a [] = []"
| "py_remove a (c # s) =
     (if a \<noteq> [] \<and> py_prefix a (c # s) then py_remove a (drop (length a) (c # s)) else c # py_remove a s)"
  by pat_completeness auto
termination by (relation "measure (\<lambda>(a, s). length s)") auto

definition dashed :: "string \<Rightarrow> string" where
  "dashed s = map (\<lambda>c. if c = CHR ''_'' then CHR ''-'' else c) s"

definition CACHE_NAME :: string where
  "CACHE_NAME = ''image-precaching''"

definition cache_images :: "'w osdpl_world_scheme \<Rightarrow> (string \<times> string) list" where
  "cache_images s =
     foldl (\<lambda>d (n, i). AList.update (py_remove (CACHE_NAME @ ''-'') n) i d) [] (concat (map containers (cache_daemons s)))"

text \<open>\<open>[dict(image_list[i : i + n]) for i in range(0, len(image_list), n)]\<close>\<close>

function slices :: "nat \<Rightarrow> 'a list \<Rightarrow> 'a list list" where
  "slices n xs = (if xs = [] \<or> n = 0 then [] else take n xs # slices n (drop n xs))"
  by pat_completeness auto
termination by (relation "measure (\<lambda>(n, xs). length xs)") auto

declare slices.simps [simp del]

definition images_per_daemon :: nat where
  "images_per_daemon = 50"

text \<open>\<open>render_cache\<close> is \<open>layers.render_cache_template\<close> followed by \<open>kopf.adopt\<close>, as the daemon set it creates.\<close>

fun create_daemons ::
  "(string \<Rightarrow> (string \<times> string) list \<Rightarrow> cache_daemon res) \<Rightarrow> nat \<Rightarrow> (string \<times> string) list list \<Rightarrow>
   ('w osdpl_world_scheme, unit) act" where
  "create_daemons render_cache i [] = aret ()"
| "create_daemons render_cache i (g # gs) =
     abind (alift (render_cache (CACHE_NAME @ ''-'' @ show_nat i) g)) (\<lambda>d.
     abind (amod (\<lambda>s. s\<lparr>cache_daemons := cache_daemons s @ [d]\<rparr>)) (\<lambda>_. create_daemons render_cache (Suc i) gs))"

definition cache_restart ::
  "(string \<Rightarrow> (string \<times> string) list \<Rightarrow> cache_daemon res) \<Rightarrow> (string \<times> string) list \<Rightarrow>
   ('w osdpl_world_scheme, nat) act" where
  "cache_restart render_cache images =
     abind (amod (\<lambda>s. s\<lparr>cache_daemons := []\<rparr>)) (\<lambda>_.
     let image_groups = (if images = [] then [] else slices images_per_daemon images) in
     abind (create_daemons render_cache 0 image_groups) (\<lambda>_. aret (length image_groups)))"

definition cache_wait_ready :: "('w osdpl_world_scheme, unit) act" where
  "cache_wait_ready = abind (aget cache_daemons) (\<lambda>ds.
     aforeach (\<lambda>d. alift (wait_for_daemonset_ready (Inr (daemon_object d)))) ds)"

section \<open>Helpers of the handler\<close>

fun is_openstack_version_changed :: "diff_item list \<Rightarrow> bool" where
  "is_openstack_version_changed [] = False"
| "is_openstack_version_changed (d # ds) =
     (field_path d = [''spec'', ''openstack_version''] \<or> is_openstack_version_changed ds)"

definition get_os_services_for_upgrade :: "string set \<Rightarrow> string list" where
  "get_os_services_for_upgrade enabled_services =
     filter (\<lambda>s. s \<in> enabled_services) OPENSTACK_SERVICES_UPGRADE_ORDER"

definition restore_enabled :: "json \<Rightarrow> json res" where
  "restore_enabled obj =
     rbind (jpath obj [''spec'', ''services'', ''database'', ''mariadb'', ''values'', ''manifests'']) (\<lambda>m.
     jget m ''job_mariadb_phy_restore'' (JBool False))"

definition check_handling_allowed :: "json \<Rightarrow> json \<Rightarrow> string \<Rightarrow> unit res" where
  "check_handling_allowed old new event =
     rbind (restore_enabled new) (\<lambda>new_enabled.
     if \<not> jtruthy new_enabled then Inr ()
     else if event = ''create'' then
       Inl (PermanentError ''Mariadb restore cannot be enabled during Openstack deployment create'')
     else if event = ''resume'' then Inl (PermanentError ''Resume is blocked due to Mariadb restore job enabled'')
     else rbind (restore_enabled old) (\<lambda>old_enabled.
       if jtruthy old_enabled then
         Inl (PermanentError ''Mariadb restore job should be disabled before doing other changes, handling is not allowed'')
       else Inr ()))"

text \<open>
  \<open>discover_images\<close>: the names of every URL, and the first name of each URL that has a cached one.
\<close>

definition names_by_url :: "(string \<times> string) list \<Rightarrow> (string \<times> string list) list" where
  "names_by_url artifacts = foldl (\<lambda>d (name, url). dict_extend url [name] d) [] artifacts"

definition discover_images :: "string list \<Rightarrow> (string \<times> string) list \<Rightarrow> (string \<times> string) list" where
  "discover_images cached artifacts =
     foldl (\<lambda>d (url, names). AList.update (dashed (hd names)) url d) []
       (filter (\<lambda>(url, names). set names \<inter> set cached \<noteq> {}) (names_by_url artifacts))"

section \<open>Tasks\<close>

definition still_running :: py_exc where
  "still_running = OtherException ''tasks are still retried''"

text \<open>One round: the tasks to run again, and whether one of them failed for good.\<close>

fun run_round :: "('s, unit) act list \<Rightarrow> ('s, ('s, unit) act list \<times> bool) act" where
  "run_round [] = aret ([], False)"
| "run_round (m # ms) = (\<lambda>s. case m s of
       (Inr _, t) \<Rightarrow> run_round ms t
     | (Inl (PermanentError _), t) \<Rightarrow> abind (run_round ms) (\<lambda>(retry, _). aret (retry, True)) t
     | (Inl _, t) \<Rightarrow> abind (run_round ms) (\<lambda>(retry, p). aret (m # retry, p)) t)"

fun run_task :: "nat \<Rightarrow> ('s \<Rightarrow> 's) \<Rightarrow> ('s, unit) act list \<Rightarrow> bool \<Rightarrow> ('s, unit) act" where
  "run_task n tick [] permanent =
     (if permanent then araise (PermanentError ''Permanent error occured.'') else aret ())"
| "run_task 0 tick (m # ms) permanent = araise still_running"
| "run_task (Suc n) tick (m # ms) permanent =
     abind (run_round (m # ms)) (\<lambda>(retry, p). abind (amod tick) (\<lambda>_. run_task n tick retry (permanent \<or> p)))"

section \<open>The handlers\<close>

text \<open>
  The operations of a service, \<open>so_rotate\<close> is None when the service has no secret; \<open>he_order\<close> is the
  order in which Python walks through a set.
\<close>

record 's service_ops =
  so_apply :: "('s, unit) act"
  so_upgrade :: "('s, unit) act"
  so_delete :: "('s, unit) act"
  so_healthy :: "('s, unit) act"
  so_rotate :: "(json \<Rightarrow> ('s, unit) act) option"

record 's handle_env =
  he_status :: status_env
  he_conf :: maintenance_conf
  he_registry :: "string \<Rightarrow> 's service_ops option"
  he_order :: "json set \<Rightarrow> string list"
  he_get_mspec :: "('s, json) act"
  he_admin_ensure :: "('s, unit) act"
  he_admin_rotate :: "json \<Rightarrow> ('s, unit) act"
  he_child_view :: "json \<Rightarrow> unit res"
  he_cached :: "string list res"
  he_artifacts :: "json \<Rightarrow> (string \<times> string) list res"
  he_render_cache :: "string \<Rightarrow> (string \<times> string) list \<Rightarrow> cache_daemon res"
  he_suspend_descheduler :: "('s, unit) act"
  he_rounds :: nat
  he_tick :: "'s \<Rightarrow> 's"

record osdpl_event =
  ev_name :: string
  ev_spec :: json
  ev_reason :: string
  ev_old :: json
  ev_new :: json
  ev_diff :: "diff_item list"
  ev_diff_text :: string

definition lookup_service :: "'s handle_env \<Rightarrow> string \<Rightarrow> ('s, 's service_ops) act" where
  "lookup_service he n = alift (case he_registry he n of None \<Rightarrow> Inl (KeyError n) | Some ops \<Rightarrow> Inr ops)"

definition run_tasks :: "'s handle_env \<Rightarrow> ('s, unit) act list \<Rightarrow> ('s, unit) act" where
  "run_tasks he ms = run_task (he_rounds he) (he_tick he) ms False"

definition rotate_service :: "'s handle_env \<Rightarrow> json \<Rightarrow> string \<Rightarrow> ('s, unit) act" where
  "rotate_service he rotation_id n =
     abind (lookup_service he n) (\<lambda>ops. case so_rotate ops of None \<Rightarrow> aret () | Some f \<Rightarrow> f rotation_id)"

definition rotate_creds :: "'s handle_env \<Rightarrow> string \<Rightarrow> json \<Rightarrow> string list \<Rightarrow> ('s, unit) act" where
  "rotate_creds he group_name rotation_id enabled_services =
     (if group_name = ''admin'' then
        abind (he_admin_rotate he rotation_id) (\<lambda>_.
        abind (lookup_service he ''database'') (\<lambda>ops.
        abind (run_tasks he [so_apply ops]) (\<lambda>_.
        abind (amod (he_tick he)) (\<lambda>_. so_healthy ops))))
      else if group_name = ''service'' then aforeach (rotate_service he rotation_id) enabled_services
      else aret ())"

definition rotate_group :: "'s handle_env \<Rightarrow> json \<Rightarrow> json \<Rightarrow> string list \<Rightarrow> string \<Rightarrow> ('s, unit) act" where
  "rotate_group he old new enabled_services group_name =
     abind (alift (rbind (get_in_str new [''status'', ''credentials''] jempty) (\<lambda>c.
       get_in_str c [group_name, ''rotation_id''] (JInt 0)))) (\<lambda>new_rotation_id.
     if \<not> jtruthy new_rotation_id then aret ()
     else abind (alift (rbind (get_in_str old [''status'', ''credentials''] jempty) (\<lambda>c.
       get_in_str c [group_name, ''rotation_id''] (JInt 0)))) (\<lambda>old_rotation_id.
     if \<not> py_eq new_rotation_id old_rotation_id
     then rotate_creds he group_name new_rotation_id enabled_services else aret ()))"

definition rotate_credentials :: "'s handle_env \<Rightarrow> json \<Rightarrow> json \<Rightarrow> string list \<Rightarrow> ('s, unit) act" where
  "rotate_credentials he old new enabled_services =
     aforeach (rotate_group he old new enabled_services) [''admin'', ''service'']"

definition status_present :: "('w osdpl_world_scheme, unit) act" where
  "status_present = amod (\<lambda>s. if status_exists s then s
     else s\<lparr>status_exists := True, osdplst := JObj [(''spec'', jempty), (''status'', jempty)]\<rparr>)"

definition patch_kopf :: "string \<Rightarrow> json \<Rightarrow> ('w osdpl_world_scheme, unit) act" where
  "patch_kopf k v = amod (\<lambda>s. s\<lparr>kopf_patch :=
     (case kopf_patch s of JObj d \<Rightarrow> JObj (AList.update k v d) | _ \<Rightarrow> JObj [(k, v)])\<rparr>)"

definition ensure_cache :: "'w osdpl_world_scheme handle_env \<Rightarrow> json \<Rightarrow> ('w osdpl_world_scheme, unit) act" where
  "ensure_cache he spec =
     abind (alift (he_cached he)) (\<lambda>cached.
     abind (alift (he_artifacts he spec)) (\<lambda>artifacts.
     let images = discover_images cached artifacts in
     abind (aget cache_images) (\<lambda>current.
     abind (if set images \<noteq> set current
            then abind (cache_restart (he_render_cache he) images) (\<lambda>_. aret ()) else aret ()) (\<lambda>_.
     cache_wait_ready))))"

definition upgrade_services :: "'w osdpl_world_scheme handle_env \<Rightarrow> string list \<Rightarrow> ('w osdpl_world_scheme, unit) act" where
  "upgrade_services he update =
     abind (he_suspend_descheduler he) (\<lambda>_.
     let services_to_upgrade = get_os_services_for_upgrade (set update) in
     abind (aforeach (\<lambda>n. patch_osdplst (\<lambda>obj. Inr (set_service_state n ''WAITING'' obj)))
              (remdups (services_to_upgrade @ update))) (\<lambda>_.
     aforeach (\<lambda>n. abind (lookup_service he n) (\<lambda>ops. run_tasks he [so_upgrade ops])) services_to_upgrade))"

definition apply_and_delete ::
  "'w osdpl_world_scheme handle_env \<Rightarrow> string list \<Rightarrow> string list \<Rightarrow> ('w osdpl_world_scheme, unit) act" where
  "apply_and_delete he update delete =
     abind (amap (lookup_service he) update) (\<lambda>up.
     abind (amap (lookup_service he) delete) (\<lambda>del.
     run_tasks he (map so_apply up @ map so_delete del)))"

definition handle :: "'w osdpl_world_scheme handle_env \<Rightarrow> osdpl_event \<Rightarrow> ('w osdpl_world_scheme, string) act" where
  "handle he ev =
     abind (alift (jget (ev_spec ev) ''draft'' JNull)) (\<lambda>draft.
     if jtruthy draft then aret (ev_reason ev @ '' drafted'')
     else
       abind (patch_kopf ''version'' (JStr (release_string (he_status he)))) (\<lambda>_.
       abind status_present (\<lambda>_.
       abind (he_get_mspec he) (\<lambda>spec.
       abind (amod (\<lambda>s. s\<lparr>mspec := spec\<rparr>)) (\<lambda>_.
       abind (patch_osdplst (set_osdpl_status (he_status he) ''APPLYING'' spec (ev_diff_text ev) (ev_reason ev))) (\<lambda>_.
       abind (present (he_conf he) (ClusterWorkloadLock, cwl_name (ev_name ev))) (\<lambda>_.
       abind (alift (check_handling_allowed (ev_old ev) (ev_new ev) (ev_reason ev))) (\<lambda>_.
       abind (he_admin_ensure he) (\<lambda>_.
       abind (alift (he_child_view he spec)) (\<lambda>_.
       abind (patch_kopf ''fingerprint'' (JStr (spec_hash (he_status he) spec))) (\<lambda>_.
       abind (ensure_cache he spec) (\<lambda>_.
       abind (alift (services spec (ev_diff ev))) (\<lambda>(to_apply, to_delete).
       let update = he_order he to_apply; delete = he_order he to_delete in
       abind (rotate_credentials he (ev_old ev) (ev_new ev) update) (\<lambda>_.
       abind (if is_openstack_version_changed (ev_diff ev) then upgrade_services he update else aret ()) (\<lambda>_.
       abind (apply_and_delete he update delete) (\<lambda>_.
       abind (patch_kopf ''health'' JNull) (\<lambda>_.
       abind (patch_kopf ''children'' JNull) (\<lambda>_.
       abind (patch_kopf ''deployed'' JNull) (\<lambda>_.
       abind (aget mspec) (\<lambda>spec.
       abind (patch_osdplst (set_osdpl_status (he_status he) ''APPLIED'' spec (ev_diff_text ev) (ev_reason ev))) (\<lambda>_.
       aret (ev_reason ev @ ''d''))))))))))))))))))))))"

definition delete_osdpl :: "'w osdpl_world_scheme handle_env \<Rightarrow> osdpl_event \<Rightarrow> ('w osdpl_world_scheme, unit) act" where
  "delete_osdpl he ev =
     abind (he_get_mspec he) (\<lambda>spec.
     abind (amod (\<lambda>s. s\<lparr>mspec := spec\<rparr>)) (\<lambda>_.
     abind (alift (he_child_view he spec)) (\<lambda>_.
     abind (alift (services spec (ev_diff ev))) (\<lambda>(to_apply, _).
     abind (aforeach (\<lambda>n. abind (lookup_service he n) (\<lambda>ops. run_tasks he [so_delete ops])) (he_order he to_apply)) (\<lambda>_.
     absent (ClusterWorkloadLock, cwl_name (ev_name ev)))))))"

section \<open>Tasks end in their postconditions\<close>

lemma round_total: "\<exists>x t. run_round ms s = (Inr x, t)"
proof (induction ms arbitrary: s)
  case Nil
  then show ?case by (auto simp: aret_def)
next
  case (Cons m ms)
  obtain r s1 where m: "m s = (r, s1)" by (cases "m s")
  obtain x t where "run_round ms s1 = (Inr x, t)" using Cons by blast
  with m show ?case by (cases r; cases x) (auto simp: abind_def aret_def split: py_exc.splits)
qed

text \<open>
  Tasks \<open>f n\<close> for the names \<open>n\<close> of a set: each establishes \<open>Q n\<close> when it succeeds, none of the others
  breaks it, and all of them keep the invariant \<open>I\<close>.
\<close>

locale task_contract =
  fixes f :: "'n \<Rightarrow> ('s, unit) act" and I :: "'s \<Rightarrow> bool" and Q :: "'n \<Rightarrow> 's \<Rightarrow> bool" and N :: "'n set"
    and tick :: "'s \<Rightarrow> 's"
  assumes task_inv: "n \<in> N \<Longrightarrow> I s \<Longrightarrow> f n s = (r, t) \<Longrightarrow> I t"
    and task_post: "n \<in> N \<Longrightarrow> I s \<Longrightarrow> f n s = (Inr u, t) \<Longrightarrow> Q n t"
    and task_frame: "n \<in> N \<Longrightarrow> m \<in> N \<Longrightarrow> m \<noteq> n \<Longrightarrow> I s \<Longrightarrow> f m s = (r, t) \<Longrightarrow> Q n s \<Longrightarrow> Q n t"
    and tick_inv: "I s \<Longrightarrow> I (tick s)"
    and tick_frame: "n \<in> N \<Longrightarrow> Q n s \<Longrightarrow> Q n (tick s)"
begin

lemma round_post:
  "I s \<Longrightarrow> distinct ns \<Longrightarrow> set ns \<subseteq> N \<Longrightarrow> run_round (map f ns) s = (Inr (retry, p), t) \<Longrightarrow>
   I t \<and> (\<forall>n \<in> N - set ns. Q n s \<longrightarrow> Q n t) \<and>
   (\<exists>ns'. retry = map f ns' \<and> set ns' \<subseteq> set ns \<and> distinct ns' \<and> (p \<or> (\<forall>n \<in> set ns - set ns'. Q n t)))"
proof (induction ns arbitrary: s retry p)
  case Nil
  then show ?case by (simp add: aret_def)
next
  case (Cons n ns)
  obtain r s1 where fn: "f n s = (r, s1)" by (cases "f n s")
  have n: "n \<in> N" "n \<notin> set ns" "distinct ns" "set ns \<subseteq> N" using Cons.prems by auto
  have s1: "I s1" "\<And>m. m \<in> N \<Longrightarrow> m \<noteq> n \<Longrightarrow> Q m s \<Longrightarrow> Q m s1"
    using task_inv[OF n(1) Cons.prems(1) fn] task_frame[OF _ n(1) _ Cons.prems(1) fn] by auto
  show ?case
  proof (cases r)
    case (Inr u)
    then have "run_round (map f ns) s1 = (Inr (retry, p), t)" using Cons.prems(4) fn by simp
    from Cons.IH[OF s1(1) n(3,4) this] obtain ns' where ns': "I t" "\<forall>m \<in> N - set ns. Q m s1 \<longrightarrow> Q m t"
      "retry = map f ns'" "set ns' \<subseteq> set ns" "distinct ns'" "p \<or> (\<forall>m \<in> set ns - set ns'. Q m t)" by blast
    moreover have "Q n t" using task_post[OF n(1) Cons.prems(1)] fn Inr ns'(2) n by auto
    ultimately show ?thesis using s1(2) by auto
  next
    case (Inl e)
    then obtain retry' p' where run: "run_round (map f ns) s1 = (Inr (retry', p'), t)"
      and out: "if \<exists>m. e = PermanentError m then retry = retry' \<and> p else retry = f n # retry' \<and> p = p'"
      using Cons.prems(4) fn by (cases e) (auto simp: abind_eq_Inr aret_def)
    from Cons.IH[OF s1(1) n(3,4) run] obtain ns' where ns': "I t" "\<forall>m \<in> N - set ns. Q m s1 \<longrightarrow> Q m t"
      "retry' = map f ns'" "set ns' \<subseteq> set ns" "distinct ns'" "p' \<or> (\<forall>m \<in> set ns - set ns'. Q m t)" by blast
    have frame: "\<forall>m \<in> N - set (n # ns). Q m s \<longrightarrow> Q m t" using ns'(2) s1(2) by auto
    show ?thesis
    proof (cases "\<exists>m. e = PermanentError m")
      case True
      then have "retry = map f ns' \<and> set ns' \<subseteq> set (n # ns) \<and> distinct ns' \<and> p" using out ns' by auto
      with ns'(1) frame show ?thesis by blast
    next
      case False
      then have "retry = map f (n # ns') \<and> set (n # ns') \<subseteq> set (n # ns) \<and> distinct (n # ns') \<and>
          (p \<or> (\<forall>m \<in> set (n # ns) - set (n # ns'). Q m t))"
        using out ns' n by auto
      with ns'(1) frame show ?thesis by blast
    qed
  qed
qed

lemma run_task_post:
  "I s \<Longrightarrow> distinct ns \<Longrightarrow> set ns \<subseteq> N \<Longrightarrow> run_task k tick (map f ns) permanent s = (Inr u, t) \<Longrightarrow>
   \<not> permanent \<and> I t \<and> (\<forall>n \<in> set ns. Q n t) \<and> (\<forall>n \<in> N - set ns. Q n s \<longrightarrow> Q n t)"
proof (induction k arbitrary: s ns permanent)
  case 0
  then show ?case by (cases ns) (auto simp: aret_def araise_def split: if_splits)
next
  case (Suc k)
  show ?case
  proof (cases ns)
    case Nil
    with Suc.prems show ?thesis by (auto simp: aret_def araise_def split: if_splits)
  next
    case (Cons n l)
    with Suc.prems(4) obtain retry p s1 where run: "run_round (map f ns) s = (Inr (retry, p), s1)"
      "run_task k tick retry (permanent \<or> p) (tick s1) = (Inr u, t)"
      by (auto simp: abind_eq_Inr amod_def simp del: run_round.simps)
    from round_post[OF Suc.prems(1-3) run(1)] obtain ns' where ns': "I s1" "\<forall>m \<in> N - set ns. Q m s \<longrightarrow> Q m s1"
      "retry = map f ns'" "set ns' \<subseteq> set ns" "distinct ns'" "p \<or> (\<forall>m \<in> set ns - set ns'. Q m s1)" by blast
    have sub: "set ns' \<subseteq> N" using ns'(4) Suc.prems(3) by blast
    from Suc.IH[OF tick_inv[OF ns'(1)] ns'(5) sub run(2)[unfolded ns'(3)]]
    have rest: "\<not> permanent" "\<not> p" "I t" "\<forall>m \<in> set ns'. Q m t" "\<forall>m \<in> N - set ns'. Q m (tick s1) \<longrightarrow> Q m t"
      by auto
    have "Q m t" if "m \<in> set ns" for m
      using that rest ns'(6) tick_frame[of m s1] Suc.prems(3) by blast
    moreover have "Q m t" if "m \<in> N - set ns" "Q m s" for m
      using that rest(5) ns'(2,4) tick_frame[of m s1] by blast
    ultimately show ?thesis using rest(1,3) by blast
  qed
qed

end

text \<open>
  Tasks that wait for one another: a task succeeds once those it depends on have, and fails for a while
  before.  A round then finishes every task whose dependencies were finished before it.
\<close>

context task_contract
begin

lemma round_progress:
  assumes ready: "\<And>n s. n \<in> N \<Longrightarrow> I s \<Longrightarrow> \<forall>m \<in> deps n. Q m s \<Longrightarrow> \<exists>t. f n s = (Inr (), t)"
    and retried: "\<And>n s x t. n \<in> N \<Longrightarrow> I s \<Longrightarrow> f n s \<noteq> (Inl (PermanentError x), t)"
    and deps: "\<And>n. n \<in> N \<Longrightarrow> deps n \<subseteq> N"
  shows "I s \<Longrightarrow> distinct ns \<Longrightarrow> set ns \<subseteq> N \<Longrightarrow> \<forall>n \<in> N - W. Q n s \<Longrightarrow> set ns \<subseteq> W \<Longrightarrow>
    \<exists>ns' t. run_round (map f ns) s = (Inr (map f ns', False), t) \<and> set ns' \<subseteq> set ns \<and> distinct ns' \<and> I t \<and>
      (\<forall>n \<in> set ns'. \<exists>m \<in> deps n. m \<in> W) \<and> (\<forall>n \<in> N - (W - set ns \<union> set ns'). Q n t)"
proof (induction ns arbitrary: s W)
  case Nil
  then show ?case by (auto simp: aret_def intro!: exI[of _ "[]"])
next
  case (Cons n ns)
  obtain r s1 where fn: "f n s = (r, s1)" by (cases "f n s")
  have n: "n \<in> N" "n \<in> W" "n \<notin> set ns" "distinct ns" "set ns \<subseteq> N" "set ns \<subseteq> W" using Cons.prems by auto
  have s1: "I s1" using task_inv[OF n(1) Cons.prems(1) fn] .
  have keep: "m \<in> N \<Longrightarrow> m \<noteq> n \<Longrightarrow> Q m s \<Longrightarrow> Q m s1" for m using task_frame[OF _ n(1) _ Cons.prems(1) fn] by auto
  show ?case
  proof (cases r)
    case (Inr u)
    then have qn: "Q n s1" using task_post[OF n(1) Cons.prems(1)] fn by simp
    then have "\<forall>m \<in> N - (W - {n}). Q m s1" using keep Cons.prems(4) by blast
    from Cons.IH[OF s1 n(4,5) this] n(3,6) obtain ns' t where ns': "run_round (map f ns) s1 = (Inr (map f ns', False), t)"
      "set ns' \<subseteq> set ns" "distinct ns'" "I t" "\<forall>m \<in> set ns'. \<exists>k \<in> deps m. k \<in> W - {n}"
      "\<forall>m \<in> N - (W - {n} - set ns \<union> set ns'). Q m t" by blast
    have "run_round (map f (n # ns)) s = (Inr (map f ns', False), t)" using fn Inr ns'(1) by simp
    moreover have "W - set (n # ns) \<union> set ns' = W - {n} - set ns \<union> set ns'" by auto
    ultimately show ?thesis using ns' by (intro exI[of _ ns'] exI[of _ t]) auto
  next
    case (Inl e)
    then have e: "\<nexists>x. e = PermanentError x" using retried[OF n(1) Cons.prems(1)] fn by auto
    have dep: "\<exists>m \<in> deps n. m \<in> W"
    proof (rule ccontr)
      assume "\<not> ?thesis"
      then have "\<forall>m \<in> deps n. Q m s" using Cons.prems(4) deps[OF n(1)] by blast
      with ready[OF n(1) Cons.prems(1)] fn Inl show False by auto
    qed
    have "\<forall>m \<in> N - W. Q m s1" using keep Cons.prems(4) n(2) by blast
    from Cons.IH[OF s1 n(4,5) this n(6)] obtain ns' t where ns': "run_round (map f ns) s1 = (Inr (map f ns', False), t)"
      "set ns' \<subseteq> set ns" "distinct ns'" "I t" "\<forall>m \<in> set ns'. \<exists>k \<in> deps m. k \<in> W"
      "\<forall>m \<in> N - (W - set ns \<union> set ns'). Q m t" by blast
    have "run_round (map f (n # ns)) s = (Inr (map f (n # ns'), False), t)"
      using fn Inl e ns'(1) by (cases e) (simp_all add: abind_def aret_def)
    moreover have "W - set (n # ns) \<union> set (n # ns') = W - set ns \<union> set ns'" using n(2,3) by auto
    ultimately show ?thesis using ns' dep n(3) by (intro exI[of _ "n # ns'"] exI[of _ t]) auto
  qed
qed

lemma dependent_tasks_end:
  assumes ready: "\<And>n s. n \<in> N \<Longrightarrow> I s \<Longrightarrow> \<forall>m \<in> deps n. Q m s \<Longrightarrow> \<exists>t. f n s = (Inr (), t)"
    and retried: "\<And>n s x t. n \<in> N \<Longrightarrow> I s \<Longrightarrow> f n s \<noteq> (Inl (PermanentError x), t)"
    and deps: "\<And>n. n \<in> N \<Longrightarrow> deps n \<subseteq> N" and rank: "\<And>n m. n \<in> N \<Longrightarrow> m \<in> deps n \<Longrightarrow> rank m < (rank n :: nat)"
  shows "I s \<Longrightarrow> distinct ns \<Longrightarrow> set ns \<subseteq> N \<Longrightarrow> \<forall>n \<in> N - set ns. Q n s \<Longrightarrow> \<forall>n \<in> set ns. r \<le> rank n \<and> rank n < r + k \<Longrightarrow>
    \<exists>t. run_task k tick (map f ns) False s = (Inr (), t) \<and> I t \<and> (\<forall>n \<in> N. Q n t)"
proof (induction k arbitrary: s ns r)
  case 0
  then have "ns = []" by (cases ns) auto
  with 0 show ?case by (auto simp: aret_def)
next
  case (Suc k)
  show ?case
  proof (cases ns)
    case Nil
    with Suc.prems show ?thesis by (auto simp: aret_def)
  next
    case (Cons n l)
    obtain ns' t where run: "run_round (map f ns) s = (Inr (map f ns', False), t)" "set ns' \<subseteq> set ns" "distinct ns'" "I t"
      "\<forall>n \<in> set ns'. \<exists>m \<in> deps n. m \<in> set ns" "\<forall>n \<in> N - set ns'. Q n t"
      using round_progress[of deps s ns "set ns", OF ready retried deps Suc.prems(1-4)] by auto
    have "Suc r \<le> rank n \<and> rank n < Suc r + k" if n: "n \<in> set ns'" for n
    proof -
      from run(5) n obtain m where "m \<in> deps n" "m \<in> set ns" by blast
      then show ?thesis using rank[of n m] Suc.prems(3,5) run(2) n by fastforce
    qed
    then obtain t' where "run_task k tick (map f ns') False (tick t) = (Inr (), t')" "I t'" "\<forall>n \<in> N. Q n t'"
      using Suc.IH[of "tick t" ns' "Suc r"] tick_inv[OF run(4)] tick_frame run(2,3,6) Suc.prems(3) by blast
    moreover have "run_task (Suc k) tick (map f ns) False s = run_task k tick (map f ns') False (tick t)"
      using run(1) Cons by (simp add: abind_def amod_def del: run_round.simps)
    ultimately show ?thesis by auto
  qed
qed

end

text \<open>
  A permanent error of one task is reported, but only after every other task has succeeded or failed
  for good: what \<open>run_task\<close> raises is always permanent, unless the rounds run out.
\<close>

lemma run_task_errors:
  "run_task k tick ms permanent s = (Inl e, t) \<Longrightarrow> e = PermanentError ''Permanent error occured.'' \<or> e = still_running"
proof (induction k arbitrary: ms permanent s)
  case 0
  then show ?case by (cases ms) (auto simp: aret_def araise_def split: if_splits)
next
  case (Suc k)
  show ?case
  proof (cases ms)
    case Nil
    with Suc.prems show ?thesis by (auto simp: aret_def araise_def split: if_splits)
  next
    case (Cons m l)
    obtain retry p s1 where run: "run_round ms s = (Inr (retry, p), s1)" using round_total[of ms s] by auto
    with Suc.prems Cons have "run_task k tick retry (permanent \<or> p) (tick s1) = (Inl e, t)"
      by (auto simp: abind_def amod_def simp del: run_round.simps)
    then show ?thesis by (rule Suc.IH)
  qed
qed

section \<open>The whole deployment\<close>

definition service_applied :: "status_env \<Rightarrow> json \<Rightarrow> string \<Rightarrow> json \<Rightarrow> bool" where
  "service_applied env spec n obj \<longleftrightarrow>
     jlookup obj [''status'', ''services'', n, ''state''] = Some (JStr ''APPLIED'') \<and>
     jlookup obj [''status'', ''services'', n, ''fingerprint''] = Some (JStr (spec_hash env spec)) \<and>
     jlookup obj [''status'', ''services'', n, ''controller_version''] = Some (JStr (release_string env))"

definition service_gone :: "string \<Rightarrow> json \<Rightarrow> bool" where
  "service_gone n obj \<longleftrightarrow> jlookup obj [''status'', ''services'', n] = None"

text \<open>
  The contract of the registry: a successful \<open>apply\<close> or \<open>delete\<close> leaves its mark on the status of its
  service, and whatever happens the statuses of the others and the specification stay.
\<close>

locale managed_services =
  fixes he :: "'w osdpl_world_scheme handle_env"
  assumes apply_done: "he_registry he n = Some ops \<Longrightarrow> so_apply ops s = (Inr u, t) \<Longrightarrow>
      service_applied (he_status he) (mspec s) n (osdplst t)"
    and delete_done: "he_registry he n = Some ops \<Longrightarrow> so_delete ops s = (Inr u, t) \<Longrightarrow> service_gone n (osdplst t)"
    and ops_spec: "he_registry he n = Some ops \<Longrightarrow> keeps mspec (so_apply ops)"
      "he_registry he n = Some ops \<Longrightarrow> keeps mspec (so_delete ops)"
    and ops_frame: "he_registry he n = Some ops \<Longrightarrow> m \<noteq> n \<Longrightarrow> keeps (at_service m ks) (so_apply ops)"
      "he_registry he n = Some ops \<Longrightarrow> m \<noteq> n \<Longrightarrow> keeps (at_service m ks) (so_delete ops)"
    and clock_frame: "mspec (he_tick he s) = mspec s" "at_service m ks (he_tick he s) = at_service m ks s"
    and order_set: "finite S \<Longrightarrow> set (he_order he S) = {x. JStr x \<in> S}"
    and order_distinct: "distinct (he_order he S)"

lemma service_applied_at:
  "service_applied env spec n (osdplst s) \<longleftrightarrow>
     at_service n [''state''] s = Some (JStr ''APPLIED'') \<and>
     at_service n [''fingerprint''] s = Some (JStr (spec_hash env spec)) \<and>
     at_service n [''controller_version''] s = Some (JStr (release_string env))"
  by (simp add: service_applied_def at_service_def)

lemma service_gone_at: "service_gone n (osdplst s) \<longleftrightarrow> at_service n [] s = None"
  by (simp add: service_gone_def at_service_def)

lemma amap_lookup:
  "amap (lookup_service he) ns s = (Inr l, t) \<Longrightarrow> t = s \<and> (\<forall>n \<in> set ns. he_registry he n \<noteq> None) \<and>
   l = map (\<lambda>n. the (he_registry he n)) ns"
proof (induction ns arbitrary: l)
  case (Cons n ns)
  then show ?case
    by (auto simp: abind_eq_Inr aret_def lookup_service_def alift_def split: option.splits)
qed (simp add: aret_def)

context managed_services
begin

definition task_of :: "string list \<Rightarrow> string \<Rightarrow> ('w osdpl_world_scheme, unit) act" where
  "task_of update n = (if n \<in> set update then so_apply else so_delete) (the (he_registry he n))"

definition task_done :: "json \<Rightarrow> string list \<Rightarrow> string \<Rightarrow> 'w osdpl_world_scheme \<Rightarrow> bool" where
  "task_done spec update n s =
     (if n \<in> set update then service_applied (he_status he) spec n (osdplst s) else service_gone n (osdplst s))"

lemma tasks_contract:
  "task_contract (task_of update) (\<lambda>s. mspec s = spec) (task_done spec update) {n. he_registry he n \<noteq> None} (he_tick he)"
proof
  fix n :: string and s t :: "'w osdpl_world_scheme" and r :: "unit res" and u
  assume "n \<in> {n. he_registry he n \<noteq> None}"
  then obtain ops where ops: "he_registry he n = Some ops" by auto
  show "mspec t = spec" if "mspec s = spec" "task_of update n s = (r, t)"
    using that keepsD[OF ops_spec(1)[OF ops]] keepsD[OF ops_spec(2)[OF ops]] ops
    by (auto simp: task_of_def split: if_splits)
  show "task_done spec update n t" if "mspec s = spec" "task_of update n s = (Inr u, t)"
    using that apply_done[OF ops] delete_done[OF ops] ops
    by (auto simp: task_of_def task_done_def split: if_splits)
  show "task_done spec update n (he_tick he s)" if "task_done spec update n s"
    using that clock_frame(2)
    by (cases "n \<in> set update") (simp_all add: task_done_def service_applied_at service_gone_at)
next
  fix n m :: string and s t :: "'w osdpl_world_scheme" and r :: "unit res"
  assume m: "m \<in> {n. he_registry he n \<noteq> None}" "m \<noteq> n" "task_of update m s = (r, t)" "task_done spec update n s"
  then obtain ops where ops: "he_registry he m = Some ops" by auto
  have "at_service n ks t = at_service n ks s" for ks
    using m(2,3) ops keepsD[OF ops_frame(1)[OF ops]] keepsD[OF ops_frame(2)[OF ops]]
    by (auto simp: task_of_def split: if_splits)
  with m(4) show "task_done spec update n t"
    by (cases "n \<in> set update") (simp_all add: task_done_def service_applied_at service_gone_at)
next
  show "\<And>s. mspec s = spec \<Longrightarrow> mspec (he_tick he s) = spec" using clock_frame(1) by simp
qed

end

sublocale managed_services \<subseteq> tasks: task_contract "task_of update" "\<lambda>s. mspec s = spec" "task_done spec update"
    "{n. he_registry he n \<noteq> None}" "he_tick he" for update spec
  by (rule tasks_contract)

context managed_services
begin

lemma apply_and_delete_ok:
  assumes "apply_and_delete he update delete s = (Inr u, t)"
    and "distinct (update @ delete)"
  shows "mspec t = mspec s \<and> (\<forall>n \<in> set update. service_applied (he_status he) (mspec s) n (osdplst t)) \<and>
    (\<forall>n \<in> set delete. service_gone n (osdplst t))"
proof -
  obtain up del s1 s2 where l: "amap (lookup_service he) update s = (Inr up, s1)"
    "amap (lookup_service he) delete s1 = (Inr del, s2)"
    "run_tasks he (map so_apply up @ map so_delete del) s2 = (Inr u, t)"
    using assms(1) by (auto simp: apply_and_delete_def abind_eq_Inr)
  note up = amap_lookup[OF l(1)] and del = amap_lookup[OF l(2)]
  have "map so_apply up = map (task_of update) update" "map so_delete del = map (task_of update) delete"
    using up del assms(2) by (auto simp: task_of_def)
  then have tasks: "map so_apply up @ map so_delete del = map (task_of update) (update @ delete)" by simp
  have run: "run_task (he_rounds he) (he_tick he) (map (task_of update) (update @ delete)) False s = (Inr u, t)"
    using l(3) up del unfolding tasks by (simp add: run_tasks_def)
  have sub: "set (update @ delete) \<subseteq> {n. he_registry he n \<noteq> None}" using up del by auto
  from tasks.run_task_post[of s "mspec s" "update @ delete" _ update, OF refl assms(2) sub run]
  have "mspec t = mspec s" and all: "n \<in> set (update @ delete) \<Longrightarrow> task_done (mspec s) update n t" for n by auto
  moreover have "service_applied (he_status he) (mspec s) n (osdplst t)" if "n \<in> set update" for n
    using all[of n] that by (simp add: task_done_def)
  moreover have "service_gone n (osdplst t)" if "n \<in> set delete" for n
  proof -
    have "n \<notin> set update" using that assms(2) by auto
    then show ?thesis using all[of n] that by (simp add: task_done_def)
  qed
  ultimately show ?thesis by blast
qed

end

text \<open>The last write of the handler.\<close>

lemma set_osdpl_status_at:
  assumes "set_osdpl_status env st spec changes cause obj = Inr obj'"
  shows "jlookup obj' [''status'', ''osdpl'', ''state''] = Some (JStr st)"
    and "jlookup obj' [''status'', ''osdpl'', ''fingerprint''] = Some (JStr (spec_hash env spec))"
    and "jlookup obj' [''status'', ''osdpl'', ''controller_version''] = Some (JStr (release_string env))"
    and "diverge [''status'', ''osdpl''] ks \<Longrightarrow> jlookup obj' ks = jlookup obj ks"
proof -
  obtain v where obj': "obj' = patch_at obj [''status'', ''osdpl''] (JObj
      ([(''openstack_version'', v), (''controller_version'', JStr (release_string env)),
        (''fingerprint'', JStr (spec_hash env spec)), (''timestamp'', JStr (timestamp env))] @
       (if cluster_release env \<noteq> [] then [(''release'', JStr (cluster_release env))] else []) @
       [(''changes'', JStr changes), (''cause'', JStr cause), (''state'', JStr st)]))" (is "_ = patch_at obj ?p (JObj ?d)")
    using assms by (auto simp: set_osdpl_status_def generate_osdpl_status_generic_def res_simps)
  have ok: "dict_ok ?d" by (simp add: dict_ok_def)
  have at: "jlookup obj' (?p @ [k]) = patched (jlookup obj (?p @ [k])) (map_of ?d k)" for k
    unfolding obj' by (rule patch_obj_at[OF ok])
  show "jlookup obj' [''status'', ''osdpl'', ''state''] = Some (JStr st)"
    using at[of "''state''"] by (simp add: patched_def merge_patch_leaf del: jlookup.simps)
  show "jlookup obj' [''status'', ''osdpl'', ''fingerprint''] = Some (JStr (spec_hash env spec))"
    using at[of "''fingerprint''"] by (simp add: patched_def merge_patch_leaf del: jlookup.simps)
  show "jlookup obj' [''status'', ''osdpl'', ''controller_version''] = Some (JStr (release_string env))"
    using at[of "''controller_version''"] by (simp add: patched_def merge_patch_leaf del: jlookup.simps)
  show "diverge ?p ks \<Longrightarrow> jlookup obj' ks = jlookup obj ks"
    unfolding obj' by (rule patch_at_other)
qed

text \<open>
  A successful handling of a deployment: the steps after the list of services is known, and what they
  leave in the status object.
\<close>

lemma patch_osdplst_Inr: "patch_osdplst f s = (Inr u, t) \<longleftrightarrow> (\<exists>obj. f (osdplst s) = Inr obj \<and> t = s\<lparr>osdplst := obj\<rparr>)"
  by (auto simp: patch_osdplst_def abind_eq_Inr aget_def alift_def amod_def)

lemma handle_steps:
  assumes "handle he ev s = (Inr out, t)" and "\<not> jtruthy draft" and "jget (ev_spec ev) ''draft'' JNull = Inr draft"
  shows "\<exists>spec s0 s1 A D u s2. he_get_mspec he s0 = (Inr spec, s1) \<and> services spec (ev_diff ev) = Inr (A, D) \<and>
    apply_and_delete he (he_order he A) (he_order he D) u = (Inr (), s2) \<and> mspec t = mspec s2 \<and>
    set_osdpl_status (he_status he) ''APPLIED'' (mspec s2) (ev_diff_text ev) (ev_reason ev) (osdplst s2) = Inr (osdplst t) \<and>
    out = ev_reason ev @ ''d''"
proof -
  note run = assms(1)[unfolded handle_def]
  show ?thesis using run assms(2,3)
    by (auto simp: abind_eq_Inr alift_def aret_def aget_def amod_def patch_kopf_def patch_osdplst_Inr Let_def
        split: prod.splits) blast
qed

text \<open>Applied services count as done in the progress.\<close>

lemma applied_is_settled:
  assumes "service_applied env spec n obj"
    and "jlookup obj [''status'', ''osdpl'', ''fingerprint''] = Some (JStr (spec_hash env spec))"
    and "jlookup obj [''status'', ''osdpl'', ''controller_version''] = Some (JStr (release_string env))"
  shows "\<exists>os st. jlookup obj [''status'', ''osdpl''] = Some os \<and> jlookup obj [''status'', ''services'', n] = Some st \<and>
    service_not_ready os st = Inr False"
proof -
  have field: "\<exists>d. jlookup obj p = Some (JObj d) \<and> map_of d k = Some v" if "jlookup obj (p @ [k]) = Some v" for p k v
    using that by (auto simp: jlookup_append split: option.splits json.splits)
  obtain os where os: "jlookup obj [''status'', ''osdpl''] = Some (JObj os)"
    "map_of os ''fingerprint'' = Some (JStr (spec_hash env spec))"
    using field[of "[''status'', ''osdpl'']" "''fingerprint''"] assms(2) by auto
  have os2: "map_of os ''controller_version'' = Some (JStr (release_string env))"
    using field[of "[''status'', ''osdpl'']" "''controller_version''"] assms(3) os(1) by auto
  obtain st where st: "jlookup obj [''status'', ''services'', n] = Some (JObj st)" "map_of st ''state'' = Some (JStr ''APPLIED'')"
    using field[of "[''status'', ''services'', n]" "''state''"] assms(1) by (auto simp: service_applied_def)
  have "map_of st ''fingerprint'' = Some (JStr (spec_hash env spec))"
    "map_of st ''controller_version'' = Some (JStr (release_string env))"
    using field[of "[''status'', ''services'', n]" "''fingerprint''"]
      field[of "[''status'', ''services'', n]" "''controller_version''"] assms(1) st(1)
    by (auto simp: service_applied_def)
  with os os2 st have "service_not_ready (JObj os) (JObj st) = Inr False"
    by (simp add: service_not_ready_def item_differs_def)
  with os(1) st(1) show ?thesis by blast
qed

context managed_services
begin

lemma handle_ok:
  assumes "handle he ev s = (Inr out, t)" and "jget (ev_spec ev) ''draft'' JNull = Inr draft" and "\<not> jtruthy draft"
    and disjoint: "\<And>s0 s1 spec A D. he_get_mspec he s0 = (Inr spec, s1) \<Longrightarrow>
      services spec (ev_diff ev) = Inr (A, D) \<Longrightarrow> A \<inter> D = {}"
  shows "\<exists>spec s0 s1 A D. he_get_mspec he s0 = (Inr spec, s1) \<and> services spec (ev_diff ev) = Inr (A, D) \<and>
    jlookup (osdplst t) [''status'', ''osdpl'', ''state''] = Some (JStr ''APPLIED'') \<and>
    (\<forall>n. JStr n \<in> A \<longrightarrow> (\<exists>os st. jlookup (osdplst t) [''status'', ''osdpl''] = Some os \<and>
       jlookup (osdplst t) [''status'', ''services'', n] = Some st \<and> service_not_ready os st = Inr False)) \<and>
    (\<forall>n. JStr n \<in> D \<longrightarrow> jlookup (osdplst t) [''status'', ''services'', n] = None)"
proof -
  obtain spec s0 s1 A D v s2 where run: "he_get_mspec he s0 = (Inr spec, s1)" "services spec (ev_diff ev) = Inr (A, D)"
    "apply_and_delete he (he_order he A) (he_order he D) v = (Inr (), s2)" "mspec t = mspec s2"
    "set_osdpl_status (he_status he) ''APPLIED'' (mspec s2) (ev_diff_text ev) (ev_reason ev) (osdplst s2) = Inr (osdplst t)"
    using handle_steps[OF assms(1,3,2)] by blast
  have fin: "finite A" "finite D" using services_finite[OF run(2)] by auto
  have "distinct (he_order he A @ he_order he D)"
    using disjoint[OF run(1,2)] by (auto simp: order_distinct order_set fin)
  from apply_and_delete_ok[OF run(3) this] have spec: "mspec s2 = mspec v"
    and up: "\<And>n. JStr n \<in> A \<Longrightarrow> service_applied (he_status he) (mspec v) n (osdplst s2)"
    and del: "\<And>n. JStr n \<in> D \<Longrightarrow> service_gone n (osdplst s2)" by (auto simp: order_set fin)
  note w = set_osdpl_status_at[OF run(5)]
  have same: "jlookup (osdplst t) ([''status'', ''services'', n] @ ks) = jlookup (osdplst s2) ([''status'', ''services'', n] @ ks)" for n ks
    by (rule w(4)) simp
  have applied: "service_applied (he_status he) (mspec s2) n (osdplst t)" if "JStr n \<in> A" for n
    using up[OF that] same[of n "[''state'']"] same[of n "[''fingerprint'']"] same[of n "[''controller_version'']"] spec
    by (simp add: service_applied_def)
  have "\<forall>n. JStr n \<in> A \<longrightarrow> (\<exists>os st. jlookup (osdplst t) [''status'', ''osdpl''] = Some os \<and>
       jlookup (osdplst t) [''status'', ''services'', n] = Some st \<and> service_not_ready os st = Inr False)"
    using applied_is_settled[OF applied w(2,3)] by blast
  moreover have "\<forall>n. JStr n \<in> D \<longrightarrow> jlookup (osdplst t) [''status'', ''services'', n] = None"
    using del same[of _ "[]"] by (auto simp: service_gone_def)
  ultimately show ?thesis using run(1,2) w(1) by blast
qed

end

section \<open>The services of the base class keep the contract\<close>

definition base_ops :: "'w svc_world_scheme controller_env \<Rightarrow> 'w svc_world_scheme service \<Rightarrow>
    (json \<Rightarrow> ('w svc_world_scheme, unit) act) option \<Rightarrow> 'w svc_world_scheme service_ops" where
  "base_ops ce svc rotate_secret = \<lparr>so_apply = service_apply ce svc [], so_upgrade = upgrade_service ce svc [],
     so_delete = delete_service ce svc, so_healthy = service_healthy ce svc, so_rotate = rotate_secret\<rparr>"

lemma base_services_managed:
  fixes he :: "'w osdpl_world_scheme handle_env"
  assumes "service_cluster ce installed"
    and reg: "\<And>n ops. he_registry he n = Some ops \<Longrightarrow>
      \<exists>svc rot. svc_name svc = n \<and> args_ok installed svc \<and> hooks_ok svc \<and> ops = base_ops ce svc rot"
    and "he_status he = ce_status ce" and "he_tick he = ce_tick ce"
    and order: "\<And>S. finite S \<Longrightarrow> set (he_order he S) = {x. JStr x \<in> S}" "\<And>S. distinct (he_order he S)"
  shows "managed_services he"
proof -
  note sc = assms(1)
  show ?thesis
  proof
    fix n ops s u t assume "he_registry he n = Some ops" and run: "so_apply ops s = (Inr u, t)"
    then obtain svc rot where svc: "svc_name svc = n" "args_ok installed svc" "hooks_ok svc" "ops = base_ops ce svc rot"
      using reg by blast
    obtain s1 s2 where r: "before_apply svc s = (Inr (), s1)" "apply_service ce svc [] s1 = (Inr (), s2)"
      "after_apply svc s2 = (Inr (), t)"
      using run svc(4) by (auto simp: base_ops_def service_apply_def abind_eq_Inr)
    have hooks: "keeps mspec (before_apply svc)" "keeps (\<lambda>s. (osdplst s, mspec s)) (after_apply svc)"
      using svc(3) by (simp_all add: hooks_ok_def)
    have "mspec s1 = mspec s" by (rule keepsD[OF hooks(1) r(1)])
    moreover have "osdplst t = osdplst s2" using keepsD[OF hooks(2) r(3)] by simp
    ultimately show "service_applied (he_status he) (mspec s) n (osdplst t)"
      using service_cluster.apply_status(2)[OF sc svc(2) r(2)] svc(1) assms(3) by (simp add: service_applied_def)
  next
    fix n ops s u t assume "he_registry he n = Some ops" and run: "so_delete ops s = (Inr u, t)"
    then obtain svc rot where svc: "svc_name svc = n" "ops = base_ops ce svc rot" using reg by blast
    then have "delete_service ce svc s = (Inr u, t)" using run by (simp add: base_ops_def)
    from service_cluster.delete_service_ok[OF sc this] svc(1) show "service_gone n (osdplst t)"
      by (simp add: service_gone_def del: jlookup.simps)
  next
    fix n ops assume "he_registry he n = Some ops"
    then obtain svc rot where svc: "svc_name svc = n" "args_ok installed svc" "hooks_ok svc" "ops = base_ops ce svc rot"
      using reg by blast
    show "keeps mspec (so_apply ops)"
      using service_cluster.service_apply_keeps(1)[OF sc svc(2,3)] svc(4) by (simp add: base_ops_def)
    show "keeps mspec (so_delete ops)"
      using service_cluster.delete_keeps(1)[OF sc] svc(4) by (simp add: base_ops_def)
    fix m ks assume "m \<noteq> n"
    then show "keeps (at_service m ks) (so_apply ops)" "keeps (at_service m ks) (so_delete ops)"
      using service_cluster.service_apply_keeps(2)[OF sc svc(2,3)] service_cluster.delete_keeps(2)[OF sc] svc(1,4)
      by (simp_all add: base_ops_def)
  next
    fix s m ks
    show "mspec (he_tick he s) = mspec s" using service_cluster.clock_keeps(2)[OF sc] assms(4) by simp
    show "at_service m ks (he_tick he s) = at_service m ks s"
      using service_cluster.clock_keeps(3)[OF sc] assms(4) by (simp add: at_service_def del: jlookup.simps)
  next
    show "finite S \<Longrightarrow> set (he_order he S) = {x. JStr x \<in> S}" "distinct (he_order he S)" for S using order by auto
  qed
qed

section \<open>The cache after a restart\<close>

text \<open>
  After a restart the cache reports the images it was started with, so the next handling of the same
  images does not restart it; the template names its containers as the controller expects.
\<close>

lemma concat_slices: "0 < n \<Longrightarrow> concat (slices n xs) = xs"
proof (induction n xs rule: slices.induct)
  case (1 n xs)
  then show ?case by (subst slices.simps) auto
qed

lemma slices_size: "0 < n \<Longrightarrow> g \<in> set (slices n xs) \<Longrightarrow> g \<noteq> [] \<and> length g \<le> n"
proof (induction n xs rule: slices.induct)
  case (1 n xs)
  then show ?case by (subst (asm) (2) slices.simps) (auto split: if_splits)
qed

lemma py_remove_prefix: "a \<noteq> [] \<Longrightarrow> py_remove a (a @ s) = py_remove a s"
  by (cases a) (simp_all add: py_prefix_iff)

lemma create_daemons_ok:
  assumes "\<And>n g d. render_cache n g = Inr d \<Longrightarrow> containers d = map (\<lambda>(k, v). (CACHE_NAME @ ''-'' @ k, v)) g"
  shows "create_daemons render_cache i gs s = (Inr u, t) \<Longrightarrow>
   concat (map containers (cache_daemons t)) =
     concat (map containers (cache_daemons s)) @ map (\<lambda>(k, v). (CACHE_NAME @ ''-'' @ k, v)) (concat gs)"
proof (induction gs arbitrary: i s)
  case (Cons g gs)
  then obtain d where d: "render_cache (CACHE_NAME @ ''-'' @ show_nat i) g = Inr d"
    "create_daemons render_cache (Suc i) gs (s\<lparr>cache_daemons := cache_daemons s @ [d]\<rparr>) = (Inr u, t)"
    by (auto simp: abind_eq_Inr alift_def amod_def)
  from Cons.IH[OF d(2)] assms[OF d(1)] show ?case by simp
qed (simp add: aret_def)

lemma foldl_update_new:
  "dict_ok (d @ l) \<Longrightarrow> foldl (\<lambda>d (k, v). AList.update k v d) d l = d @ l"
proof (induction l arbitrary: d)
  case (Cons x l)
  obtain k v where x: "x = (k, v)" by (cases x)
  have "k \<notin> set (keys d)" using Cons.prems x by (auto simp: dict_ok_def)
  then have "AList.update k v d = d @ [(k, v)]" by (induction d) auto
  with Cons.IH[of "d @ [(k, v)]"] Cons.prems x show ?case by simp
qed simp

lemma cache_restart_ok:
  assumes "\<And>n g d. render_cache n g = Inr d \<Longrightarrow> containers d = map (\<lambda>(k, v). (CACHE_NAME @ ''-'' @ k, v)) g"
    and "dict_ok images" and clean: "\<And>k. k \<in> set (keys images) \<Longrightarrow> py_remove (CACHE_NAME @ ''-'') k = k"
    and "cache_restart render_cache images s = (Inr n, t)"
  shows "cache_images t = images"
proof -
  let ?gs = "if images = [] then [] else slices images_per_daemon images"
  have "create_daemons render_cache 0 ?gs (s\<lparr>cache_daemons := []\<rparr>) = (Inr (), t)"
    using assms(4) by (auto simp: cache_restart_def abind_eq_Inr amod_def aret_def Let_def)
  from create_daemons_ok[where render_cache = render_cache, OF assms(1) this]
  have all: "concat (map containers (cache_daemons t)) = map (\<lambda>(k, v). (CACHE_NAME @ ''-'' @ k, v)) images"
    by (simp add: concat_slices images_per_daemon_def)
  have strip: "py_remove (CACHE_NAME @ ''-'') (CACHE_NAME @ ''-'' @ k) = k" if "k \<in> set (keys images)" for k
    using py_remove_prefix[of "CACHE_NAME @ ''-''" k] clean[OF that] by simp
  have "foldl (\<lambda>d (n, i). AList.update (py_remove (CACHE_NAME @ ''-'') n) i d) d
      (map (\<lambda>(k, v). (CACHE_NAME @ ''-'' @ k, v)) l) = foldl (\<lambda>d (k, v). AList.update k v d) d l"
    if "set (keys l) \<subseteq> set (keys images)" for d l
    using that
  proof (induction l arbitrary: d)
    case (Cons x l)
    then have "fst x \<in> set (keys images)" by (cases x) simp
    from strip[OF this] Cons show ?case by (cases x) simp
  qed simp
  from this[of images "[]"] show ?thesis
    using foldl_update_new[of "[]" images] assms(2) by (simp add: cache_images_def all)
qed

end
