(* ===== verification/SimDeployment.thy ===== *)
theory SimDeployment
  imports OsdplController "HOL-Library.List_Lexorder" "HOL-Library.Char_ord"
begin

text \<open>
  A deployment whose Helm keeps the releases in the state of the model: a concrete instance of the
  contracts of Helm, of the services and of the registry, used by the witnesses of the properties.
\<close>

record sim_world = osdpl_world +
  sim_releases :: "(string \<times> json) list"
  sim_objects :: "(string \<times> string) list"

fun sim_helm :: "helm_cmd \<Rightarrow> (sim_world, helm_result) act" where
  "sim_helm HelmList = (\<lambda>s. (Inr \<lparr>returncode = 0,
     std_out = JList (map (\<lambda>n. JObj [(''name'', JStr n)]) (keys (sim_releases s))), std_err = []\<rparr>, s))"
| "sim_helm (HelmGetValues n) = (\<lambda>s. (Inr (case map_of (sim_releases s) n of
       Some v \<Rightarrow> \<lparr>returncode = 0, std_out = v, std_err = []\<rparr>
     | None \<Rightarrow> \<lparr>returncode = 1, std_out = JNull, std_err = ''Error: release: not found''\<rparr>), s))"
| "sim_helm (HelmUpgrade n url v inst) = (\<lambda>s.
     if inst \<or> map_of (sim_releases s) n \<noteq> None
     then (Inr \<lparr>returncode = 0, std_out = JNull, std_err = []\<rparr>, s\<lparr>sim_releases := AList.update n v (sim_releases s)\<rparr>)
     else (Inr \<lparr>returncode = 1, std_out = JNull, std_err = ''Error: UPGRADE FAILED''\<rparr>, s))"
| "sim_helm (HelmDelete n) = (\<lambda>s.
     if map_of (sim_releases s) n \<noteq> None
     then (Inr \<lparr>returncode = 0, std_out = JNull, std_err = []\<rparr>, s\<lparr>sim_releases := AList.delete n (sim_releases s)\<rparr>)
     else (Inr \<lparr>returncode = 1, std_out = JNull, std_err = ''Error: uninstall: Release not loaded: '' @ n\<rparr>, s))"
| "sim_helm (HelmRollbackCmd n) = (\<lambda>s. (Inr \<lparr>returncode = 0, std_out = JNull, std_err = []\<rparr>, s))"

definition sim_helm_env :: "sim_world helm_env" where
  "sim_helm_env = \<lparr>helm_run = sim_helm, k8s_known = \<lambda>k. k \<in> {''Job'', ''Deployment'', ''StatefulSet'', ''DaemonSet''},
     k8s_exists = \<lambda>k n. aget (\<lambda>s. (k, n) \<in> set (sim_objects s)),
     k8s_delete = \<lambda>k n. amod (\<lambda>s. s\<lparr>sim_objects := removeAll (k, n) (sim_objects s)\<rparr>),
     helm_tick = id, delete_rounds = 1, helm_tries = 3, charts_dir = ''/charts''\<rparr>"

definition sim_adopt :: "json \<Rightarrow> json res" where
  "sim_adopt data = rbind (jitem data ''metadata'') (\<lambda>m.
     rbind (jset m ''ownerReferences'' (JList [JObj [(''name'', JStr ''osh-dev'')]])) (jset data ''metadata''))"

definition sim_status :: status_env where
  "sim_status = \<lparr>release_string = ''1.0'', cluster_release = [], timestamp = ''now'', spec_hash = \<lambda>_. ''hash''\<rparr>"

definition sim_ce :: "sim_world controller_env" where
  "sim_ce = \<lparr>ce_helm = sim_helm_env, ce_status = sim_status, ce_vs = value_strategy,
     ce_jsonpath = \<lambda>f v. Inr [v], ce_sha256 = \<lambda>_. ''digest'', ce_adopt = sim_adopt,
     ce_class = \<lambda>k. k \<in> {''Job'', ''Deployment'', ''StatefulSet'', ''DaemonSet''},
     ce_purge_rounds = 2, ce_health_rounds = \<lambda>_. 1, ce_tick = id\<rparr>"

definition sim_installed :: "sim_world \<Rightarrow> string \<Rightarrow> json option" where
  "sim_installed s = map_of (sim_releases s)"

interpretation sim_cluster: service_cluster sim_ce sim_installed
proof
  fix cmd s ro t m
  assume run: "helm_run (ce_helm sim_ce) cmd s = (ro, t)"
  show "(osdplst t, mspec t) = (osdplst s, mspec s)"
    using run by (cases cmd) (auto simp: sim_ce_def sim_helm_env_def split: if_splits)
  show "cmd_target cmd \<noteq> Some m \<Longrightarrow> sim_installed t m = sim_installed s m"
    using run by (cases cmd) (auto simp: sim_ce_def sim_helm_env_def sim_installed_def delete_conv' split: if_splits)
next
  fix n url v i s r t
  assume "helm_run (ce_helm sim_ce) (HelmUpgrade n url v i) s = (Inr r, t)" "returncode r = 0"
  then show "sim_installed t n = Some v"
    by (auto simp: sim_ce_def sim_helm_env_def sim_installed_def split: if_splits)
next
  fix n s r t
  assume "helm_run (ce_helm sim_ce) (HelmDelete n) s = (Inr r, t)"
  then show "sim_installed t n = None"
    by (auto simp: sim_ce_def sim_helm_env_def sim_installed_def delete_conv' split: if_splits)
next
  fix s r t names
  assume run: "helm_run (ce_helm sim_ce) HelmList s = (Inr r, t)"
    and names: "rbind (jelems (std_out r)) release_names = Inr names"
  have "rmap (\<lambda>r. rbind (jitem r ''name'') jstr) (map ((\<lambda>n. JObj [(''name'', JStr n)]) \<circ> fst) ds) = Inr (keys ds)"
    for ds :: jdict by (induction ds) auto
  then have "names = keys (sim_releases s)"
    using run names by (auto simp: sim_ce_def sim_helm_env_def release_names_def)
  then show "set names = {n. sim_installed s n \<noteq> None}"
    using map_of_eq_None_iff[of "sim_releases s"] by (auto simp: sim_installed_def)
next
  fix k n
  show "keeps (\<lambda>s. (sim_installed s, osdplst s, mspec s)) (k8s_exists (ce_helm sim_ce) k n)"
    "keeps (\<lambda>s. (sim_installed s, osdplst s, mspec s)) (k8s_delete (ce_helm sim_ce) k n)"
    by (auto simp: sim_ce_def sim_helm_env_def sim_installed_def keeps_def amod_def aget_def)
qed (simp_all add: sim_ce_def sim_helm_env_def sim_installed_def)

text \<open>A service with one release of the chart \<open>nova\<close> and a job as its child object.\<close>

definition sim_bundle :: "string \<Rightarrow> json" where
  "sim_bundle rel = JObj [(''spec'', JObj [(''releases'', JList [JObj
     [(''name'', JStr rel), (''chart'', JStr ''nova''),
      (''values'', JObj [(''images'', JObj [(''tags'', JObj [(''nova_api'', JStr ''nova:2'')])])])]])])]"

definition sim_tree :: json where
  "sim_tree = JObj [(''nova'', JObj [(''Job'', JObj [(''nova-db-sync'', JObj
     [(''images'', JList [JStr ''nova_api'']), (''manifest'', JStr ''job_db_sync'')])])])]"

definition sim_service :: "string \<Rightarrow> string \<Rightarrow> string list \<Rightarrow> sim_world service" where
  "sim_service n rel available = \<lparr>svc_name = n, available_releases = available, health_groups = [],
     render_children = \<lambda>_. Inr sim_tree, template_args = aret jempty, svc_layers = \<lambda>_ _. Inr (sim_bundle rel),
     before_apply = aret (), after_apply = aret (), upgrade_hook = aret ()\<rparr>"

lemma sim_service_ok: "args_ok sim_installed (sim_service n rel available)" "hooks_ok (sim_service n rel available)"
  by (simp_all add: args_ok_def hooks_ok_def sim_service_def)

lemma sim_service_name: "svc_name (sim_service n rel available) = n"
  by (simp add: sim_service_def)

definition sim_spec :: "string list \<Rightarrow> json" where
  "sim_spec svcs = JObj [(''openstack_version'', JStr ''caracal''),
     (''features'', JObj [(''services'', JList (map JStr svcs))])]"

text \<open>The strings of a set in lexical order, and a registry of two services.\<close>

definition str_of :: "json \<Rightarrow> string option" where
  "str_of j = (case j of JStr x \<Rightarrow> Some x | _ \<Rightarrow> None)"

definition sim_order :: "json set \<Rightarrow> string list" where
  "sim_order S = sorted_list_of_set (the ` (Set.filter (\<lambda>x. x \<noteq> None) (str_of ` S)))"

lemma sim_order_set: "finite S \<Longrightarrow> set (sim_order S) = {x. JStr x \<in> S}"
proof -
  have "the ` (Set.filter (\<lambda>x. x \<noteq> None) (str_of ` S)) = {x. JStr x \<in> S}"
    by (force simp: str_of_def split: json.splits)
  moreover assume "finite S"
  ultimately show ?thesis by (metis (no_types, lifting) finite_filter finite_imageI set_sorted_list_of_set sim_order_def)
qed

definition sim_registry :: "string \<Rightarrow> sim_world service_ops option" where
  "sim_registry n =
     (if n = ''compute'' then Some (base_ops sim_ce (sim_service n ''openstack-nova'' [''openstack-nova'', ''nova-rabbitmq'']) None)
      else if n = ''dns'' then Some (base_ops sim_ce (sim_service n ''openstack-designate'' [''openstack-designate'']) None)
      else None)"

definition sim_he :: "string list \<Rightarrow> sim_world handle_env" where
  "sim_he svcs = \<lparr>he_status = sim_status,
     he_conf = \<lparr>OSCTL_CLUSTER_RELEASE = [], OSCTL_OPENSTACK_NODE_LABELS = \<lambda>_. [],
       nwl_parallel_max_gateway = 1, nwl_parallel_max_compute = 1\<rparr>,
     he_registry = sim_registry, he_order = sim_order, he_get_mspec = aret (sim_spec svcs),
     he_admin_ensure = aret (), he_admin_rotate = \<lambda>_. aret (), he_child_view = \<lambda>_. Inr (),
     he_cached = Inr [''nova_api''], he_artifacts = \<lambda>_. Inr [(''nova_api'', ''nova:2'')],
     he_render_cache = \<lambda>n images. Inr \<lparr>daemon_name = n,
       containers = map (\<lambda>(k, v). (''image-precaching-'' @ k, v)) images,
       daemon_object = JObj [(''status'', JObj [(''desiredNumberScheduled'', JInt 1), (''numberReady'', JInt 1)])]\<rparr>,
     he_suspend_descheduler = aret (), he_rounds = 2, he_tick = id\<rparr>"

lemma sim_registered:
  assumes reg: "he_registry (sim_he svcs) n = Some ops"
  shows "\<exists>svc rot. svc_name svc = n \<and> args_ok sim_installed svc \<and> hooks_ok svc \<and> ops = base_ops sim_ce svc rot"
proof -
  have "\<exists>rel available. ops = base_ops sim_ce (sim_service n rel available) None"
    using reg by (auto simp: sim_he_def sim_registry_def split: if_splits)
  then obtain rel available where "ops = base_ops sim_ce (sim_service n rel available) None" by blast
  then show ?thesis using sim_service_ok sim_service_name by blast
qed

interpretation sim_managed: managed_services "sim_he svcs" for svcs
proof (rule base_services_managed[OF sim_cluster.service_cluster_axioms])
  show "\<exists>svc rot. svc_name svc = n \<and> args_ok sim_installed svc \<and> hooks_ok svc \<and> ops = base_ops sim_ce svc rot"
    if "he_registry (sim_he svcs) n = Some ops" for n ops using sim_registered[OF that] .
  show "finite S \<Longrightarrow> set (he_order (sim_he svcs) S) = {x. JStr x \<in> S}" for S by (simp add: sim_he_def sim_order_set)
  show "distinct (he_order (sim_he svcs) S)" for S by (simp add: sim_he_def sim_order_def)
qed (simp_all add: sim_he_def sim_ce_def)

definition sim_start :: sim_world where
  "sim_start = \<lparr>nodes = [], pods = [], locks = [], osdpl = None, disable_notifications = [], clock = ''now'',
     osdplst = jempty, mspec = jempty, status_exists = False, kopf_patch = jempty, cache_daemons = [],
     sim_releases = [(''nova-rabbitmq'', jempty), (''openstack-designate'', jempty)], sim_objects = [(''Job'', ''nova-db-sync'')]\<rparr>"

definition sim_event :: osdpl_event where
  "sim_event = \<lparr>ev_name = ''osh-dev'', ev_spec = jempty, ev_reason = ''update'', ev_old = jempty, ev_new = jempty,
     ev_diff = [\<lparr>field_path = [''spec'', ''features'', ''services''],
       old_value = JList [JStr ''compute'', JStr ''dns''], new_value = JList [JStr ''compute'']\<rparr>],
     ev_diff_text = ''diff''\<rparr>"

lemma sim_run:
  "fst (handle (sim_he [''compute'']) sim_event sim_start) = Inr ''updated''"
  by code_simp

text \<open>The deployment with its specification, a service whose bundle cannot be rendered, one that cannot be upgraded.\<close>

definition sim_ready :: sim_world where
  "sim_ready = sim_start\<lparr>mspec := sim_spec [''compute'']\<rparr>"

definition sim_compute :: "sim_world service" where
  "sim_compute = sim_service ''compute'' ''openstack-nova'' [''openstack-nova'', ''nova-rabbitmq'']"

definition sim_broken :: "sim_world service" where
  "sim_broken = sim_compute\<lparr>svc_layers := \<lambda>_ _. Inl TemplateNotFound, upgrade_hook := araise ApiError\<rparr>"

lemma sim_compute_ok: "args_ok sim_installed sim_compute" "hooks_ok sim_compute"
  "args_ok sim_installed sim_broken" "hooks_ok sim_broken"
  using sim_service_ok by (simp_all add: sim_compute_def sim_broken_def args_ok_def hooks_ok_def sim_service_def)

text \<open>Two releases of one bundle: the one of \<open>nova\<close> is installed with an older image, the other is new.\<close>

definition sim_release :: "string \<Rightarrow> string \<Rightarrow> string \<Rightarrow> json" where
  "sim_release rel chart img = JObj [(''name'', JStr rel), (''chart'', JStr chart),
     (''values'', JObj [(''images'', JObj [(''tags'', JObj [(''nova_api'', JStr img)])])])]"

definition sim_two :: "json list \<Rightarrow> json" where
  "sim_two rels = JObj [(''spec'', JObj [(''releases'', JList rels)])]"

definition sim_installed_nova :: sim_world where
  "sim_installed_nova = sim_ready\<lparr>sim_releases :=
     [(''openstack-nova'', JObj [(''images'', JObj [(''tags'', JObj [(''nova_api'', JStr ''nova:1'')])])])]\<rparr>"

definition sim_jobs_after :: "json list \<Rightarrow> (string \<times> string) list" where
  "sim_jobs_after rels = sim_objects (snd (cleanup_immutable_resources sim_ce sim_compute (sim_two rels) False sim_installed_nova))"

end
