(* ===== verification/Secrets.thy ===== *)
theory Secrets
  imports Utils Constants StatusObject
begin

text \<open>
  The secrets (\<open>secrets.py\<close>): generated names and passwords, the pair of secrets of a service with the
  rotation of its credentials, and the secrets in JSON format.  A string is the list of its UTF-8 bytes.
  The operating system's random bytes, the text form of JSON and the schema of a secret class are
  parameters.
\<close>

section \<open>Secret objects\<close>

text \<open>\<open>priority\<close> is the annotation \<open>SECRET_PRIORITY\<close>, a decimal number as text.\<close>

record secret_obj =
  s_data :: "(string \<times> string) list"
  s_priority :: "string option"
  s_labels :: "(string \<times> string) list"

type_synonym secret_key = "string \<times> string"

record secret_world =
  secrets :: "(secret_key \<times> secret_obj) list"

record secret_env =
  json_dumps :: "json \<Rightarrow> string"
  json_loads :: "string \<Rightarrow> json option"

definition get_secret :: "bool \<Rightarrow> secret_key \<Rightarrow> ('w secret_world_scheme, secret_obj option) act" where
  "get_secret silent k = (\<lambda>s. (case map_of (secrets s) k of
       Some x \<Rightarrow> Inr (Some x) | None \<Rightarrow> if silent then Inr None else Inl ObjectDoesNotExist, s))"

definition get_secret_data :: "secret_key \<Rightarrow> ('w secret_world_scheme, (string \<times> string) list) act" where
  "get_secret_data k = abind (get_secret False k) (\<lambda>x. aret (s_data (the x)))"

definition priority_of :: "secret_obj \<Rightarrow> int res" where
  "priority_of x = (case s_priority x of None \<Rightarrow> Inr 0 | Some p \<Rightarrow> py_int p)"

definition get_secret_priority :: "secret_key \<Rightarrow> ('w secret_world_scheme, int) act" where
  "get_secret_priority k = abind (get_secret False k) (\<lambda>x. alift (priority_of (the x)))"

text \<open>\<open>str(priority)\<close>\<close>

definition show_int :: "int \<Rightarrow> string" where
  "show_int i = (if i < 0 then ''-'' @ show_nat (nat (- i)) else show_nat (nat i))"

definition put_secret :: "secret_key \<Rightarrow> secret_obj \<Rightarrow> ('w secret_world_scheme, unit) act" where
  "put_secret k x = amod (\<lambda>s. s\<lparr>secrets := AList.update k x (secrets s)\<rparr>)"

definition set_secret_priority :: "secret_key \<Rightarrow> int \<Rightarrow> ('w secret_world_scheme, unit) act" where
  "set_secret_priority k p = abind (get_secret False k) (\<lambda>x.
     put_secret k ((the x)\<lparr>s_priority := Some (show_int p)\<rparr>))"

text \<open>
  \<open>kube.save_secret_data\<close>: an existing secret is patched, so keys that are not in the new data stay, as
  the annotations do.
\<close>

definition save_secret_with_labels ::
  "secret_key \<Rightarrow> (string \<times> string) list \<Rightarrow> (string \<times> string) list \<Rightarrow> ('w secret_world_scheme, unit) act" where
  "save_secret_with_labels k data labels = abind (get_secret True k) (\<lambda>found.
     put_secret k (case found of
       None \<Rightarrow> \<lparr>s_data = data, s_priority = None, s_labels = labels\<rparr>
     | Some x \<Rightarrow> x\<lparr>s_data := foldl (\<lambda>d (k, v). AList.update k v d) (s_data x) data,
         s_labels := foldl (\<lambda>d (k, v). AList.update k v d) (s_labels x) labels\<rparr>))"

definition save_secret_data :: "secret_key \<Rightarrow> (string \<times> string) list \<Rightarrow> ('w secret_world_scheme, unit) act" where
  "save_secret_data k data = save_secret_with_labels k data []"

text \<open>The secrets with a priority in descending order, then the ones without; of two with the same
  priority the later name counts.\<close>

fun sort_in :: "int \<Rightarrow> 'a \<Rightarrow> (int \<times> 'a) list \<Rightarrow> (int \<times> 'a) list" where
  "sort_in p x [] = [(p, x)]"
| "sort_in p x ((q, y) # l) =
     (if p = q then (p, x) # l else if p > q then (p, x) # (q, y) # l else (q, y) # sort_in p x l)"

fun secrets_by_priority ::
  "secret_key list \<Rightarrow> (int \<times> secret_key) list \<Rightarrow> secret_key list \<Rightarrow> ('w secret_world_scheme, secret_key list) act" where
  "secrets_by_priority [] res_map no_priority = aret (map snd res_map @ no_priority)"
| "secrets_by_priority (k # ks) res_map no_priority =
     abind (get_secret True k) (\<lambda>found.
     if found = None then secrets_by_priority ks res_map no_priority
     else abind (get_secret_priority k) (\<lambda>p.
       if p \<noteq> 0 then secrets_by_priority ks (sort_in p k res_map) no_priority
       else secrets_by_priority ks res_map (no_priority @ [k])))"

definition get_secrets_sorted :: "string \<Rightarrow> string list \<Rightarrow> ('w secret_world_scheme, secret_key list) act" where
  "get_secrets_sorted namespace names = secrets_by_priority (map (Pair namespace) names) [] []"

section \<open>Generated values\<close>

text \<open>\<open>urandom n\<close> gives \<open>n\<close> bytes.\<close>

definition password_chars :: string where
  "password_chars = ''aAbBcCdDeEfFgGhHiIjJkKlLmMnNpPqQrRsStTuUvVwWxXyYzZ1234567890''"

type_synonym 's urandom = "nat \<Rightarrow> ('s, nat list) act"

definition generate_password :: "'s urandom \<Rightarrow> nat \<Rightarrow> ('s, string) act" where
  "generate_password urandom n = abind (urandom n) (\<lambda>bs.
     aret (map (\<lambda>c. password_chars ! (c mod length password_chars)) bs))"

definition generate_name :: "'s urandom \<Rightarrow> string \<Rightarrow> nat \<Rightarrow> ('s, string) act" where
  "generate_name urandom prefix n = abind (generate_password urandom n) (\<lambda>p. aret (take n (prefix @ p)))"

definition creds :: "string \<Rightarrow> string \<Rightarrow> json" where
  "creds user pw = JObj [(''username'', JStr user), (''password'', JStr pw)]"

definition generate_credentials :: "'s urandom \<Rightarrow> string \<Rightarrow> nat \<Rightarrow> nat \<Rightarrow> ('s, json) act" where
  "generate_credentials urandom prefix username_length password_length =
     abind (generate_password urandom password_length) (\<lambda>pw.
     abind (generate_name urandom prefix username_length) (\<lambda>user. aret (creds user pw)))"

section \<open>Encoding\<close>

definition b64encode :: "string \<Rightarrow> string" where
  "b64encode s = b2a_base64 (map of_char s)"

definition b64decode :: "string \<Rightarrow> string res" where
  "b64decode s = rbind (a2b_base64 0 0 0 s) (\<lambda>bs. Inr (map char_of bs))"

text \<open>A dictionary is saved as JSON text, a string as it is; anything else has no \<open>encode\<close>.\<close>

definition encode_value :: "secret_env \<Rightarrow> json \<Rightarrow> string res" where
  "encode_value env v = (case v of
       JObj d \<Rightarrow> Inr (b64encode (json_dumps env v))
     | JStr s \<Rightarrow> Inr (b64encode s)
     | _ \<Rightarrow> Inl AttributeError)"

definition encode_data :: "secret_env \<Rightarrow> jdict \<Rightarrow> (string \<times> string) list res" where
  "encode_data env d = rmap (\<lambda>(k, v). rbind (encode_value env v) (\<lambda>t. Inr (k, t))) d"

text \<open>Whatever text is JSON is read as JSON, also when it was saved as a string.\<close>

definition decode_value :: "secret_env \<Rightarrow> string \<Rightarrow> json res" where
  "decode_value env t = rbind (b64decode t) (\<lambda>s.
     Inr (case json_loads env s of Some j \<Rightarrow> j | None \<Rightarrow> JStr s))"

definition decode_data :: "secret_env \<Rightarrow> (string \<times> string) list \<Rightarrow> jdict res" where
  "decode_data env d = rmap (\<lambda>(k, t). rbind (decode_value env t) (\<lambda>v. Inr (k, v))) d"

section \<open>Secret classes\<close>

text \<open>
  The fields of the dataclass, \<open>from_json\<close> as its schema loads a dictionary, \<open>create\<close>, and the fields a
  rotation changes and the ones it carries over.
\<close>

record 's secret_class =
  class_fields :: "string list"
  from_json :: "json \<Rightarrow> json res"
  create :: "('s, json) act"
  rotation_fields :: "json \<times> json"

function fill :: "json \<Rightarrow> json \<Rightarrow> json \<Rightarrow> json res"
  and fill_items :: "json \<Rightarrow> json \<Rightarrow> jdict \<Rightarrow> json res" where
  "fill src dst to_update = (case to_update of
       JObj d \<Rightarrow> fill_items src dst d
     | JList [] \<Rightarrow> Inr src
     | JList fs \<Rightarrow> rfold (\<lambda>f dst. rbind (jstr f) (\<lambda>f. rbind (jitem src f) (jset dst f))) fs dst
     | _ \<Rightarrow> Inr dst)"
| "fill_items src dst [] = Inr dst"
| "fill_items src dst (kv # d) =
     rbind (jitem src (fst kv)) (\<lambda>new.
     rbind (if \<not> jtruthy (snd kv) then Inr new
            else rbind (jitem dst (fst kv)) (\<lambda>old. fill new old (snd kv))) (\<lambda>v.
     rbind (jset dst (fst kv) v) (\<lambda>dst. fill_items src dst d)))"
  by pat_completeness auto
termination
  by (relation "measure (\<lambda>x. case x of Inl (s, d, p) \<Rightarrow> Suc (2 * size p)
        | Inr (s, d, p) \<Rightarrow> 2 * size_list (size_prod (\<lambda>_. 0) size) p)") (auto split: prod.splits)

declare fill.simps [simp del]

definition fill_new_fields :: "'s secret_class \<Rightarrow> json \<Rightarrow> json \<Rightarrow> ('s, json) act" where
  "fill_new_fields c secret to_update =
     abind (create c) (\<lambda>new_dict.
     abind (alift (fill new_dict secret to_update)) (\<lambda>secret. alift (from_json c secret)))"

definition update_format :: "'s secret_class \<Rightarrow> json \<Rightarrow> ('s, json) act" where
  "update_format c data =
     abind (alift (jitems data)) (\<lambda>d.
     fill_new_fields c data (JObj (map (\<lambda>f. (f, JList [])) (filter (\<lambda>f. f \<notin> set (keys d)) (class_fields c)))))"

section \<open>Pairs of secrets\<close>

definition secret_names :: "string \<Rightarrow> string list" where
  "secret_names base = [base, base @ ''-1'']"

definition multi_get_data :: "secret_env \<Rightarrow> string \<Rightarrow> string \<Rightarrow> string \<Rightarrow> ('w secret_world_scheme, json) act" where
  "multi_get_data env namespace base name =
     abind (get_secrets_sorted namespace (secret_names base)) (\<lambda>ks.
     if (namespace, name) \<notin> set ks then araise ObjectDoesNotExist
     else abind (get_secret_data (namespace, name)) (\<lambda>raw.
          abind (alift (decode_data env raw)) (\<lambda>d. aret (JObj d))))"

definition multi_save :: "secret_env \<Rightarrow> string \<Rightarrow> json \<Rightarrow> string \<Rightarrow> ('w secret_world_scheme, unit) act" where
  "multi_save env namespace secret name =
     abind (alift (rbind (jitems secret) (encode_data env))) (save_secret_data (namespace, name))"

definition multi_get ::
  "secret_env \<Rightarrow> 'w secret_world_scheme secret_class \<Rightarrow> string \<Rightarrow> string \<Rightarrow> string \<Rightarrow> ('w secret_world_scheme, json) act" where
  "multi_get env c namespace base name =
     abind (multi_get_data env namespace base name) (\<lambda>d. alift (from_json c d))"

definition nth_secret :: "string \<Rightarrow> string \<Rightarrow> nat \<Rightarrow> ('w secret_world_scheme, secret_key) act" where
  "nth_secret namespace base seq =
     abind (get_secrets_sorted namespace (secret_names base)) (\<lambda>ks.
     if seq < length ks then aret (ks ! seq) else araise IndexError)"

definition get_active ::
  "secret_env \<Rightarrow> 'w secret_world_scheme secret_class \<Rightarrow> string \<Rightarrow> string \<Rightarrow> ('w secret_world_scheme, json) act" where
  "get_active env c namespace base =
     abind (nth_secret namespace base 0) (\<lambda>k. multi_get env c namespace base (snd k))"

definition get_backup ::
  "secret_env \<Rightarrow> 'w secret_world_scheme secret_class \<Rightarrow> string \<Rightarrow> string \<Rightarrow> ('w secret_world_scheme, json) act" where
  "get_backup env c namespace base =
     abind (nth_secret namespace base 1) (\<lambda>k. multi_get env c namespace base (snd k))"

definition get_all_secrets ::
  "secret_env \<Rightarrow> 'w secret_world_scheme secret_class \<Rightarrow> string \<Rightarrow> string \<Rightarrow> ('w secret_world_scheme, json list) act" where
  "get_all_secrets env c namespace base =
     abind (get_active env c namespace base) (\<lambda>a. abind (get_backup env c namespace base) (\<lambda>b. aret [a, b]))"

definition the_pair :: "string \<Rightarrow> string \<Rightarrow> ('w secret_world_scheme, secret_key \<times> secret_key) act" where
  "the_pair namespace base =
     abind (get_secrets_sorted namespace (secret_names base)) (\<lambda>ks.
     case ks of [active, backup] \<Rightarrow> aret (active, backup) | _ \<Rightarrow> araise ValueError)"

definition promote ::
  "secret_env \<Rightarrow> 'w secret_world_scheme secret_class \<Rightarrow> string \<Rightarrow> string \<Rightarrow> int \<Rightarrow> ('w secret_world_scheme, unit) act" where
  "promote env c namespace base rotation_id =
     abind (the_pair namespace base) (\<lambda>(active, backup).
     abind (multi_get_data env namespace base (snd active)) (\<lambda>active_data.
     abind (multi_get_data env namespace base (snd backup)) (\<lambda>backup_data.
     abind (if jtruthy (snd (rotation_fields c)) then alift (fill active_data backup_data (snd (rotation_fields c)))
            else aret backup_data) (\<lambda>backup_data.
     abind (fill_new_fields c backup_data (fst (rotation_fields c))) (\<lambda>secret.
     abind (multi_save env namespace secret (snd backup)) (\<lambda>_.
     set_secret_priority backup rotation_id))))))"

definition rotate_secret ::
  "secret_env \<Rightarrow> 'w secret_world_scheme secret_class \<Rightarrow> string \<Rightarrow> string \<Rightarrow> int \<Rightarrow> ('w secret_world_scheme, unit) act" where
  "rotate_secret env c namespace base rotation_id =
     abind (the_pair namespace base) (\<lambda>(active, _).
     abind (get_secret_priority active) (\<lambda>secret_rotation_id.
     if secret_rotation_id = rotation_id then aret ()
     else if secret_rotation_id > rotation_id then
       araise (TemporaryError ''Cannot rotate, secret has greater rotation_id, than requested'')
     else promote env c namespace base rotation_id))"

text \<open>\<open>ensure\<close>: create what is missing, update what does not fit the class.\<close>

definition ensure_one ::
  "secret_env \<Rightarrow> 'w secret_world_scheme secret_class \<Rightarrow> string \<Rightarrow> string \<Rightarrow> string \<Rightarrow> ('w secret_world_scheme, unit) act" where
  "ensure_one env c namespace base name =
     atry (abind (multi_get env c namespace base name) (\<lambda>_. aret ()))
       (\<lambda>e. if e = ObjectDoesNotExist then
               abind (create c) (\<lambda>secret. multi_save env namespace secret name)
             else if e = ValidationError then
               abind (multi_get_data env namespace base name) (\<lambda>data.
               abind (update_format c data) (\<lambda>secret. multi_save env namespace secret name))
             else araise e)"

definition ensure_pair ::
  "secret_env \<Rightarrow> 'w secret_world_scheme secret_class \<Rightarrow> string \<Rightarrow> string \<Rightarrow> ('w secret_world_scheme, unit) act" where
  "ensure_pair env c namespace base = aforeach (ensure_one env c namespace base) (secret_names base)"

text \<open>Services add the accounts that are not in a secret yet.\<close>

definition ensure_accounts ::
  "secret_env \<Rightarrow> 'w secret_world_scheme secret_class \<Rightarrow> string list \<Rightarrow> string \<Rightarrow> string \<Rightarrow> string \<Rightarrow>
   ('w secret_world_scheme, unit) act" where
  "ensure_accounts env c service_accounts namespace base name =
     abind (multi_get env c namespace base name) (\<lambda>exists_secret.
     abind (alift (rbind (jitem exists_secret ''identity'') jitems)) (\<lambda>identity.
     let missing = filter (\<lambda>a. a \<notin> set (keys identity)) (remdups service_accounts) in
     if missing = [] then aret ()
     else abind (fill_new_fields c exists_secret (JObj [(''identity'', JObj (map (\<lambda>a. (a, JList [])) missing))]))
            (\<lambda>secret. multi_save env namespace secret name)))"

definition ensure_service_secret ::
  "secret_env \<Rightarrow> 'w secret_world_scheme secret_class \<Rightarrow> string list \<Rightarrow> string \<Rightarrow> string \<Rightarrow> ('w secret_world_scheme, unit) act" where
  "ensure_service_secret env c service_accounts namespace base =
     abind (ensure_pair env c namespace base) (\<lambda>_.
     aforeach (ensure_accounts env c service_accounts namespace base) (secret_names base))"

section \<open>The secrets of the controller\<close>

definition named_creds :: "'s urandom \<Rightarrow> string \<Rightarrow> ('s, json) act" where
  "named_creds urandom user = abind (generate_password urandom 32) (\<lambda>pw. aret (creds user pw))"

definition path_list :: "string list \<Rightarrow> json" where
  "path_list fs = JList (map JStr fs)"

definition admin_create :: "'s urandom \<Rightarrow> ('s, json) act" where
  "admin_create urandom =
     abind (named_creds urandom ''root'') (\<lambda>db.
     abind (named_creds urandom ''rabbitmq'') (\<lambda>messaging.
     abind (generate_name urandom ''admin'' 16) (\<lambda>user.
     abind (named_creds urandom user) (\<lambda>identity.
     aret (JObj [(''database'', db), (''messaging'', messaging), (''identity'', identity)])))))"

definition admin_rotation_fields :: "json \<times> json" where
  "admin_rotation_fields =
     (JObj [(''identity'', path_list [''password'']), (''database'', path_list [''password'']),
            (''messaging'', path_list [''password''])], jempty)"

definition admin_secret :: "(json \<Rightarrow> json res) \<Rightarrow> 's urandom \<Rightarrow> 's secret_class" where
  "admin_secret load urandom = \<lparr>class_fields = [''database'', ''messaging'', ''identity''], from_json = load,
     create = admin_create urandom, rotation_fields = admin_rotation_fields\<rparr>"

text \<open>\<open>{account: generate_credentials(account, 32)}\<close> for every account, later ones over earlier ones.\<close>

definition account_creds :: "'s urandom \<Rightarrow> string list \<Rightarrow> ('s, jdict) act" where
  "account_creds urandom accounts =
     abind (amap (\<lambda>a. abind (generate_credentials urandom a 32 32) (\<lambda>c. aret (a, c))) accounts)
       (\<lambda>l. aret (foldl (\<lambda>d (k, v). AList.update k v d) [] l))"

definition service_create :: "'s urandom \<Rightarrow> string \<Rightarrow> string list \<Rightarrow> ('s, json) act" where
  "service_create urandom service accounts =
     abind (alift (case map_of OS_SERVICES_MAP service of None \<Rightarrow> Inl (KeyError service) | Some srv \<Rightarrow> Inr srv)) (\<lambda>srv.
     abind (amap (\<lambda>ty. abind (generate_credentials urandom srv 16 32) (\<lambda>c. aret (ty, JObj [(''user'', c)])))
              [''database'', ''messaging'', ''notifications'']) (\<lambda>users.
     abind (account_creds urandom accounts) (\<lambda>identity.
     abind (generate_password urandom 16) (\<lambda>memcached.
     aret (JObj (users @ [(''identity'', JObj identity), (''memcached'', JStr memcached)]))))))"

definition per_account :: "string list \<Rightarrow> string \<Rightarrow> json" where
  "per_account accounts field = JObj (map (\<lambda>a. (a, path_list [field])) (remdups accounts))"

definition service_rotation_fields :: "string list \<Rightarrow> string list \<Rightarrow> json \<times> json" where
  "service_rotation_fields accounts protected_accounts =
     (JObj [(''database'', JObj [(''user'', path_list [''password''])]),
            (''messaging'', JObj [(''user'', path_list [''password''])]),
            (''notifications'', JObj [(''user'', path_list [''password''])]),
            (''identity'', per_account accounts ''password'')],
      if protected_accounts \<noteq> [] then JObj [(''identity'', per_account protected_accounts ''username'')] else jempty)"

definition service_fields :: "string list" where
  "service_fields = [''database'', ''messaging'', ''notifications'', ''identity'', ''memcached'']"

definition service_secret :: "(json \<Rightarrow> json res) \<Rightarrow> 's urandom \<Rightarrow> string \<Rightarrow> string list \<Rightarrow> string list \<Rightarrow> 's secret_class" where
  "service_secret load urandom service accounts protected_accounts =
     \<lparr>class_fields = service_fields, from_json = load, create = service_create urandom service accounts,
      rotation_fields = service_rotation_fields accounts protected_accounts\<rparr>"

text \<open>Classes with fields of their own: a generator for each, and the fields carried over as a whole.\<close>

definition with_fields :: "(string \<times> ('s, string) act) list \<Rightarrow> ('s, json) act \<Rightarrow> ('s, json) act" where
  "with_fields extra base_create =
     abind base_create (\<lambda>j.
     abind (amap (\<lambda>(k, m). abind m (\<lambda>x. aret (k, JStr x))) extra) (\<lambda>l.
     case j of JObj d \<Rightarrow> aret (JObj (foldl (\<lambda>d (k, v). AList.update k v d) d l)) | _ \<Rightarrow> araise AttributeError))"

definition carry_over :: "string list \<Rightarrow> json \<times> json \<Rightarrow> json \<times> json" where
  "carry_over fs rf = (fst rf, case snd rf of
     JObj d \<Rightarrow> JObj (foldl (\<lambda>d k. AList.update k (JList []) d) d fs) | j \<Rightarrow> j)"

definition extend_class :: "(string \<times> ('s, string) act) list \<Rightarrow> bool \<Rightarrow> 's secret_class \<Rightarrow> 's secret_class" where
  "extend_class extra carried c =
     c\<lparr>class_fields := class_fields c @ map fst extra, create := with_fields extra (create c),
       rotation_fields := (if carried then carry_over (map fst extra) (rotation_fields c) else rotation_fields c)\<rparr>"

definition barbican_secret :: "(json \<Rightarrow> json res) \<Rightarrow> 's urandom \<Rightarrow> string \<Rightarrow> string list \<Rightarrow> string list \<Rightarrow> 's secret_class" where
  "barbican_secret load urandom service accounts protected_accounts =
     extend_class [(''kek'', abind (generate_password urandom 32) (\<lambda>p. aret (b64encode p)))] True
       (service_secret load urandom service accounts protected_accounts)"

definition horizon_secret :: "(json \<Rightarrow> json res) \<Rightarrow> 's urandom \<Rightarrow> string \<Rightarrow> string list \<Rightarrow> string list \<Rightarrow> 's secret_class" where
  "horizon_secret load urandom service accounts protected_accounts =
     extend_class [(''secret_key'', generate_password urandom 32)] False
       (service_secret load urandom service accounts protected_accounts)"

definition neutron_secret :: "(json \<Rightarrow> json res) \<Rightarrow> 's urandom \<Rightarrow> string \<Rightarrow> string list \<Rightarrow> string list \<Rightarrow> 's secret_class" where
  "neutron_secret load urandom service accounts protected_accounts =
     extend_class [(''metadata_secret'', generate_password urandom 32), (''ipsec_secret_key'', generate_password urandom 16)]
       True (service_secret load urandom service accounts protected_accounts)"

definition drb_secret :: "(json \<Rightarrow> json res) \<Rightarrow> 's urandom \<Rightarrow> string list \<Rightarrow> 's secret_class" where
  "drb_secret load urandom accounts =
     \<lparr>class_fields = [''identity''], from_json = load,
      create = abind (account_creds urandom accounts) (\<lambda>d. aret (JObj [(''identity'', JObj d)])),
      rotation_fields = (JObj [(''identity'', per_account accounts ''password'')], jempty)\<rparr>"

section \<open>Single secrets\<close>

definition single_get ::
  "secret_env \<Rightarrow> 'w secret_world_scheme secret_class \<Rightarrow> secret_key \<Rightarrow> ('w secret_world_scheme, json) act" where
  "single_get env c k =
     abind (get_secret_data k) (\<lambda>raw. alift (rbind (decode_data env raw) (\<lambda>d. from_json c (JObj d))))"

definition single_save :: "secret_env \<Rightarrow> secret_key \<Rightarrow> json \<Rightarrow> ('w secret_world_scheme, unit) act" where
  "single_save env k secret = abind (alift (rbind (jitems secret) (encode_data env))) (save_secret_data k)"

text \<open>Here an empty list of fields, and an unknown name, take the whole new value.\<close>

fun single_fill :: "json \<Rightarrow> json \<Rightarrow> jdict \<Rightarrow> json res" where
  "single_fill new_dict secret [] = Inr secret"
| "single_fill new_dict secret ((name, fs) # l) =
     rbind (jitems secret) (\<lambda>d.
     rbind (jitem new_dict name) (\<lambda>new.
     rbind (if \<not> jtruthy fs \<or> name \<notin> set (keys d) then Inr new
            else rbind (jitem secret name) (\<lambda>old. rbind (jelems fs) (\<lambda>fs.
              rfold (\<lambda>f old. rbind (jstr f) (\<lambda>f. rbind (jitem new f) (jset old f))) fs old))) (\<lambda>v.
     rbind (jset secret name v) (\<lambda>secret. single_fill new_dict secret l))))"

definition single_ensure ::
  "secret_env \<Rightarrow> 'w secret_world_scheme secret_class \<Rightarrow> secret_key \<Rightarrow> ('w secret_world_scheme, unit) act" where
  "single_ensure env c k =
     atry (abind (single_get env c k) (\<lambda>_. aret ()))
       (\<lambda>e. if e = ObjectDoesNotExist then
               abind (create c) (\<lambda>secret. if jtruthy secret then single_save env k secret else aret ())
             else if e = ValidationError then
               abind (get_secret_data k) (\<lambda>raw.
               abind (alift (decode_data env raw)) (\<lambda>d.
               abind (create c) (\<lambda>new_dict.
               abind (alift (rbind (single_fill new_dict (JObj d)
                   (map (\<lambda>f. (f, JList [])) (filter (\<lambda>f. f \<notin> set (keys d)) (class_fields c)))) (from_json c))) (\<lambda>secret.
               single_save env k secret))))
             else araise e)"

definition galera_create :: "'s urandom \<Rightarrow> ('s, json) act" where
  "galera_create urandom =
     abind (amap (\<lambda>(n, l). abind (generate_credentials urandom n l 32) (\<lambda>c. aret (n, c)))
       [(''sst'', 3), (''exporter'', 8), (''audit'', 8), (''backup'', 8)]) (\<lambda>users.
     abind (generate_password urandom 64) (\<lambda>kek. aret (JObj (users @ [(''openssl_kek'', JStr kek)]))))"

definition powerdns_create :: "'s urandom \<Rightarrow> ('s, json) act" where
  "powerdns_create urandom =
     abind (generate_credentials urandom ''powerdns'' 16 32) (\<lambda>db.
     abind (generate_password urandom 16) (\<lambda>api_key.
     aret (JObj [(''api_key'', JStr api_key), (''database'', db)])))"

definition password_create :: "'s urandom \<Rightarrow> string \<Rightarrow> ('s, json) act" where
  "password_create urandom field = abind (generate_password urandom 32) (\<lambda>pw. aret (JObj [(field, JStr pw)]))"

definition user_create :: "'s urandom \<Rightarrow> string \<Rightarrow> ('s, json) act" where
  "user_create urandom prefix =
     abind (generate_password urandom 32) (\<lambda>pw.
     abind (generate_name urandom prefix 16) (\<lambda>user. aret (creds user pw)))"

section \<open>Secrets in JSON format and the proxy\<close>

text \<open>\<open>validate\<close> checks the data against the schema of the class.\<close>

definition json_secret_get ::
  "secret_env \<Rightarrow> (json \<Rightarrow> unit res) \<Rightarrow> secret_key \<Rightarrow> ('w secret_world_scheme, json) act" where
  "json_secret_get env validate k =
     abind (get_secret_data k) (\<lambda>raw. alift (
     rbind (rmap (\<lambda>(n, t). rbind (b64decode t) (\<lambda>s. case json_loads env s of
       Some j \<Rightarrow> Inr (n, j) | None \<Rightarrow> Inl ValueError)) raw) (\<lambda>d.
     rbind (validate (JObj d)) (\<lambda>_. Inr (JObj d)))))"

definition json_secret_save ::
  "secret_env \<Rightarrow> (json \<Rightarrow> unit res) \<Rightarrow> secret_key \<Rightarrow> json \<Rightarrow> ('w secret_world_scheme, unit) act" where
  "json_secret_save env validate k data =
     abind (alift (rbind (validate data) (\<lambda>_. jitems data))) (\<lambda>d.
     save_secret_data k (map (\<lambda>(n, v). (n, b64encode (json_dumps env v))) d))"

definition get_peer_ips :: "json \<Rightarrow> json list res" where
  "get_peer_ips data = rbind (jitems data) (rmap (\<lambda>(_, node_data). jitem_path node_data [''bgp'', ''source_ip'']))"

definition py_upper :: "string \<Rightarrow> string" where
  "py_upper s = map (\<lambda>c. let n = (of_char c :: nat) in if 97 \<le> n \<and> n \<le> 122 then char_of (n - 32) else c) s"

text \<open>\<open>sort_set\<close> is \<open>sorted\<close> on a set of strings, given as a list.\<close>

definition proxy_value :: "(string list \<Rightarrow> string list) \<Rightarrow> string list \<Rightarrow> string \<Rightarrow> string \<Rightarrow> string" where
  "proxy_value sort_set no_proxy k v =
     (if py_lower k = ''no_proxy'' \<and> no_proxy \<noteq> [] then py_join '','' (sort_set (remdups (py_split CHR '','' v @ no_proxy))) else v)"

definition set_proxy_var ::
  "(string list \<Rightarrow> string list) \<Rightarrow> string list \<Rightarrow> string \<Rightarrow> string \<Rightarrow> (string \<times> string) list \<Rightarrow> (string \<times> string) list" where
  "set_proxy_var sort_set no_proxy k v vars =
     (let w = proxy_value sort_set no_proxy k v
      in AList.update (if k = py_lower k then py_upper k else py_lower k) w (AList.update k w vars))"

definition get_proxy_vars ::
  "(string list \<Rightarrow> string list) \<Rightarrow> string list \<Rightarrow> (string \<times> string) list \<Rightarrow> (string \<times> string) list \<times> (string \<times> string) list" where
  "get_proxy_vars sort_set no_proxy data =
     foldl (\<lambda>(proxy_vars, custom_vars) (k, v).
       if k \<in> set PROXY_VARS_NAMES then (set_proxy_var sort_set no_proxy k v proxy_vars, custom_vars)
       else (proxy_vars, AList.update (py_lower k) v custom_vars)) ([], []) data"

end
