(* ===== verification/SecretRotation.thy ===== *)
theory SecretRotation
  imports Secrets
begin

text \<open>
  What the secrets promise: encoded values decode to themselves, a written priority reads back, \<open>_fill\<close>
  takes a field from the one or the other dictionary as its rules say, and a rotation promotes the backup
  secret, renews its rotated fields and leaves the other secret as it is.
\<close>

section \<open>Values\<close>

lemma a2b_b2a: "\<forall>b \<in> set bs. b < 256 \<Longrightarrow> a2b_base64 0 l p (b2a_base64 bs) = Inr bs"
proof (induction bs arbitrary: l p rule: b2a_base64.induct)
  case (2 a)
  then show ?case using byte_parts[of a] a2b_two[of a 0 l p] by simp
next
  case (3 a b)
  then have "a < 256" "b < 256" by simp_all
  then show ?case using byte_parts[of b]
    by (simp add: a2b_two del: a2b_base64.simps(2)) simp
next
  case (4 a b c rest)
  have "\<forall>b \<in> set rest. b < 256" using 4(2) by simp
  then show ?case using 4(1)[of 0 0] 4(2) by (simp add: a2b_group del: a2b_base64.simps(2))
qed simp

lemma b64decode_encode [simp]: "b64decode (b64encode s) = Inr s"
  by (simp add: b64decode_def b64encode_def a2b_b2a comp_def)

lemma show_nat_digits: "list_all is_digit (show_nat n)" "show_nat n \<noteq> []"
  by (induction n rule: show_nat.induct, subst show_nat.simps, simp add: digit_char(2))
     (subst show_nat.simps, simp)

lemma py_strip_plain: "list_all (\<lambda>c. \<not> is_space c) s \<Longrightarrow> py_strip s = s"
proof -
  assume s: "list_all (\<lambda>c. \<not> is_space c) s"
  have same: "dropWhile is_space t = t" if "list_all (\<lambda>c. \<not> is_space c) t" for t using that by (cases t) auto
  show ?thesis using same[OF s] same[of "rev s"] s by (simp add: py_strip_def list_all_iff)
qed

lemma digit_chars: "is_digit c \<Longrightarrow> \<not> is_space c \<and> c \<noteq> CHR ''-'' \<and> c \<noteq> CHR ''+'' \<and> c \<noteq> CHR ''_''"
  by (auto simp: is_digit_def is_space_def)

lemma py_int_show: "py_int (show_int i) = Inr i"
proof -
  define s where "s = show_nat (nat \<bar>i\<bar>)"
  have dig: "list_all is_digit s" "s \<noteq> []" "int_of_digits s = \<bar>i\<bar>"
    by (simp_all add: s_def show_nat_digits int_of_show_nat)
  then have plain: "list_all (\<lambda>c. \<not> is_space c) s" "CHR ''_'' \<notin> set s"
    using digit_chars by (auto simp: list_all_iff)
  obtain c r where c: "s = c # r" using dig(2) by (cases s) auto
  have h: "c \<noteq> CHR ''-''" "c \<noteq> CHR ''+''" using dig(1) c digit_chars by auto
  have one: "py_split CHR ''_'' s = [s]" using plain(2) by (rule py_split_no_sep)
  show ?thesis
  proof (cases "i < 0")
    case True
    then have "show_int i = CHR ''-'' # s" by (simp add: show_int_def s_def)
    moreover have "py_strip (CHR ''-'' # s) = CHR ''-'' # s"
      using plain(1) by (intro py_strip_plain) (simp add: is_space_def)
    ultimately show ?thesis using True dig one by (simp add: py_int_def Let_def isdigit_def)
  next
    case False
    then have "show_int i = s" by (simp add: show_int_def s_def)
    then show ?thesis using False dig one plain(1) c h
      by (simp add: py_int_def Let_def isdigit_def py_strip_plain)
  qed
qed

lemma password_chars_length: "length password_chars = 60"
  by (simp add: password_chars_def)

lemma generate_password_ok:
  assumes "\<And>n s bs t. urandom n s = (Inr bs, t) \<Longrightarrow> length bs = n"
    and "generate_password urandom n s = (Inr p, t)"
  shows "length p = n" "set p \<subseteq> set password_chars"
  using assms by (auto simp: generate_password_def abind_eq_Inr aret_def password_chars_length)

lemma generate_name_ok:
  assumes "\<And>n s bs t. urandom n s = (Inr bs, t) \<Longrightarrow> length bs = n"
    and "generate_name urandom prefix n s = (Inr p, t)"
  shows "length p = n" "take (length prefix) p = take n prefix"
proof -
  from assms(2) obtain w where w: "generate_password urandom n s = (Inr w, t)" "p = take n (prefix @ w)"
    by (auto simp: generate_name_def abind_eq_Inr aret_def)
  have "length w = n" by (rule generate_password_ok(1)[OF assms(1) w(1)])
  then show "length p = n" "take (length prefix) p = take n prefix"
    by (cases "n \<le> length prefix"; simp add: w(2))+
qed

section \<open>Which dictionary a field comes from\<close>

text \<open>
  The rules of \<open>_fill\<close> as a function of the path: \<open>Some True\<close> when the value there comes from the source,
  \<open>Some False\<close> when it stays what it was, \<open>None\<close> when the rules decide below it.
\<close>

fun takes :: "json \<Rightarrow> string list \<Rightarrow> bool option" where
  "takes (JObj d) (k # ks) =
     (case map_of d k of None \<Rightarrow> Some False | Some v \<Rightarrow> if jtruthy v then takes v ks else Some True)"
| "takes (JObj d) [] = (if d = [] then Some False else None)"
| "takes (JList fs) (k # ks) = Some (fs = [] \<or> JStr k \<in> set fs)"
| "takes (JList fs) [] = (if fs = [] then Some True else None)"
| "takes _ _ = Some False"

lemma jset_lookup:
  assumes "jset j k v = Inr r"
  shows "jlookup r (m # ks) = (if m = k then jlookup v ks else jlookup j (m # ks))"
  using assms by (cases j) auto

lemma jitem_lookup: "jitem j k = Inr v \<Longrightarrow> jlookup j (k # ks) = jlookup v ks"
  by (cases j) (auto split: option.splits)

lemma fill_list_at:
  assumes "rfold (\<lambda>f dst. rbind (jstr f) (\<lambda>f. rbind (jitem src f) (jset dst f))) fs dst = Inr r"
  shows "jlookup r (k # ks) = (if JStr k \<in> set fs then jlookup src (k # ks) else jlookup dst (k # ks))"
  using assms
proof (induction fs arbitrary: dst)
  case (Cons f fs)
  then obtain g v dst' where g: "jstr f = Inr g" "jitem src g = Inr v" "jset dst g v = Inr dst'"
    and rest: "rfold (\<lambda>f dst. rbind (jstr f) (\<lambda>f. rbind (jitem src f) (jset dst f))) fs dst' = Inr r"
    by (auto simp: res_simps)
  from g(1) have "f = JStr g" by (cases f) auto
  then show ?case using Cons.IH[OF rest] jset_lookup[OF g(3), of k ks] jitem_lookup[OF g(2), of ks] by auto
qed simp

lemma fill_top:
  assumes "fill src dst to_update = Inr r"
  shows "takes to_update [] = Some True \<Longrightarrow> r = src" "takes to_update [] = Some False \<Longrightarrow> r = dst"
  using assms by (auto simp: fill.simps split: json.splits list.splits if_splits)

lemma fill_at:
  "fill src dst to_update = Inr r \<Longrightarrow> jwf to_update \<Longrightarrow> takes to_update (k # ks) = Some b \<Longrightarrow>
     jlookup r (k # ks) = jlookup (if b then src else dst) (k # ks)"
  "fill_items src dst d = Inr r \<Longrightarrow> jwf (JObj d) \<Longrightarrow> takes (JObj d) (k # ks) = Some b \<Longrightarrow>
     jlookup r (k # ks) = jlookup (if b then src else dst) (k # ks)"
proof (induction src dst to_update and src dst d arbitrary: r k ks b and r k ks b rule: fill_fill_items.induct)
  case (1 src dst to_update)
  show ?case
  proof (cases to_update)
    case (JObj d)
    with 1 show ?thesis by (simp add: fill.simps)
  next
    case (JList fs)
    with 1(2,4) fill_list_at[of src fs dst r k ks] show ?thesis
      by (cases fs) (auto simp: fill.simps split: if_splits)
  qed (use 1 in \<open>auto simp: fill.simps\<close>)
next
  case (3 src dst kv d)
  obtain m u where kv: "kv = (m, u)" by fastforce
  from 3(3) kv obtain new v dst' where a: "jitem src m = Inr new" "jset dst m v = Inr dst'"
      "fill_items src dst' d = Inr r"
    and v: "(if \<not> jtruthy u then Inr new else rbind (jitem dst m) (\<lambda>old. fill new old u)) = Inr v"
    by (simp only: fill_items.simps fst_conv snd_conv) (elim rbind_InrE, blast)
  have wf: "jwf u" "jwf (JObj d)" "m \<notin> set (keys d)" using 3(4) kv by auto
  have rest: "jlookup r (k' # ks') = jlookup (if b' then src else dst') (k' # ks')"
    if "takes (JObj d) (k' # ks') = Some b'" for k' ks' b'
    using 3(2)[of new v dst' r k' ks' b'] a v kv wf(2) that by (auto split: if_splits)
  have set_at: "jlookup dst' (k' # ks') = (if k' = m then jlookup v ks' else jlookup dst (k' # ks'))" for k' ks'
    using a(2) by (rule jset_lookup)
  show ?case
  proof (cases "k = m")
    case False
    then show ?thesis using rest[of k ks b] 3(5) kv set_at[of k ks] by (auto split: if_splits)
  next
    case km: True
    have gone: "map_of d m = None" using wf(3) by (simp add: map_of_eq_None_iff)
    then have r: "jlookup r (k # ks) = jlookup v ks" using rest[of k ks False] set_at[of k ks] km by simp
    show ?thesis
    proof (cases "jtruthy u")
      case False
      then show ?thesis using r v a(1) km 3(5) kv jitem_lookup[of src m new ks] by auto
    next
      case True
      then obtain old where old: "jitem dst m = Inr old" "fill new old u = Inr v" using v by (auto simp: res_simps)
      have t: "takes u ks = Some b" using 3(5) kv km True by simp
      have "jlookup v ks = jlookup (if b then new else old) ks"
      proof (cases ks)
        case Nil
        then show ?thesis using fill_top[OF old(2)] t by (cases b) auto
      next
        case (Cons k' ks')
        then show ?thesis using 3(1)[of new old v k' ks' b] True kv a(1) old wf(1) t by auto
      qed
      then show ?thesis using r km jitem_lookup[OF a(1)] jitem_lookup[OF old(1)] by simp
    qed
  qed
qed simp

section \<open>The pair of secrets\<close>

text \<open>The order of two secrets with their priorities; equal priorities other than 0 leave one of them out.\<close>

definition pair_order :: "'a \<Rightarrow> int \<Rightarrow> 'a \<Rightarrow> int \<Rightarrow> 'a list" where
  "pair_order k p l q =
     (if q = 0 then [k, l] else if p = 0 then [l, k] else if p = q then [l] else if p > q then [k, l] else [l, k])"

definition prio :: "'w secret_world_scheme \<Rightarrow> secret_key \<Rightarrow> int res" where
  "prio s k = (case map_of (secrets s) k of None \<Rightarrow> Inl ObjectDoesNotExist | Some x \<Rightarrow> priority_of x)"

lemma get_secret_at:
  "get_secret silent k s = (case map_of (secrets s) k of
     Some x \<Rightarrow> Inr (Some x) | None \<Rightarrow> if silent then Inr None else Inl ObjectDoesNotExist, s)"
  by (simp add: get_secret_def)

lemma get_secret_priority_at: "get_secret_priority k s = (prio s k, s)"
  by (auto simp: get_secret_priority_def abind_def get_secret_at prio_def alift_def split: option.splits)

lemma secrets_by_priority_keeps [intro]: "keeps P (secrets_by_priority ks res_map no_priority)"
proof (induction ks res_map no_priority rule: secrets_by_priority.induct)
  case (2 k ks res_map no_priority)
  have r: "keeps P (get_secret b k)" "keeps P (get_secret_priority k)" for b
    by (simp_all add: keeps_def get_secret_at get_secret_priority_at)
  show ?case unfolding secrets_by_priority.simps
    by (intro keeps_abind r) (auto intro!: keeps_abind r 2)
qed auto

lemma get_secrets_sorted_keeps [intro]: "keeps P (get_secrets_sorted namespace names)"
  by (auto simp: get_secrets_sorted_def)

lemma sorted_pair:
  "get_secrets_sorted ns (secret_names base) s =
     (let k = (ns, base); l = (ns, base @ ''-1'') in
      case map_of (secrets s) k of
        None \<Rightarrow> (case map_of (secrets s) l of None \<Rightarrow> Inr [] | Some y \<Rightarrow> rbind (priority_of y) (\<lambda>_. Inr [l]))
      | Some x \<Rightarrow> rbind (priority_of x) (\<lambda>p.
          case map_of (secrets s) l of None \<Rightarrow> Inr [k]
          | Some y \<Rightarrow> rbind (priority_of y) (\<lambda>q. Inr (pair_order k p l q))), s)"
proof -
  have step: "secrets_by_priority (k # ks) res_map no_priority s =
     (case map_of (secrets s) k of None \<Rightarrow> secrets_by_priority ks res_map no_priority s
      | Some x \<Rightarrow> (case priority_of x of Inl e \<Rightarrow> (Inl e, s)
          | Inr p \<Rightarrow> if p \<noteq> 0 then secrets_by_priority ks (sort_in p k res_map) no_priority s
                    else secrets_by_priority ks res_map (no_priority @ [k]) s))" for k ks res_map no_priority
    by (auto simp: abind_def get_secret_at get_secret_priority_at prio_def split: option.splits sum.splits)
  show ?thesis
    by (auto simp: get_secrets_sorted_def secret_names_def step aret_def pair_order_def Let_def
        simp del: secrets_by_priority.simps(2) split: option.splits sum.splits)
qed

lemma the_pair_at:
  "the_pair ns base s = (rbind (fst (get_secrets_sorted ns (secret_names base) s))
     (\<lambda>ks. case ks of [a, b] \<Rightarrow> Inr (a, b) | _ \<Rightarrow> Inl ValueError), s)"
proof -
  obtain r where r: "get_secrets_sorted ns (secret_names base) s = (r, s)" by (metis sorted_pair)
  then show ?thesis
    by (cases r) (auto simp: the_pair_def abind_def aret_def araise_def split: list.splits)
qed

lemma unpack_two: "(case ks of [x, y] \<Rightarrow> Inr (x, y) | _ \<Rightarrow> Inl e) = Inr (a, b) \<longleftrightarrow> ks = [a, b]"
  by (auto split: list.splits)

lemma the_pairE:
  assumes "the_pair ns base s = (Inr (a, b), s')"
  obtains x y p q where "s' = s" "map_of (secrets s) a = Some x" "map_of (secrets s) b = Some y"
    "priority_of x = Inr p" "priority_of y = Inr q" "a \<noteq> b" "{a, b} = {(ns, base), (ns, base @ ''-1'')}"
    "q = 0 \<or> q < p \<and> p \<noteq> 0"
proof -
  from assms have "s' = s" by (simp add: the_pair_at)
  moreover from assms obtain ks where ks: "fst (get_secrets_sorted ns (secret_names base) s) = Inr ks" "ks = [a, b]"
    by (auto simp: the_pair_at rbind_eq_Inr unpack_two)
  then obtain x y p q where xy: "map_of (secrets s) (ns, base) = Some x" "map_of (secrets s) (ns, base @ ''-1'') = Some y"
      "priority_of x = Inr p" "priority_of y = Inr q" "pair_order (ns, base) p (ns, base @ ''-1'') q = [a, b]"
    by (auto simp: sorted_pair Let_def res_simps split: option.splits)
  show thesis
  proof (cases "a = (ns, base)")
    case True
    with xy(5) have b: "b = (ns, base @ ''-1'')" "q = 0 \<or> q < p \<and> p \<noteq> 0" by (auto simp: pair_order_def split: if_splits)
    show thesis by (rule that[of x y p q]) (use calculation True xy b in auto)
  next
    case False
    with xy(5) have b: "b = (ns, base)" "a = (ns, base @ ''-1'')" "p = 0 \<or> p < q \<and> q \<noteq> 0"
      by (auto simp: pair_order_def split: if_splits)
    show thesis by (rule that[of y x q p]) (use calculation False xy b in auto)
  qed
qed

lemma the_pairI:
  assumes "{a, b} = {(ns, base), (ns, base @ ''-1'')}" "prio s a = Inr p" "prio s b = Inr q"
    and "p \<noteq> 0" "q = 0 \<or> q < p"
  shows "the_pair ns base s = (Inr (a, b), s)"
proof -
  from assms(2,3) obtain x y where xy: "map_of (secrets s) a = Some x" "map_of (secrets s) b = Some y"
      "priority_of x = Inr p" "priority_of y = Inr q"
    by (auto simp: prio_def split: option.splits)
  from assms(1) have "a = (ns, base) \<and> b = (ns, base @ ''-1'') \<or> b = (ns, base) \<and> a = (ns, base @ ''-1'')"
    by (auto simp: doubleton_eq_iff)
  then show ?thesis using xy assms(4,5) by (auto simp: the_pair_at sorted_pair Let_def pair_order_def)
qed

section \<open>Rotation\<close>

lemma multi_get_data_at:
  "multi_get_data env ns base n s =
     (rbind (fst (get_secrets_sorted ns (secret_names base) s)) (\<lambda>ks.
        if (ns, n) \<notin> set ks then Inl ObjectDoesNotExist
        else rbind (case map_of (secrets s) (ns, n) of None \<Rightarrow> Inl ObjectDoesNotExist | Some x \<Rightarrow> Inr (s_data x)) (\<lambda>raw.
             rbind (decode_data env raw) (\<lambda>d. Inr (JObj d)))), s)"
proof -
  obtain r where r: "get_secrets_sorted ns (secret_names base) s = (r, s)" by (metis sorted_pair)
  show ?thesis
    by (cases r) (auto simp: multi_get_data_def abind_def r get_secret_data_def get_secret_at aret_def araise_def alift_def
        split: option.splits sum.splits)
qed

lemma multi_get_data_state: "multi_get_data env ns base n s = (r, s') \<Longrightarrow> s' = s"
  by (simp add: multi_get_data_at)

lemma the_pair_state: "the_pair ns base s = (r, s') \<Longrightarrow> s' = s"
  by (simp add: the_pair_at)

definition saved :: "(string \<times> string) list \<Rightarrow> secret_obj option \<Rightarrow> secret_obj" where
  "saved data found = (case found of None \<Rightarrow> \<lparr>s_data = data, s_priority = None, s_labels = []\<rparr>
     | Some x \<Rightarrow> x\<lparr>s_data := foldl (\<lambda>d (k, v). AList.update k v d) (s_data x) data\<rparr>)"

lemma multi_saveE:
  assumes "multi_save env ns secret n s = (Inr u, t)"
  obtains d enc where "secret = JObj d" "encode_data env d = Inr enc"
    "t = s\<lparr>secrets := AList.update (ns, n) (saved enc (map_of (secrets s) (ns, n))) (secrets s)\<rparr>"
  using assms
  by (cases secret) (auto simp: multi_save_def abind_eq_Inr alift_def rbind_eq_Inr save_secret_data_def save_secret_with_labels_def get_secret_at put_secret_def
      amod_def saved_def split: option.splits)

lemma set_secret_priorityE:
  assumes "set_secret_priority k p s = (Inr u, t)"
  obtains x where "map_of (secrets s) k = Some x"
    "t = s\<lparr>secrets := AList.update k (x\<lparr>s_priority := Some (show_int p)\<rparr>) (secrets s)\<rparr>"
  using assms by (auto simp: set_secret_priority_def abind_eq_Inr get_secret_at put_secret_def amod_def split: option.splits)

text \<open>What a successful promotion has computed and written.\<close>

lemma promoteE:
  assumes "promote env c ns base rid s = (Inr u, t)" and "keeps secrets (create c)"
  obtains a b ad bd bd' nd s1 f d enc where
    "the_pair ns base s = (Inr (a, b), s)"
    "multi_get_data env ns base (snd a) s = (Inr ad, s)" "multi_get_data env ns base (snd b) s = (Inr bd, s)"
    "if jtruthy (snd (rotation_fields c)) then fill ad bd (snd (rotation_fields c)) = Inr bd' else bd' = bd"
    "create c s = (Inr nd, s1)" "fill nd bd' (fst (rotation_fields c)) = Inr f"
    "from_json c f = Inr (JObj d)" "encode_data env d = Inr enc"
    "secrets t = AList.update b ((saved enc (map_of (secrets s) b))\<lparr>s_priority := Some (show_int rid)\<rparr>) (secrets s)"
proof -
  from assms(1) obtain ab s0 where p: "the_pair ns base s = (Inr ab, s0)"
    and r: "(case ab of (a, b) \<Rightarrow>
     abind (multi_get_data env ns base (snd a)) (\<lambda>ad.
     abind (multi_get_data env ns base (snd b)) (\<lambda>bd.
     abind (if jtruthy (snd (rotation_fields c)) then alift (fill ad bd (snd (rotation_fields c))) else aret bd) (\<lambda>bd.
     abind (fill_new_fields c bd (fst (rotation_fields c))) (\<lambda>secret.
     abind (multi_save env ns secret (snd b)) (\<lambda>_. set_secret_priority b rid)))))) s0 = (Inr u, t)"
    unfolding promote_def abind_eq_Inr by blast
  obtain a b where ab: "ab = (a, b)" by (cases ab)
  have s0: "s0 = s" using p by (rule the_pair_state)
  from r obtain ad s1' where ad: "multi_get_data env ns base (snd a) s = (Inr ad, s1')"
    and r1: "abind (multi_get_data env ns base (snd b)) (\<lambda>bd.
     abind (if jtruthy (snd (rotation_fields c)) then alift (fill ad bd (snd (rotation_fields c))) else aret bd) (\<lambda>bd.
     abind (fill_new_fields c bd (fst (rotation_fields c))) (\<lambda>secret.
     abind (multi_save env ns secret (snd b)) (\<lambda>_. set_secret_priority b rid)))) s1' = (Inr u, t)"
    unfolding ab s0 prod.case abind_eq_Inr by blast
  have s1': "s1' = s" using ad by (rule multi_get_data_state)
  from r1 obtain bd s2' bd' s3' sec s4 v s5 where bd: "multi_get_data env ns base (snd b) s = (Inr bd, s2')"
    and bd': "(if jtruthy (snd (rotation_fields c)) then alift (fill ad bd (snd (rotation_fields c))) else aret bd) s2' = (Inr bd', s3')"
    and sec: "fill_new_fields c bd' (fst (rotation_fields c)) s3' = (Inr sec, s4)"
    and sv: "multi_save env ns sec (snd b) s4 = (Inr v, s5)" and pr: "set_secret_priority b rid s5 = (Inr u, t)"
    unfolding s1' abind_eq_Inr by blast
  have s2': "s2' = s" using bd by (rule multi_get_data_state)
  have s3': "s3' = s" and b': "if jtruthy (snd (rotation_fields c)) then fill ad bd (snd (rotation_fields c)) = Inr bd' else bd' = bd"
    using bd' s2' by (auto simp: alift_def aret_def split: if_splits)
  from sec s3' obtain nd f where nd: "create c s = (Inr nd, s4)" "fill nd bd' (fst (rotation_fields c)) = Inr f" "from_json c f = Inr sec"
    by (auto simp: fill_new_fields_def abind_eq_Inr alift_def)
  have keep: "secrets s4 = secrets s" using keepsD[OF assms(2) nd(1)] .
  from sv obtain d enc where d: "sec = JObj d" "encode_data env d = Inr enc"
    "s5 = s4\<lparr>secrets := AList.update (ns, snd b) (saved enc (map_of (secrets s4) (ns, snd b))) (secrets s4)\<rparr>"
    by (rule multi_saveE)
  obtain n where n: "b = (ns, n)" using p[unfolded ab] by (rule the_pairE) (auto simp: doubleton_eq_iff)
  have s5: "secrets s5 = AList.update b (saved enc (map_of (secrets s) b)) (secrets s)" by (simp add: d(3) n keep)
  from pr obtain x where x: "map_of (secrets s5) b = Some x"
    "t = s5\<lparr>secrets := AList.update b (x\<lparr>s_priority := Some (show_int rid)\<rparr>) (secrets s5)\<rparr>"
    by (rule set_secret_priorityE)
  have "x = saved enc (map_of (secrets s) b)" using x(1) by (simp add: s5)
  then have t: "secrets t = AList.update b ((saved enc (map_of (secrets s) b))\<lparr>s_priority := Some (show_int rid)\<rparr>) (secrets s)"
    by (simp add: x(2) s5)
  show thesis
    by (rule that[of a b ad bd bd' nd s4 f d enc]) (use p ab s0 ad s1' bd s2' b' nd d t in simp_all)
qed

lemma the_pair_inj: "the_pair ns base s = (Inr (a, b), s1) \<Longrightarrow> the_pair ns base s = (Inr (a', b'), s2) \<Longrightarrow> a' = a \<and> b' = b"
  by simp

text \<open>A rotation to a later id is a promotion; one to the id of the active secret does nothing.\<close>

lemma rotate_secret_at:
  assumes "the_pair ns base s = (Inr (a, b), s)" and "prio s a = Inr p"
  shows "rotate_secret env c ns base rid s =
    (if p = rid then (Inr (), s)
     else if p > rid then (Inl (TemporaryError ''Cannot rotate, secret has greater rotation_id, than requested''), s)
     else promote env c ns base rid s)"
  using assms by (auto simp: rotate_secret_def abind_def get_secret_priority_at aret_def araise_def)

lemma promote_pair:
  assumes "promote env c ns base rid s = (Inr u, t)" and "keeps secrets (create c)"
    and "the_pair ns base s = (Inr (a, b), s)" and "prio s a = Inr p" "p < rid" "0 < rid"
  shows "the_pair ns base t = (Inr (b, a), t)" "prio t b = Inr rid"
    "\<And>k. k \<noteq> b \<Longrightarrow> map_of (secrets t) k = map_of (secrets s) k"
proof -
  from assms(1,2) obtain a' b' x where ab': "the_pair ns base s = (Inr (a', b'), s)"
    and t': "secrets t = AList.update b' (x\<lparr>s_priority := Some (show_int rid)\<rparr>) (secrets s)"
    by (rule promoteE) (rule that)
  have "b' = b" using ab' assms(3) by simp
  with t' have t: "secrets t = AList.update b (x\<lparr>s_priority := Some (show_int rid)\<rparr>) (secrets s)" by simp
  have pair: "{a, b} = {(ns, base), (ns, base @ ''-1'')}" "a \<noteq> b" by (rule the_pairE[OF assms(3)], assumption)+
  show other: "map_of (secrets t) k = map_of (secrets s) k" if "k \<noteq> b" for k using that by (simp add: t)
  show b: "prio t b = Inr rid" by (simp add: prio_def t priority_of_def py_int_show)
  have "prio t a = Inr p" using assms(4) other[OF pair(2)] by (simp add: prio_def)
  then show "the_pair ns base t = (Inr (b, a), t)"
    using pair b assms(5,6) by (intro the_pairI) (auto simp: insert_commute)
qed

section \<open>What a rotated secret holds\<close>

text \<open>
  The contract of a class: what its schema loads is a dictionary that keeps the texts it was given.
\<close>

definition loads_texts :: "'s secret_class \<Rightarrow> bool" where
  "loads_texts c \<longleftrightarrow> (\<forall>j r. from_json c j = Inr r \<longrightarrow>
     jwf r \<and> (\<forall>ks v. jlookup j ks = Some (JStr v) \<longrightarrow> jlookup r ks = Some (JStr v)))"

definition rules_ok :: "'s secret_class \<Rightarrow> bool" where
  "rules_ok c \<longleftrightarrow> (\<exists>d e. rotation_fields c = (JObj d, JObj e)) \<and>
     jwf (fst (rotation_fields c)) \<and> jwf (snd (rotation_fields c))"

text \<open>The dictionary a field of a rotated secret comes from: the new one, the active one, the backup.\<close>

definition origin :: "'s secret_class \<Rightarrow> json \<Rightarrow> json \<Rightarrow> json \<Rightarrow> string list \<Rightarrow> json option" where
  "origin c new active backup ks =
     (if takes (fst (rotation_fields c)) ks = Some True then Some new
      else if takes (fst (rotation_fields c)) ks \<noteq> Some False then None
      else if takes (snd (rotation_fields c)) ks = Some True then Some active
      else if takes (snd (rotation_fields c)) ks = Some False then Some backup else None)"

lemma takes_falsy: "\<not> jtruthy j \<Longrightarrow> j \<noteq> JList [] \<Longrightarrow> takes j (k # ks) = Some False"
  by (cases j) auto

lemma map_of_foldl_update:
  "distinct (keys e) \<Longrightarrow> map_of (foldl (\<lambda>d (k, v). AList.update k v d) d e) k =
     (case map_of e k of None \<Rightarrow> map_of d k | Some v \<Rightarrow> Some v)"
proof (induction e arbitrary: d)
  case (Cons kv e)
  obtain k' v where kv: "kv = (k', v)" by fastforce
  have "map_of e k' = None" using Cons(2) kv by (simp add: map_of_eq_None_iff)
  then show ?case using Cons kv by (auto split: option.splits)
qed simp

lemma rmap_alist:
  assumes "rmap (\<lambda>(k, v). rbind (f v) (\<lambda>t. Inr (k, t))) d = Inr e"
  shows "keys e = keys d"
    "map_of d k = Some v \<Longrightarrow> \<exists>t. map_of e k = Some t \<and> f v = Inr t"
    "map_of e k = Some t \<Longrightarrow> \<exists>v. map_of d k = Some v \<and> f v = Inr t"
  using assms by (induction d arbitrary: e) (auto simp: res_simps split: if_splits)

lemma rmap_alist_total:
  assumes "\<And>k v. (k, v) \<in> set d \<Longrightarrow> \<exists>t. f v = Inr t"
  shows "\<exists>e. rmap (\<lambda>(k, v). rbind (f v) (\<lambda>t. Inr (k, t))) d = Inr e"
  using assms
proof (induction d)
  case (Cons kv d)
  obtain k v where kv: "kv = (k, v)" by fastforce
  obtain t where t: "f v = Inr t" using Cons(2)[of k v] kv by auto
  obtain e where e: "rmap (\<lambda>(k, v). rbind (f v) (\<lambda>t. Inr (k, t))) d = Inr e" using Cons by (metis list.set_intros(2))
  show ?case by (auto simp: kv t e)
qed simp

lemma update_all: "\<forall>x \<in> set d. P (snd x) \<Longrightarrow> P v \<Longrightarrow> \<forall>x \<in> set (AList.update k v d). P (snd x)"
  by (induction d) auto

lemma foldl_update_all:
  "\<forall>x \<in> set d. P (snd x) \<Longrightarrow> \<forall>x \<in> set e. P (snd x) \<Longrightarrow>
   \<forall>x \<in> set (foldl (\<lambda>d (k, v). AList.update k v d) d e). P (snd x)"
proof (induction e arbitrary: d)
  case (Cons kv e)
  then show ?case using update_all[of d P "snd kv" "fst kv"] by (cases kv) simp
qed simp

lemma rmap_all:
  assumes "rmap (\<lambda>(k, v). rbind (f v) (\<lambda>t. Inr (k, t))) d = Inr e"
  shows "\<forall>x \<in> set d. \<exists>t. f (snd x) = Inr t" "\<forall>y \<in> set e. \<exists>x. f x = Inr (snd y)"
  using assms by (induction d arbitrary: e) (fastforce simp: res_simps)+

lemma decode_encode:
  assumes "encode_value env v = Inr t"
  shows "\<exists>w. decode_value env t = Inr w"
    "(\<And>d. json_loads env (json_dumps env (JObj d)) = Some (JObj d)) \<Longrightarrow> v = JObj m \<Longrightarrow> decode_value env t = Inr v"
  using assms by (auto simp: encode_value_def decode_value_def split: json.splits)

text \<open>Reading a secret after new data was saved over readable old data.\<close>

lemma decode_saved:
  assumes enc: "encode_data env d = Inr enc" and d: "distinct (keys d)"
    and old: "decode_data env (s_data x) = Inr prev"
    and codec: "\<And>d. json_loads env (json_dumps env (JObj d)) = Some (JObj d)"
  obtains e where "decode_data env (s_data (saved enc (Some x))) = Inr e"
    "\<And>k v. map_of d k = Some (JObj v) \<Longrightarrow> map_of e k = Some (JObj v)"
proof -
  define data where "data = s_data (saved enc (Some x))"
  note e = enc[unfolded encode_data_def]
  have ke: "keys enc = keys d" by (rule rmap_alist(1)[OF e])
  have "\<forall>y \<in> set enc. \<exists>w. decode_value env (snd y) = Inr w"
    using rmap_all(2)[OF e] decode_encode(1) by blast
  then have "\<forall>y \<in> set data. \<exists>w. decode_value env (snd y) = Inr w"
    using foldl_update_all[OF rmap_all(1)[OF old[unfolded decode_data_def]], of enc] by (simp add: data_def saved_def)
  then obtain m where m: "rmap (\<lambda>(k, t). rbind (decode_value env t) (\<lambda>v. Inr (k, v))) data = Inr m"
    using rmap_alist_total[of data "decode_value env"] by fastforce
  show thesis
  proof (rule that)
    show "decode_data env (s_data (saved enc (Some x))) = Inr m" using m by (simp add: decode_data_def data_def)
    fix k v assume k: "map_of d k = Some (JObj v)"
    then obtain t where t: "map_of enc k = Some t" "encode_value env (JObj v) = Inr t" using rmap_alist(2)[OF e k] by auto
    have "map_of data k = Some t" using t(1) by (simp add: data_def saved_def map_of_foldl_update ke d)
    then obtain w where "map_of m k = Some w" "decode_value env t = Inr w" using rmap_alist(2)[OF m] by blast
    then show "map_of m k = Some (JObj v)" using decode_encode(2)[OF t(2) codec refl] by simp
  qed
qed

lemma the_pair_sorted:
  "the_pair ns base s = (Inr (a, b), s') \<Longrightarrow> fst (get_secrets_sorted ns (secret_names base) s) = Inr [a, b]"
  by (auto simp: the_pair_at rbind_eq_Inr unpack_two)

lemma multi_get_data_member:
  assumes "fst (get_secrets_sorted ns (secret_names base) s) = Inr ks" "(ns, n) \<in> set ks"
    and "map_of (secrets s) (ns, n) = Some x"
  shows "multi_get_data env ns base n s = (rbind (decode_data env (s_data x)) (\<lambda>d. Inr (JObj d)), s)"
  using assms by (simp add: multi_get_data_at)

lemma promote_fields:
  assumes run: "promote env c ns base rid s = (Inr u, t)" and "keeps secrets (create c)"
    and pair: "the_pair ns base s = (Inr (a, b), s)" and "prio s a = Inr p" "p < rid" "0 < rid"
    and rules: "rules_ok c" and load: "loads_texts c"
    and codec: "\<And>d. json_loads env (json_dumps env (JObj d)) = Some (JObj d)"
  shows "\<exists>nd s1 ad bd e. create c s = (Inr nd, s1) \<and> multi_get_data env ns base (snd a) s = (Inr ad, s) \<and>
    multi_get_data env ns base (snd b) s = (Inr bd, s) \<and> multi_get_data env ns base (snd b) t = (Inr e, t) \<and>
    (\<forall>k m ks src v. origin c nd ad bd (k # m # ks) = Some src \<and> jlookup src (k # m # ks) = Some (JStr v) \<longrightarrow>
       jlookup e (k # m # ks) = Some (JStr v))"
proof -
  have wf: "jwf (fst (rotation_fields c))" "jwf (snd (rotation_fields c))" "snd (rotation_fields c) \<noteq> JList []"
    using rules by (auto simp: rules_ok_def)
  from run assms(2) obtain a' b' ad bd bd' nd s1 f d enc where p': "the_pair ns base s = (Inr (a', b'), s)"
    and ad: "multi_get_data env ns base (snd a') s = (Inr ad, s)" and bd: "multi_get_data env ns base (snd b') s = (Inr bd, s)"
    and carry: "if jtruthy (snd (rotation_fields c)) then fill ad bd (snd (rotation_fields c)) = Inr bd' else bd' = bd"
    and nd: "create c s = (Inr nd, s1)" "fill nd bd' (fst (rotation_fields c)) = Inr f"
    and d: "from_json c f = Inr (JObj d)" "encode_data env d = Inr enc"
    and t: "secrets t = AList.update b' ((saved enc (map_of (secrets s) b'))\<lparr>s_priority := Some (show_int rid)\<rparr>) (secrets s)"
    by (rule promoteE) (rule that)
  have ab: "a' = a" "b' = b" using p' pair by simp_all
  note after = promote_pair[OF run assms(2) pair assms(4-6)]
  obtain n where n: "b = (ns, n)" by (rule the_pairE[OF pair]) (auto simp: doubleton_eq_iff)
  obtain x where x: "map_of (secrets s) b = Some x" by (rule the_pairE[OF pair])
  have "multi_get_data env ns base n s = (rbind (decode_data env (s_data x)) (\<lambda>d. Inr (JObj d)), s)"
    by (rule multi_get_data_member[OF the_pair_sorted[OF pair]]) (use n x in simp_all)
  then obtain prev where prev: "decode_data env (s_data x) = Inr prev" using bd ab n by (auto simp: res_simps)
  have "distinct (keys d)" using load d(1) by (fastforce simp: loads_texts_def dict_ok_def)
  from decode_saved[OF d(2) this prev codec] obtain e where e: "decode_data env (s_data (saved enc (Some x))) = Inr e"
    and sub: "\<And>k v. map_of d k = Some (JObj v) \<Longrightarrow> map_of e k = Some (JObj v)" by blast
  have "multi_get_data env ns base n t = (rbind (decode_data env (s_data (saved enc (Some x)))) (\<lambda>d. Inr (JObj d)), t)"
    using multi_get_data_member[OF the_pair_sorted[OF after(1)], of n "(saved enc (Some x))\<lparr>s_priority := Some (show_int rid)\<rparr>" env] n t x ab
    by simp
  then have read: "multi_get_data env ns base (snd b) t = (Inr (JObj e), t)" using e n by simp
  have "jlookup (JObj e) (k # m # ks) = Some (JStr v)"
    if o: "origin c nd ad bd (k # m # ks) = Some src" and v: "jlookup src (k # m # ks) = Some (JStr v)" for k m ks src v
  proof -
    have b': "jlookup bd' (k # m # ks) = jlookup (if q then ad else bd) (k # m # ks)"
      if "takes (snd (rotation_fields c)) (k # m # ks) = Some q" for q
      using carry fill_at(1)[of ad bd "snd (rotation_fields c)" bd' k "m # ks" q] wf(2,3) that
        takes_falsy[of "snd (rotation_fields c)" k "m # ks"] by (auto split: if_splits simp del: jlookup.simps)
    have "jlookup f (k # m # ks) = Some (JStr v)"
      using o v fill_at(1)[OF nd(2) wf(1), of k "m # ks"] b' by (auto simp: origin_def split: if_splits)
    then have "jlookup (JObj d) (k # m # ks) = Some (JStr v)" using load d(1) unfolding loads_texts_def by blast
    then obtain w where "map_of d k = Some (JObj w)" "jlookup (JObj w) (m # ks) = Some (JStr v)"
      by (auto split: option.splits json.splits)
    then show ?thesis using sub[of k w] by simp
  qed
  then show ?thesis using nd(1) ad bd read ab by blast
qed

section \<open>Ensuring the pair\<close>

lemma multi_get_at:
  "multi_get env c ns base n s = (rbind (fst (multi_get_data env ns base n s)) (from_json c), s)"
proof -
  obtain r where r: "multi_get_data env ns base n s = (r, s)" by (metis multi_get_data_at)
  then show ?thesis by (cases r) (auto simp: multi_get_def abind_def alift_def)
qed

lemma multi_save_writes:
  assumes "multi_save env ns secret n s = (Inr u, t)"
  shows "\<exists>x. map_of (secrets t) (ns, n) = Some x" "k \<noteq> (ns, n) \<Longrightarrow> map_of (secrets t) k = map_of (secrets s) k"
  by (rule multi_saveE[OF assms], simp)+

lemma multi_get_data_exists:
  "multi_get_data env ns base n s = (Inr d, s') \<Longrightarrow> \<exists>x. map_of (secrets s) (ns, n) = Some x"
  by (auto simp: multi_get_data_at rbind_eq_Inr split: option.splits if_splits)

text \<open>A secret that loads is left alone, any other exists afterwards; nothing else is written.\<close>

lemma ensure_one_loads:
  "multi_get env c ns base n s = (Inr r, s) \<Longrightarrow> ensure_one env c ns base n s = (Inr (), s)"
  by (simp add: ensure_one_def atry_def abind_def aret_def)

lemma fill_new_fields_keeps: "keeps secrets (create c) \<Longrightarrow> keeps secrets (fill_new_fields c j r)"
  by (auto simp: fill_new_fields_def)

lemma ensure_one_writes:
  assumes run: "ensure_one env c ns base n s = (Inr u, t)" and keep: "keeps secrets (create c)"
  shows "(\<exists>x. map_of (secrets t) (ns, n) = Some x) \<and> (\<forall>k. k \<noteq> (ns, n) \<longrightarrow> map_of (secrets t) k = map_of (secrets s) k)"
proof -
  obtain r where r: "multi_get env c ns base n s = (r, s)" by (metis multi_get_at)
  show ?thesis
  proof (cases r)
    case (Inr j)
    then have "t = s" using run ensure_one_loads r by fastforce
    moreover have "\<exists>x. map_of (secrets s) (ns, n) = Some x"
      using r Inr multi_get_data_exists[of env ns base n s] by (auto simp: multi_get_at rbind_eq_Inr) (metis multi_get_data_at prod.sel(1))
    ultimately show ?thesis by simp
  next
    case (Inl e)
    with run r consider
        (new) "abind (create c) (\<lambda>secret. multi_save env ns secret n) s = (Inr u, t)"
      | (upd) "abind (multi_get_data env ns base n) (\<lambda>data.
           abind (update_format c data) (\<lambda>secret. multi_save env ns secret n)) s = (Inr u, t)"
      by (auto simp: ensure_one_def atry_def abind_Inl[where m = "multi_get env c ns base n"] araise_def split: if_splits)
    then obtain s1 secret where "multi_save env ns secret n s1 = (Inr u, t)" "secrets s1 = secrets s"
    proof cases
      case new
      then obtain secret s1 where "create c s = (Inr secret, s1)" "multi_save env ns secret n s1 = (Inr u, t)"
        by (auto simp: abind_eq_Inr)
      then show thesis using that keepsD[OF keep] by metis
    next
      case upd
      then obtain data s0 secret s1 where "multi_get_data env ns base n s = (Inr data, s0)" "update_format c data s0 = (Inr secret, s1)"
          "multi_save env ns secret n s1 = (Inr u, t)"
        unfolding abind_eq_Inr by blast
      moreover have "keeps secrets (update_format c data)"
        unfolding update_format_def by (intro keeps_abind fill_new_fields_keeps keep) auto
      ultimately show thesis using that keepsD multi_get_data_state by metis
    qed
    then show ?thesis using multi_save_writes by metis
  qed
qed

lemma ensure_pair_writes:
  assumes "ensure_pair env c ns base s = (Inr u, t)" and "keeps secrets (create c)"
  shows "\<exists>x. map_of (secrets t) (ns, base) = Some x" "\<exists>x. map_of (secrets t) (ns, base @ ''-1'') = Some x"
    "k \<notin> {(ns, base), (ns, base @ ''-1'')} \<Longrightarrow> map_of (secrets t) k = map_of (secrets s) k"
proof -
  from assms(1) obtain s1 where 1: "ensure_one env c ns base base s = (Inr (), s1)"
    and 2: "ensure_one env c ns base (base @ ''-1'') s1 = (Inr (), t)"
    by (auto simp: ensure_pair_def secret_names_def abind_eq_Inr aret_def)
  note w = ensure_one_writes[OF 1 assms(2)] ensure_one_writes[OF 2 assms(2)]
  show "\<exists>x. map_of (secrets t) (ns, base @ ''-1'') = Some x" using w(2) by blast
  show "\<exists>x. map_of (secrets t) (ns, base) = Some x" using w by simp
  show "map_of (secrets t) k = map_of (secrets s) k" if "k \<notin> {(ns, base), (ns, base @ ''-1'')}" using w that by (cases k) simp
qed

end
