(* ===== verification/SecretHandlers.thy ===== *)
theory SecretHandlers
  imports SecretRotation
begin

text \<open>
  The handlers of secrets (\<open>controllers/secrets.py\<close>): they note rotations in the status object, copy
  credentials to the namespaces of other systems and record hashes of watched secrets.  YAML, INI and JSON
  text, the digest, the conversion of timestamps and the metadata kept by the API server are parameters.
\<close>

section \<open>The state the handlers see\<close>

record handler_world = secret_world +
  hw_osdpl :: "json option"
  hw_osdplst :: json
  hw_services :: "(secret_key \<times> json) list"

record handler_env = secret_env +
  osdpl_namespace :: string
  bgpvpn_secret_name :: string
  json_sorted :: "json \<Rightarrow> string"
  sha256_hex :: "string \<Rightarrow> string"
  to_str :: "json \<Rightarrow> string"
  yaml_load :: "string \<Rightarrow> json res"
  yaml_dump :: "json \<Rightarrow> string"
  ini_default :: "string \<Rightarrow> string \<Rightarrow> string res"
  timestamp_text :: "json \<Rightarrow> string res"

definition SECRET_PRIORITY :: string where
  "SECRET_PRIORITY = ''openstack.lcm.mirantis.com/secret_priority''"

definition AUTH_KEYS :: "string list" where
  "AUTH_KEYS = [''OS_AUTH_URL'', ''OS_DEFAULT_DOMAIN'', ''OS_INTERFACE'', ''OS_PASSWORD'', ''OS_PROJECT_DOMAIN_NAME'',
     ''OS_PROJECT_NAME'', ''OS_REGION_NAME'', ''OS_USER_DOMAIN_NAME'', ''OS_USERNAME'']"

definition external_label :: "string \<times> string" where
  "external_label = (''openstack.lcm.mirantis.com/rabbitmq-external'', ''true'')"

definition get_osdpl :: "('w handler_world_scheme, json) act" where
  "get_osdpl = abind (aget hw_osdpl) (\<lambda>o'. case o' of None \<Rightarrow> araise AttributeError | Some j \<Rightarrow> aret j)"

text \<open>The status of the deployment is merged with the patch.\<close>

definition patch_watched :: "string list \<Rightarrow> json \<Rightarrow> ('w handler_world_scheme, unit) act" where
  "patch_watched path v = abind get_osdpl (\<lambda>j.
     amod (\<lambda>s. s\<lparr>hw_osdpl := Some (patch_at j ([''status'', ''watched''] @ path) v)\<rparr>))"

section \<open>Rotation of credentials\<close>

text \<open>\<open>managed\<close> is \<open>metadata["managedFields"]\<close> and \<open>created\<close> the creation time of a secret.\<close>

record secret_meta =
  managed :: "json list"
  created :: json

fun priority_update_ts :: "json list \<Rightarrow> json res" where
  "priority_update_ts [] = Inr JNull"
| "priority_update_ts (f # fs) =
     rbind (get_in_str f [''fieldsV1'', ''f:metadata'', ''f:annotations''] jempty) (\<lambda>a.
     rbind (jin (''f:'' @ SECRET_PRIORITY) a) (\<lambda>b.
     if b then jitem f ''time'' else priority_update_ts fs))"

definition get_rotation_timestamp ::
  "handler_env \<Rightarrow> (secret_key \<Rightarrow> secret_meta) \<Rightarrow> string \<Rightarrow> string \<Rightarrow> ('w handler_world_scheme, string) act" where
  "get_rotation_timestamp he meta namespace base =
     abind (nth_secret namespace base 0) (\<lambda>k.
     abind (get_secret False k) (\<lambda>x.
     alift (rbind (case s_priority (the x) of
         Some p \<Rightarrow> if p \<noteq> [] then priority_update_ts (managed (meta k)) else Inr (created (meta k))
       | None \<Rightarrow> Inr (created (meta k))) (timestamp_text he))))"

definition secret_base :: "string \<Rightarrow> string res" where
  "secret_base group_name =
     (if group_name = ''admin'' then Inr ''openstack-admin-users''
      else if group_name = ''service'' then Inr ''generated-identity-passwords'' else Inl (OtherException ''UnboundLocalError''))"

definition rotation_id_of :: "json \<Rightarrow> json res" where
  "rotation_id_of obj = get_in_str obj [''metadata'', ''annotations'', SECRET_PRIORITY] (JStr ''0'')"

definition handle_credentials_rotation ::
  "handler_env \<Rightarrow> (secret_key \<Rightarrow> secret_meta) \<Rightarrow> json \<Rightarrow> json \<Rightarrow> string \<Rightarrow> string \<Rightarrow> ('w handler_world_scheme, unit) act" where
  "handle_credentials_rotation he meta old new group_name secret_name =
     abind (alift (rotation_id_of new)) (\<lambda>new_rotation_id.
     abind (alift (rotation_id_of old)) (\<lambda>old_rotation_id.
     abind get_osdpl (\<lambda>_.
     abind (alift (secret_base group_name)) (\<lambda>base.
     abind (nth_secret (osdpl_namespace he) base 0) (\<lambda>active.
     if secret_name \<noteq> snd active then aret ()
     else
       abind (if \<not> py_eq new_rotation_id old_rotation_id then aret True
              else abind (aget hw_osdplst) (\<lambda>obj.
                   abind (alift (get_credentials_rotation_status group_name obj)) (\<lambda>st. aret (\<not> jtruthy st)))) (\<lambda>changed.
       if \<not> changed then aret ()
       else abind (get_rotation_timestamp he meta (osdpl_namespace he) base) (\<lambda>ts.
            amod (\<lambda>s. s\<lparr>hw_osdplst := set_credentials_rotation_status group_name ts (hw_osdplst s)\<rparr>))))))))"

text \<open>\<open>old\<close> may be None on creation.\<close>

definition handle_identity_passwords_secret ::
  "handler_env \<Rightarrow> (secret_key \<Rightarrow> secret_meta) \<Rightarrow> json \<Rightarrow> json \<Rightarrow> string \<Rightarrow> ('w handler_world_scheme, unit) act" where
  "handle_identity_passwords_secret he meta old new name =
     handle_credentials_rotation he meta (if jtruthy old then old else jempty) new ''service'' name"

definition handle_admin_users_secret ::
  "handler_env \<Rightarrow> (secret_key \<Rightarrow> secret_meta) \<Rightarrow> json \<Rightarrow> json \<Rightarrow> string \<Rightarrow> ('w handler_world_scheme, unit) act" where
  "handle_admin_users_secret he meta old new name =
     handle_credentials_rotation he meta (if jtruthy old then old else jempty) new ''admin'' name"

section \<open>Copies for other systems\<close>

definition tf_secret :: secret_key where
  "tf_secret = (''openstack-tf-shared'', ''tf-data'')"

definition auth_item :: "json \<Rightarrow> string \<Rightarrow> (string \<times> string) res" where
  "auth_item data key = rbind (rbind (jitem data key) jstr) (\<lambda>v. Inr (py_lower (drop 3 key), v))"

definition handle_neutron_secret :: "json \<Rightarrow> string \<Rightarrow> ('w handler_world_scheme, unit) act" where
  "handle_neutron_secret body name =
     (if name \<noteq> ''neutron-keystone-admin'' then aret ()
      else abind (alift (rbind (jitem body ''data'') (\<lambda>data. rmap (auth_item data) AUTH_KEYS))) (save_secret_data tf_secret))"

definition METADATA_OPTS :: "(string \<times> string) list" where
  "METADATA_OPTS = [(''nova_metadata_port'', ''nova_metadata_port''), (''nova_metadata_host'', ''nova_metadata_host''),
     (''metadata_proxy_secret'', ''metadata_proxy_shared_secret'')]"

definition decode_item :: "json \<Rightarrow> string list \<Rightarrow> string res" where
  "decode_item body path = rbind (jitem_path body path) (\<lambda>v. rbind (jstr v) b64decode)"

definition handle_neutron_configmap_secret :: "handler_env \<Rightarrow> json \<Rightarrow> ('w handler_world_scheme, unit) act" where
  "handle_neutron_configmap_secret he body =
     abind (alift (rbind (decode_item body [''data'', ''metadata_agent.ini'']) (\<lambda>metadata.
       rmap (\<lambda>(key, opt). rbind (ini_default he metadata opt) (\<lambda>v. Inr (key, b64encode v))) METADATA_OPTS)))
       (save_secret_data tf_secret)"

definition clouds_entry :: "string \<Rightarrow> json \<Rightarrow> string \<Rightarrow> (string \<times> json) res" where
  "clouds_entry url clouds ctx =
     rbind (jitem clouds ctx) (\<lambda>c.
     rbind (rbind (jitem c ''auth'') (\<lambda>a. jset a ''auth_url'' (JStr url))) (\<lambda>a.
     rbind (jset c ''auth'' a) (\<lambda>c. rbind (jset c ''interface'' (JStr ''public'')) (\<lambda>c.
     rbind (jset c ''endpoint_type'' (JStr ''public'')) (\<lambda>c. Inr (ctx, c))))))"

definition handle_keystone_osclouds_secret :: "handler_env \<Rightarrow> json \<Rightarrow> string \<Rightarrow> ('w handler_world_scheme, unit) act" where
  "handle_keystone_osclouds_secret he body name =
     (if name \<noteq> ''keystone-os-clouds'' then aret ()
      else
        abind get_osdpl (\<lambda>osdpl.
        abind (alift (jitem_path osdpl [''spec'', ''public_domain_name''])) (\<lambda>domain.
        abind (alift (rbind (decode_item body [''data'', ''clouds.yaml'']) (yaml_load he))) (\<lambda>data.
        abind (alift (rbind (rbind (jitem body ''data'') jitems)
            (rmap (\<lambda>(k, v). rbind (jstr v) (\<lambda>t. Inr (k, t)))))) (\<lambda>raw.
        abind (save_secret_data (''osh-system'', ''keystone-os-clouds'') raw) (\<lambda>_.
        abind (alift (rbind (jitem data ''clouds'') (\<lambda>clouds.
          rmap (clouds_entry (''https://keystone.'' @ to_str he domain @ ''/'') clouds) [''admin'', ''admin-system'']))) (\<lambda>ext.
        save_secret_data (''openstack-external'', ''openstack-identity-credentials'')
          [(''clouds.yaml'', b64encode (yaml_dump he (JObj [(''clouds'', JObj ext)])))])))))))"

section \<open>Watched secrets\<close>

definition data_hash :: "handler_env \<Rightarrow> json \<Rightarrow> json res" where
  "data_hash he body = rbind (jitem body ''data'') (\<lambda>d. Inr (JStr (sha256_hex he (json_sorted he d))))"

definition handle_bgpvpnsecret :: "handler_env \<Rightarrow> json \<Rightarrow> string \<Rightarrow> ('w handler_world_scheme, unit) act" where
  "handle_bgpvpnsecret he body name =
     (if name \<noteq> bgpvpn_secret_name he then aret ()
      else abind (alift (data_hash he body)) (\<lambda>h.
           patch_watched [''neutron'', ''bgpvpn_neighbor_secret''] (JObj [(''hash'', h)])))"

definition handle_substitution_secrets :: "handler_env \<Rightarrow> json \<Rightarrow> string \<Rightarrow> ('w handler_world_scheme, unit) act" where
  "handle_substitution_secrets he body name =
     abind (aget hw_osdpl) (\<lambda>osdpl.
     if osdpl = None then aret ()
     else abind (alift (data_hash he body)) (\<lambda>h.
          patch_watched [''value_from'', ''secret'', name] (JObj [(''hash'', h)])))"

section \<open>Notifications for external systems\<close>

definition external_ns :: string where
  "external_ns = ''openstack-external''"

definition is_external :: "secret_key \<times> secret_obj \<Rightarrow> bool" where
  "is_external e = (fst (fst e) = external_ns \<and> map_of (s_labels (snd e)) (fst external_label) = Some (snd external_label))"

definition external_secrets :: "'w secret_world_scheme \<Rightarrow> string list" where
  "external_secrets s = map (\<lambda>e. snd (fst e)) (filter is_external (secrets s))"

definition secrets_delete :: "string list \<Rightarrow> ('w secret_world_scheme, unit) act" where
  "secrets_delete names = amod (\<lambda>s. s\<lparr>secrets := filter (\<lambda>e. \<not> (fst (fst e) = external_ns \<and> snd (fst e) \<in> set names)) (secrets s)\<rparr>)"

definition get_k8s_service :: "secret_key \<Rightarrow> ('w handler_world_scheme, json) act" where
  "get_k8s_service k = abind (aget hw_services) (\<lambda>d. case map_of d k of
     None \<Rightarrow> araise (TemporaryError ''The object is not found yet'') | Some j \<Rightarrow> aret j)"

definition or_temporary :: "string \<Rightarrow> json res \<Rightarrow> json res" where
  "or_temporary msg r = (case r of Inl (KeyError _) \<Rightarrow> Inl (TemporaryError msg) | _ \<Rightarrow> r)"

text \<open>The last \<open>ip\<close> of the load balancer counts.\<close>

fun ingress_ip :: "json list \<Rightarrow> json \<Rightarrow> json res" where
  "ingress_ip [] ip = Inr ip"
| "ingress_ip (tpl # tpls) ip =
     rbind (jelems tpl) (\<lambda>ks. rbind (if JStr ''ip'' \<in> set ks then jitem tpl ''ip'' else Inr ip) (ingress_ip tpls))"

definition port_item :: "handler_env \<Rightarrow> json \<Rightarrow> (string \<times> string) res" where
  "port_item he entry = rbind (jitem entry ''name'') (\<lambda>n. rbind (jitem entry ''port'') (\<lambda>p.
     Inr (''port_'' @ to_str he n, to_str he p)))"

definition update_dict :: "('k \<times> 'v) list \<Rightarrow> ('k \<times> 'v) list \<Rightarrow> ('k \<times> 'v) list" where
  "update_dict d e = foldl (\<lambda>d (k, v). AList.update k v d) d e"

definition external_data :: "handler_env \<Rightarrow> json \<Rightarrow> (string \<times> string) list res" where
  "external_data he srv =
     rbind (or_temporary ''no ingress status data'' (jitem_path srv [''status'', ''loadBalancer'', ''ingress''])) (\<lambda>ingress.
     rbind (rbind (jelems ingress) (\<lambda>l. ingress_ip l JNull)) (\<lambda>ip.
     if \<not> jtruthy ip then Inl (TemporaryError ''no load balancer external IP'')
     else rbind (or_temporary ''no ingress status data'' (jitem_path srv [''spec'', ''ports''])) (\<lambda>ports.
          rbind (rbind (jelems ports) (rmap (port_item he))) (\<lambda>ps.
          rbind (jstr ip) (\<lambda>ip.
          Inr (map (\<lambda>(k, v). (k, b64encode v)) (update_dict [(''hosts'', ip), (''vhost'', ''openstack'')] ps)))))))"

definition external_topic_secret :: "handler_env \<Rightarrow> string \<Rightarrow> string" where
  "external_topic_secret he topic = ''openstack-'' @ get_topic_normalized_name (sha256_hex he) topic @ ''-notifications''"

definition topic_data :: "json \<Rightarrow> string \<Rightarrow> (string \<times> string) list res" where
  "topic_data secret_data topic =
     rbind (rbind (jitem_path secret_data [topic @ ''_external_notifications'', ''auth'', topic]) jitems)
       (rmap (\<lambda>(k, v). rbind (jstr v) (\<lambda>t. Inr (k, b64encode t))))"

text \<open>The loop over the topics; what remains of the existing secrets is deleted after it.\<close>

fun save_topics ::
  "handler_env \<Rightarrow> json \<Rightarrow> (string \<times> string) list \<Rightarrow> string list \<Rightarrow> string list \<Rightarrow> ('w handler_world_scheme, string list) act" where
  "save_topics he secret_data enc [] existent = aret existent"
| "save_topics he secret_data enc (topic # topics) existent =
     abind (alift (jin (topic @ ''_external_notifications'') secret_data)) (\<lambda>found.
     if \<not> found then save_topics he secret_data enc topics existent
     else abind (alift (topic_data secret_data topic)) (\<lambda>credentials.
          abind (save_secret_with_labels (external_ns, external_topic_secret he topic) (update_dict credentials enc) [external_label]) (\<lambda>_.
          save_topics he secret_data enc topics (filter (\<lambda>n. n \<noteq> external_topic_secret he topic) existent))))"

definition external_enabled :: "json \<Rightarrow> json res" where
  "external_enabled osdpl =
     jpath_get osdpl [''spec'', ''features'', ''messaging'', ''notifications'', ''external''] ''enabled'' (JBool False)"

definition external_topics :: "json \<Rightarrow> string list res" where
  "external_topics osdpl =
     rbind (jpath_get osdpl [''spec'', ''features'', ''messaging'', ''notifications'', ''external''] ''topics'' (JList []))
       (\<lambda>t. rbind (jelems t) (rmap jstr))"

text \<open>What happens while external notifications are enabled.\<close>

definition save_external_secrets ::
  "handler_env \<Rightarrow> json \<Rightarrow> string \<Rightarrow> json \<Rightarrow> string list \<Rightarrow> ('w handler_world_scheme, unit) act" where
  "save_external_secrets he body namespace osdpl existent =
     abind (alift (rbind (decode_item body [''data'', ''RABBITMQ_USERS'']) (\<lambda>t.
       case json_loads he t of None \<Rightarrow> Inl ValueError | Some j \<Rightarrow> Inr j))) (\<lambda>secret_data.
     abind (get_k8s_service (namespace, ''rabbitmq-external'')) (\<lambda>srv.
     abind (alift (external_data he srv)) (\<lambda>enc.
     abind (get_secret_data (namespace, ''rabbitmq-external-certs'')) (\<lambda>certs.
     abind (alift (rmap (\<lambda>k. case map_of certs k of None \<Rightarrow> Inl (KeyError k) | Some v \<Rightarrow> Inr (k, v))
       [''ca_cert'', ''client_cert'', ''client_key''])) (\<lambda>tls.
     abind (alift (external_topics osdpl)) (\<lambda>topics.
     abind (save_topics he secret_data (update_dict enc tls) topics existent) secrets_delete))))))"

definition handle_rabbitmq_external_secret :: "handler_env \<Rightarrow> json \<Rightarrow> string \<Rightarrow> string \<Rightarrow> ('w handler_world_scheme, unit) act" where
  "handle_rabbitmq_external_secret he body namespace name =
     (if name \<noteq> ''openstack-rabbitmq-users-credentials'' then aret ()
      else
        abind (aget external_secrets) (\<lambda>existent.
        abind get_osdpl (\<lambda>osdpl.
        abind (alift (external_enabled osdpl)) (\<lambda>enabled.
        if \<not> jtruthy enabled then secrets_delete existent
        else save_external_secrets he body namespace osdpl existent))))"

section \<open>What is left for external systems\<close>

definition external_at :: "'w secret_world_scheme \<Rightarrow> string \<Rightarrow> bool" where
  "external_at s n \<longleftrightarrow> (\<exists>x. map_of (secrets s) (external_ns, n) = Some x \<and>
     map_of (s_labels x) (fst external_label) = Some (snd external_label))"

lemma external_secrets_at:
  assumes "dict_ok (secrets s)"
  shows "n \<in> set (external_secrets s) \<longleftrightarrow> external_at s n"
proof -
  have "map_of (secrets s) k = Some x \<longleftrightarrow> (k, x) \<in> set (secrets s)" for k x
    using assms by (simp add: dict_ok_def)
  then show ?thesis by (force simp: external_secrets_def is_external_def external_at_def)
qed

lemma external_at_cong: "map_of (secrets t) (external_ns, n) = map_of (secrets s) (external_ns, n) \<Longrightarrow> external_at t n = external_at s n"
  by (simp add: external_at_def)

lemma secrets_delete_at:
  "secrets_delete names s = (Inr u, t) \<Longrightarrow> external_at t n \<longleftrightarrow> external_at s n \<and> n \<notin> set names"
  "secrets_delete names s = (Inr u, t) \<Longrightarrow> fst k \<noteq> external_ns \<Longrightarrow> map_of (secrets t) k = map_of (secrets s) k"
proof -
  have m: "map_of (filter (\<lambda>e. fst (fst e) = external_ns \<longrightarrow> snd (fst e) \<notin> set names) d) k =
      (if fst k = external_ns \<and> snd k \<in> set names then None else map_of d k)" for d :: "(secret_key \<times> secret_obj) list" and k
    by (induction d) auto
  assume run: "secrets_delete names s = (Inr u, t)"
  then show "external_at t n \<longleftrightarrow> external_at s n \<and> n \<notin> set names"
    by (auto simp: secrets_delete_def amod_def external_at_def m split: if_splits)
  show "fst k \<noteq> external_ns \<Longrightarrow> map_of (secrets t) k = map_of (secrets s) k"
    using run by (auto simp: secrets_delete_def amod_def m)
qed

lemma save_external:
  assumes "save_secret_with_labels (external_ns, n) data [external_label] s = (Inr u, t)"
  shows "external_at t n" "m \<noteq> n \<Longrightarrow> external_at t m = external_at s m"
    "k \<noteq> (external_ns, n) \<Longrightarrow> map_of (secrets t) k = map_of (secrets s) k" "hw_osdpl t = hw_osdpl s"
    "dict_ok (secrets s) \<Longrightarrow> dict_ok (secrets t)"
  using assms
  by (auto simp: save_secret_with_labels_def abind_def get_secret_at put_secret_def amod_def external_at_def external_label_def
      split: option.splits)

text \<open>The secrets of the topics for which RabbitMQ has credentials.\<close>

definition topic_secrets :: "handler_env \<Rightarrow> json \<Rightarrow> string list \<Rightarrow> string set" where
  "topic_secrets he secret_data topics =
     external_topic_secret he ` {tp \<in> set topics. jin (tp @ ''_external_notifications'') secret_data = Inr True}"

lemma save_topics_ok:
  "save_topics he secret_data enc topics existent s = (Inr rest, t) \<Longrightarrow> dict_ok (secrets s) \<Longrightarrow>
   dict_ok (secrets t) \<and> (\<forall>n. external_at t n \<longleftrightarrow> external_at s n \<or> n \<in> topic_secrets he secret_data topics) \<and>
   rest = filter (\<lambda>n. n \<notin> topic_secrets he secret_data topics) existent \<and>
   (\<forall>k. fst k \<noteq> external_ns \<longrightarrow> map_of (secrets t) k = map_of (secrets s) k)"
proof (induction topics arbitrary: existent s)
  case Nil
  then show ?case by (simp add: aret_def topic_secrets_def)
next
  case (Cons tp tps)
  from Cons.prems(1) obtain found where f: "jin (tp @ ''_external_notifications'') secret_data = Inr found"
    by (auto simp: abind_eq_Inr alift_def)
  show ?case
  proof (cases found)
    case False
    then have "save_topics he secret_data enc tps existent s = (Inr rest, t)"
      using Cons.prems(1) f by (simp add: abind_alift_at)
    moreover have "topic_secrets he secret_data (tp # tps) = topic_secrets he secret_data tps"
      using f False by (auto simp: topic_secrets_def)
    ultimately show ?thesis using Cons.IH Cons.prems(2) by simp
  next
    case True
    let ?n = "external_topic_secret he tp"
    from Cons.prems(1) f True obtain cr s1 where sv: "save_secret_with_labels (external_ns, ?n) cr [external_label] s = (Inr (), s1)"
      and rest: "save_topics he secret_data enc tps (filter (\<lambda>n. n \<noteq> ?n) existent) s1 = (Inr rest, t)"
      by (auto simp: abind_alift_at abind_eq_Inr alift_def)
    note e = save_external[OF sv]
    have ts: "topic_secrets he secret_data (tp # tps) = insert ?n (topic_secrets he secret_data tps)"
      using f True by (auto simp: topic_secrets_def)
    from Cons.IH[OF rest e(5)[OF Cons.prems(2)]]
    have ih: "dict_ok (secrets t)" "\<And>n. external_at t n \<longleftrightarrow> external_at s1 n \<or> n \<in> topic_secrets he secret_data tps"
      "rest = filter (\<lambda>n. n \<notin> topic_secrets he secret_data tps) (filter (\<lambda>n. n \<noteq> ?n) existent)"
      "\<And>k. fst k \<noteq> external_ns \<Longrightarrow> map_of (secrets t) k = map_of (secrets s1) k" by auto
    have "external_at t n \<longleftrightarrow> external_at s n \<or> n \<in> topic_secrets he secret_data (tp # tps)" for n
      using ih(2)[of n] e(1) e(2)[of n] ts by (cases "n = ?n") auto
    moreover have "rest = filter (\<lambda>n. n \<notin> topic_secrets he secret_data (tp # tps)) existent"
      unfolding ih(3) ts by (auto intro: filter_cong)
    moreover have "map_of (secrets t) k = map_of (secrets s) k" if "fst k \<noteq> external_ns" for k
      using ih(4)[OF that] e(3)[of k] that by (cases k) auto
    ultimately show ?thesis using ih(1) by blast
  qed
qed

lemma save_external_secrets_ok:
  assumes run: "save_external_secrets he body namespace osdpl existent s = (Inr u, t)" and ok: "dict_ok (secrets s)"
    and ex: "set existent = {n. external_at s n}"
  shows "\<exists>users secret_data topics. decode_item body [''data'', ''RABBITMQ_USERS''] = Inr users \<and> json_loads he users = Some secret_data \<and>
    external_topics osdpl = Inr topics \<and> (\<forall>n. external_at t n \<longleftrightarrow> n \<in> topic_secrets he secret_data topics) \<and>
    (\<forall>k. fst k \<noteq> external_ns \<longrightarrow> map_of (secrets t) k = map_of (secrets s) k)"
proof -
  from run obtain sd s0 srv s1 enc s2 certs s3 tls s4 topics s5 rest s6 where
    st: "alift (rbind (decode_item body [''data'', ''RABBITMQ_USERS'']) (\<lambda>t.
       case json_loads he t of None \<Rightarrow> Inl ValueError | Some j \<Rightarrow> Inr j)) s = (Inr sd, s0)"
    "get_k8s_service (namespace, ''rabbitmq-external'') s0 = (Inr srv, s1)" "alift (external_data he srv) s1 = (Inr enc, s2)"
    "get_secret_data (namespace, ''rabbitmq-external-certs'') s2 = (Inr certs, s3)"
    "alift (rmap (\<lambda>k. case map_of certs k of None \<Rightarrow> Inl (KeyError k) | Some v \<Rightarrow> Inr (k, v))
          [''ca_cert'', ''client_cert'', ''client_key'']) s3 = (Inr tls, s4)"
    "alift (external_topics osdpl) s4 = (Inr topics, s5)"
    "save_topics he sd (update_dict enc tls) topics existent s5 = (Inr rest, s6)" "secrets_delete rest s6 = (Inr u, t)"
    unfolding save_external_secrets_def abind_eq_Inr by blast
  obtain users where users: "decode_item body [''data'', ''RABBITMQ_USERS''] = Inr users" "json_loads he users = Some sd" and s0: "s0 = s"
    using st(1) by (auto simp: alift_def rbind_eq_Inr split: option.splits)
  have "s1 = s" using st(2) s0 by (auto simp: get_k8s_service_def abind_eq_Inr aget_def aret_def araise_def split: option.splits)
  moreover have "s3 = s2"
    using st(4) by (auto simp: get_secret_data_def abind_eq_Inr aret_def get_secret_at split: option.splits if_splits)
  ultimately have top: "s5 = s" "external_topics osdpl = Inr topics" using st(3,5,6) by (simp_all add: alift_def)
  from save_topics_ok[OF st(7)[unfolded top(1)] ok] have sv:
    "\<And>n. external_at s6 n \<longleftrightarrow> external_at s n \<or> n \<in> topic_secrets he sd topics"
    "rest = filter (\<lambda>n. n \<notin> topic_secrets he sd topics) existent"
    "\<And>k. fst k \<noteq> external_ns \<Longrightarrow> map_of (secrets s6) k = map_of (secrets s) k" by auto
  have "external_at t n \<longleftrightarrow> n \<in> topic_secrets he sd topics" for n
    using secrets_delete_at(1)[OF st(8), of n] sv(1,2) ex by auto
  moreover have "map_of (secrets t) k = map_of (secrets s) k" if "fst k \<noteq> external_ns" for k
    using secrets_delete_at(2)[OF st(8) that] sv(3)[OF that] by simp
  ultimately show ?thesis using users top(2) by blast
qed

text \<open>
  After the handler the external secrets are those of the configured topics with credentials, or none at all
  when external notifications are off; no secret of another namespace is touched.
\<close>

lemma external_secrets_exact:
  assumes run: "handle_rabbitmq_external_secret he body namespace ''openstack-rabbitmq-users-credentials'' s = (Inr u, t)"
    and ok: "dict_ok (secrets s)" and osdpl: "hw_osdpl s = Some osdpl" and en: "external_enabled osdpl = Inr enabled"
  shows "\<not> jtruthy enabled \<Longrightarrow> \<not> external_at t n"
    and "jtruthy enabled \<Longrightarrow>
      \<exists>users secret_data topics. decode_item body [''data'', ''RABBITMQ_USERS''] = Inr users \<and> json_loads he users = Some secret_data \<and>
        external_topics osdpl = Inr topics \<and> (\<forall>n. external_at t n \<longleftrightarrow> n \<in> topic_secrets he secret_data topics)"
    and "fst k \<noteq> external_ns \<Longrightarrow> map_of (secrets t) k = map_of (secrets s) k"
proof -
  have all: "set (external_secrets s) = {n. external_at s n}" using external_secrets_at[OF ok] by blast
  have g: "get_osdpl s = (Inr osdpl, s)" by (simp add: get_osdpl_def abind_aget_at osdpl aret_def)
  have a: "alift (external_enabled osdpl) s = (Inr enabled, s)" by (simp add: alift_def en)
  have run': "(if \<not> jtruthy enabled then secrets_delete (external_secrets s)
      else save_external_secrets he body namespace osdpl (external_secrets s)) s = (Inr u, t)"
    using run by (simp add: handle_rabbitmq_external_secret_def abind_aget_at abind_Inr[where m = get_osdpl, OF g]
        abind_Inr[where m = "alift (external_enabled osdpl)", OF a])
  show "\<not> external_at t n" if "\<not> jtruthy enabled"
    using run' that secrets_delete_at(1)[of "external_secrets s" s u t n] all by simp
  note on = save_external_secrets_ok[OF _ ok all, of he body namespace osdpl u t]
  show "\<exists>users secret_data topics. decode_item body [''data'', ''RABBITMQ_USERS''] = Inr users \<and> json_loads he users = Some secret_data \<and>
        external_topics osdpl = Inr topics \<and> (\<forall>n. external_at t n \<longleftrightarrow> n \<in> topic_secrets he secret_data topics)"
    if "jtruthy enabled" using on run' that by (simp del: split_paired_All) blast
  show "map_of (secrets t) k = map_of (secrets s) k" if k: "fst k \<noteq> external_ns"
  proof (cases "jtruthy enabled")
    case False
    then show ?thesis using run' secrets_delete_at(2)[of "external_secrets s" s u t k] k by simp
  next
    case True
    then show ?thesis using on run' k by (simp del: split_paired_All) blast
  qed
qed

section \<open>Rotations that are noted\<close>

lemma nth_secret_pair:
  "the_pair ns base s = (Inr (a, b), s') \<Longrightarrow> nth_secret ns base 0 s = (Inr a, s)"
  using the_pair_sorted[of ns base s a b s']
  by (auto simp: nth_secret_def abind_def sorted_pair aret_def split: sum.splits)

lemma get_rotation_timestamp_keeps: "keeps P (get_rotation_timestamp he meta ns base)"
proof -
  have g: "keeps P (get_secret b k)" for b k by (simp add: keeps_def get_secret_at)
  show ?thesis unfolding get_rotation_timestamp_def nth_secret_def
    by (auto intro!: keeps_abind g)
qed

text \<open>Only events of the active secret count; a new rotation id writes the time of the rotation.\<close>

lemma rotation_noted:
  assumes run: "handle_credentials_rotation he meta old new group_name name s = (Inr u, t)"
    and base: "secret_base group_name = Inr base" and pair: "the_pair (osdpl_namespace he) base s = (Inr (a, b), s)"
    and new: "rotation_id_of new = Inr n"
    and old: "rotation_id_of old = Inr i"
  shows "name \<noteq> snd a \<Longrightarrow> t = s"
    and "name = snd a \<Longrightarrow> \<not> py_eq n i \<Longrightarrow>
      \<exists>ts. t = s\<lparr>hw_osdplst := set_credentials_rotation_status group_name ts (hw_osdplst s)\<rparr>"
    and "secrets t = secrets s"
proof -
  from run obtain osdpl where g: "get_osdpl s = (Inr osdpl, s)"
    by (auto simp: handle_credentials_rotation_def abind_eq_Inr alift_def get_osdpl_def aget_def aret_def araise_def split: option.splits)
  let ?noted = "abind (get_rotation_timestamp he meta (osdpl_namespace he) base) (\<lambda>ts.
      amod (\<lambda>s. s\<lparr>hw_osdplst := set_credentials_rotation_status group_name ts (hw_osdplst s)\<rparr>))"
  let ?changed = "if \<not> py_eq n i then aret True else abind (aget hw_osdplst) (\<lambda>obj.
      abind (alift (get_credentials_rotation_status group_name obj)) (\<lambda>st. aret (\<not> jtruthy st)))"
  have run': "(if name \<noteq> snd a then aret () else abind ?changed (\<lambda>changed. if \<not> changed then aret () else ?noted)) s = (Inr u, t)"
    using run by (simp add: handle_credentials_rotation_def new old base abind_alift_at abind_Inr[where m = get_osdpl, OF g]
        abind_Inr[where m = "nth_secret (osdpl_namespace he) base 0", OF nth_secret_pair[OF pair]])
  show "name \<noteq> snd a \<Longrightarrow> t = s" using run' by (simp add: aret_def)
  have noted: "\<exists>ts. t = s\<lparr>hw_osdplst := set_credentials_rotation_status group_name ts (hw_osdplst s)\<rparr>"
    if "?noted s = (Inr u, t)"
  proof -
    from that obtain ts s1 where "get_rotation_timestamp he meta (osdpl_namespace he) base s = (Inr ts, s1)"
      "t = s1\<lparr>hw_osdplst := set_credentials_rotation_status group_name ts (hw_osdplst s1)\<rparr>"
      by (auto simp: abind_eq_Inr amod_def)
    moreover have "s1 = s" using keepsD[OF get_rotation_timestamp_keeps[of id] calculation(1)] by simp
    ultimately show ?thesis by blast
  qed
  show "name = snd a \<Longrightarrow> \<not> py_eq n i \<Longrightarrow>
      \<exists>ts. t = s\<lparr>hw_osdplst := set_credentials_rotation_status group_name ts (hw_osdplst s)\<rparr>"
    using run' noted by simp
  show "secrets t = secrets s"
  proof (cases "name = snd a")
    case True
    with run' obtain ch where "?changed s = (Inr ch, s)" "(if \<not> ch then aret () else ?noted) s = (Inr u, t)"
      by (cases "py_eq n i") (auto simp: abind_eq_Inr aret_def aget_def alift_def)
    then show ?thesis using noted by (cases ch) (auto simp: aret_def)
  next
    case False
    then show ?thesis using run' by (simp add: aret_def)
  qed
qed

end
