(* ===== verification/ResourceView.thy ===== *)
theory ResourceView
  imports PyValue
begin

text \<open>
  The view of all child objects of a deployment (\<open>resource_view.py\<close>): their identifiers, the connections
  between them and the network policies built from the connections.  The tree of child objects, the text
  of a value in an f-string and the hash of a value are parameters.
\<close>

section \<open>Child objects and connections\<close>

record connection =
  src_ident :: string
  dst_ident :: string
  conn_ports :: json

record view_child =
  vc_service :: string
  vc_chart :: string
  vc_kind :: string
  vc_name :: string
  vc_meta :: json
  vc_egress :: "connection list"

definition child_ident :: "string \<Rightarrow> string \<Rightarrow> string \<Rightarrow> string \<Rightarrow> string" where
  "child_ident service chart kind name = service @ '':'' @ chart @ '':'' @ kind @ '':'' @ name"

definition ident_of :: "view_child \<Rightarrow> string" where
  "ident_of c = child_ident (vc_service c) (vc_chart c) (vc_kind c) (vc_name c)"

definition connection_of :: "(json \<Rightarrow> string) \<Rightarrow> string \<Rightarrow> json \<Rightarrow> connection list res" where
  "connection_of fmt src egress =
     rbind (jget egress ''to_child_object'' JNull) (\<lambda>to_child.
     if \<not> jtruthy to_child then Inr []
     else rbind (jitem to_child ''service'') (\<lambda>sv. rbind (jitem to_child ''chart'') (\<lambda>ch.
          rbind (jitem to_child ''kind'') (\<lambda>ki. rbind (jitem to_child ''name'') (\<lambda>na.
          rbind (jitem to_child ''ports'') (\<lambda>ports.
          Inr [\<lparr>src_ident = src, dst_ident = child_ident (fmt sv) (fmt ch) (fmt ki) (fmt na), conn_ports = ports\<rparr>]))))))"

definition init_connections :: "(json \<Rightarrow> string) \<Rightarrow> string \<Rightarrow> json \<Rightarrow> connection list res" where
  "init_connections fmt src child_meta =
     rbind (jget child_meta ''connections'' jempty) (\<lambda>cs.
     rbind (jget cs ''egress'' (JList [])) (\<lambda>es.
     rbind (jelems es) (\<lambda>es.
     rbind (rmap (connection_of fmt src) es) (\<lambda>ls. Inr (concat ls)))))"

definition new_child :: "(json \<Rightarrow> string) \<Rightarrow> string \<Rightarrow> string \<Rightarrow> string \<Rightarrow> string \<Rightarrow> json \<Rightarrow> view_child res" where
  "new_child fmt service chart kind name raw =
     (let child_meta = (if jtruthy raw then raw else jempty) in
      rbind (init_connections fmt (child_ident service chart kind name) child_meta) (\<lambda>es.
      Inr \<lparr>vc_service = service, vc_chart = chart, vc_kind = kind, vc_name = name, vc_meta = child_meta, vc_egress = es\<rparr>))"

fun get_port_of :: "json list \<Rightarrow> json \<Rightarrow> json res" where
  "get_port_of [] name = Inr JNull"
| "get_port_of (p # ps) name = rbind (jitem p ''name'') (\<lambda>n. if py_eq n name then Inr p else get_port_of ps name)"

definition get_port :: "view_child \<Rightarrow> json \<Rightarrow> json res" where
  "get_port c name = rbind (jget (vc_meta c) ''ports'' (JList [])) (\<lambda>ps. rbind (jelems ps) (\<lambda>ps. get_port_of ps name))"

definition get_pod_labels :: "view_child \<Rightarrow> json res" where
  "get_pod_labels c = jitem (vc_meta c) ''pod_labels''"

text \<open>One port of a policy.\<close>

definition np_port :: "json \<Rightarrow> json res" where
  "np_port port = rbind (jitem port ''protocol'') (\<lambda>pr. rbind (jitem port ''port'') (\<lambda>po.
     Inr (JObj [(''protocol'', pr), (''port'', po)])))"

fun np_ports_of :: "json list \<Rightarrow> json list \<Rightarrow> json list res" where
  "np_ports_of p_list [] = Inr []"
| "np_ports_of p_list (p # ps) =
     rbind (jitem p ''name'') (\<lambda>n.
     rbind (if list_ex (py_eq n) p_list then rbind (np_port p) (\<lambda>q. Inr [q]) else Inr []) (\<lambda>q.
     rbind (np_ports_of p_list ps) (\<lambda>qs. Inr (q @ qs))))"

definition get_np_ports :: "view_child \<Rightarrow> json list \<Rightarrow> json list res" where
  "get_np_ports c p_list = rbind (jget (vc_meta c) ''ports'' (JList [])) (\<lambda>ps. rbind (jelems ps) (np_ports_of p_list))"

section \<open>The view\<close>

type_synonym children = "(string \<times> view_child) list"

definition child_at :: "children \<Rightarrow> string \<Rightarrow> view_child res" where
  "child_at childs i = (case map_of childs i of None \<Rightarrow> Inl (KeyError i) | Some c \<Rightarrow> Inr c)"

text \<open>The four nested loops over the tree: services, charts, kinds, names.\<close>

fun add_childs :: "(json \<Rightarrow> string) \<Rightarrow> string \<Rightarrow> string \<Rightarrow> string \<Rightarrow> jdict \<Rightarrow> children \<Rightarrow> children res" where
  "add_childs fmt service chart kind [] out = Inr out"
| "add_childs fmt service chart kind ((name, child_meta) # d) out =
     rbind (new_child fmt service chart kind name child_meta) (\<lambda>c.
     add_childs fmt service chart kind d (AList.update (ident_of c) c out))"

fun add_kinds :: "(json \<Rightarrow> string) \<Rightarrow> string \<Rightarrow> string \<Rightarrow> jdict \<Rightarrow> children \<Rightarrow> children res" where
  "add_kinds fmt service chart [] out = Inr out"
| "add_kinds fmt service chart ((kind, childs) # d) out =
     rbind (jitems childs) (\<lambda>l. rbind (add_childs fmt service chart kind l out) (add_kinds fmt service chart d))"

fun add_charts :: "(json \<Rightarrow> string) \<Rightarrow> string \<Rightarrow> jdict \<Rightarrow> children \<Rightarrow> children res" where
  "add_charts fmt service [] out = Inr out"
| "add_charts fmt service ((chart, kinds) # d) out =
     rbind (jitems kinds) (\<lambda>l. rbind (add_kinds fmt service chart l out) (add_charts fmt service d))"

fun add_services :: "(json \<Rightarrow> string) \<Rightarrow> jdict \<Rightarrow> children \<Rightarrow> children res" where
  "add_services fmt [] out = Inr out"
| "add_services fmt ((service, charts) # d) out =
     rbind (jitems charts) (\<lambda>l. rbind (add_charts fmt service l out) (add_services fmt d))"

definition init_childs :: "(json \<Rightarrow> string) \<Rightarrow> json \<Rightarrow> children res" where
  "init_childs fmt tree = rbind (jitems tree) (\<lambda>l. add_services fmt l [])"

definition get_child_meta :: "children \<Rightarrow> string \<Rightarrow> string \<Rightarrow> string \<Rightarrow> string \<Rightarrow> json res" where
  "get_child_meta childs service chart kind name =
     rbind (child_at childs (child_ident service chart kind name)) (\<lambda>c. Inr (vc_meta c))"

section \<open>Network policies\<close>

record policy =
  np_from :: "json list"
  np_ports :: "json list"

definition pod_selector :: "json \<Rightarrow> json" where
  "pod_selector labels = JObj [(''podSelector'', JObj [(''matchLabels'', labels)])]"

definition connection_from :: "children \<Rightarrow> connection \<Rightarrow> json list res" where
  "connection_from childs cn = rbind (child_at childs (src_ident cn)) (\<lambda>c. rbind (get_pod_labels c) (\<lambda>l. Inr [pod_selector l]))"

definition connection_to :: "children \<Rightarrow> connection \<Rightarrow> json list res" where
  "connection_to childs cn = rbind (child_at childs (dst_ident cn)) (\<lambda>c. rbind (get_pod_labels c) (\<lambda>l. Inr [pod_selector l]))"

definition connection_ports :: "children \<Rightarrow> connection \<Rightarrow> json list res" where
  "connection_ports childs cn =
     rbind (child_at childs (dst_ident cn)) (\<lambda>dst.
     rbind (jelems (conn_ports cn)) (rmap (\<lambda>p. rbind (get_port dst p) np_port)))"

definition connection_policy :: "children \<Rightarrow> connection \<Rightarrow> policy res" where
  "connection_policy childs cn =
     rbind (connection_from childs cn) (\<lambda>f. rbind (connection_ports childs cn) (\<lambda>ps. Inr \<lparr>np_from = f, np_ports = ps\<rparr>))"

text \<open>Policies with the same ports become one, with the peers of all of them; \<open>spec_hash\<close> identifies the ports.\<close>

definition squash_step ::
  "(json list \<Rightarrow> string) \<Rightarrow> policy \<Rightarrow> (string \<times> json list) list \<times> (string \<times> json list) list \<Rightarrow>
   (string \<times> json list) list \<times> (string \<times> json list) list" where
  "squash_step hash p acc =
     (AList.update (hash (np_ports p)) (np_ports p) (fst acc), dict_extend (hash (np_ports p)) (np_from p) (snd acc))"

definition squash_policies :: "(json list \<Rightarrow> string) \<Rightarrow> policy list \<Rightarrow> policy list" where
  "squash_policies hash ps =
     (let (ports_hashes, policy_from) = fold (squash_step hash) ps ([], [])
      in map (\<lambda>(h, ports). \<lparr>np_from = (case map_of policy_from h of None \<Rightarrow> [] | Some f \<Rightarrow> f), np_ports = ports\<rparr>) ports_hashes)"

fun ingress_of :: "children \<Rightarrow> connection list \<Rightarrow> (string \<times> policy list) list \<Rightarrow> (string \<times> policy list) list res" where
  "ingress_of childs [] out = Inr out"
| "ingress_of childs (cn # cns) out =
     rbind (connection_policy childs cn) (\<lambda>p. ingress_of childs cns (dict_extend (dst_ident cn) [p] out))"

definition get_network_policies :: "(json list \<Rightarrow> string) \<Rightarrow> children \<Rightarrow> (string \<times> policy list) list res" where
  "get_network_policies hash childs =
     rbind (ingress_of childs (concat (map (\<lambda>(_, c). vc_egress c) childs)) []) (\<lambda>ingress.
     Inr (map (\<lambda>(i, ps). (i, squash_policies hash ps)) ingress))"

definition child_object_view :: "(json \<Rightarrow> string) \<Rightarrow> (json list \<Rightarrow> string) \<Rightarrow> json \<Rightarrow> (children \<times> (string \<times> policy list) list) res" where
  "child_object_view fmt hash tree =
     rbind (init_childs fmt tree) (\<lambda>childs. rbind (get_network_policies hash childs) (\<lambda>ps. Inr (childs, ps)))"

section \<open>What the policies allow\<close>

text \<open>A peer may reach a list of ports when one of the policies says so.\<close>

definition allows :: "policy list \<Rightarrow> json \<Rightarrow> json list \<Rightarrow> bool" where
  "allows ps peer ports \<longleftrightarrow> (\<exists>p \<in> set ps. peer \<in> set (np_from p) \<and> np_ports p = ports)"

definition hash_ok :: "(json list \<Rightarrow> string) \<Rightarrow> policy list \<Rightarrow> bool" where
  "hash_ok hash ps \<longleftrightarrow> inj_on hash (np_ports ` set ps)"

lemma squash_fold:
  assumes "inj_on hash (np_ports ` set ps)"
  shows "case fold (squash_step hash) ps ([], []) of (ports_hashes, policy_from) \<Rightarrow>
    dict_ok ports_hashes \<and>
    (\<forall>h P. map_of ports_hashes h = Some P \<longleftrightarrow> P \<in> np_ports ` set ps \<and> hash P = h) \<and>
    (\<forall>h. case map_of policy_from h of None \<Rightarrow> h \<notin> (\<lambda>p. hash (np_ports p)) ` set ps
        | Some f \<Rightarrow> set f = \<Union> (set ` np_from ` {p \<in> set ps. hash (np_ports p) = h}))"
  using assms
proof (induction ps rule: rev_induct)
  case Nil
  then show ?case by simp
next
  case (snoc p ps)
  obtain ph pf where acc: "fold (squash_step hash) ps ([], []) = (ph, pf)" by fastforce
  have inj: "inj_on hash (np_ports ` set ps)" using snoc.prems by (auto intro: inj_on_subset)
  from snoc.IH[OF inj] acc have ok: "dict_ok ph"
    and ph: "\<And>h P. map_of ph h = Some P \<longleftrightarrow> P \<in> np_ports ` set ps \<and> hash P = h"
    and pf: "\<And>h. case map_of pf h of None \<Rightarrow> h \<notin> (\<lambda>p. hash (np_ports p)) ` set ps
        | Some f \<Rightarrow> set f = \<Union> (set ` np_from ` {p \<in> set ps. hash (np_ports p) = h})" by auto
  let ?h = "hash (np_ports p)"
  have new: "fold (squash_step hash) (ps @ [p]) ([], []) = (AList.update ?h (np_ports p) ph, dict_extend ?h (np_from p) pf)"
    by (simp add: acc squash_step_def)
  have 1: "map_of (AList.update ?h (np_ports p) ph) h = Some P \<longleftrightarrow> P \<in> np_ports ` set (ps @ [p]) \<and> hash P = h" for h P
    using ph[of h P] snoc.prems by (auto simp: inj_on_def)
  have 2: "case map_of (dict_extend ?h (np_from p) pf) h of None \<Rightarrow> h \<notin> (\<lambda>p. hash (np_ports p)) ` set (ps @ [p])
        | Some f \<Rightarrow> set f = \<Union> (set ` np_from ` {q \<in> set (ps @ [p]). hash (np_ports q) = h})" for h
    using pf[of h] by (auto simp: map_of_dict_extend split: option.splits) (metis image_eqI)
  show ?case unfolding new using ok 1 2 by simp
qed

text \<open>Squashing changes neither who may reach what nor repeats a list of ports.\<close>

lemma squash_allows:
  assumes "hash_ok hash ps"
  shows "allows (squash_policies hash ps) peer ports = allows ps peer ports"
    and "distinct (map np_ports (squash_policies hash ps))"
proof -
  obtain ph pf where acc: "fold (squash_step hash) ps ([], []) = (ph, pf)" by fastforce
  from squash_fold[of hash ps] assms acc have ok: "dict_ok ph"
    and ph: "\<And>h P. map_of ph h = Some P \<longleftrightarrow> P \<in> np_ports ` set ps \<and> hash P = h"
    and pf: "\<And>h. case map_of pf h of None \<Rightarrow> h \<notin> (\<lambda>p. hash (np_ports p)) ` set ps
        | Some f \<Rightarrow> set f = \<Union> (set ` np_from ` {p \<in> set ps. hash (np_ports p) = h})" by (auto simp: hash_ok_def)
  have sq: "squash_policies hash ps =
      map (\<lambda>(h, ports). \<lparr>np_from = (case map_of pf h of None \<Rightarrow> [] | Some f \<Rightarrow> f), np_ports = ports\<rparr>) ph"
    by (simp add: squash_policies_def acc)
  have mem: "(h, P) \<in> set ph \<longleftrightarrow> P \<in> np_ports ` set ps \<and> hash P = h" for h P
    using ok ph[of h P] by (simp add: dict_ok_def)
  have peers: "set (case map_of pf (hash P) of None \<Rightarrow> [] | Some f \<Rightarrow> f) = \<Union> (set ` np_from ` {p \<in> set ps. np_ports p = P})"
    if "P \<in> np_ports ` set ps" for P
  proof -
    have "{p \<in> set ps. hash (np_ports p) = hash P} = {p \<in> set ps. np_ports p = P}"
      using assms that by (auto simp: hash_ok_def inj_on_def)
    then show ?thesis using pf[of "hash P"] that by (auto split: option.splits)
  qed
  show "allows (squash_policies hash ps) peer ports = allows ps peer ports"
  proof
    assume "allows (squash_policies hash ps) peer ports"
    then obtain h where "(h, ports) \<in> set ph" "peer \<in> set (case map_of pf h of None \<Rightarrow> [] | Some f \<Rightarrow> f)"
      by (auto simp: allows_def sq)
    then show "allows ps peer ports" using mem[of h ports] peers[of ports] by (auto simp: allows_def)
  next
    assume "allows ps peer ports"
    then obtain p where p: "p \<in> set ps" "peer \<in> set (np_from p)" "np_ports p = ports" by (auto simp: allows_def)
    then have "(hash ports, ports) \<in> set ph" "peer \<in> set (case map_of pf (hash ports) of None \<Rightarrow> [] | Some f \<Rightarrow> f)"
      using mem[of "hash ports" ports] peers[of ports] by auto
    then show "allows (squash_policies hash ps) peer ports" by (force simp: allows_def sq)
  qed
  have "inj_on snd (set ph)" using mem by (auto simp: inj_on_def)
  moreover have "distinct ph" using ok by (simp add: dict_ok_def distinct_map)
  ultimately show "distinct (map np_ports (squash_policies hash ps))"
    by (simp add: sq comp_def case_prod_beta distinct_map)
qed

definition at_dst :: "(string \<times> policy list) list \<Rightarrow> string \<Rightarrow> policy list" where
  "at_dst d i = (case map_of d i of None \<Rightarrow> [] | Some ps \<Rightarrow> ps)"

lemma ingress_of_policies:
  "ingress_of childs cns out = Inr r \<Longrightarrow>
   set (at_dst r d) = set (at_dst out d) \<union> {p. \<exists>cn \<in> set cns. dst_ident cn = d \<and> connection_policy childs cn = Inr p}"
proof (induction cns arbitrary: out)
  case (Cons cn cns)
  then obtain p where p: "connection_policy childs cn = Inr p" "ingress_of childs cns (dict_extend (dst_ident cn) [p] out) = Inr r"
    by (auto simp: res_simps)
  from Cons.IH[OF p(2)] p(1) show ?case by (auto simp: at_dst_def map_of_dict_extend)
qed simp

text \<open>The policies of an object allow exactly the connections that the objects declare towards it.\<close>

lemma network_policies_exact:
  assumes "get_network_policies hash childs = Inr r" and "inj hash"
  shows "allows (at_dst r d) peer ports \<longleftrightarrow>
    (\<exists>i c cn p. (i, c) \<in> set childs \<and> cn \<in> set (vc_egress c) \<and> dst_ident cn = d \<and>
       connection_policy childs cn = Inr p \<and> peer \<in> set (np_from p) \<and> np_ports p = ports)"
proof -
  from assms(1) obtain ingress where i: "ingress_of childs (concat (map (\<lambda>(_, c). vc_egress c) childs)) [] = Inr ingress"
    "r = map (\<lambda>(i, ps). (i, squash_policies hash ps)) ingress" by (auto simp: get_network_policies_def res_simps)
  have none: "squash_policies hash [] = []" by (simp add: squash_policies_def)
  have "at_dst r d = squash_policies hash (at_dst ingress d)"
    by (auto simp: i(2) at_dst_def map_of_map none split: option.splits)
  moreover have "hash_ok hash ps" for ps using assms(2) by (simp add: hash_ok_def inj_def inj_on_def)
  ultimately have "allows (at_dst r d) peer ports = allows (at_dst ingress d) peer ports" using squash_allows(1) by simp
  then show ?thesis unfolding allows_def ingress_of_policies[OF i(1)] by (fastforce simp: at_dst_def)
qed

end
