(* ===== verification/SimSecrets.thy ===== *)
theory SimSecrets
  imports SecretHandlers ResourceView
begin

text \<open>
  A concrete text form of values and a deployment with the two administrator secrets, for running the
  rotation.  The text form is a prefix code: a letter for the kind, numbers in unary, strings and
  containers with their length in front.
\<close>

section \<open>A text form of values\<close>

definition unary :: "nat \<Rightarrow> string" where
  "unary n = replicate n CHR ''1'' @ ''0''"

fun read_unary :: "string \<Rightarrow> nat \<times> string" where
  "read_unary (c # s) = (if c = CHR ''1'' then (let (n, r) = read_unary s in (Suc n, r)) else (0, s))"
| "read_unary [] = (0, [])"

definition int_text :: "int \<Rightarrow> string" where
  "int_text i = (if i < 0 then CHR ''-'' else CHR ''+'') # unary (nat \<bar>i\<bar>)"

definition read_int :: "string \<Rightarrow> int \<times> string" where
  "read_int s = (let (n, r) = read_unary (tl s) in (if hd s = CHR ''-'' then - int n else int n, r))"

definition str_text :: "string \<Rightarrow> string" where
  "str_text s = unary (length s) @ s"

definition read_str :: "string \<Rightarrow> string \<times> string" where
  "read_str s = (let (n, r) = read_unary s in (take n r, drop n r))"

fun text_of :: "json \<Rightarrow> string" where
  "text_of JNull = ''n''"
| "text_of (JBool b) = (if b then ''t'' else ''f'')"
| "text_of (JInt i) = CHR ''i'' # int_text i"
| "text_of (JFloat q) = CHR ''q'' # int_text (fst (quotient_of q)) @ int_text (snd (quotient_of q))"
| "text_of (JStr s) = CHR ''s'' # str_text s"
| "text_of (JList xs) = CHR ''l'' # unary (length xs) @ concat (map text_of xs)"
| "text_of (JObj d) = CHR ''o'' # unary (length d) @ concat (map (\<lambda>kv. str_text (fst kv) @ text_of (snd kv)) d)"

fun times :: "(string \<Rightarrow> ('a \<times> string) option) \<Rightarrow> nat \<Rightarrow> string \<Rightarrow> ('a list \<times> string) option" where
  "times p 0 s = Some ([], s)"
| "times p (Suc n) s = (case p s of None \<Rightarrow> None | Some (x, r) \<Rightarrow>
     (case times p n r of None \<Rightarrow> None | Some (xs, r') \<Rightarrow> Some (x # xs, r')))"

fun read_value :: "nat \<Rightarrow> string \<Rightarrow> (json \<times> string) option" where
  "read_value (Suc n) (c # s) =
     (if c = CHR ''n'' then Some (JNull, s)
      else if c = CHR ''t'' then Some (JBool True, s)
      else if c = CHR ''f'' then Some (JBool False, s)
      else if c = CHR ''i'' then (let (i, r) = read_int s in Some (JInt i, r))
      else if c = CHR ''q'' then (let (a, r) = read_int s; (b, r') = read_int r in Some (JFloat (of_int a / of_int b), r'))
      else if c = CHR ''s'' then (let (t, r) = read_str s in Some (JStr t, r))
      else if c = CHR ''l'' then (let (m, r) = read_unary s in map_option (\<lambda>(xs, r). (JList xs, r)) (times (read_value n) m r))
      else if c = CHR ''o'' then (let (m, r) = read_unary s in map_option (\<lambda>(d, r). (JObj d, r))
        (times (\<lambda>s. let (k, r) = read_str s in map_option (\<lambda>(v, r). ((k, v), r)) (read_value n r)) m r))
      else None)"
| "read_value _ _ = None"

definition sim_loads :: "string \<Rightarrow> json option" where
  "sim_loads s = (case read_value (length s) s of Some (j, r) \<Rightarrow> if r = [] then Some j else None | None \<Rightarrow> None)"

lemma read_unary_unary [simp]: "read_unary (unary n @ r) = (n, r)"
  by (induction n) (auto simp: unary_def)

lemma read_int_text [simp]: "read_int (int_text i @ r) = (i, r)"
  by (simp add: read_int_def int_text_def)

lemma read_str_text [simp]: "read_str (str_text s @ r) = (s, r)"
  by (simp add: read_str_def str_text_def)

lemma times_concat:
  "(\<And>x r. x \<in> set xs \<Longrightarrow> p (f x @ r) = Some (x, r)) \<Longrightarrow> times p (length xs) (concat (map f xs) @ r) = Some (xs, r)"
  by (induction xs) auto

lemma length_member: "x \<in> set xs \<Longrightarrow> length (f x) \<le> length (concat (map f xs))"
  by (induction xs) auto

lemma read_value_text: "length (text_of j) \<le> n \<Longrightarrow> read_value n (text_of j @ r) = Some (j, r)"
proof (induction j arbitrary: n r)
  case (JFloat q)
  have "of_int (fst (quotient_of q)) / of_int (snd (quotient_of q)) = q" by (metis prod.collapse quotient_of_div)
  with JFloat show ?case by (cases n) auto
next
  case (JList xs)
  then obtain m where n: "n = Suc m" by (cases n) auto
  have "times (read_value m) (length xs) (concat (map text_of xs) @ r) = Some (xs, r)"
  proof (rule times_concat)
    fix x r assume x: "x \<in> set xs"
    with JList(2) n length_member[OF x, of text_of] show "read_value m (text_of x @ r) = Some (x, r)"
      by (intro JList(1)) auto
  qed
  with n show ?case by simp
next
  case (JObj d)
  then obtain m where n: "n = Suc m" by (cases n) auto
  let ?f = "\<lambda>kv. str_text (fst kv) @ text_of (snd kv)"
  have "times (\<lambda>s. let (k, r) = read_str s in map_option (\<lambda>(v, r). ((k, v), r)) (read_value m r)) (length d)
      (concat (map ?f d) @ r) = Some (d, r)"
  proof (rule times_concat)
    fix kv r assume x: "kv \<in> set d"
    have "read_value m (text_of (snd kv) @ r) = Some (snd kv, r)"
      using JObj(2) n length_member[OF x, of ?f] x by (intro JObj(1)[of kv]) (auto simp: snds.simps)
    then show "(let (k, r) = read_str (?f kv @ r) in map_option (\<lambda>(v, r). ((k, v), r)) (read_value m r)) = Some (kv, r)"
      by simp
  qed
  with n show ?case by simp
next
  case JNull
  then show ?case by (cases n) auto
next
  case (JBool b)
  then show ?case by (cases n) (auto split: if_splits)
next
  case (JInt i)
  then show ?case by (cases n) auto
next
  case (JStr t)
  then show ?case by (cases n) auto
qed

lemma sim_codec: "sim_loads (text_of j) = Some j"
  using read_value_text[of j "length (text_of j)" "[]"] by (simp add: sim_loads_def)

section \<open>The administrator secrets\<close>

text \<open>Random bytes that are all zero, a schema that accepts a dictionary of dictionaries of texts as it is.\<close>

definition sim_secret_env :: secret_env where
  "sim_secret_env = \<lparr>json_dumps = text_of, json_loads = sim_loads\<rparr>"

definition sim_urandom :: "unit secret_world_scheme urandom" where
  "sim_urandom n = aret (replicate n 0)"

definition sim_load :: "json \<Rightarrow> json res" where
  "sim_load j = (case j of JObj d \<Rightarrow> if jwf j then Inr j else Inl ValidationError | _ \<Rightarrow> Inl ValidationError)"

definition sim_admin :: "unit secret_world_scheme secret_class" where
  "sim_admin = admin_secret sim_load sim_urandom"

definition sim_data :: "string \<Rightarrow> jdict" where
  "sim_data pw = [(''database'', creds ''root'' pw), (''messaging'', creds ''rabbitmq'' pw), (''identity'', creds ''admin'' pw)]"

definition sim_stored :: "jdict \<Rightarrow> (string \<times> string) list" where
  "sim_stored d = map (\<lambda>(k, v). (k, b64encode (text_of v))) d"

definition sim_secrets :: "unit secret_world_scheme" where
  "sim_secrets = \<lparr>secrets =
     [((''os'', ''keystone''), \<lparr>s_data = sim_stored (sim_data ''old1''), s_priority = Some ''1'', s_labels = []\<rparr>),
      ((''os'', ''keystone-1''), \<lparr>s_data = sim_stored (sim_data ''old0''), s_priority = None, s_labels = []\<rparr>)]\<rparr>"

lemma sim_codec_law: "json_loads sim_secret_env (json_dumps sim_secret_env (JObj d)) = Some (JObj d)"
  by (simp add: sim_secret_env_def sim_codec del: text_of.simps)

lemma sim_decode: "decode_data sim_secret_env (sim_stored d) = Inr d"
  by (induction d) (auto simp: decode_data_def sim_stored_def decode_value_def sim_secret_env_def sim_codec)

lemma sim_encode:
  "(\<And>k v. (k, v) \<in> set d \<Longrightarrow> \<exists>m. v = JObj m) \<Longrightarrow> encode_data sim_secret_env d = Inr (sim_stored d)"
  by (induction d) (fastforce simp: encode_data_def sim_stored_def encode_value_def sim_secret_env_def)+

lemma sim_prio: "prio sim_secrets (''os'', ''keystone'') = Inr 1" "prio sim_secrets (''os'', ''keystone-1'') = Inr 0"
  by (simp_all add: prio_def sim_secrets_def priority_of_def) code_simp

lemma sim_pair: "the_pair ''os'' ''keystone'' sim_secrets = (Inr ((''os'', ''keystone''), (''os'', ''keystone-1'')), sim_secrets)"
  by (rule the_pairI[OF _ sim_prio]) auto

lemma sim_read:
  "multi_get_data sim_secret_env ''os'' ''keystone'' ''keystone'' sim_secrets = (Inr (JObj (sim_data ''old1'')), sim_secrets)"
  "multi_get_data sim_secret_env ''os'' ''keystone'' ''keystone-1'' sim_secrets = (Inr (JObj (sim_data ''old0'')), sim_secrets)"
proof -
  have at: "map_of (secrets sim_secrets) (''os'', ''keystone'') = Some \<lparr>s_data = sim_stored (sim_data ''old1''), s_priority = Some ''1'', s_labels = []\<rparr>"
    "map_of (secrets sim_secrets) (''os'', ''keystone-1'') = Some \<lparr>s_data = sim_stored (sim_data ''old0''), s_priority = None, s_labels = []\<rparr>"
    by (simp_all add: sim_secrets_def)
  show "multi_get_data sim_secret_env ''os'' ''keystone'' ''keystone'' sim_secrets = (Inr (JObj (sim_data ''old1'')), sim_secrets)"
    using multi_get_data_member[OF the_pair_sorted[OF sim_pair] _ at(1)] by (simp add: sim_decode)
  show "multi_get_data sim_secret_env ''os'' ''keystone'' ''keystone-1'' sim_secrets = (Inr (JObj (sim_data ''old0'')), sim_secrets)"
    using multi_get_data_member[OF the_pair_sorted[OF sim_pair] _ at(2)] by (simp add: sim_decode)
qed

lemma sim_password: "generate_password sim_urandom n = aret (replicate n CHR ''a'')"
  by (simp add: generate_password_def sim_urandom_def map_replicate password_chars_def)

definition sim_renewed :: jdict where
  "sim_renewed = sim_data (replicate 32 CHR ''a'')"

definition sim_new :: json where
  "sim_new = JObj [(''database'', creds ''root'' (replicate 32 CHR ''a'')), (''messaging'', creds ''rabbitmq'' (replicate 32 CHR ''a'')),
      (''identity'', creds (take 16 (''admin'' @ replicate 16 CHR ''a'')) (replicate 32 CHR ''a''))]"

lemma sim_fill: "fill_new_fields sim_admin (JObj (sim_data ''old0'')) (fst (rotation_fields sim_admin)) s = (Inr (JObj sim_renewed), s)"
proof -
  have c: "create sim_admin s = (Inr sim_new, s)"
    by (simp add: sim_new_def sim_admin_def admin_secret_def admin_create_def named_creds_def sim_password generate_name_def)
       (simp add: aret_def)
  have f: "fill sim_new
      (JObj (sim_data ''old0'')) (fst (rotation_fields sim_admin)) = Inr (JObj sim_renewed)" by code_simp
  have l: "from_json sim_admin (JObj sim_renewed) = Inr (JObj sim_renewed)" by code_simp
  show ?thesis by (simp add: fill_new_fields_def abind_def c f l alift_def)
qed

lemma sim_rotate:
  "\<exists>t. rotate_secret sim_secret_env sim_admin ''os'' ''keystone'' 2 sim_secrets = (Inr (), t)"
proof -
  have r: "\<not> jtruthy (snd (rotation_fields sim_admin))" by code_simp
  have e: "encode_data sim_secret_env sim_renewed = Inr (sim_stored sim_renewed)"
    by (rule sim_encode) (auto simp: sim_renewed_def sim_data_def creds_def)
  show ?thesis
    by (simp add: rotate_secret_at[OF sim_pair sim_prio(1)] promote_def abind_def sim_pair sim_read r sim_fill aret_def
        multi_save_def alift_def e save_secret_data_def save_secret_with_labels_def get_secret_at put_secret_def amod_def set_secret_priority_def
        split: option.splits)
qed

lemma sim_admin_contract: "keeps secrets (create sim_admin)" "rules_ok sim_admin" "loads_texts sim_admin"
proof -
  show "keeps secrets (create sim_admin)"
    by (auto simp: sim_admin_def admin_secret_def admin_create_def named_creds_def generate_password_def sim_urandom_def generate_name_def)
  show "rules_ok sim_admin" by (auto simp: rules_ok_def sim_admin_def admin_secret_def admin_rotation_fields_def path_list_def)
  show "loads_texts sim_admin"
    by (auto simp: loads_texts_def sim_admin_def admin_secret_def sim_load_def split: json.splits if_splits)
qed

section \<open>Notifications for one external system\<close>

definition sim_to_str :: "json \<Rightarrow> string" where
  "sim_to_str j = (case j of JStr t \<Rightarrow> t | JInt i \<Rightarrow> show_int i | _ \<Rightarrow> [])"

definition sim_handler_env :: handler_env where
  "sim_handler_env = \<lparr>json_dumps = text_of, json_loads = sim_loads, osdpl_namespace = ''os'', bgpvpn_secret_name = ''bgpvpn'',
     json_sorted = text_of, sha256_hex = \<lambda>_. ''0a1b'', to_str = sim_to_str, yaml_load = \<lambda>_. Inr jempty, yaml_dump = text_of,
     ini_default = \<lambda>_ k. Inr k, timestamp_text = jstr\<rparr>"

definition sim_users :: json where
  "sim_users = JObj [(''alpha_external_notifications'', JObj [(''auth'', JObj [(''alpha'', creds ''u'' ''p'')])])]"

definition sim_users_body :: json where
  "sim_users_body = JObj [(''data'', JObj [(''RABBITMQ_USERS'', JStr (b64encode (text_of sim_users)))])]"

definition sim_osdpl :: json where
  "sim_osdpl = JObj [(''spec'', JObj [(''features'', JObj [(''messaging'', JObj [(''notifications'', JObj [(''external'',
     JObj [(''enabled'', JBool True), (''topics'', JList [JStr ''alpha'', JStr ''beta''])])])])])])]"

definition sim_rabbit :: json where
  "sim_rabbit = JObj [(''status'', JObj [(''loadBalancer'', JObj [(''ingress'', JList [JObj [(''ip'', JStr ''10'')]])])]),
     (''spec'', JObj [(''ports'', JList [JObj [(''name'', JStr ''amqp''), (''port'', JInt 56)]])])]"

definition sim_handler_world :: "unit handler_world_scheme" where
  "sim_handler_world = \<lparr>secrets =
     [((''openstack-external'', ''openstack-old-notifications''), \<lparr>s_data = [], s_priority = None, s_labels = [external_label]\<rparr>),
      ((''os'', ''rabbitmq-external-certs''), \<lparr>s_data = [(''ca_cert'', ''a''), (''client_cert'', ''b''), (''client_key'', ''c'')],
         s_priority = None, s_labels = []\<rparr>)],
     hw_osdpl = Some sim_osdpl, hw_osdplst = jempty, hw_services = [((''os'', ''rabbitmq-external''), sim_rabbit)]\<rparr>"

text \<open>The administrator secrets after a rotation, as the handler of the secrets sees them.\<close>

definition sim_rotated_world :: "unit handler_world_scheme" where
  "sim_rotated_world = \<lparr>secrets =
     [((''os'', ''openstack-admin-users''), \<lparr>s_data = [], s_priority = Some ''1'', s_labels = []\<rparr>),
      ((''os'', ''openstack-admin-users-1''), \<lparr>s_data = [], s_priority = Some ''2'', s_labels = []\<rparr>)],
     hw_osdpl = Some sim_osdpl, hw_osdplst = JObj [(''status'', jempty)], hw_services = []\<rparr>"

definition sim_annotated :: "string \<Rightarrow> json" where
  "sim_annotated i = JObj [(''metadata'', JObj [(''annotations'', JObj [(SECRET_PRIORITY, JStr i)])])]"

definition sim_meta :: "secret_key \<Rightarrow> secret_meta" where
  "sim_meta k = \<lparr>managed = [JObj [(''time'', JStr ''now''), (''fieldsV1'', JObj [(''f:metadata'',
     JObj [(''f:annotations'', JObj [(''f:'' @ SECRET_PRIORITY, jempty)])])])]], created = JStr ''before''\<rparr>"

section \<open>Two connected child objects\<close>

definition sim_child_tree :: json where
  "sim_child_tree = JObj [(''compute'', JObj [(''nova'', JObj [(''Deployment'', JObj
       [(''nova-api'', JObj [(''pod_labels'', JStr ''api''), (''connections'', JObj [(''egress'', JList [JObj [(''to_child_object'',
          JObj [(''service'', JStr ''database''), (''chart'', JStr ''mariadb''), (''kind'', JStr ''StatefulSet''),
                (''name'', JStr ''server''), (''ports'', JList [JStr ''mysql''])])]])])])])])]),
     (''database'', JObj [(''mariadb'', JObj [(''StatefulSet'', JObj [(''server'', JObj [(''pod_labels'', JStr ''db''),
        (''ports'', JList [JObj [(''name'', JStr ''mysql''), (''protocol'', JStr ''TCP''), (''port'', JInt 33)]])])])])])]"

definition sim_ports_hash :: "json list \<Rightarrow> string" where
  "sim_ports_hash ps = text_of (JList ps)"

lemma sim_ports_hash_inj: "inj sim_ports_hash"
proof (rule injI)
  fix x y assume "sim_ports_hash x = sim_ports_hash y"
  then have "Some (JList x) = Some (JList y)" unfolding sim_ports_hash_def by (metis sim_codec)
  then show "x = y" by simp
qed

end
