(* ===== verification/OvnWorkflow.thy ===== *)
theory OvnWorkflow
  imports Workloads
begin

text \<open>
  The workflow of \<open>cli/ovs_ovn_migration.py\<close>: the stages of the migration, the config map that records
  how far they are, and \<open>do_migration\<close>, which runs them one after the other and can be resumed.  The
  stages themselves are in \<open>OvnMigration\<close>.  The values of the config map are kept parsed: the source
  writes them with \<open>json.dumps\<close> and reads them with \<open>json.loads\<close>.
\<close>

section \<open>The state of the migration\<close>

text \<open>\<open>state_maps\<close> are the config maps with the label of the migration; \<open>typed_lines\<close> is what the user types.\<close>

record migration_world = workloads +
  state_maps :: "(string \<times> jdict) list"
  typed_lines :: "string list"

type_synonym 'w stage = "string \<times> ('w migration_world_scheme, unit) act"

definition MIGRATION_STATE_CONFIGMAP_NAME :: string where
  "MIGRATION_STATE_CONFIGMAP_NAME = ''ovs-ovn-migration-state''"

definition STARTED :: string where
  "STARTED = ''started''"

definition COMPLETED :: string where
  "COMPLETED = ''completed''"

definition FAILED :: string where
  "FAILED = ''failed''"

definition stage_state :: "string \<Rightarrow> json \<Rightarrow> json" where
  "stage_state st error = JObj [(''status'', JStr st), (''error'', error)]"

text \<open>\<open>StateCM.__init__\<close> with \<open>create\<close>; the result is the name of the config map in use.\<close>

definition statecm_create :: "string \<Rightarrow> string list \<Rightarrow> ('w migration_world_scheme, string) act" where
  "statecm_create name stage_names = athen
     (amod (\<lambda>s. s\<lparr>state_maps := (name, map (\<lambda>n. (n, stage_state ''init'' JNull)) stage_names) # state_maps s\<rparr>))
     (aret name)"

definition statecm_open :: "string \<Rightarrow> string list \<Rightarrow> ('w migration_world_scheme, string) act" where
  "statecm_open name stage_names = abind (aget state_maps) (\<lambda>cms.
     if length cms > 1 then araise ValueError
     else case cms of [] \<Rightarrow> statecm_create name stage_names | (n, _) # _ \<Rightarrow> aret n)"

text \<open>The property \<open>state\<close> reloads the config map; \<open>update\<close> writes one entry of it.\<close>

definition statecm_state :: "string \<Rightarrow> ('w migration_world_scheme, jdict) act" where
  "statecm_state cm = (\<lambda>s. (case map_of (state_maps s) cm of None \<Rightarrow> Inl ApiError | Some d \<Rightarrow> Inr d, s))"

definition statecm_update :: "string \<Rightarrow> string \<Rightarrow> string \<Rightarrow> json \<Rightarrow> ('w migration_world_scheme, unit) act" where
  "statecm_update cm stage_name st error = abind (statecm_state cm) (\<lambda>d.
     amod (\<lambda>s. s\<lparr>state_maps := AList.update cm (AList.update stage_name (stage_state st error) d) (state_maps s)\<rparr>))"

text \<open>\<open>check_input\<close> asks until the answer is legal; at the end of the input \<open>input\<close> fails.\<close>

fun read_answer :: "(string \<Rightarrow> bool) \<Rightarrow> string list \<Rightarrow> (string \<times> string list) option" where
  "read_answer check [] = None"
| "read_answer check (l # ls) = (if check (py_strip l) then Some (py_strip l, ls) else read_answer check ls)"

definition check_input :: "(string \<Rightarrow> bool) \<Rightarrow> ('w migration_world_scheme, string) act" where
  "check_input check = (\<lambda>s. case read_answer check (typed_lines s) of
       None \<Rightarrow> (Inl (OtherException ''EOFError''), s\<lparr>typed_lines := []\<rparr>)
     | Some (r, ls) \<Rightarrow> (Inr r, s\<lparr>typed_lines := ls\<rparr>))"

section \<open>Running the stages\<close>

text \<open>The body of the \<open>try\<close>: a completed stage is skipped, any other is recorded, run and recorded again.\<close>

definition stage_status :: "jdict \<Rightarrow> string \<Rightarrow> json res" where
  "stage_status state stage_name = rbind (jitem (JObj state) stage_name) (\<lambda>j. jitem j ''status'')"

definition try_stage :: "string \<Rightarrow> jdict \<Rightarrow> 'w stage \<Rightarrow> ('w migration_world_scheme, unit) act" where
  "try_stage cm state stage = abind (alift (stage_status state (fst stage))) (\<lambda>st.
     if py_eq st (JStr COMPLETED) then aret ()
     else athen (statecm_update cm (fst stage) STARTED JNull)
         (athen (snd stage) (statecm_update cm (fst stage) COMPLETED JNull)))"

text \<open>
  The \<open>finally\<close> block: \<open>error\<close> is the variable of that name, \<open>pending\<close> the exception that is on its way
  when the handler itself failed.  The result says whether the loop goes on; \<open>break\<close> discards a pending
  exception.
\<close>

definition finish_stage :: "bool \<Rightarrow> bool \<Rightarrow> py_exc option \<Rightarrow> py_exc option \<Rightarrow> ('w migration_world_scheme, bool) act" where
  "finish_stage interactive is_last error pending =
     abind (if interactive \<and> \<not> is_last then check_input (\<lambda>x. x \<in> {''Y'', ''N''}) else aret []) (\<lambda>res.
     if res = ''N'' then aret False
     else case (if res = ''Y'' then None else error) of
         Some e \<Rightarrow> araise e
       | None \<Rightarrow> (case pending of Some e \<Rightarrow> araise e | None \<Rightarrow> aret True))"

definition run_stage ::
  "bool \<Rightarrow> (py_exc \<Rightarrow> string) \<Rightarrow> string \<Rightarrow> jdict \<Rightarrow> bool \<Rightarrow> 'w stage \<Rightarrow> ('w migration_world_scheme, bool) act" where
  "run_stage interactive traceback cm state is_last stage = (\<lambda>s.
     case try_stage cm state stage s of
       (Inr _, t) \<Rightarrow> finish_stage interactive is_last None None t
     | (Inl e, t) \<Rightarrow>
         (case statecm_update cm (fst stage) FAILED (JStr (traceback e)) t of
            (Inr _, u) \<Rightarrow> finish_stage interactive is_last (Some e) None u
          | (Inl e', u) \<Rightarrow> finish_stage interactive is_last (Some e) (Some e') u))"

fun run_stages ::
  "bool \<Rightarrow> (py_exc \<Rightarrow> string) \<Rightarrow> string \<Rightarrow> jdict \<Rightarrow> 'w stage list \<Rightarrow> ('w migration_world_scheme, unit) act" where
  "run_stages interactive traceback cm state [] = aret ()"
| "run_stages interactive traceback cm state (stage # stages) =
     abind (run_stage interactive traceback cm state (stages = []) stage) (\<lambda>go_on.
     if go_on then run_stages interactive traceback cm state stages else aret ())"

definition do_migration :: "bool \<Rightarrow> (py_exc \<Rightarrow> string) \<Rightarrow> 'w stage list \<Rightarrow> ('w migration_world_scheme, unit) act" where
  "do_migration interactive traceback stages =
     abind (statecm_open MIGRATION_STATE_CONFIGMAP_NAME (map fst stages)) (\<lambda>cm.
     abind (statecm_state cm) (\<lambda>state. run_stages interactive traceback cm state stages))"

section \<open>What a run records\<close>

text \<open>The entry of a stage in a config map, and the stages that are recorded as completed.\<close>

definition entry_at :: "string \<Rightarrow> 'w migration_world_scheme \<Rightarrow> string \<Rightarrow> json option" where
  "entry_at cm s n = Option.bind (map_of (state_maps s) cm) (\<lambda>d. map_of d n)"

definition status_is :: "string \<Rightarrow> json option \<Rightarrow> bool" where
  "status_is st e = (case e of Some (JObj d) \<Rightarrow> map_of d ''status'' = Some (JStr st) | _ \<Rightarrow> False)"

lemma status_is_stage_state [simp]: "status_is st (Some (stage_state st' e)) = (st' = st)"
  by (simp add: status_is_def stage_state_def)

text \<open>The part of the state that only the workflow writes.\<close>

abbreviation bookkeeping :: "'w migration_world_scheme \<Rightarrow> (string \<times> jdict) list \<times> string list" where
  "bookkeeping s \<equiv> (state_maps s, typed_lines s)"

definition same_but :: "string \<Rightarrow> string \<Rightarrow> 'w migration_world_scheme \<Rightarrow> 'w migration_world_scheme \<Rightarrow> bool" where
  "same_but cm n s t \<longleftrightarrow> keys (state_maps t) = keys (state_maps s) \<and> (\<forall>m. m \<noteq> n \<longrightarrow> entry_at cm t m = entry_at cm s m)"

lemma same_but_refl [simp]: "same_but cm n s s"
  by (simp add: same_but_def)

lemma same_but_trans: "same_but cm n s t \<Longrightarrow> same_but cm n t u \<Longrightarrow> same_but cm n s u"
  by (simp add: same_but_def)

lemma same_but_bookkeeping: "bookkeeping t = bookkeeping s \<Longrightarrow> same_but cm n s t"
  by (simp add: same_but_def entry_at_def)

lemma update_records:
  assumes "cm \<in> set (keys (state_maps s))"
  obtains t where "statecm_update cm n st e s = (Inr (), t)" and "same_but cm n s t"
    and "entry_at cm t n = Some (stage_state st e)" and "typed_lines t = typed_lines s"
proof -
  obtain d where d: "map_of (state_maps s) cm = Some d"
    using assms by (metis not_None_eq map_of_eq_None_iff image_set)
  let ?t = "s\<lparr>state_maps := AList.update cm (AList.update n (stage_state st e) d) (state_maps s)\<rparr>"
  have "statecm_update cm n st e s = (Inr (), ?t)"
    using d by (simp add: statecm_update_def statecm_state_def abind_def amod_def)
  moreover have "same_but cm n s ?t" "entry_at cm ?t n = Some (stage_state st e)"
    using assms d by (simp_all add: same_but_def entry_at_def keys_update)
  ultimately show thesis using that by simp
qed

text \<open>The test of the source agrees with the entry.\<close>

lemma py_eq_JStr: "py_eq j (JStr x) = (j = JStr x)"
  by (cases j) auto

lemma stage_status_completed:
  "(\<exists>st. stage_status d n = Inr st \<and> py_eq st (JStr COMPLETED)) = status_is COMPLETED (map_of d n)"
proof (cases "map_of d n")
  case None
  then show ?thesis by (simp add: stage_status_def status_is_def)
next
  case (Some j)
  then show ?thesis
    by (cases j) (auto simp: stage_status_def status_is_def py_eq_JStr split: option.splits)
qed

definition stage_finished :: "jdict \<Rightarrow> 'w stage \<Rightarrow> bool" where
  "stage_finished d stage \<longleftrightarrow> status_is COMPLETED (map_of d (fst stage))"

lemma try_stage_finished: "stage_finished d stage \<Longrightarrow> try_stage cm d stage = aret ()"
  using stage_status_completed[of d "fst stage"]
  by (auto simp: stage_finished_def try_stage_def abind_alift_at)

lemma try_stage_unfinished:
  "\<not> stage_finished d stage \<Longrightarrow> (\<exists>e. try_stage cm d stage = araise e) \<or>
   try_stage cm d stage = athen (statecm_update cm (fst stage) STARTED JNull)
     (athen (snd stage) (statecm_update cm (fst stage) COMPLETED JNull))"
  using stage_status_completed[of d "fst stage"]
  by (cases "stage_status d (fst stage)")
    (auto simp: stage_finished_def try_stage_def abind_alift_at alift_def abind_def araise_def)

lemma try_stage_records:
  assumes cm: "cm \<in> set (keys (state_maps s))" and f: "keeps bookkeeping (snd stage)"
    and run: "try_stage cm d stage s = (r, t)"
  shows "same_but cm (fst stage) s t" and "typed_lines t = typed_lines s"
    and "r = Inr u \<Longrightarrow> \<not> stage_finished d stage \<Longrightarrow> entry_at cm t (fst stage) = Some (stage_state COMPLETED JNull)"
proof -
  let ?goal = "same_but cm (fst stage) s t \<and> typed_lines t = typed_lines s \<and>
    (\<not> stage_finished d stage \<longrightarrow> (\<forall>u. r = Inr u \<longrightarrow> entry_at cm t (fst stage) = Some (stage_state COMPLETED JNull)))"
  consider "stage_finished d stage" | (raises) e where "\<not> stage_finished d stage" "try_stage cm d stage = araise e"
    | (runs) "\<not> stage_finished d stage" "try_stage cm d stage = athen (statecm_update cm (fst stage) STARTED JNull)
        (athen (snd stage) (statecm_update cm (fst stage) COMPLETED JNull))"
    using try_stage_unfinished by blast
  then have ?goal
  proof cases
    case 1
    then show ?thesis using run by (simp add: try_stage_finished aret_def)
  next
    case raises
    then show ?thesis using run by (auto simp: araise_def)
  next
    case runs
    obtain s1 where s1: "statecm_update cm (fst stage) STARTED JNull s = (Inr (), s1)" "same_but cm (fst stage) s s1"
      "typed_lines s1 = typed_lines s"
      using cm by (rule update_records)
    obtain q s2 where s2: "snd stage s1 = (q, s2)" by fastforce
    have b: "bookkeeping s2 = bookkeeping s1" using f s2 by (rule keepsD)
    then have two: "same_but cm (fst stage) s s2" "typed_lines s2 = typed_lines s"
      using s1(2,3) same_but_bookkeeping same_but_trans by fastforce+
    show ?thesis
    proof (cases q)
      case (Inl e)
      then show ?thesis using run runs(2) s1(1) s2 two by (auto simp: act_simps)
    next
      case (Inr v)
      have "cm \<in> set (keys (state_maps s2))" using cm two(1) by (simp add: same_but_def)
      then obtain s3 where s3: "statecm_update cm (fst stage) COMPLETED JNull s2 = (Inr (), s3)"
        "same_but cm (fst stage) s2 s3" "entry_at cm s3 (fst stage) = Some (stage_state COMPLETED JNull)"
        "typed_lines s3 = typed_lines s2"
        by (rule update_records)
      then have "r = Inr ()" "t = s3" using run runs(2) s1(1) s2 Inr by (simp_all add: act_simps)
      then show ?thesis using s3 two same_but_trans by metis
    qed
  qed
  then show "same_but cm (fst stage) s t" and "typed_lines t = typed_lines s"
    and "r = Inr u \<Longrightarrow> \<not> stage_finished d stage \<Longrightarrow> entry_at cm t (fst stage) = Some (stage_state COMPLETED JNull)"
    by blast+
qed

section \<open>Runs without a user\<close>

lemma finish_stage_silent:
  "finish_stage False is_last error None = (case error of None \<Rightarrow> aret True | Some e \<Rightarrow> araise e)"
  by (auto simp: finish_stage_def split: option.splits)

text \<open>A stage of a silent run is left completed, or its error is recorded and raised.\<close>

lemma silent_stage:
  assumes cm: "cm \<in> set (keys (state_maps s))" and f: "keeps bookkeeping (snd stage)"
    and run: "run_stage False traceback cm d is_last stage s = (r, t)"
  shows "same_but cm (fst stage) s t"
    and "(case r of Inl e \<Rightarrow> \<not> stage_finished d stage \<and> status_is FAILED (entry_at cm t (fst stage))
     | Inr go_on \<Rightarrow> go_on \<and> (if stage_finished d stage then t = s else status_is COMPLETED (entry_at cm t (fst stage))))"
proof -
  obtain q t1 where tried: "try_stage cm d stage s = (q, t1)" by fastforce
  note rec = try_stage_records[OF cm f tried]
  have "same_but cm (fst stage) s t \<and> (case r of Inl e \<Rightarrow> \<not> stage_finished d stage \<and> status_is FAILED (entry_at cm t (fst stage))
     | Inr go_on \<Rightarrow> go_on \<and> (if stage_finished d stage then t = s else status_is COMPLETED (entry_at cm t (fst stage))))"
  proof (cases q)
    case (Inr u)
    then have "r = Inr True" "t = t1"
      using run tried by (simp_all add: run_stage_def finish_stage_silent aret_def)
    moreover have "t = s" if "stage_finished d stage"
      using tried that \<open>t = t1\<close> by (simp add: try_stage_finished aret_def)
    ultimately show ?thesis using rec Inr by auto
  next
    case (Inl e)
    then have fresh: "\<not> stage_finished d stage" using tried by (auto simp: try_stage_finished aret_def)
    have "cm \<in> set (keys (state_maps t1))" using cm rec(1) by (simp add: same_but_def)
    then obtain t2 where u: "statecm_update cm (fst stage) FAILED (JStr (traceback e)) t1 = (Inr (), t2)"
      "same_but cm (fst stage) t1 t2"
      "entry_at cm t2 (fst stage) = Some (stage_state FAILED (JStr (traceback e)))"
      by (rule update_records)
    then have "r = Inl e" "t = t2"
      using run tried Inl by (simp_all add: run_stage_def finish_stage_silent araise_def)
    then show ?thesis using fresh u rec(1) same_but_trans by fastforce
  qed
  then show "same_but cm (fst stage) s t"
    and "(case r of Inl e \<Rightarrow> \<not> stage_finished d stage \<and> status_is FAILED (entry_at cm t (fst stage))
     | Inr go_on \<Rightarrow> go_on \<and> (if stage_finished d stage then t = s else status_is COMPLETED (entry_at cm t (fst stage))))"
    by blast+
qed

definition stage_settled :: "string \<Rightarrow> jdict \<Rightarrow> 'w migration_world_scheme \<Rightarrow> 'w migration_world_scheme \<Rightarrow> 'w stage \<Rightarrow> bool" where
  "stage_settled cm d s t stage \<longleftrightarrow>
     (if stage_finished d stage then entry_at cm t (fst stage) = entry_at cm s (fst stage)
      else status_is COMPLETED (entry_at cm t (fst stage)))"

definition stopped_at ::
  "string \<Rightarrow> jdict \<Rightarrow> 'w migration_world_scheme \<Rightarrow> 'w migration_world_scheme \<Rightarrow> 'w stage list \<Rightarrow> bool" where
  "stopped_at cm d s t stages \<longleftrightarrow> (\<exists>pre x post. stages = pre @ x # post \<and> (\<forall>y \<in> set pre. stage_settled cm d s t y) \<and>
     status_is FAILED (entry_at cm t (fst x)) \<and> (\<forall>y \<in> set post. entry_at cm t (fst y) = entry_at cm s (fst y)))"

lemma silent_stages:
  assumes "cm \<in> set (keys (state_maps s))" and "distinct (map fst stages)"
    and "\<And>stage. stage \<in> set stages \<Longrightarrow> keeps bookkeeping (snd stage)"
    and "run_stages False traceback cm d stages s = (r, t)"
  shows "keys (state_maps t) = keys (state_maps s) \<and>
    (\<forall>m. m \<notin> fst ` set stages \<longrightarrow> entry_at cm t m = entry_at cm s m) \<and>
    (case r of Inr _ \<Rightarrow> \<forall>y \<in> set stages. stage_settled cm d s t y | Inl _ \<Rightarrow> stopped_at cm d s t stages)"
  using assms
proof (induction stages arbitrary: s)
  case Nil
  then show ?case by (auto simp: aret_def)
next
  case (Cons x rest)
  obtain q s1 where one: "run_stage False traceback cm d (rest = []) x s = (q, s1)" by fastforce
  note first = silent_stage[OF Cons.prems(1) Cons.prems(3)[of x] one]
  have same: "same_but cm (fst x) s s1" using first(1) by simp
  have other: "fst x \<notin> fst ` set rest" using Cons.prems(2) by simp
  show ?case
  proof (cases q)
    case (Inl e)
    then have end_: "r = Inl e" "t = s1" using Cons.prems(4) one by (simp_all add: act_simps)
    have "entry_at cm t (fst y) = entry_at cm s (fst y)" if "y \<in> set rest" for y
    proof -
      have "fst y \<noteq> fst x" using that other by (metis image_eqI)
      then show ?thesis using same end_ by (simp add: same_but_def)
    qed
    moreover have "status_is FAILED (entry_at cm t (fst x))" using first(2) Inl end_ by simp
    ultimately have "stopped_at cm d s t (x # rest)"
      unfolding stopped_at_def by (intro exI[of _ "[]"] exI[of _ x] exI[of _ rest]) simp
    then show ?thesis using same end_ by (simp add: same_but_def)
  next
    case (Inr go_on)
    then have go: "go_on" and x: "if stage_finished d x then s1 = s else status_is COMPLETED (entry_at cm s1 (fst x))"
      using first(2) by simp_all
    then have rest: "run_stages False traceback cm d rest s1 = (r, t)"
      using Cons.prems(4) one Inr by (simp add: act_simps)
    have k: "keys (state_maps s1) = keys (state_maps s)" using same by (simp add: same_but_def)
    have ih: "keys (state_maps t) = keys (state_maps s1) \<and>
      (\<forall>m. m \<notin> fst ` set rest \<longrightarrow> entry_at cm t m = entry_at cm s1 m) \<and>
      (case r of Inr _ \<Rightarrow> \<forall>y \<in> set rest. stage_settled cm d s1 t y | Inl _ \<Rightarrow> stopped_at cm d s1 t rest)"
      using Cons.prems(1,2,3) k rest by (intro Cons.IH) auto
    have x_t: "stage_settled cm d s t x" using x ih other by (simp add: stage_settled_def)
    have untouched: "entry_at cm s1 (fst y) = entry_at cm s (fst y)" if "y \<in> set rest" for y
    proof -
      have "fst y \<noteq> fst x" using that other by (metis image_eqI)
      then show ?thesis using same by (simp add: same_but_def)
    qed
    then have rest_t: "stage_settled cm d s t y" if "y \<in> set rest" "stage_settled cm d s1 t y" for y
      using that by (simp add: stage_settled_def)
    have others: "\<forall>m. m \<notin> fst ` set (x # rest) \<longrightarrow> entry_at cm t m = entry_at cm s m"
      using ih same by (simp add: same_but_def)
    show ?thesis
    proof (cases r)
      case (Inr u)
      then show ?thesis using ih k others x_t rest_t by simp
    next
      case (Inl e)
      then obtain pre z post where p: "rest = pre @ z # post" "\<forall>y \<in> set pre. stage_settled cm d s1 t y"
        "status_is FAILED (entry_at cm t (fst z))" "\<forall>y \<in> set post. entry_at cm t (fst y) = entry_at cm s1 (fst y)"
        using ih by (auto simp: stopped_at_def)
      have "entry_at cm t (fst y) = entry_at cm s (fst y)" if "y \<in> set post" for y
        using that p(1,4) untouched by simp
      then have "stopped_at cm d s t (x # rest)"
        unfolding stopped_at_def
        by (intro exI[of _ "x # pre"] exI[of _ z] exI[of _ post]) (use p rest_t x_t in auto)
      then show ?thesis using ih k others Inl by simp
    qed
  qed
qed

lemma finished_stages_skipped:
  "(\<forall>y \<in> set ys. stage_finished d y) \<Longrightarrow> run_stages False traceback cm d (ys @ rest) s = run_stages False traceback cm d rest s"
proof (induction ys arbitrary: s)
  case (Cons y ys)
  then show ?case
    by (simp add: run_stage_def try_stage_finished finish_stage_silent aret_def abind_def)
qed simp

section \<open>Runs with a user\<close>

text \<open>The legal answers among the lines typed; a stage after the first one needs a \<open>Y\<close> for each before it.\<close>

definition typed_answers :: "'w migration_world_scheme \<Rightarrow> string list" where
  "typed_answers s = filter (\<lambda>x. x \<in> {''Y'', ''N''}) (map py_strip (typed_lines s))"

lemma read_answer_filter:
  "read_answer check ls = Some (x, rest) \<Longrightarrow>
   filter check (map py_strip ls) = x # filter check (map py_strip rest)"
  by (induction ls) (auto split: if_splits)

lemma check_input_answer:
  assumes "check_input (\<lambda>x. x \<in> {''Y'', ''N''}) s = (Inr x, t)"
  shows "typed_answers s = x # typed_answers t" and "state_maps t = state_maps s"
  using assms read_answer_filter[of "\<lambda>x. x \<in> {''Y'', ''N''}" "typed_lines s" x]
  by (auto simp: check_input_def typed_answers_def split: option.splits)

lemma check_input_keeps: "keeps state_maps (check_input check)"
  by (rule keepsI) (auto simp: check_input_def split: option.splits prod.splits)

lemma finish_stage_keeps: "keeps state_maps (finish_stage interactive is_last error pending)"
  unfolding finish_stage_def
  by (intro keeps_abind keeps_if check_input_keeps keeps_aret)
    (auto simp: keeps_def aret_def araise_def split: option.splits)

lemma finish_stage_goes_on:
  assumes "finish_stage True False error pending s = (Inr True, t)"
  shows "typed_answers s = ''Y'' # typed_answers t"
proof -
  obtain x u where x: "check_input (\<lambda>x. x \<in> {''Y'', ''N''}) s = (Inr x, u)"
    and rest: "(if x = ''N'' then aret False else case (if x = ''Y'' then None else error) of
         Some e \<Rightarrow> araise e
       | None \<Rightarrow> (case pending of Some e \<Rightarrow> araise e | None \<Rightarrow> aret True)) u = (Inr True, t)"
    using assms unfolding finish_stage_def by (auto simp: abind_eq_Inr)
  have legal: "x \<in> set (typed_answers s)" using check_input_answer(1)[OF x] by simp
  have "x \<noteq> ''N''" using rest by (auto simp: aret_def)
  then have "x = ''Y''" using legal by (auto simp: typed_answers_def)
  moreover have "t = u" using rest by (auto simp: aret_def araise_def split: if_splits option.splits)
  ultimately show ?thesis using check_input_answer(1)[OF x] by simp
qed

lemma asked_stage:
  assumes cm: "cm \<in> set (keys (state_maps s))" and f: "keeps bookkeeping (snd stage)"
    and run: "run_stage interactive traceback cm d is_last stage s = (r, t)"
  obtains error pending t2 where "same_but cm (fst stage) s t2" and "typed_lines t2 = typed_lines s"
    and "finish_stage interactive is_last error pending t2 = (r, t)"
proof -
  obtain q t1 where tried: "try_stage cm d stage s = (q, t1)" by fastforce
  note rec = try_stage_records[OF cm f tried]
  show thesis
  proof (cases q)
    case (Inr u)
    then show ?thesis using run tried rec(1,2) by (auto simp: run_stage_def intro: that)
  next
    case (Inl e)
    have "cm \<in> set (keys (state_maps t1))" using cm rec(1) by (simp add: same_but_def)
    then obtain t2 where u: "statecm_update cm (fst stage) FAILED (JStr (traceback e)) t1 = (Inr (), t2)"
      "same_but cm (fst stage) t1 t2" "typed_lines t2 = typed_lines t1"
      by (rule update_records)
    then have "finish_stage interactive is_last (Some e) None t2 = (r, t)"
      using run tried Inl by (simp add: run_stage_def)
    moreover have "same_but cm (fst stage) s t2" using rec(1) u(2) by (rule same_but_trans)
    ultimately show ?thesis using u(3) rec(2) that by simp
  qed
qed

lemma asked_stage_same:
  assumes "cm \<in> set (keys (state_maps s))" and "keeps bookkeeping (snd stage)"
    and "run_stage interactive traceback cm d is_last stage s = (r, t)"
  shows "same_but cm (fst stage) s t"
proof -
  obtain error pending t2 where "same_but cm (fst stage) s t2"
    and fin: "finish_stage interactive is_last error pending t2 = (r, t)"
    using assms by (rule asked_stage)
  moreover have "state_maps t = state_maps t2" using finish_stage_keeps fin by (rule keepsD)
  ultimately show ?thesis by (simp add: same_but_def entry_at_def)
qed

lemma confirmed_stage:
  assumes "cm \<in> set (keys (state_maps s))" and "keeps bookkeeping (snd stage)"
    and "run_stage True traceback cm d False stage s = (Inr True, t)"
  shows "typed_answers s = ''Y'' # typed_answers t"
proof -
  obtain error pending t2 where "typed_lines t2 = typed_lines s"
    and "finish_stage True False error pending t2 = (Inr True, t)"
    using assms by (rule asked_stage)
  then show ?thesis using finish_stage_goes_on[of error pending t2 t] by (simp add: typed_answers_def)
qed

lemma run_stages_keys:
  assumes "cm \<in> set (keys (state_maps s))" and "\<And>stage. stage \<in> set stages \<Longrightarrow> keeps bookkeeping (snd stage)"
    and "run_stages interactive traceback cm d stages s = (r, t)"
  shows "keys (state_maps t) = keys (state_maps s)"
  using assms
proof (induction stages arbitrary: s)
  case Nil
  then show ?case by (simp add: aret_def)
next
  case (Cons x rest)
  obtain q s1 where one: "run_stage interactive traceback cm d (rest = []) x s = (q, s1)" by fastforce
  have k: "keys (state_maps s1) = keys (state_maps s)"
    using asked_stage_same[OF Cons.prems(1) _ one] Cons.prems(2) by (simp add: same_but_def)
  consider "t = s1" | "run_stages interactive traceback cm d rest s1 = (r, t)"
    using Cons.prems(3) one by (cases q) (auto simp: act_simps split: if_splits)
  then show ?case using Cons.IH[of s1] Cons.prems(1,2) k by cases auto
qed

lemma confirmed_stages:
  assumes "cm \<in> set (keys (state_maps s))" and "distinct (map fst stages)"
    and "\<And>stage. stage \<in> set stages \<Longrightarrow> keeps bookkeeping (snd stage)"
    and "run_stages True traceback cm d stages s = (r, t)" and "i < length stages"
    and "entry_at cm t (fst (stages ! i)) \<noteq> entry_at cm s (fst (stages ! i))"
  shows "take i (typed_answers s) = replicate i ''Y''"
  using assms
proof (induction stages arbitrary: s i)
  case Nil
  then show ?case by simp
next
  case (Cons x rest)
  show ?case
  proof (cases i)
    case 0
    then show ?thesis by simp
  next
    case (Suc j)
    then have j: "j < length rest" and more: "rest \<noteq> []" using Cons.prems(5) by auto
    obtain q s1 where one: "run_stage True traceback cm d False x s = (q, s1)" by fastforce
    have first: "same_but cm (fst x) s s1"
      using Cons.prems(3)[of x] by (intro asked_stage_same[OF Cons.prems(1) _ one]) simp
    have "fst (rest ! j) \<noteq> fst x" using Cons.prems(2) nth_mem[OF j] by (metis distinct.simps(2) image_eqI image_set list.simps(9))
    then have same: "entry_at cm s1 (fst (rest ! j)) = entry_at cm s (fst (rest ! j))"
      using first by (simp add: same_but_def)
    have q: "q = Inr True"
    proof (rule ccontr)
      assume "q \<noteq> Inr True"
      then have "t = s1" using Cons.prems(4) one more by (cases q) (auto simp: act_simps)
      then show False using Cons.prems(6) same Suc by simp
    qed
    have "run_stages True traceback cm d rest s1 = (r, t)"
      using Cons.prems(4) q one more by (simp add: act_simps)
    moreover have "cm \<in> set (keys (state_maps s1))" using first Cons.prems(1) by (simp add: same_but_def)
    ultimately have "take j (typed_answers s1) = replicate j ''Y''"
      using Cons.prems(2,3,6) j same Suc by (intro Cons.IH) auto
    moreover have "typed_answers s = ''Y'' # typed_answers s1"
      using Cons.prems(3)[of x] by (intro confirmed_stage[OF Cons.prems(1) _ one[unfolded q]]) simp
    ultimately show ?thesis using Suc by simp
  qed
qed

section \<open>The migration\<close>

text \<open>
  What the config map says of a stage; without a config map every stage is in its initial state, in
  which \<open>create\<close> puts it.
\<close>

definition stage_noted :: "'w migration_world_scheme \<Rightarrow> string \<Rightarrow> json option" where
  "stage_noted s n = (case state_maps s of [] \<Rightarrow> Some (stage_state ''init'' JNull) | (_, d) # _ \<Rightarrow> map_of d n)"

lemma noted_entry: "keys (state_maps s) = [cm] \<Longrightarrow> stage_noted s n = entry_at cm s n"
  by (cases "state_maps s") (auto simp: stage_noted_def entry_at_def)

lemma map_of_same: "n \<in> set ns \<Longrightarrow> map_of (map (\<lambda>n. (n, c)) ns) n = Some c"
  by (induction ns) auto

lemma statecm_open_unique:
  assumes "length (state_maps s) \<le> 1"
  obtains cm s1 d where "statecm_open name names s = (Inr cm, s1)" and "state_maps s1 = [(cm, d)]"
    and "typed_lines s1 = typed_lines s" and "\<forall>n \<in> set names. map_of d n = stage_noted s n"
proof (cases "state_maps s")
  case Nil
  let ?d = "map (\<lambda>n. (n, stage_state ''init'' JNull)) names"
  have "statecm_open name names s = (Inr name, s\<lparr>state_maps := [(name, ?d)]\<rparr>)"
    using Nil by (simp add: statecm_open_def statecm_create_def act_simps)
  moreover have "map_of ?d n = stage_noted s n" if "n \<in> set names" for n
    using that Nil by (simp add: stage_noted_def map_of_same)
  ultimately show thesis using that[of name "s\<lparr>state_maps := [(name, ?d)]\<rparr>" ?d] by simp
next
  case (Cons p ps)
  then have "statecm_open name names s = (Inr (fst p), s)" "state_maps s = [(fst p, snd p)]"
    using assms by (auto simp: statecm_open_def act_simps split: prod.splits)
  then show thesis using that[of "fst p" s "snd p"] by (simp add: stage_noted_def split: prod.split)
qed

lemma statecm_open_again:
  "state_maps s = [(cm, d)] \<Longrightarrow>
   do_migration interactive traceback stages s = run_stages interactive traceback cm d stages s"
  by (simp add: do_migration_def statecm_open_def statecm_state_def act_simps abind_def)

text \<open>The stages of a workflow have names of their own and leave the config map and the terminal alone.\<close>

locale stage_contract =
  fixes stages :: "'w stage list"
  assumes stage_names: "distinct (map fst stages)"
    and stage_keeps: "stage \<in> set stages \<Longrightarrow> keeps bookkeeping (snd stage)"
begin

lemma migration_run:
  assumes "length (state_maps s) \<le> 1" and "do_migration interactive traceback stages s = (r, t)"
  obtains cm s1 d where "state_maps s1 = [(cm, d)]" and "typed_answers s1 = typed_answers s"
    and "\<forall>n \<in> set (map fst stages). map_of d n = stage_noted s n"
    and "run_stages interactive traceback cm d stages s1 = (r, t)"
proof -
  obtain cm s1 d where o: "statecm_open MIGRATION_STATE_CONFIGMAP_NAME (map fst stages) s = (Inr cm, s1)"
    "state_maps s1 = [(cm, d)]" "typed_lines s1 = typed_lines s"
    "\<forall>n \<in> set (map fst stages). map_of d n = stage_noted s n"
    using assms(1) by (rule statecm_open_unique)
  then have "run_stages interactive traceback cm d stages s1 = (r, t)"
    using assms(2) by (simp add: do_migration_def statecm_state_def act_simps abind_def)
  then show thesis using that o by (simp add: typed_answers_def)
qed

lemma silent_migration:
  assumes "length (state_maps s) \<le> 1" and "do_migration False traceback stages s = (r, t)"
  shows "case r of
      Inr _ \<Rightarrow> \<forall>n \<in> fst ` set stages. status_is COMPLETED (stage_noted t n)
    | Inl _ \<Rightarrow> \<exists>pre x post. stages = pre @ x # post \<and> (\<forall>y \<in> set pre. status_is COMPLETED (stage_noted t (fst y))) \<and>
        status_is FAILED (stage_noted t (fst x)) \<and> (\<forall>y \<in> set post. stage_noted t (fst y) = stage_noted s (fst y)) \<and>
        (\<forall>ys. map fst ys = map fst pre \<longrightarrow>
           do_migration False traceback (ys @ x # post) t = do_migration False traceback stages t)"
proof -
  obtain cm s1 d where o: "state_maps s1 = [(cm, d)]"
    "\<forall>n \<in> set (map fst stages). map_of d n = stage_noted s n"
    "run_stages False traceback cm d stages s1 = (r, t)"
    using assms by (rule migration_run)
  have run: "keys (state_maps t) = keys (state_maps s1) \<and>
    (\<forall>m. m \<notin> fst ` set stages \<longrightarrow> entry_at cm t m = entry_at cm s1 m) \<and>
    (case r of Inr _ \<Rightarrow> \<forall>y \<in> set stages. stage_settled cm d s1 t y | Inl _ \<Rightarrow> stopped_at cm d s1 t stages)"
    using o(1,3) stage_names stage_keeps by (intro silent_stages) auto
  then have k: "keys (state_maps t) = [cm]" using o(1) by simp
  have now: "stage_noted t n = entry_at cm t n" for n using k by (rule noted_entry)
  have before: "entry_at cm s1 (fst y) = stage_noted s (fst y)" if "y \<in> set stages" for y
    using that o(1,2) by (simp add: entry_at_def)
  have complete: "status_is COMPLETED (stage_noted t (fst y))" if "y \<in> set stages" "stage_settled cm d s1 t y" for y
    using that before o(2) by (auto simp: stage_settled_def stage_finished_def now split: if_splits)
  show ?thesis
  proof (cases r)
    case (Inr u)
    then show ?thesis using run complete by auto
  next
    case (Inl e)
    then obtain pre x post where p: "stages = pre @ x # post" "\<forall>y \<in> set pre. stage_settled cm d s1 t y"
      "status_is FAILED (entry_at cm t (fst x))" "\<forall>y \<in> set post. entry_at cm t (fst y) = entry_at cm s1 (fst y)"
      using run by (auto simp: stopped_at_def)
    obtain d' where d': "state_maps t = [(cm, d')]" using k by (cases "state_maps t") auto
    have pre: "status_is COMPLETED (stage_noted t (fst y))" if "y \<in> set pre" for y
      using that p(1,2) complete by auto
    have names: "stage_finished d' y" if "fst y \<in> fst ` set pre" for y :: "'a stage"
      using that pre d' by (auto simp: stage_finished_def stage_noted_def)
    have "do_migration False traceback (ys @ x # post) t = do_migration False traceback stages t"
      if ys: "map fst ys = map fst pre" for ys
    proof -
      have "fst ` set ys = fst ` set pre" using ys by (metis image_set)
      then have all: "\<forall>y \<in> set ys. stage_finished d' y" "\<forall>y \<in> set pre. stage_finished d' y"
        using names by (metis image_eqI)+
      note skip = finished_stages_skipped[OF all(1), of traceback cm "x # post" t]
        finished_stages_skipped[OF all(2), of traceback cm "x # post" t]
      show ?thesis unfolding statecm_open_again[OF d'] p(1) skip by (rule refl)
    qed
    moreover have "stage_noted t (fst y) = stage_noted s (fst y)" if "y \<in> set post" for y
      using that p(1,4) now before by simp
    moreover have "status_is FAILED (stage_noted t (fst x))" using p(3) now by simp
    ultimately have "\<exists>pre x post. stages = pre @ x # post \<and> (\<forall>y \<in> set pre. status_is COMPLETED (stage_noted t (fst y))) \<and>
        status_is FAILED (stage_noted t (fst x)) \<and> (\<forall>y \<in> set post. stage_noted t (fst y) = stage_noted s (fst y)) \<and>
        (\<forall>ys. map fst ys = map fst pre \<longrightarrow>
           do_migration False traceback (ys @ x # post) t = do_migration False traceback stages t)"
      using pre p(1) by (intro exI[of _ pre] exI[of _ x] exI[of _ post] conjI ballI allI impI)
    then show ?thesis unfolding Inl sum.case .
  qed
qed

lemma confirmed_migration:
  assumes "length (state_maps s) \<le> 1" and "do_migration True traceback stages s = (r, t)"
    and "i < length stages" and "stage_noted t (fst (stages ! i)) \<noteq> stage_noted s (fst (stages ! i))"
  shows "take i (typed_answers s) = replicate i ''Y''"
proof -
  obtain cm s1 d where o: "state_maps s1 = [(cm, d)]" "typed_answers s1 = typed_answers s"
    "\<forall>n \<in> set (map fst stages). map_of d n = stage_noted s n"
    "run_stages True traceback cm d stages s1 = (r, t)"
    using assms(1,2) by (rule migration_run)
  have cm: "cm \<in> set (keys (state_maps s1))" using o(1) by simp
  have "keys (state_maps t) = [cm]"
    using run_stages_keys[OF cm stage_keeps o(4)] o(1) by simp
  then have "entry_at cm t (fst (stages ! i)) \<noteq> entry_at cm s1 (fst (stages ! i))"
    using assms(3,4) o(1,3) by (simp add: noted_entry) (simp add: entry_at_def)
  then have "take i (typed_answers s1) = replicate i ''Y''"
    using cm stage_names stage_keeps o(4) assms(3) by (intro confirmed_stages) auto
  then show ?thesis using o(2) by simp
qed

end

end
