(* ===== verification/OvnMigration.thy ===== *)
theory OvnMigration
  imports OvnWorkflow ServiceMaintenance ServicesBase
begin

text \<open>
  The stages of the migration from OVS to OVN (\<open>cli/ovs_ovn_migration.py\<close>): commands in the pods of daemon
  sets with the thresholds for failed nodes, the patches of the deployment, the partial Helm releases and
  the clean up.  The shell scripts that run in the pods, the OpenStack and the Kubernetes API are parameters.
\<close>

section \<open>The world of the migration\<close>

record ovn_world = migration_world +
  om_osdpls :: "json list"
  om_osdplst :: json
  om_finalizers :: "(string \<times> string list) list"

text \<open>The scripts, each standing for its text.\<close>

datatype node_command = BackupBridgeMappings | ListBridges | MigrateDataplaneScript | CleanupBridges | CleanupNetns

text \<open>
  What \<open>Pod.exec\<close> returns, as far as it is looked at; the pool may also give up on a worker, and the call
  itself may raise.
\<close>

record exec_reply =
  timed_out :: bool
  exec_exception :: "py_exc option"
  error_json :: json

datatype exec_outcome = PoolTimedOut | Executed "exec_reply res"

record script_args =
  max_workers :: int
  cmp_threshold :: int
  gtw_threshold :: int

text \<open>
  \<open>oe_mspec\<close> is the property \<open>mspec\<close> of the deployment, \<open>oe_service\<close> the registry of services,
  \<open>oe_render\<close> the method \<open>render\<close> of a service with a specification, \<open>oe_list\<close> the objects of a kind with
  labels, \<open>oe_object\<close> an object of the API, \<open>oe_agents_of\<close> the network agents of a type, \<open>oe_sleep\<close> what
  happens during the sleep of 30 seconds after a patch.
\<close>

record 's ovn_env =
  oe_conf :: maintenance_conf
  oe_ce :: "'s controller_env"
  oe_service :: "string \<Rightarrow> 's service"
  oe_mspec :: "json \<Rightarrow> json res"
  oe_render :: "'s service \<Rightarrow> json \<Rightarrow> ('s, json) act"
  oe_health_groups :: "json \<Rightarrow> string list list res"
  oe_list :: "'s \<Rightarrow> string \<Rightarrow> json \<Rightarrow> string list res"
  oe_object :: "'s \<Rightarrow> string \<Rightarrow> string \<Rightarrow> json res"
  oe_exec :: "string \<Rightarrow> string \<Rightarrow> node_command \<Rightarrow> ('s, exec_outcome) act"
  oe_sdk :: "'s openstack_sdk"
  oe_agents_of :: "string \<Rightarrow> ('s, agent list) act"
  oe_networks :: "('s, string list) act"
  oe_delete_network :: "string \<Rightarrow> ('s, unit) act"
  oe_rounds :: nat
  oe_tick :: "'s \<Rightarrow> 's"
  oe_sleep :: "'s \<Rightarrow> 's"

section \<open>Services and their objects\<close>

text \<open>\<open>kube.get_osdpl\<close> gives None unless there is exactly one deployment; every caller uses the result at once.\<close>

definition the_osdpl :: "('w ovn_world_scheme, json) act" where
  "the_osdpl = abind (aget om_osdpls) (\<lambda>l. case l of [o'] \<Rightarrow> aret o' | _ \<Rightarrow> araise AttributeError)"

text \<open>\<open>get_service\<close>: the service keeps the specification it was made with.\<close>

definition get_service :: "'w ovn_world_scheme ovn_env \<Rightarrow> string \<Rightarrow> ('w ovn_world_scheme, 'w ovn_world_scheme service \<times> json) act" where
  "get_service env service = abind the_osdpl (\<lambda>o'. abind (alift (oe_mspec env o')) (\<lambda>mspec. aret (oe_service env service, mspec)))"

definition dynamic_ids :: "string list" where
  "dynamic_ids = [''ovn-controller'', ''openvswitch-vswitchd'', ''neutron-ovs-agent'', ''neutron-l3-agent'', ''neutron-metadata-agent'']"

definition get_objects_by_id ::
  "'w ovn_world_scheme ovn_env \<Rightarrow> 'w ovn_world_scheme service \<times> json \<Rightarrow> string \<Rightarrow>
   ('w ovn_world_scheme, (string \<times> string) list) act" where
  "get_objects_by_id env svc i =
     (let static = (\<lambda>kind. alift (rbind (get_child_object (oe_ce env) (fst svc) (snd svc) kind i)
            (\<lambda>co. Inr [(co_kind co, co_name co)])))
      in if i \<in> {''openvswitch-ovn-db'', ''openvswitch-ovn-northd'', ''mariadb-server''} then static ''StatefulSet''
         else if i = ''neutron-ovn-db-sync-migrate'' then static ''Job''
         else if i \<in> set dynamic_ids then
           abind (aget (oe_list env)) (\<lambda>objs. alift (rbind
             (get_child_objects_dynamic (oe_ce env) objs (fst svc) (snd svc) ''DaemonSet'' i)
             (\<lambda>chs. Inr (map (\<lambda>co. (co_kind co, co_name co)) chs))))
         else araise ValueError)"

definition child_daemonsets ::
  "'w ovn_world_scheme ovn_env \<Rightarrow> 'w ovn_world_scheme service \<times> json \<Rightarrow> string \<Rightarrow> ('w ovn_world_scheme, string list) act" where
  "child_daemonsets env svc i = abind (get_objects_by_id env svc i) (\<lambda>l. aret (map snd l))"

text \<open>The property \<open>ready\<close> of the three kinds that are waited for, and \<open>wait_ready\<close>.\<close>

definition object_ready :: "string \<Rightarrow> json \<Rightarrow> bool res" where
  "object_ready kind obj =
     (if kind = ''StatefulSet'' then replicated_ready obj
      else if kind = ''DaemonSet'' then daemonset_ready obj
      else if kind = ''Job'' then job_ready obj else Inr False)"

definition wait_ready :: "'w ovn_world_scheme ovn_env \<Rightarrow> string \<times> string \<Rightarrow> ('w ovn_world_scheme, unit) act" where
  "wait_ready env obj = wait_for (oe_rounds env) (oe_tick env)
     (abind (aget (\<lambda>s. oe_object env s (fst obj) (snd obj))) (\<lambda>r. alift (rbind r (object_ready (fst obj)))))"

definition wait_for_objects_ready ::
  "'w ovn_world_scheme ovn_env \<Rightarrow> 'w ovn_world_scheme service \<times> json \<Rightarrow> string list \<Rightarrow> ('w ovn_world_scheme, unit) act" where
  "wait_for_objects_ready env svc ids =
     aforeach (\<lambda>i. abind (get_objects_by_id env svc i) (aforeach (wait_ready env))) ids"

text \<open>
  \<open>update_service_release\<close>: the loop ends at the first release of the name and installs it alone; when no
  release has the name the whole bundle is installed as it is.
\<close>

fun pick_release :: "merge_fun \<Rightarrow> string \<Rightarrow> json \<Rightarrow> json list \<Rightarrow> json option res" where
  "pick_release vs release_name patch [] = Inr None"
| "pick_release vs release_name patch (r # rels) =
     rbind (jitem r ''name'') (\<lambda>n.
     if py_eq n (JStr release_name) then rbind (merge_item vs r ''values'' patch) (\<lambda>r'. Inr (Some r'))
     else pick_release vs release_name patch rels)"

definition release_bundle :: "merge_fun \<Rightarrow> string \<Rightarrow> json \<Rightarrow> json \<Rightarrow> json res" where
  "release_bundle vs release_name patch bundle =
     rbind (helm_releases bundle) (\<lambda>rels. rbind (pick_release vs release_name patch rels) (\<lambda>r.
     case r of None \<Rightarrow> Inr bundle | Some r' \<Rightarrow> set_helm_releases bundle [r']))"

definition update_service_release ::
  "'w ovn_world_scheme ovn_env \<Rightarrow> 'w ovn_world_scheme service \<times> json \<Rightarrow> string \<Rightarrow> json \<Rightarrow> ('w ovn_world_scheme, unit) act" where
  "update_service_release env svc release_name patch =
     abind (oe_render env (fst svc) (snd svc)) (\<lambda>bundle.
     abind (alift (release_bundle (ce_vs (oe_ce env)) release_name patch bundle)) (install_bundle (ce_helm (oe_ce env))))"

text \<open>\<open>osdpl.patch\<close>, and the patch with the sleep and the wait that follow it.\<close>

definition patch_osdpl :: "json \<Rightarrow> ('w ovn_world_scheme, unit) act" where
  "patch_osdpl p = abind the_osdpl (\<lambda>o'. amod (\<lambda>s. s\<lparr>om_osdpls := [merge_patch o' p]\<rparr>))"

definition wait_applied :: "'w ovn_world_scheme ovn_env \<Rightarrow> ('w ovn_world_scheme, unit) act" where
  "wait_applied env = wait_for (oe_rounds env) (oe_tick env) (abind the_osdpl (\<lambda>o'.
     abind (aget om_osdplst) (\<lambda>st. alift (rbind (jget o' ''status'' jempty) (\<lambda>own. is_applied own st)))))"

definition patch_and_wait :: "'w ovn_world_scheme ovn_env \<Rightarrow> json \<Rightarrow> ('w ovn_world_scheme, unit) act" where
  "patch_and_wait env p = athen (patch_osdpl p) (athen (amod (oe_sleep env)) (wait_applied env))"

section \<open>Commands on the nodes\<close>

record node_result =
  nr_daemonset :: string
  nr_node :: string
  nr_pod :: string
  nr_status :: json

text \<open>The pods of daemon sets, each with its daemon set; a daemon set that is not there fails to reload.\<close>

definition daemonset_pods :: "string \<Rightarrow> ('w ovn_world_scheme, (string \<times> set_pod) list) act" where
  "daemonset_pods ds = (\<lambda>s. (case map_of (daemon_sets s) ds of
       None \<Rightarrow> Inl ApiError | Some d \<Rightarrow> Inr (map (Pair ds) (ds_pods d)), s))"

definition exec_status :: "exec_outcome \<Rightarrow> json res" where
  "exec_status outcome =
     (case outcome of
        PoolTimedOut \<Rightarrow> Inr (JStr ''Pool_timed_out'')
      | Executed (Inl e) \<Rightarrow> Inl e
      | Executed (Inr r) \<Rightarrow>
          if timed_out r then Inr (JStr ''Timed_out'')
          else if exec_exception r \<noteq> None then Inr (JStr ''Failure'')
          else rbind (jin ''status'' (error_json r)) (\<lambda>has.
               if has then jitem (error_json r) ''status'' else Inr (JStr ''Unknown'')))"

definition node_result_of :: "(string \<times> set_pod) \<times> exec_outcome \<Rightarrow> node_result res" where
  "node_result_of x = rbind (exec_status (snd x)) (\<lambda>st.
     Inr \<lparr>nr_daemonset = fst (fst x), nr_node = pod_node (snd (fst x)), nr_pod = pod_name (snd (fst x)), nr_status = st\<rparr>)"

definition result_failed :: "node_result \<Rightarrow> bool" where
  "result_failed r \<longleftrightarrow> \<not> py_eq (nr_status r) (JStr ''Success'')"

definition daemonsets_check_exec :: "node_result list \<Rightarrow> bool \<Rightarrow> unit res" where
  "daemonsets_check_exec results raise_on_error =
     (if filter result_failed results \<noteq> [] \<and> raise_on_error
      then Inl (OtherException ''RuntimeError'') else Inr ())"

text \<open>
  \<open>daemonsets_exec_parallel\<close>: the commands of the pods are run one after the other here; all of them are
  run before the first result is looked at.  An empty set of nodes selects every pod.  A pool without a
  worker is an error of \<open>ThreadPoolExecutor\<close>.
\<close>

definition daemonsets_exec_parallel ::
  "'w ovn_world_scheme ovn_env \<Rightarrow> string list \<Rightarrow> node_command \<Rightarrow> string \<Rightarrow> int \<Rightarrow> bool \<Rightarrow> string list \<Rightarrow>
   ('w ovn_world_scheme, node_result list) act" where
  "daemonsets_exec_parallel env dss command container workers raise_on_error selected =
     abind (amap daemonset_pods dss) (\<lambda>l.
     (let all_pods = concat l;
          chosen = (if selected = [] then all_pods else filter (\<lambda>x. pod_node (snd x) \<in> set selected) all_pods)
      in if (if workers = 0 then int (length all_pods) else workers) \<le> 0 then araise ValueError
         else abind (amap (\<lambda>x. oe_exec env (pod_name (snd x)) container command) chosen) (\<lambda>outcomes.
              abind (alift (rmap node_result_of (zip chosen outcomes))) (\<lambda>results.
              athen (alift (daemonsets_check_exec results raise_on_error)) (aret results)))))"

text \<open>\<open>check_nodes_results\<close>; the set of the failed nodes is a list without duplicates.\<close>

definition check_nodes_results ::
  "maintenance_conf \<Rightarrow> node_result list \<Rightarrow> node_role \<Rightarrow> int \<Rightarrow> ('w ovn_world_scheme, string list \<times> bool) act" where
  "check_nodes_results conf results role threshold = abind (aget (\<lambda>s.
       remdups (map nr_node (filter (\<lambda>r. has_role conf (view_labels (safe_get_node s (nr_node r))) role \<and> result_failed r) results))))
     (\<lambda>failed. aret (failed, failed \<noteq> [] \<and> int (length failed) > threshold))"

section \<open>The stages\<close>

definition run_everywhere ::
  "'w ovn_world_scheme ovn_env \<Rightarrow> script_args \<Rightarrow> string \<Rightarrow> node_command \<Rightarrow> ('w ovn_world_scheme, unit) act" where
  "run_everywhere env args app command =
     abind (get_service env ''networking'') (\<lambda>svc.
     abind (child_daemonsets env svc app) (\<lambda>dss.
     athen (daemonsets_exec_parallel env dss command app (max_workers args) True []) (aret ())))"

definition prepare :: "'w ovn_world_scheme ovn_env \<Rightarrow> script_args \<Rightarrow> ('w ovn_world_scheme, unit) act" where
  "prepare env args = run_everywhere env args ''neutron-ovs-agent'' BackupBridgeMappings"

definition cleanup_ovs_bridges :: "'w ovn_world_scheme ovn_env \<Rightarrow> script_args \<Rightarrow> ('w ovn_world_scheme, unit) act" where
  "cleanup_ovs_bridges env args = run_everywhere env args ''neutron-metadata-agent'' CleanupBridges"

definition cleanup_linux_netns :: "'w ovn_world_scheme ovn_env \<Rightarrow> script_args \<Rightarrow> ('w ovn_world_scheme, unit) act" where
  "cleanup_linux_netns env args = run_everywhere env args ''neutron-metadata-agent'' CleanupNetns"

definition MIGRATION_FINALIZER :: string where
  "MIGRATION_FINALIZER = ''lcm.mirantis.com/ovs-ovn-migration.finalizer''"

definition update_finalizers :: "(string list \<Rightarrow> string list) \<Rightarrow> string \<Rightarrow> ('w ovn_world_scheme, unit) act" where
  "update_finalizers f ds = amod (\<lambda>s. s\<lparr>om_finalizers :=
     AList.update ds (f (case map_of (om_finalizers s) ds of None \<Rightarrow> [] | Some l \<Rightarrow> l)) (om_finalizers s)\<rparr>)"

definition migration_flag :: "bool \<Rightarrow> string \<times> json" where
  "migration_flag b = (''migration'', JObj [(''neutron'', JObj [(''ovs_ovn_migration'', JBool b)])])"

definition neutron_manifests :: "bool \<Rightarrow> string \<times> json" where
  "neutron_manifests b = (''neutron'', JObj [(''values'', JObj [(''manifests'', JObj
     [(''deployment_server'', JBool b), (''daemonset_metadata_agent'', JBool b)])])])"

definition ovs_manifests :: "bool \<Rightarrow> string \<times> json" where
  "ovs_manifests b = (''openvswitch'', JObj [(''values'', JObj [(''manifests'', JObj
     [(''daemonset_ovn_controller'', JBool b)])])])"

definition networking_patch :: "(string \<times> json) list \<Rightarrow> (string \<times> json) list \<Rightarrow> json" where
  "networking_patch first charts =
     JObj [(''spec'', JObj (first @ [(''services'', JObj [(''networking'', JObj charts)])]))]"

definition deploy_ovn_db :: "'w ovn_world_scheme ovn_env \<Rightarrow> ('w ovn_world_scheme, unit) act" where
  "deploy_ovn_db env =
     abind (get_service env ''networking'') (\<lambda>svc.
     athen (aforeach (\<lambda>i. abind (child_daemonsets env svc i)
              (aforeach (update_finalizers (ensure_finalizer_present MIGRATION_FINALIZER))))
            [''openvswitch-vswitchd'', ''neutron-l3-agent''])
    (athen (patch_and_wait env (networking_patch
              [migration_flag True, (''features'', JObj [(''neutron'', JObj [(''backend'', JStr ''ml2/ovn'')])])]
              [neutron_manifests False, ovs_manifests False]))
    (abind (get_service env ''networking'') (\<lambda>svc.
     wait_for_objects_ready env svc [''openvswitch-ovn-db'', ''openvswitch-ovn-northd'']))))"

definition deploy_ovn_controllers :: "'w ovn_world_scheme ovn_env \<Rightarrow> ('w ovn_world_scheme, unit) act" where
  "deploy_ovn_controllers env =
     abind (get_service env ''networking'') (\<lambda>svc.
     abind (child_daemonsets env svc ''ovn-controller'') (\<lambda>dss.
     athen (patch_osdpl (JObj [(''spec'', JObj [(''draft'', JBool True)])]))
    (athen (if dss = [] then
              athen (update_service_release env svc ''openstack-openvswitch'' (JObj
                       [(''conf'', JObj [(''ovn_migration'', JBool True)]),
                        (''manifests'', JObj [(''daemonset_ovn_controller'', JBool True)])]))
                    (wait_for_objects_ready env svc [''openvswitch-ovn-db'', ''openvswitch-ovn-northd'', ''ovn-controller''])
            else aret ())
    (athen (update_service_release env svc ''openstack-neutron''
              (JObj [(''manifests'', JObj [(''job_ovn_db_sync_migrate'', JBool True)])]))
           (wait_for_objects_ready env svc [''neutron-ovn-db-sync-migrate''])))))"

text \<open>The loop of \<open>migrate_dataplane\<close>: at most \<open>n\<close> tries, each on the nodes that failed before.\<close>

fun dataplane_loop ::
  "'w ovn_world_scheme ovn_env \<Rightarrow> script_args \<Rightarrow> string list \<Rightarrow> nat \<Rightarrow> string list \<Rightarrow> bool \<Rightarrow>
   ('w ovn_world_scheme, string list \<times> bool) act" where
  "dataplane_loop env args dss 0 failed exceeded = aret (failed, exceeded)"
| "dataplane_loop env args dss (Suc n) failed exceeded =
     abind (daemonsets_exec_parallel env dss MigrateDataplaneScript ''controller'' (max_workers args) False failed) (\<lambda>results.
     abind (check_nodes_results (oe_conf env) results gateway (gtw_threshold args)) (\<lambda>(failed_gtw, gtw_fail).
     abind (check_nodes_results (oe_conf env) results compute (cmp_threshold args)) (\<lambda>(failed_cmp, cmp_fail).
     if \<not> (gtw_fail \<or> cmp_fail) then aret (List.union failed_gtw failed_cmp, False)
     else dataplane_loop env args dss n (List.union failed_gtw failed_cmp) True)))"

definition migrate_dataplane :: "'w ovn_world_scheme ovn_env \<Rightarrow> script_args \<Rightarrow> ('w ovn_world_scheme, unit) act" where
  "migrate_dataplane env args =
     abind (get_service env ''networking'') (\<lambda>svc.
     abind (child_daemonsets env svc ''ovn-controller'') (\<lambda>dss.
     athen (daemonsets_exec_parallel env dss ListBridges ''controller'' (max_workers args) True [])
    (abind (dataplane_loop env args dss 3 [] False) (\<lambda>(failed, exceeded).
     if exceeded then araise (OtherException ''RuntimeError'') else aret ()))))"

text \<open>\<open>finalize_migration\<close>: a pod of Open vSwitch goes once a pod of the OVN controller is on its node.\<close>

fun replace_ovs_pod ::
  "'w ovn_world_scheme ovn_env \<Rightarrow> string \<Rightarrow> set_pod \<Rightarrow> string list \<Rightarrow> ('w ovn_world_scheme, unit) act" where
  "replace_ovs_pod env ovs_ds p [] = aret ()"
| "replace_ovs_pod env ovs_ds p (ovn_ds # dss) = abind (get_pod_on_node ovn_ds (pod_node p)) (\<lambda>found.
     if found \<noteq> None then
       athen (delete_pod ovs_ds (pod_name p))
         (wait_unbounded (ensure_pod_generation_on_node (oe_rounds env) (oe_tick env) ovn_ds (pod_node p)))
     else replace_ovs_pod env ovs_ds p dss)"

definition finalize_migration :: "'w ovn_world_scheme ovn_env \<Rightarrow> ('w ovn_world_scheme, unit) act" where
  "finalize_migration env =
     abind (get_service env ''networking'') (\<lambda>svc.
     athen (patch_and_wait env (networking_patch [(''draft'', JBool False)] [ovs_manifests True]))
    (athen (wait_for_objects_ready env svc [''openvswitch-ovn-db'', ''openvswitch-ovn-northd''])
    (abind (child_daemonsets env svc ''neutron-l3-agent'') (\<lambda>l3.
     abind (child_daemonsets env svc ''openvswitch-vswitchd'') (\<lambda>vswitchd.
     abind (child_daemonsets env svc ''ovn-controller'') (\<lambda>ovn.
     athen (aforeach (\<lambda>ovs_ds. abind (daemonset_pods ovs_ds) (aforeach (\<lambda>x. replace_ovs_pod env ovs_ds (snd x) ovn))) vswitchd)
    (athen (aforeach (update_finalizers (ensure_finalizer_absent MIGRATION_FINALIZER)) (l3 @ vswitchd))
    (athen (patch_and_wait env (networking_patch [migration_flag False] [neutron_manifests True]))
    (abind the_osdpl (\<lambda>o'. abind (alift (oe_mspec env o')) (\<lambda>mspec. abind (alift (oe_health_groups env mspec)) (\<lambda>groups.
     wait_services_healthy (ce_health_rounds (oe_ce env)) (oe_tick env) om_osdplst groups))))))))))))"

text \<open>\<open>cleanup_api_resources\<close>: what cannot be deleted is left, but a list that cannot be read ends the stage.\<close>

definition swallow :: "('s, unit) act \<Rightarrow> ('s, unit) act" where
  "swallow m = atry m (\<lambda>_. aret ())"

definition is_ha_network :: "string \<Rightarrow> bool" where
  "is_ha_network name \<longleftrightarrow> py_prefix ''HA network tenant'' name \<and>
     (case drop (length ''HA network tenant'') name of [] \<Rightarrow> False | c # _ \<Rightarrow> is_space c)"

definition cleanup_api_resources :: "'w ovn_world_scheme ovn_env \<Rightarrow> ('w ovn_world_scheme, unit) act" where
  "cleanup_api_resources env =
     athen (sdk_connect (oe_sdk env))
    (athen (aforeach (\<lambda>owner. swallow (network_ensure_ports_absent (oe_sdk env) owner))
              [''network:dhcp'', ''network:router_ha_interface'', ''network:floatingip_agent_gateway''])
    (athen (aforeach (\<lambda>agent_type. abind (atry (oe_agents_of env agent_type) (\<lambda>e. if e = HttpException 404 then aret [] else araise e))
                (aforeach (\<lambda>a. swallow (sdk_delete_agent (oe_sdk env) a))))
              [''Open vSwitch agent'', ''DHCP agent'', ''L3 agent'', ''Metadata agent''])
           (abind (oe_networks env) (aforeach (\<lambda>net.
              if is_ha_network net then swallow (oe_delete_network env net) else aret ())))))"

definition cleanup :: "'w ovn_world_scheme ovn_env \<Rightarrow> script_args \<Rightarrow> ('w ovn_world_scheme, unit) act" where
  "cleanup env args = athen (cleanup_api_resources env) (athen (cleanup_ovs_bridges env args) (cleanup_linux_netns env args))"

text \<open>
  The backups before the migration: \<open>run_job\<close> is \<open>cronjob.run\<close> with its wait, \<open>dump\<close> the run of
  \<open>mysqldump\<close> in a pod by \<open>Pod.exec\<close> with \<open>raise_on_error=True\<close>.
\<close>

definition do_full_db_backup :: "'w ovn_world_scheme ovn_env \<Rightarrow> ('w ovn_world_scheme, unit) act \<Rightarrow> ('w ovn_world_scheme, unit) act" where
  "do_full_db_backup env run_job =
     abind the_osdpl (\<lambda>o'. abind (alift (oe_mspec env o')) (\<lambda>mspec.
     abind (alift (rbind (jpath mspec [''features'', ''database'', ''backup'']) (\<lambda>b. jget b ''enabled'' (JBool False)))) (\<lambda>enabled.
     if \<not> jtruthy enabled then aret ()
     else abind (aget (\<lambda>s. oe_object env s ''CronJob'' ''mariadb-phy-backup'')) (\<lambda>r.
          abind (alift (rbind r (\<lambda>cj. rbind (jitem cj ''spec'') (\<lambda>sp. jget sp ''suspend'' (JBool False))))) (\<lambda>suspended.
          if jtruthy suspended then aret () else run_job)))))"

definition set_pods_of :: "string \<Rightarrow> ('w ovn_world_scheme, set_pod list) act" where
  "set_pods_of name = abind (reload_set name) (\<lambda>s. aret (set_pods s))"

definition do_neutron_db_backup ::
  "'w ovn_world_scheme ovn_env \<Rightarrow> (set_pod \<Rightarrow> ('w ovn_world_scheme, exec_reply) act) \<Rightarrow> ('w ovn_world_scheme, unit) act" where
  "do_neutron_db_backup env dump =
     abind (get_service env ''database'') (\<lambda>svc.
     abind (get_objects_by_id env svc ''mariadb-server'') (\<lambda>objs.
     abind (alift (py_nth objs 0)) (\<lambda>obj.
     abind (set_pods_of (snd obj)) (aforeach (\<lambda>p.
       abind (dump p) (\<lambda>result.
       if timed_out result \<or> exec_exception result \<noteq> None then araise (OtherException ''RuntimeError'') else aret ()))))))"

definition WORKFLOW :: "'w ovn_world_scheme ovn_env \<Rightarrow> script_args \<Rightarrow> (string \<times> ('w ovn_world_scheme, unit) act) list" where
  "WORKFLOW env args =
     [(''10_PREPARE'', prepare env args),
      (''20_DEPLOY_OVN_DB'', deploy_ovn_db env),
      (''30_DEPLOY_OVN_CONTROLLERS'', deploy_ovn_controllers env),
      (''40_MIGRATE_DATAPLANE'', migrate_dataplane env args),
      (''50_FINALIZE_MIGRATION'', finalize_migration env),
      (''60_CLEANUP'', cleanup env args)]"

section \<open>The stages leave the bookkeeping alone\<close>

lemma keeps_amod: "(\<And>s. P (f s) = P s) \<Longrightarrow> keeps P (amod f)"
  by (simp add: keeps_def amod_def)

lemma keeps_list_case: "keeps P m \<Longrightarrow> (\<And>x xs. keeps P (f x xs)) \<Longrightarrow> keeps P (case l of [] \<Rightarrow> m | x # xs \<Rightarrow> f x xs)"
  by (cases l) auto

lemma keeps_wait_until: "keeps P cond \<Longrightarrow> (\<And>s. P (tick s) = P s) \<Longrightarrow> keeps P (wait_until n tick cond)"
  by (induction n) (auto intro!: keeps_abind keeps_amod)

lemma keeps_wait_for: "keeps P cond \<Longrightarrow> (\<And>s. P (tick s) = P s) \<Longrightarrow> keeps P (wait_for n tick cond)"
  unfolding wait_for_def by (intro keeps_abind keeps_if keeps_aret keeps_araise keeps_wait_until)

lemma keeps_swallow: "keeps P m \<Longrightarrow> keeps P (swallow m)"
  unfolding swallow_def by (intro keeps_atry keeps_aret)

text \<open>
  What the workflow relies on: Helm, the rendering of a service, commands in the pods, the OpenStack API
  and the passing of time touch neither the config map of the migration nor the terminal.
\<close>

locale ovn_cluster = helm_binary "ce_helm (oe_ce env)" installed bookkeeping
  for env :: "'w ovn_world_scheme ovn_env" and installed :: "'w ovn_world_scheme \<Rightarrow> string \<Rightarrow> json option" +
  assumes render_keeps: "keeps bookkeeping (oe_render env svc spec)"
    and exec_keeps: "keeps bookkeeping (oe_exec env pname container command)"
    and api_keeps: "keeps bookkeeping (sdk_connect (oe_sdk env))" "keeps bookkeeping (sdk_ports (oe_sdk env) owner)"
      "keeps bookkeeping (sdk_delete_port (oe_sdk env) i)" "keeps bookkeeping (sdk_delete_agent (oe_sdk env) a)"
      "keeps bookkeeping (oe_agents_of env agent_type)" "keeps bookkeeping (oe_networks env)"
      "keeps bookkeeping (oe_delete_network env net)"
    and time_keeps: "bookkeeping (oe_tick env s) = bookkeeping s" "bookkeeping (oe_sleep env s) = bookkeeping s"
begin

lemmas combinators = keeps_abind keeps_if keeps_aret keeps_araise keeps_aget keeps_alift keeps_aforeach keeps_amap
  keeps_list_case keeps_atry keeps_wait_for keeps_swallow

lemma lookup_keeps:
  "keeps bookkeeping the_osdpl" "keeps bookkeeping (get_service env service)"
  "keeps bookkeeping (get_objects_by_id env svc i)" "keeps bookkeeping (child_daemonsets env svc i)"
  "keeps bookkeeping (daemonset_pods ds)" "keeps bookkeeping (get_pod_on_node ds n)" "keeps bookkeeping (get_generation ds)"
proof -
  show osdpl: "keeps bookkeeping the_osdpl"
    unfolding the_osdpl_def by (intro combinators)
  show "keeps bookkeeping (get_service env service)"
    unfolding get_service_def by (intro combinators osdpl)
  show objects: "keeps bookkeeping (get_objects_by_id env svc i)"
    unfolding get_objects_by_id_def Let_def by (intro combinators)
  show "keeps bookkeeping (child_daemonsets env svc i)"
    unfolding child_daemonsets_def by (intro combinators objects)
qed (simp_all add: keeps_def daemonset_pods_def get_pod_on_node_def get_generation_def)

lemma write_keeps:
  "keeps bookkeeping (patch_osdpl p)" "keeps bookkeeping (update_finalizers f ds)" "keeps bookkeeping (delete_pod ds n)"
  unfolding patch_osdpl_def update_finalizers_def delete_pod_def
  by (intro keeps_abind keeps_amod lookup_keeps; simp)+

lemma waiting_keeps:
  "keeps bookkeeping (wait_ready env obj)" "keeps bookkeeping (wait_for_objects_ready env svc ids)"
  "keeps bookkeeping (wait_applied env)" "keeps bookkeeping (patch_and_wait env p)"
  unfolding wait_for_objects_ready_def patch_and_wait_def wait_ready_def wait_applied_def
  by (intro combinators keeps_amod write_keeps lookup_keeps time_keeps)+

lemma release_keeps: "keeps bookkeeping (update_service_release env svc name p)"
  unfolding update_service_release_def by (intro combinators render_keeps install_bundle_other)

lemma parallel_keeps: "keeps bookkeeping (daemonsets_exec_parallel env dss command container workers b selected)"
  unfolding daemonsets_exec_parallel_def Let_def by (intro combinators lookup_keeps exec_keeps)

lemma everywhere_keeps: "keeps bookkeeping (run_everywhere env args app command)"
  unfolding run_everywhere_def by (intro combinators lookup_keeps parallel_keeps)

lemma dataplane_loop_keeps: "keeps bookkeeping (dataplane_loop env args dss n failed exceeded)"
proof (induction n arbitrary: failed exceeded)
  case (Suc n)
  then show ?case
    by (auto simp: check_nodes_results_def intro!: combinators parallel_keeps split: prod.splits)
qed simp

lemma replace_keeps: "keeps bookkeeping (replace_ovs_pod env ovs_ds p dss)"
proof (induction dss)
  case (Cons ds dss)
  have "keeps bookkeeping (ensure_pod_generation_on_node (oe_rounds env) (oe_tick env) ds (pod_node p))"
    unfolding ensure_pod_generation_on_node_def wait_pod_on_node_def
    by (auto intro!: combinators lookup_keeps write_keeps keeps_wait_until time_keeps split: option.splits)
  with Cons show ?case
    by (auto simp: wait_unbounded_def intro!: combinators lookup_keeps write_keeps)
qed simp

lemma health_keeps: "keeps bookkeeping (wait_services_healthy rounds (oe_tick env) om_osdplst groups)"
  unfolding wait_services_healthy_def wait_service_healthy_def wait_application_ready_def
  by (intro combinators keeps_wait_until time_keeps)

lemma api_resources_keep: "keeps bookkeeping (cleanup_api_resources env)"
  unfolding cleanup_api_resources_def network_ensure_ports_absent_def network_get_ports_def
  by (intro combinators api_keeps)

lemma stages_keep:
  "keeps bookkeeping (prepare env args)" "keeps bookkeeping (deploy_ovn_db env)"
  "keeps bookkeeping (deploy_ovn_controllers env)" "keeps bookkeeping (cleanup env args)"
  unfolding prepare_def deploy_ovn_db_def deploy_ovn_controllers_def cleanup_def cleanup_ovs_bridges_def cleanup_linux_netns_def
  by (intro combinators everywhere_keeps lookup_keeps write_keeps waiting_keeps release_keeps api_resources_keep)+

lemma dataplane_keeps: "keeps bookkeeping (migrate_dataplane env args)"
  unfolding migrate_dataplane_def
  by (auto intro!: combinators lookup_keeps parallel_keeps dataplane_loop_keeps split: prod.splits)

lemma finalize_keeps: "keeps bookkeeping (finalize_migration env)"
  unfolding finalize_migration_def
  by (intro combinators lookup_keeps write_keeps waiting_keeps replace_keeps health_keeps)

end

sublocale ovn_cluster \<subseteq> workflow: stage_contract "WORKFLOW env args" for args
  by unfold_locales (auto simp: WORKFLOW_def stages_keep dataplane_keeps finalize_keeps)

section \<open>The dataplane\<close>

text \<open>
  The nodes of a role with a pod of the OVN controller whose dataplane is not switched.
\<close>

definition unswitched_nodes ::
  "maintenance_conf \<Rightarrow> ('w ovn_world_scheme \<Rightarrow> string \<Rightarrow> bool) \<Rightarrow> string list \<Rightarrow> node_role \<Rightarrow> 'w ovn_world_scheme \<Rightarrow> string set" where
  "unswitched_nodes conf switched dss role s =
     {n. has_role conf (view_labels (safe_get_node s n)) role \<and>
       (\<exists>ds \<in> set dss. \<exists>d p. map_of (daemon_sets s) ds = Some d \<and> p \<in> set (ds_pods d) \<and> pod_node p = n \<and>
          \<not> switched s (pod_name p))}"

text \<open>
  The script switches the dataplane of the node of its pod when it reports success; nothing of what it does
  switches a dataplane back or changes the nodes and pods.
\<close>

locale dataplane_switch = ovn_cluster env installed
  for env :: "'w ovn_world_scheme ovn_env" and installed +
  fixes switched :: "'w ovn_world_scheme \<Rightarrow> string \<Rightarrow> bool"
  assumes script_switches: "oe_exec env pname c MigrateDataplaneScript s = (Inr outcome, t) \<Longrightarrow>
      exec_status outcome = Inr (JStr ''Success'') \<Longrightarrow> switched t pname"
    and stays_switched: "oe_exec env pname c MigrateDataplaneScript s = (ro, t) \<Longrightarrow> switched s q \<Longrightarrow> switched t q"
    and script_frame: "keeps (\<lambda>s. (nodes s, daemon_sets s)) (oe_exec env pname c MigrateDataplaneScript)"
begin

lemma scripts_run:
  assumes "amap (\<lambda>x. oe_exec env (pod_name (snd x)) c MigrateDataplaneScript) xs s = (Inr outcomes, t)"
  shows "length outcomes = length xs" and "switched s q \<Longrightarrow> switched t q"
    and "(x, outcome) \<in> set (zip xs outcomes) \<Longrightarrow> exec_status outcome = Inr (JStr ''Success'') \<Longrightarrow>
      switched t (pod_name (snd x))"
proof -
  have "length outcomes = length xs \<and> (\<forall>q. switched s q \<longrightarrow> switched t q) \<and>
    (\<forall>(x, outcome) \<in> set (zip xs outcomes). exec_status outcome = Inr (JStr ''Success'') \<longrightarrow> switched t (pod_name (snd x)))"
    using assms
  proof (induction xs arbitrary: s outcomes)
    case Nil
    then show ?case by (simp add: aret_def)
  next
    case (Cons y ys)
    then obtain o1 s1 os where o1: "oe_exec env (pod_name (snd y)) c MigrateDataplaneScript s = (Inr o1, s1)"
      and os: "amap (\<lambda>x. oe_exec env (pod_name (snd x)) c MigrateDataplaneScript) ys s1 = (Inr os, t)"
      and out: "outcomes = o1 # os"
      by (auto simp: abind_eq_Inr aret_def)
    from Cons.IH[OF os] show ?case
      using script_switches[OF o1] stays_switched[OF o1] out by auto
  qed
  then show "length outcomes = length xs" and "switched s q \<Longrightarrow> switched t q"
    and "(x, outcome) \<in> set (zip xs outcomes) \<Longrightarrow> exec_status outcome = Inr (JStr ''Success'') \<Longrightarrow>
      switched t (pod_name (snd x))"
    by auto
qed

lemma pods_listed:
  assumes "amap daemonset_pods dss s = (Inr l, t)" and "ds \<in> set dss"
    and "map_of (daemon_sets s) ds = Some d" and "p \<in> set (ds_pods d)"
  shows "(ds, p) \<in> set (concat l)" and "t = s"
proof -
  have "t = s \<and> (\<forall>ds \<in> set dss. \<forall>d p. map_of (daemon_sets s) ds = Some d \<longrightarrow> p \<in> set (ds_pods d) \<longrightarrow> (ds, p) \<in> set (concat l))"
    using assms(1)
  proof (induction dss arbitrary: l)
    case Nil
    then show ?case by (simp add: aret_def)
  next
    case (Cons x xs)
    then obtain y s1 ys where y: "daemonset_pods x s = (Inr y, s1)" and ys: "amap daemonset_pods xs s1 = (Inr ys, t)" "l = y # ys"
      by (auto simp: abind_eq_Inr aret_def)
    have "s1 = s" and "\<And>d. map_of (daemon_sets s) x = Some d \<Longrightarrow> y = map (Pair x) (ds_pods d)"
      using y by (auto simp: daemonset_pods_def split: option.splits)
    then show ?case using Cons.IH[of ys] ys by fastforce
  qed
  then show "(ds, p) \<in> set (concat l)" and "t = s" using assms(2-4) by blast+
qed

definition chosen_pods :: "string list \<Rightarrow> (string \<times> set_pod) list list \<Rightarrow> (string \<times> set_pod) list" where
  "chosen_pods selected l = (if selected = [] then concat l else filter (\<lambda>x. pod_node (snd x) \<in> set selected) (concat l))"

lemma pods_read_only: "amap daemonset_pods dss s = (Inr l, t) \<Longrightarrow> t = s"
proof (induction dss arbitrary: l s)
  case (Cons x xs)
  then obtain y s1 ys where "daemonset_pods x s = (Inr y, s1)" "amap daemonset_pods xs s1 = (Inr ys, t)"
    by (auto simp: abind_eq_Inr aret_def)
  then show ?case using Cons.IH by (fastforce simp: daemonset_pods_def)
qed (simp add: aret_def)

lemma parallel_runs:
  assumes "daemonsets_exec_parallel env dss MigrateDataplaneScript c w False selected s = (Inr results, t)"
  obtains l outcomes where "amap daemonset_pods dss s = (Inr l, s)"
    and "amap (\<lambda>x. oe_exec env (pod_name (snd x)) c MigrateDataplaneScript) (chosen_pods selected l) s = (Inr outcomes, t)"
    and "rmap node_result_of (zip (chosen_pods selected l) outcomes) = Inr results"
proof -
  obtain l s1 where l: "amap daemonset_pods dss s = (Inr l, s1)"
    and rest: "(if (if w = 0 then int (length (concat l)) else w) \<le> 0 then araise ValueError
         else abind (amap (\<lambda>x. oe_exec env (pod_name (snd x)) c MigrateDataplaneScript) (chosen_pods selected l)) (\<lambda>outcomes.
              abind (alift (rmap node_result_of (zip (chosen_pods selected l) outcomes))) (\<lambda>results.
              athen (alift (daemonsets_check_exec results False)) (aret results)))) s1 = (Inr results, t)"
    using assms unfolding daemonsets_exec_parallel_def Let_def chosen_pods_def[symmetric] abind_eq_Inr[of "amap daemonset_pods dss"] by blast
  have s1: "s1 = s" using l by (rule pods_read_only)
  have runs: "(abind (amap (\<lambda>x. oe_exec env (pod_name (snd x)) c MigrateDataplaneScript) (chosen_pods selected l)) (\<lambda>outcomes.
              abind (alift (rmap node_result_of (zip (chosen_pods selected l) outcomes))) (\<lambda>results.
              athen (alift (daemonsets_check_exec results False)) (aret results)))) s1 = (Inr results, t)"
    using rest by (simp only: araise_def split: if_splits) simp_all
  then obtain outcomes s2 where
    "amap (\<lambda>x. oe_exec env (pod_name (snd x)) c MigrateDataplaneScript) (chosen_pods selected l) s1 = (Inr outcomes, s2)"
    and "(abind (alift (rmap node_result_of (zip (chosen_pods selected l) outcomes))) (\<lambda>results.
              athen (alift (daemonsets_check_exec results False)) (aret results))) s2 = (Inr results, t)"
    unfolding abind_eq_Inr by blast
  then have "amap (\<lambda>x. oe_exec env (pod_name (snd x)) c MigrateDataplaneScript) (chosen_pods selected l) s1 = (Inr outcomes, t)"
    and "rmap node_result_of (zip (chosen_pods selected l) outcomes) = Inr results"
    by (auto simp: abind_eq_Inr alift_def aret_def)
  then show thesis using that l s1 by simp
qed

lemma script_result:
  assumes run: "daemonsets_exec_parallel env dss MigrateDataplaneScript c w False selected s = (Inr results, t)"
    and p: "ds \<in> set dss" "map_of (daemon_sets s) ds = Some d" "p \<in> set (ds_pods d)"
    and sel: "selected = [] \<or> pod_node p \<in> set selected"
  shows "switched t (pod_name p) \<or> (\<exists>r \<in> set results. nr_node r = pod_node p \<and> result_failed r)"
proof -
  obtain l outcomes where l: "amap daemonset_pods dss s = (Inr l, s)"
    and os: "amap (\<lambda>x. oe_exec env (pod_name (snd x)) c MigrateDataplaneScript) (chosen_pods selected l) s = (Inr outcomes, t)"
    and res: "rmap node_result_of (zip (chosen_pods selected l) outcomes) = Inr results"
    using run by (rule parallel_runs)
  let ?chosen = "chosen_pods selected l"
  have "(ds, p) \<in> set ?chosen" using pods_listed(1)[OF l p] sel by (auto simp: chosen_pods_def)
  then obtain i where i: "i < length ?chosen" "?chosen ! i = (ds, p)" by (auto simp only: in_set_conv_nth)
  have len: "length outcomes = length ?chosen" using scripts_run(1)[OF os] .
  define x where "x = ((ds, p), outcomes ! i)"
  have x: "x \<in> set (zip ?chosen outcomes)" "i < length (zip ?chosen outcomes)" "zip ?chosen outcomes ! i = x"
    using i len by (auto simp: in_set_zip x_def)
  note all = rmap_list_all2[OF res]
  define r where "r = results ! i"
  have r: "node_result_of x = Inr r" "r \<in> set results"
    using list_all2_nthD[OF all x(2)] x(2,3) list_all2_lengthD[OF all] by (auto simp: r_def intro!: nth_mem)
  then obtain st where st: "exec_status (outcomes ! i) = Inr st" "nr_status r = st" "nr_node r = pod_node p"
    by (auto simp: node_result_of_def x_def res_simps)
  show ?thesis
  proof (cases "result_failed r")
    case True
    then show ?thesis using r(2) st(3) by blast
  next
    case False
    then have "exec_status (outcomes ! i) = Inr (JStr ''Success'')"
      using st by (simp add: result_failed_def py_eq_JStr)
    then have "switched t (pod_name (snd (ds, p)))"
      using x(1) unfolding x_def by (rule scripts_run(3)[OF os, rotated])
    then show ?thesis by simp
  qed
qed

lemma scripts_frame:
  assumes run: "daemonsets_exec_parallel env dss MigrateDataplaneScript c w False selected s = (ro, t)"
  shows "nodes t = nodes s" and "daemon_sets t = daemon_sets s"
proof -
  have "keeps (\<lambda>s. (nodes s, daemon_sets s)) (daemonsets_exec_parallel env dss MigrateDataplaneScript c w False selected)"
    unfolding daemonsets_exec_parallel_def Let_def
    by (intro combinators script_frame) (simp add: keeps_def daemonset_pods_def)
  from keepsD[where P = "\<lambda>s. (nodes s, daemon_sets s)", OF this run]
  show "nodes t = nodes s" and "daemon_sets t = daemon_sets s" by simp_all
qed

lemma scripts_monotone:
  assumes run: "daemonsets_exec_parallel env dss MigrateDataplaneScript c w False selected s = (Inr results, t)"
    and "switched s q"
  shows "switched t q"
proof -
  from run obtain l outcomes where
    "amap (\<lambda>x. oe_exec env (pod_name (snd x)) c MigrateDataplaneScript) (chosen_pods selected l) s = (Inr outcomes, t)"
    by (rule parallel_runs)
  then show ?thesis using assms(2) scripts_run(2) by blast
qed

lemma role_of_node: "nodes t = nodes s \<Longrightarrow> view_labels (safe_get_node t n) = view_labels (safe_get_node s n)"
  by (simp add: safe_get_node_labels)

text \<open>After a try every node of a role that is not switched is among those that failed in this try.\<close>

lemma failed_cover_unswitched:
  assumes run: "daemonsets_exec_parallel env dss MigrateDataplaneScript c w False selected s = (Inr results, t)"
    and sel: "selected = [] \<or> unswitched_nodes (oe_conf env) switched dss role s \<subseteq> set selected"
    and check: "check_nodes_results (oe_conf env) results role threshold t = (Inr (failed, exceeded), u)"
  shows "u = t" and "unswitched_nodes (oe_conf env) switched dss role t \<subseteq> set failed"
    and "\<not> exceeded \<Longrightarrow> card (set failed) \<le> nat threshold"
proof -
  have failed: "failed = remdups (map nr_node (filter (\<lambda>r. has_role (oe_conf env) (view_labels (safe_get_node t (nr_node r))) role \<and>
      result_failed r) results))" and u: "u = t" and ex: "exceeded = (failed \<noteq> [] \<and> int (length failed) > threshold)"
    using check by (auto simp: check_nodes_results_def abind_aget_at aret_def)
  show "u = t" using u .
  show "unswitched_nodes (oe_conf env) switched dss role t \<subseteq> set failed"
  proof
    fix n assume "n \<in> unswitched_nodes (oe_conf env) switched dss role t"
    then obtain ds d p where n: "has_role (oe_conf env) (view_labels (safe_get_node t n)) role" "ds \<in> set dss"
      "map_of (daemon_sets t) ds = Some d" "p \<in> set (ds_pods d)" "pod_node p = n" "\<not> switched t (pod_name p)"
      by (auto simp: unswitched_nodes_def)
    note fr = scripts_frame[OF run]
    have before: "map_of (daemon_sets s) ds = Some d" using n(3) fr(2) by simp
    have "\<not> switched s (pod_name p)" using n(6) scripts_monotone[OF run] by blast
    then have "n \<in> unswitched_nodes (oe_conf env) switched dss role s"
      using n before role_of_node[OF fr(1), of n] unfolding unswitched_nodes_def by auto
    then have "selected = [] \<or> pod_node p \<in> set selected" using sel n(5) by auto
    from script_result[OF run n(2) before n(4) this] n(6)
    obtain r where "r \<in> set results" "nr_node r = n" "result_failed r" using n(5) by auto
    then show "n \<in> set failed" using n(1) unfolding failed by force
  qed
  show "card (set failed) \<le> nat threshold" if "\<not> exceeded"
  proof -
    have "distinct failed" unfolding failed by (rule distinct_remdups)
    then have "card (set failed) = length failed" by (rule distinct_card)
    then show ?thesis using that ex by auto
  qed
qed

definition within_thresholds :: "script_args \<Rightarrow> string list \<Rightarrow> 'w ovn_world_scheme \<Rightarrow> bool" where
  "within_thresholds args dss s \<longleftrightarrow>
     card (unswitched_nodes (oe_conf env) switched dss gateway s) \<le> nat (gtw_threshold args) \<and>
     card (unswitched_nodes (oe_conf env) switched dss compute s) \<le> nat (cmp_threshold args)"

lemma dataplane_loop_within:
  assumes "dataplane_loop env args dss n failed exceeded s = (Inr (failed', exceeded'), t)" and "\<not> exceeded'"
    and "\<forall>role \<in> {gateway, compute}. failed = [] \<or> unswitched_nodes (oe_conf env) switched dss role s \<subseteq> set failed"
    and "0 < n \<or> exceeded"
  shows "within_thresholds args dss t"
  using assms
proof (induction n arbitrary: failed exceeded s)
  case 0
  then show ?case by (simp add: aret_def)
next
  case (Suc n)
  let ?un = "unswitched_nodes (oe_conf env) switched dss"
  obtain results s1 fg xg s2 fc xc s3 where
    run: "daemonsets_exec_parallel env dss MigrateDataplaneScript ''controller'' (max_workers args) False failed s = (Inr results, s1)"
    and g: "check_nodes_results (oe_conf env) results gateway (gtw_threshold args) s1 = (Inr (fg, xg), s2)"
    and c: "check_nodes_results (oe_conf env) results compute (cmp_threshold args) s2 = (Inr (fc, xc), s3)"
    and rest: "(if \<not> (xg \<or> xc) then aret (List.union fg fc, False)
      else dataplane_loop env args dss n (List.union fg fc) True) s3 = (Inr (failed', exceeded'), t)"
    using Suc.prems(1) by (auto simp: abind_eq_Inr)
  have s2: "s2 = s1" using Suc.prems(3) by (intro failed_cover_unswitched(1)[OF run _ g]) blast
  note fgc = failed_cover_unswitched[OF run _ g] failed_cover_unswitched[OF run _ c[unfolded s2]]
  have G: "?un gateway s1 \<subseteq> set fg" "\<not> xg \<Longrightarrow> card (set fg) \<le> nat (gtw_threshold args)"
    and C: "s3 = s1" "?un compute s1 \<subseteq> set fc" "\<not> xc \<Longrightarrow> card (set fc) \<le> nat (cmp_threshold args)"
    using fgc Suc.prems(3) by blast+
  show ?case
  proof (cases "xg \<or> xc")
    case False
    then have "t = s1" using rest C(1) by (simp add: aret_def)
    then show ?thesis
      unfolding within_thresholds_def
      using G(2) C(3) False card_mono[OF finite_set G(1)] card_mono[OF finite_set C(2)] by simp
  next
    case True
    then have "dataplane_loop env args dss n (List.union fg fc) True s1 = (Inr (failed', exceeded'), t)"
      using rest C(1) by simp
    then show ?thesis using Suc.prems(2) by (rule Suc.IH) (use G(1) C(2) in auto)
  qed
qed

lemma migrated_within_thresholds:
  assumes "migrate_dataplane env args s = (Inr (), t)"
  obtains svc dss where "get_service env ''networking'' s = (Inr svc, s)"
    and "child_daemonsets env svc ''ovn-controller'' s = (Inr dss, s)" and "within_thresholds args dss t"
proof -
  obtain svc s0 dss s1 res s2 failed exceeded where svc: "get_service env ''networking'' s = (Inr svc, s0)"
    and dss: "child_daemonsets env svc ''ovn-controller'' s0 = (Inr dss, s1)"
    and loop: "dataplane_loop env args dss 3 [] False s2 = (Inr (failed, exceeded), t)" and ok: "\<not> exceeded"
    using assms unfolding migrate_dataplane_def
    by (auto simp: abind_eq_Inr araise_def aret_def split: if_splits)
  have "s0 = s" using svc by (auto simp: get_service_def the_osdpl_def abind_eq_Inr aget_def alift_def aret_def araise_def split: list.splits)
  moreover have "s1 = s0"
    using dss by (auto simp: child_daemonsets_def get_objects_by_id_def Let_def abind_eq_Inr aget_def alift_def aret_def
        araise_def split: if_splits)
  moreover have "within_thresholds args dss t" using loop ok by (rule dataplane_loop_within) auto
  ultimately show thesis using that svc dss by simp
qed

end

end
