(* ===== verification/OvnChecks.thy ===== *)
theory OvnChecks
  imports PyValue
begin

text \<open>
  The preflight checks of \<open>cli/ovs_ovn_migration.py\<close>: free addresses, MTU, DHCP, name servers, and whether
  the security groups of a port let it talk to the DHCP server of OVN.  Networks are those of Python's
  \<open>ipaddress\<close>; what the checks read of the network API is the record \<open>net_api\<close>.
\<close>

section \<open>IPv4 networks\<close>

record ipv4_network =
  network_address :: int
  prefixlen :: nat

datatype ip_net = IPv4Network ipv4_network | IPv6Network

definition parse_octet :: "string \<Rightarrow> int option" where
  "parse_octet s =
     (if isdigit s \<and> length s \<le> 3 \<and> \<not> (length s > 1 \<and> hd s = CHR ''0'') \<and> int_of_digits s \<le> 255
      then Some (int_of_digits s) else None)"

definition parse_ipv4 :: "string \<Rightarrow> int option" where
  "parse_ipv4 s =
     (case map parse_octet (py_split CHR ''.'' s) of
        [Some a, Some b, Some c, Some d] \<Rightarrow> Some (((a * 256 + b) * 256 + c) * 256 + d)
      | _ \<Rightarrow> None)"

text \<open>A prefix length, a netmask or a host mask.\<close>

definition parse_netmask :: "string \<Rightarrow> nat option" where
  "parse_netmask s =
     (if isdigit s then (if int_of_digits s \<le> 32 then Some (nat (int_of_digits s)) else None)
      else Option.bind (parse_ipv4 s) (\<lambda>a.
        case find (\<lambda>p. a = 2 ^ 32 - 2 ^ (32 - p)) [0..<33] of
          Some p \<Rightarrow> Some p
        | None \<Rightarrow> find (\<lambda>p. a = 2 ^ (32 - p) - 1) [0..<33]))"

text \<open>
  \<open>ipaddress.ip_network\<close>: the bits of the host must be zero.  Which texts are networks of version 6 is
  left to \<open>is_ipv6\<close>; their addresses are not looked at.
\<close>

definition ip_network :: "(string \<Rightarrow> bool) \<Rightarrow> string \<Rightarrow> ip_net res" where
  "ip_network is_ipv6 s =
     (let v6 = (if is_ipv6 s then Inr IPv6Network else Inl ValueError);
          v4 = (\<lambda>a p. case (parse_ipv4 a, p) of
                 (Some n, Some k) \<Rightarrow>
                   if n mod 2 ^ (32 - k) = 0 then Inr (IPv4Network \<lparr>network_address = n, prefixlen = k\<rparr>) else Inl ValueError
               | _ \<Rightarrow> v6)
      in case py_split CHR ''/'' s of [a] \<Rightarrow> v4 a (Some 32) | [a, m] \<Rightarrow> v4 a (parse_netmask m) | _ \<Rightarrow> v6)"

definition wildcard_cidr :: ipv4_network where
  "wildcard_cidr = \<lparr>network_address = 0, prefixlen = 0\<rparr>"

definition broadcast_ip :: ipv4_network where
  "broadcast_ip = \<lparr>network_address = 4294967295, prefixlen = 32\<rparr>"

text \<open>\<open>net.subnets(new_prefix=p)\<close> for a prefix that is not shorter.\<close>

definition subnets :: "ipv4_network \<Rightarrow> nat \<Rightarrow> ipv4_network list" where
  "subnets net p = map (\<lambda>i. \<lparr>network_address = network_address net + int i * 2 ^ (32 - p), prefixlen = p\<rparr>)
     [0..<2 ^ (p - prefixlen net)]"

definition are_addresses_allowed_by_firewall :: "ipv4_network list \<Rightarrow> ipv4_network list \<Rightarrow> bool" where
  "are_addresses_allowed_by_firewall tested_cidrs permitted_cidrs \<longleftrightarrow>
     wildcard_cidr \<in> set permitted_cidrs \<or>
     list_all (\<lambda>subnet. list_ex (\<lambda>net. prefixlen net \<le> prefixlen subnet \<and> subnet \<in> set (subnets net (prefixlen subnet)))
       permitted_cidrs) tested_cidrs"

text \<open>The addresses of a network, and the networks \<open>ip_network\<close> makes.\<close>

definition net_addresses :: "ipv4_network \<Rightarrow> int set" where
  "net_addresses net = {network_address net ..< network_address net + 2 ^ (32 - prefixlen net)}"

definition valid_network :: "ipv4_network \<Rightarrow> bool" where
  "valid_network net \<longleftrightarrow> prefixlen net \<le> 32 \<and> 0 \<le> network_address net \<and> network_address net < 2 ^ 32 \<and>
     2 ^ (32 - prefixlen net) dvd network_address net"

lemma subnets_iff:
  assumes "valid_network net" and "valid_network sub" and "prefixlen net \<le> prefixlen sub"
  shows "sub \<in> set (subnets net (prefixlen sub)) \<longleftrightarrow> net_addresses sub \<subseteq> net_addresses net"
proof -
  let ?a = "network_address net" and ?b = "network_address sub"
  let ?s = "2 ^ (32 - prefixlen sub) :: int" and ?k = "2 ^ (prefixlen sub - prefixlen net) :: nat"
  have size: "2 ^ (32 - prefixlen net) = int ?k * ?s"
    using assms by (simp add: valid_network_def flip: power_add)
  have pos: "?s > 0" by simp
  have "sub \<in> set (subnets net (prefixlen sub)) \<longleftrightarrow> (\<exists>i < ?k. ?b = ?a + int i * ?s)"
    by (cases sub) (auto simp: subnets_def)
  also have "\<dots> \<longleftrightarrow> ?a \<le> ?b \<and> ?b + ?s \<le> ?a + int ?k * ?s"
  proof
    assume "\<exists>i < ?k. ?b = ?a + int i * ?s"
    then obtain i where i: "i < ?k" "?b = ?a + int i * ?s" by blast
    have "int i + 1 \<le> int ?k" using i(1) by linarith
    then have "(int i + 1) * ?s \<le> int ?k * ?s" by (intro mult_right_mono) simp_all
    then show "?a \<le> ?b \<and> ?b + ?s \<le> ?a + int ?k * ?s" using i by (simp add: algebra_simps)
  next
    assume *: "?a \<le> ?b \<and> ?b + ?s \<le> ?a + int ?k * ?s"
    have "?s dvd 2 ^ (32 - prefixlen net)" unfolding size by simp
    then have "?s dvd ?a" using assms(1) by (auto simp: valid_network_def intro: dvd_trans)
    moreover have "?s dvd ?b" using assms(2) by (simp add: valid_network_def)
    ultimately have "?s dvd ?b - ?a" by (rule dvd_diff[rotated])
    then obtain i where "?b - ?a = ?s * i" by (rule dvdE)
    then have eq: "?b = ?a + i * ?s" by (simp add: algebra_simps)
    have "0 \<le> i * ?s" using * eq by simp
    then have i: "0 \<le> i" using pos by (simp add: zero_le_mult_iff)
    have "(i + 1) * ?s \<le> int ?k * ?s" using * eq by (simp add: algebra_simps)
    then have "i + 1 \<le> int ?k" using pos by (simp only: mult_le_cancel_right)
    then have "nat i < ?k" "?b = ?a + int (nat i) * ?s" using i eq by simp_all
    then show "\<exists>i < ?k. ?b = ?a + int i * ?s" by blast
  qed
  also have "\<dots> \<longleftrightarrow> net_addresses sub \<subseteq> net_addresses net"
    using pos by (simp add: net_addresses_def size)
  finally show ?thesis .
qed

lemma net_addresses_prefix:
  assumes "valid_network net" and "valid_network sub" and "net_addresses sub \<subseteq> net_addresses net"
  shows "prefixlen net \<le> prefixlen sub"
proof -
  have "card (net_addresses sub) \<le> card (net_addresses net)" using assms(3) by (intro card_mono) (simp_all add: net_addresses_def)
  then have "(2 :: int) ^ (32 - prefixlen sub) \<le> 2 ^ (32 - prefixlen net)"
    by (simp add: net_addresses_def nat_le_eq_zle)
  then have "32 - prefixlen sub \<le> 32 - prefixlen net" by simp
  then show ?thesis using assms(1,2) by (simp add: valid_network_def) arith
qed

lemma allowed_iff_included:
  assumes "\<forall>net \<in> set permitted_cidrs. valid_network net" and "\<forall>sub \<in> set tested_cidrs. valid_network sub"
  shows "are_addresses_allowed_by_firewall tested_cidrs permitted_cidrs \<longleftrightarrow>
    (\<forall>sub \<in> set tested_cidrs. \<exists>net \<in> set permitted_cidrs. net_addresses sub \<subseteq> net_addresses net)"
proof -
  have one: "(prefixlen net \<le> prefixlen sub \<and> sub \<in> set (subnets net (prefixlen sub))) \<longleftrightarrow> net_addresses sub \<subseteq> net_addresses net"
    if "sub \<in> set tested_cidrs" "net \<in> set permitted_cidrs" for sub net
    using that assms subnets_iff net_addresses_prefix by blast
  have all: "net_addresses sub \<subseteq> net_addresses wildcard_cidr" if "sub \<in> set tested_cidrs" for sub
  proof -
    have v: "valid_network sub" using that assms(2) by blast
    let ?s = "2 ^ (32 - prefixlen sub) :: int"
    have "?s dvd 2 ^ 32" by (intro le_imp_power_dvd) simp
    then have "?s dvd 2 ^ 32 - network_address sub" using v by (intro dvd_diff) (simp_all add: valid_network_def)
    then have "?s \<le> 2 ^ 32 - network_address sub" using v by (intro zdvd_imp_le) (simp_all add: valid_network_def)
    then show ?thesis using v by (auto simp: net_addresses_def wildcard_cidr_def valid_network_def)
  qed
  show ?thesis
    unfolding are_addresses_allowed_by_firewall_def list_all_iff list_ex_iff using one all by blast
qed

section \<open>What the checks read\<close>

record sg_rule =
  direction :: string
  ethertype :: string
  remote_group_id :: "string option"
  protocol :: "string option"
  port_range_min :: "int option"
  port_range_max :: "int option"
  remote_address_group_id :: "string option"
  normalized_cidr :: "string option"

record net_object =
  net_id :: string
  net_mtu :: int
  net_subnets :: "string list"

record subnet_object =
  sub_id :: string
  sub_cidr :: string
  dhcp_enabled :: bool
  sub_version :: int
  dns_nameservers :: "string list"

record port_object =
  port_id :: string
  device_owner :: string
  port_security_enabled :: bool
  fixed_ip_subnets :: "string list"
  security_group_ids :: "string list"

datatype net_filter = AllNetworks | ProviderType string | RouterExternal bool

text \<open>
  The calls of the network API; \<open>na_availability\<close> gives the subnets of a network with their used and total
  addresses, \<open>na_osdpl\<close> is the deployment, when there is exactly one.
\<close>

record net_api =
  na_security_groups :: "(string \<times> sg_rule list) list res"
  na_address_group :: "string \<Rightarrow> string list res"
  na_networks :: "net_filter \<Rightarrow> net_object list res"
  na_subnet :: "string \<Rightarrow> subnet_object res"
  na_dhcp_subnets :: "subnet_object list res"
  na_subnet_ports :: "string \<Rightarrow> port_object list res"
  na_ports :: "string \<Rightarrow> port_object list res"
  na_availability :: "string \<Rightarrow> (string \<times> int \<times> int) list res"
  na_osdpl :: "json option"
  na_is_ipv6 :: "string \<Rightarrow> bool"

section \<open>The checks\<close>

text \<open>\<open>CheckResult\<close>: the description is the list of issues, or the exception of the check.\<close>

datatype check_description = NoIssues | Issues "string list" | Raised py_exc

record check_result =
  check_name :: string
  check_status :: bool
  check_description :: check_description

definition get_check_results :: "string \<Rightarrow> string list \<Rightarrow> check_result" where
  "get_check_results name issues_list =
     (if issues_list \<noteq> [] then \<lparr>check_name = name, check_status = False, check_description = Issues issues_list\<rparr>
      else \<lparr>check_name = name, check_status = True, check_description = NoIssues\<rparr>)"

definition run_check :: "string \<Rightarrow> check_result res \<Rightarrow> check_result" where
  "run_check function_name result =
     (case result of Inr r \<Rightarrow> r
      | Inl e \<Rightarrow> \<lparr>check_name = function_name, check_status = False, check_description = Raised e\<rparr>)"

text \<open>The nested loops of a check that collect the names of the objects with an issue.\<close>

definition rconcat :: "('a \<Rightarrow> 'b list res) \<Rightarrow> 'a list \<Rightarrow> 'b list res" where
  "rconcat f xs = rbind (rmap f xs) (\<lambda>l. Inr (concat l))"

definition check_for_free_ip :: "net_api \<Rightarrow> check_result res" where
  "check_for_free_ip api =
     rbind (na_networks api AllNetworks) (\<lambda>nets.
     rbind (rconcat (\<lambda>net. rbind (na_availability api (net_id net)) (\<lambda>l.
              Inr (map fst (filter (\<lambda>(_, used, total). used = total) l)))) nets) (\<lambda>issues.
     Inr (get_check_results ''IP address availability check'' issues)))"

definition TYPE_VXLAN :: string where
  "TYPE_VXLAN = ''vxlan''"

definition DEFAULT_GENEVE_HEADER_SIZE :: rat where
  "DEFAULT_GENEVE_HEADER_SIZE = 38"

definition ip_header_length :: "json \<Rightarrow> rat res" where
  "ip_header_length v =
     (if (case v of JList _ \<Rightarrow> True | JObj _ \<Rightarrow> True | _ \<Rightarrow> False) then Inl TypeError
      else if py_eq v (JInt 4) then Inr 20 else if py_eq v (JInt 6) then Inr 40 else Inl (KeyError ''overlay_ip_version''))"

text \<open>\<open>min(mtu)\<close> keeps the first of equal numbers; a single value is not compared, but the subtraction needs a number.\<close>

definition max_mtu_for_network :: "json \<Rightarrow> rat res" where
  "max_mtu_for_network osdpl =
     rbind (jpath osdpl [''spec'', ''services'', ''networking'', ''neutron'', ''values'', ''conf'', ''neutron'']) (\<lambda>params.
     rbind (rbind (jget params ''DEFAULT'' jempty) (\<lambda>d. jget d ''global_physnet_mtu'' (JInt 1500))) (\<lambda>mtu.
     rbind (rbind (jget params ''ml2'' jempty) (\<lambda>d. jget d ''path_mtu'' (JInt 0))) (\<lambda>path_mtu.
     rbind (jless (JInt 0) path_mtu) (\<lambda>has_path.
     rbind (if has_path then rbind (jless path_mtu mtu) (\<lambda>b. Inr (if b then path_mtu else mtu)) else Inr mtu) (\<lambda>least.
     rbind (rbind (jget params ''ml2'' jempty) (\<lambda>d. jget d ''overlay_ip_version'' (JInt 4))) (\<lambda>version.
     rbind (ip_header_length version) (\<lambda>header.
     case num_of least of None \<Rightarrow> Inl TypeError | Some m \<Rightarrow> Inr (m - header - DEFAULT_GENEVE_HEADER_SIZE))))))))"

definition check_network_mtu :: "net_api \<Rightarrow> check_result res" where
  "check_network_mtu api =
     rbind (case na_osdpl api of None \<Rightarrow> Inl AttributeError | Some o' \<Rightarrow> max_mtu_for_network o') (\<lambda>limit.
     rbind (na_networks api (ProviderType TYPE_VXLAN)) (\<lambda>nets.
     Inr (get_check_results ''MTU size check'' (map net_id (filter (\<lambda>net. of_int (net_mtu net) > limit) nets)))))"

definition subnet_has_workload_ports :: "net_api \<Rightarrow> string \<Rightarrow> bool res" where
  "subnet_has_workload_ports api i = rbind (na_subnet_ports api i) (\<lambda>ports.
     Inr (list_ex (\<lambda>p. \<not> (py_prefix ''network'' (device_owner p) \<or> py_prefix ''neutron'' (device_owner p))) ports))"

definition check_for_no_dhcp_subnet :: "net_api \<Rightarrow> check_result res" where
  "check_for_no_dhcp_subnet api =
     rbind (na_networks api (ProviderType TYPE_VXLAN)) (\<lambda>nets.
     rbind (rconcat (\<lambda>net. rconcat (\<lambda>i. rbind (na_subnet api i) (\<lambda>sub.
              if dhcp_enabled sub then Inr [] else rbind (subnet_has_workload_ports api i) (\<lambda>b. Inr (if b then [i] else []))))
              (net_subnets net)) nets) (\<lambda>issues.
     Inr (get_check_results ''Subnets without enabled DHCP check'' issues)))"

definition check_subnets_dns_servers :: "net_api \<Rightarrow> check_result res" where
  "check_subnets_dns_servers api =
     rbind (na_dhcp_subnets api) (\<lambda>subs.
     rbind (rconcat (\<lambda>sub. if dns_nameservers sub \<noteq> [] then Inr []
              else rbind (subnet_has_workload_ports api (sub_id sub)) (\<lambda>b. Inr (if b then [sub_id sub] else []))) subs) (\<lambda>issues.
     Inr (get_check_results ''Subnets without dns_nameservers check'' issues)))"

text \<open>A rule that lets a port reach a DHCP server, and the networks it allows.\<close>

definition rule_allows_dhcp :: "sg_rule \<Rightarrow> bool" where
  "rule_allows_dhcp rule \<longleftrightarrow>
     direction rule = ''egress'' \<and> ethertype rule = ''IPv4'' \<and> remote_group_id rule = None \<and>
     (case protocol rule of
        None \<Rightarrow> True
      | Some p \<Rightarrow> py_lower p \<in> {''udp'', ''17''} \<and>
          (case port_range_min rule of None \<Rightarrow> True | Some m \<Rightarrow> m \<le> 67) \<and>
          (case port_range_max rule of None \<Rightarrow> True | Some m \<Rightarrow> m \<ge> 67))"

definition ipv4_of :: "ip_net \<Rightarrow> ipv4_network list" where
  "ipv4_of n = (case n of IPv4Network v \<Rightarrow> [v] | IPv6Network \<Rightarrow> [])"

text \<open>
  The CIDR of a rule is kept whatever its version; a rule for IPv4 has one of version 4, and a network of
  version 6 equals none of version 4 and contains none, so it can be left out.
\<close>

definition rule_networks :: "net_api \<Rightarrow> sg_rule \<Rightarrow> ipv4_network list res" where
  "rule_networks api rule =
     (if \<not> rule_allows_dhcp rule then Inr []
      else case remote_address_group_id rule of
          None \<Rightarrow> (case normalized_cidr rule of
              None \<Rightarrow> Inr [wildcard_cidr]
            | Some c \<Rightarrow> rbind (ip_network (na_is_ipv6 api) c) (\<lambda>n. Inr (ipv4_of n)))
        | Some g \<Rightarrow> rbind (na_address_group api g) (rconcat (\<lambda>c.
              rbind (ip_network (na_is_ipv6 api) c) (\<lambda>n. Inr (ipv4_of n)))))"

definition get_security_group_dhcp_allowed_ipv4 :: "net_api \<Rightarrow> (string \<times> ipv4_network list) list res" where
  "get_security_group_dhcp_allowed_ipv4 api =
     rbind (na_security_groups api) (\<lambda>groups.
     rbind (rmap (\<lambda>(i, rules). rbind (rconcat (rule_networks api) rules) (\<lambda>networks. Inr (i, networks))) groups) (\<lambda>l.
     Inr (filter (\<lambda>(i, networks). networks \<noteq> []) l)))"

definition get_port_cidrs_with_dhcp4 :: "net_api \<Rightarrow> port_object \<Rightarrow> ipv4_network list res" where
  "get_port_cidrs_with_dhcp4 api port =
     rconcat (\<lambda>i. rbind (na_subnet api i) (\<lambda>sub.
       if dhcp_enabled sub \<and> sub_version sub = 4
       then rbind (ip_network (na_is_ipv6 api) (sub_cidr sub)) (\<lambda>n. Inr (ipv4_of n)) else Inr []))
     (remdups (fixed_ip_subnets port))"

definition permitted_of :: "(string \<times> ipv4_network list) list \<Rightarrow> port_object \<Rightarrow> ipv4_network list" where
  "permitted_of allowed port = concat (map (\<lambda>sg. case map_of allowed sg of None \<Rightarrow> [] | Some l \<Rightarrow> l) (security_group_ids port))"

definition port_is_checked :: "port_object \<Rightarrow> bool" where
  "port_is_checked port \<longleftrightarrow> port_security_enabled port \<and> device_owner port \<in> {''compute:nova'', []}"

definition port_blocked :: "net_api \<Rightarrow> (string \<times> ipv4_network list) list \<Rightarrow> port_object \<Rightarrow> bool res" where
  "port_blocked api allowed port =
     (if \<not> port_is_checked port then Inr False
      else rbind (get_port_cidrs_with_dhcp4 api port) (\<lambda>cidrs.
        if cidrs = [] then Inr False
        else Inr (\<not> (are_addresses_allowed_by_firewall [broadcast_ip] (permitted_of allowed port) \<and>
                     are_addresses_allowed_by_firewall cidrs (permitted_of allowed port)))))"

definition check_port_sg_allowed_dhcp4 :: "net_api \<Rightarrow> check_result res" where
  "check_port_sg_allowed_dhcp4 api =
     rbind (get_security_group_dhcp_allowed_ipv4 api) (\<lambda>allowed.
     rbind (na_networks api (RouterExternal False)) (\<lambda>nets.
     rbind (rconcat (\<lambda>net. rbind (na_ports api (net_id net)) (rconcat (\<lambda>port.
              rbind (port_blocked api allowed port) (\<lambda>b. Inr (if b then [port_id port] else []))))) nets) (\<lambda>issues.
     Inr (get_check_results ''Checking ports with blocked access to DHCPv4'' issues))))"

definition preflight_results :: "net_api \<Rightarrow> check_result list" where
  "preflight_results api =
     [run_check ''_check_for_free_ip'' (check_for_free_ip api),
      run_check ''_check_network_mtu'' (check_network_mtu api),
      run_check ''_check_for_no_dhcp_subnet'' (check_for_no_dhcp_subnet api),
      run_check ''_check_subnets_dns_servers'' (check_subnets_dns_servers api),
      run_check ''_check_port_sg_allowed_dhcp4'' (check_port_sg_allowed_dhcp4 api)]"

text \<open>\<open>sys.exit(1)\<close> when a check failed.\<close>

definition do_preflight_checks :: "net_api \<Rightarrow> unit res" where
  "do_preflight_checks api =
     (if filter (\<lambda>r. \<not> check_status r) (preflight_results api) \<noteq> [] then Inl (OtherException ''SystemExit'') else Inr ())"

section \<open>What a passed preflight means\<close>

lemma rconcat_ok:
  "rconcat f xs = Inr l \<Longrightarrow> x \<in> set xs \<Longrightarrow> \<exists>ys. f x = Inr ys \<and> set ys \<subseteq> set l"
  by (induction xs arbitrary: l) (fastforce simp: rconcat_def res_simps)+

lemma digit_value_nonneg: "is_digit c \<Longrightarrow> 0 \<le> digit_value c"
  by (auto simp: is_digit_def digit_value_def)

lemma int_of_digits_nonneg: "isdigit s \<Longrightarrow> 0 \<le> int_of_digits s"
proof -
  have "list_all is_digit s \<Longrightarrow> 0 \<le> acc \<Longrightarrow> 0 \<le> foldl (\<lambda>acc c. 10 * acc + digit_value c) acc s" for acc
  proof (induction s arbitrary: acc)
    case (Cons c s)
    then have "0 \<le> 10 * acc + digit_value c" using digit_value_nonneg by simp
    then show ?case using Cons by simp
  qed simp
  then show "isdigit s \<Longrightarrow> 0 \<le> int_of_digits s" by (simp add: isdigit_def int_of_digits_def)
qed

lemma parse_octet_bound: "parse_octet s = Some a \<Longrightarrow> 0 \<le> a \<and> a \<le> 255"
  by (auto simp: parse_octet_def int_of_digits_nonneg split: if_splits)

lemma parse_ipv4_bound:
  assumes "parse_ipv4 s = Some n"
  shows "0 \<le> n" and "n < 2 ^ 32"
proof -
  obtain a b c d where l: "map parse_octet (py_split CHR ''.'' s) = [Some a, Some b, Some c, Some d]"
    and n: "n = ((a * 256 + b) * 256 + c) * 256 + d"
    using assms by (auto simp: parse_ipv4_def split: list.splits option.splits)
  have "\<forall>x \<in> set (map parse_octet (py_split CHR ''.'' s)). \<forall>k. x = Some k \<longrightarrow> 0 \<le> k \<and> k \<le> 255"
    using parse_octet_bound by auto
  then have "0 \<le> a" "a \<le> 255" "0 \<le> b" "b \<le> 255" "0 \<le> c" "c \<le> 255" "0 \<le> d" "d \<le> 255"
    unfolding l by simp_all
  then show "0 \<le> n" and "n < 2 ^ 32" unfolding n by simp_all
qed

lemma find_upt: "find P [0..<n] = Some k \<Longrightarrow> k < n"
  by (auto simp: find_Some_iff)

lemma parse_netmask_bound:
  assumes "parse_netmask s = Some k"
  shows "k \<le> 32"
  using assms by (auto simp: parse_netmask_def bind_eq_Some_conv split: if_splits option.splits)
    (drule find_upt, simp)+

lemma ip_network_valid:
  assumes "ip_network is_ipv6 s = Inr (IPv4Network n)"
  shows "valid_network n"
proof -
  have "\<exists>a k x. parse_ipv4 a = Some x \<and> k \<le> 32 \<and> x mod 2 ^ (32 - k) = 0 \<and> n = \<lparr>network_address = x, prefixlen = k\<rparr>"
    using assms parse_netmask_bound
    by (auto simp: ip_network_def Let_def split: list.splits option.splits if_splits)
  then show ?thesis using parse_ipv4_bound by (auto simp: valid_network_def dvd_eq_mod_eq_0)
qed

lemma wildcard_valid [simp]: "valid_network wildcard_cidr"
  by (simp add: valid_network_def wildcard_cidr_def)

lemma broadcast_valid [simp]: "valid_network broadcast_ip"
  by (simp add: valid_network_def broadcast_ip_def)

lemma ipv4_of_valid: "ip_network is_ipv6 s = Inr x \<Longrightarrow> n \<in> set (ipv4_of x) \<Longrightarrow> valid_network n"
  using ip_network_valid by (auto simp: ipv4_of_def split: ip_net.splits)

lemma rconcat_in: "rconcat f xs = Inr l \<Longrightarrow> y \<in> set l \<Longrightarrow> \<exists>x \<in> set xs. \<exists>ys. f x = Inr ys \<and> y \<in> set ys"
  by (induction xs arbitrary: l) (fastforce simp: rconcat_def res_simps)+

lemma rmap_in: "rmap f xs = Inr l \<Longrightarrow> y \<in> set l \<Longrightarrow> \<exists>x \<in> set xs. f x = Inr y"
  by (induction xs arbitrary: l) (fastforce simp: res_simps)+

lemma rule_networks_valid: "rule_networks api rule = Inr l \<Longrightarrow> n \<in> set l \<Longrightarrow> valid_network n"
  by (auto simp: rule_networks_def res_simps ipv4_of_valid split: if_splits option.splits dest!: rconcat_in)

lemma port_cidrs_valid: "get_port_cidrs_with_dhcp4 api port = Inr l \<Longrightarrow> n \<in> set l \<Longrightarrow> valid_network n"
  by (auto simp: get_port_cidrs_with_dhcp4_def res_simps ipv4_of_valid dest!: rconcat_in split: if_splits)

lemma permitted_network:
  assumes "get_security_group_dhcp_allowed_ipv4 api = Inr allowed" and "n \<in> set (permitted_of allowed port)"
  obtains groups sg rules rule ns where "na_security_groups api = Inr groups" and "sg \<in> set (security_group_ids port)"
    and "(sg, rules) \<in> set groups" and "rule \<in> set rules" and "rule_networks api rule = Inr ns" and "n \<in> set ns"
proof -
  obtain groups l where g: "na_security_groups api = Inr groups"
    and l: "rmap (\<lambda>(i, rules). rbind (rconcat (rule_networks api) rules) (\<lambda>networks. Inr (i, networks))) groups = Inr l"
    and allowed: "allowed = filter (\<lambda>(i, networks). networks \<noteq> []) l"
    using assms(1) by (auto simp: get_security_group_dhcp_allowed_ipv4_def res_simps)
  obtain sg networks where sg: "sg \<in> set (security_group_ids port)" "(sg, networks) \<in> set l" "n \<in> set networks"
  proof -
    obtain sg where "sg \<in> set (security_group_ids port)"
      and "n \<in> set (case map_of allowed sg of None \<Rightarrow> [] | Some l \<Rightarrow> l)"
      using assms(2) by (auto simp: permitted_of_def)
    moreover from this(2) obtain networks where "map_of allowed sg = Some networks" "n \<in> set networks"
      by (cases "map_of allowed sg") auto
    moreover have "(sg, networks) \<in> set allowed" by (rule map_of_SomeD) fact
    ultimately show thesis using that allowed by auto
  qed
  obtain rules where "(sg, rules) \<in> set groups" "rconcat (rule_networks api) rules = Inr networks"
    using rmap_in[OF l sg(2)] by (auto simp: res_simps)
  then show thesis using that g sg rconcat_in by metis
qed

text \<open>Each port that was looked at may reach the broadcast address and its subnets.\<close>

lemma preflight_port:
  assumes "do_preflight_checks api = Inr ()" and "na_networks api (RouterExternal False) = Inr nets"
    and "net \<in> set nets" and "na_ports api (net_id net) = Inr ports" and "port \<in> set ports" and "port_is_checked port"
    and "get_port_cidrs_with_dhcp4 api port = Inr cidrs" and "cidrs \<noteq> []" and "sub \<in> set (broadcast_ip # cidrs)"
  shows "\<exists>groups sg rules rule ns n. na_security_groups api = Inr groups \<and> sg \<in> set (security_group_ids port) \<and>
    (sg, rules) \<in> set groups \<and> rule \<in> set rules \<and> rule_allows_dhcp rule \<and> rule_networks api rule = Inr ns \<and>
    n \<in> set ns \<and> net_addresses sub \<subseteq> net_addresses n"
proof -
  have "check_status (run_check ''_check_port_sg_allowed_dhcp4'' (check_port_sg_allowed_dhcp4 api))"
    using assms(1) by (simp add: do_preflight_checks_def preflight_results_def split: if_splits)
  then obtain allowed where allowed: "get_security_group_dhcp_allowed_ipv4 api = Inr allowed"
    and none: "rconcat (\<lambda>net. rbind (na_ports api (net_id net)) (rconcat (\<lambda>port.
              rbind (port_blocked api allowed port) (\<lambda>b. Inr (if b then [port_id port] else []))))) nets = Inr []"
    using assms(2)
    by (auto simp: run_check_def check_port_sg_allowed_dhcp4_def get_check_results_def res_simps rbind_def
        split: sum.splits if_splits)
  from rconcat_ok[OF none assms(3)] assms(4)
  have "rconcat (\<lambda>port. rbind (port_blocked api allowed port) (\<lambda>b. Inr (if b then [port_id port] else []))) ports = Inr []"
    by auto
  from rconcat_ok[OF this assms(5)] have "port_blocked api allowed port = Inr False"
    by (auto simp: res_simps split: if_splits)
  then have ok: "are_addresses_allowed_by_firewall [broadcast_ip] (permitted_of allowed port)"
    "are_addresses_allowed_by_firewall cidrs (permitted_of allowed port)"
    using assms(6-8) by (auto simp: port_blocked_def)
  have valid: "\<forall>n \<in> set (permitted_of allowed port). valid_network n"
    using permitted_network[OF allowed] rule_networks_valid by metis
  have "\<exists>n \<in> set (permitted_of allowed port). net_addresses sub \<subseteq> net_addresses n"
    using ok assms(9) allowed_iff_included[OF valid, of "[broadcast_ip]"] allowed_iff_included[OF valid, of cidrs]
      port_cidrs_valid[OF assms(7)] by auto
  then obtain n where n: "n \<in> set (permitted_of allowed port)" "net_addresses sub \<subseteq> net_addresses n" by blast
  from allowed n(1) obtain groups sg rules rule ns where r: "na_security_groups api = Inr groups" "sg \<in> set (security_group_ids port)"
    "(sg, rules) \<in> set groups" "rule \<in> set rules" "rule_networks api rule = Inr ns" "n \<in> set ns"
    by (rule permitted_network)
  moreover have "rule_allows_dhcp rule" using r(5,6) by (auto simp: rule_networks_def split: if_splits)
  ultimately show ?thesis using n(2) by blast
qed

end
