(* ===== verification/SimOvn.thy ===== *)
theory SimOvn
  imports OvnMigration OvnChecks
begin

text \<open>
  A deployment with two compute nodes and a gateway on which the migration runs: a concrete instance of the
  contracts of \<open>OvnMigration\<close>, used by the witnesses.  Commands on a pod succeed unless the pod is listed as
  broken; the script of the dataplane records the pods it switched.
\<close>

record sim_ovn = ovn_world +
  so_releases :: "(string \<times> json) list"
  so_agents :: "string list"
  so_broken :: "string list"
  so_switched :: "string list"

fun so_helm :: "helm_cmd \<Rightarrow> (sim_ovn, helm_result) act" where
  "so_helm HelmList = aget (\<lambda>s. \<lparr>returncode = 0,
     std_out = JList (map (\<lambda>n. JObj [(''name'', JStr n)]) (keys (so_releases s))), std_err = []\<rparr>)"
| "so_helm (HelmGetValues n) = aget (\<lambda>s. case map_of (so_releases s) n of
       Some v \<Rightarrow> \<lparr>returncode = 0, std_out = v, std_err = []\<rparr>
     | None \<Rightarrow> \<lparr>returncode = 1, std_out = JNull, std_err = ''Error: release: not found''\<rparr>)"
| "so_helm (HelmUpgrade n url v inst) = athen (amod (\<lambda>s. s\<lparr>so_releases := AList.update n v (so_releases s)\<rparr>))
     (aret \<lparr>returncode = 0, std_out = JNull, std_err = []\<rparr>)"
| "so_helm (HelmDelete n) = athen (amod (\<lambda>s. s\<lparr>so_releases := AList.delete n (so_releases s)\<rparr>))
     (aret \<lparr>returncode = 0, std_out = JNull, std_err = []\<rparr>)"
| "so_helm (HelmRollbackCmd n) = aret \<lparr>returncode = 0, std_out = JNull, std_err = []\<rparr>"

definition so_ce :: "sim_ovn controller_env" where
  "so_ce = \<lparr>ce_helm = \<lparr>helm_run = so_helm, k8s_known = \<lambda>_. False, k8s_exists = \<lambda>_ _. aret False,
       k8s_delete = \<lambda>_ _. aret (), helm_tick = id, delete_rounds = 1, helm_tries = 1, charts_dir = ''/charts''\<rparr>,
     ce_status = \<lparr>release_string = ''1.0'', cluster_release = [], timestamp = ''now'', spec_hash = \<lambda>_. ''hash''\<rparr>,
     ce_vs = value_strategy, ce_jsonpath = \<lambda>f v. Inr [v], ce_sha256 = \<lambda>_. ''digest'', ce_adopt = Inr,
     ce_class = \<lambda>_. True, ce_purge_rounds = 1, ce_health_rounds = \<lambda>_. 1, ce_tick = id\<rparr>"

definition so_child :: "string \<Rightarrow> string \<Rightarrow> string \<times> json" where
  "so_child ty name = (name, JObj [(''type'', JStr ty), (''pod_labels'', JObj [(''app'', JStr name)]), (''images'', JList []), (''manifest'', JStr name)])"

definition so_tree :: json where
  "so_tree = JObj [
     (''openvswitch'', JObj [
        (''StatefulSet'', JObj (map (so_child ''static'') [''openvswitch-ovn-db'', ''openvswitch-ovn-northd''])),
        (''DaemonSet'', JObj (map (so_child ''dynamic'') [''openvswitch-vswitchd'', ''ovn-controller'']))]),
     (''neutron'', JObj [
        (''Job'', JObj (map (so_child ''static'') [''neutron-ovn-db-sync-migrate''])),
        (''DaemonSet'', JObj (map (so_child ''dynamic'') [''neutron-ovs-agent'', ''neutron-l3-agent'', ''neutron-metadata-agent'']))]),
     (''mariadb'', JObj [(''StatefulSet'', JObj [so_child ''static'' ''mariadb-server''])])]"

definition so_service :: "string \<Rightarrow> sim_ovn service" where
  "so_service name = \<lparr>svc_name = name, available_releases = [], health_groups = [], render_children = \<lambda>_. Inr so_tree,
     template_args = aret JNull, svc_layers = \<lambda>_ _. Inr JNull, before_apply = aret (), after_apply = aret (),
     upgrade_hook = aret ()\<rparr>"

definition so_bundle :: json where
  "so_bundle = JObj [(''spec'', JObj [(''releases'', JList
     [JObj [(''name'', JStr ''openstack-openvswitch''), (''chart'', JStr ''openvswitch''), (''values'', JObj [])],
      JObj [(''name'', JStr ''openstack-neutron''), (''chart'', JStr ''neutron''), (''values'', JObj [])]])])]"

definition so_reply :: "string \<Rightarrow> exec_outcome" where
  "so_reply st = Executed (Inr \<lparr>timed_out = False, exec_exception = None, error_json = JObj [(''status'', JStr st)]\<rparr>)"

definition so_exec :: "string \<Rightarrow> string \<Rightarrow> node_command \<Rightarrow> (sim_ovn, exec_outcome) act" where
  "so_exec pname container command = (\<lambda>s.
     if command \<noteq> MigrateDataplaneScript then (Inr (so_reply ''Success''), s)
     else if pname \<in> set (so_broken s) then (Inr (so_reply ''Failure''), s)
     else (Inr (so_reply ''Success''), s\<lparr>so_switched := pname # so_switched s\<rparr>))"

definition so_sdk :: "sim_ovn openstack_sdk" where
  "so_sdk = \<lparr>sdk_connect = aret (), sdk_volume_services = \<lambda>_ _. aret None, sdk_volumes = aret [],
     sdk_volume_disable = \<lambda>_ _ _. aret (), sdk_volume_enable = \<lambda>_ _. aret (), sdk_service_remove = \<lambda>_. aret (),
     sdk_compute_services = \<lambda>_ _. aret [], sdk_update_service = \<lambda>_ _. aret (), sdk_delete_service = \<lambda>_. aret (),
     sdk_list_servers = \<lambda>_ _. aret [], sdk_live_migrate = \<lambda>_. aret (), sdk_agents = \<lambda>_ _. aret [],
     sdk_update_agent = \<lambda>_ _. aret (), sdk_delete_agent = \<lambda>a. amod (\<lambda>s. s\<lparr>so_agents := removeAll (ag_id a) (so_agents s)\<rparr>),
     sdk_ports = \<lambda>_. aret [], sdk_delete_port = \<lambda>_. aret (), sdk_providers = aret [], sdk_delete_provider = \<lambda>_. aret (),
     sdk_notify = \<lambda>_. aret (), sdk_port_open = \<lambda>_. aret False\<rparr>"

text \<open>The sets of a kind are found by the prefix of the name; every object is ready.\<close>

definition so_conf :: maintenance_conf where
  "so_conf = \<lparr>OSCTL_CLUSTER_RELEASE = [], OSCTL_OPENSTACK_NODE_LABELS = (\<lambda>r. case r of
       controller \<Rightarrow> [(''role'', ''control'')] | gateway \<Rightarrow> [(''role'', ''gateway'')] | compute \<Rightarrow> [(''role'', ''compute'')]),
     nwl_parallel_max_gateway = 1, nwl_parallel_max_compute = 1\<rparr>"

definition so_env :: "sim_ovn ovn_env" where
  "so_env = \<lparr>oe_conf = so_conf, oe_ce = so_ce, oe_service = so_service, oe_mspec = \<lambda>o'. jitem o' ''spec'',
     oe_render = \<lambda>_ _. aret so_bundle, oe_health_groups = \<lambda>_. Inr [],
     oe_list = \<lambda>s kind ls. rbind (rbind (jitem ls ''app'') jstr) (\<lambda>app. Inr (filter (py_prefix app) (keys (daemon_sets s)))),
     oe_object = \<lambda>_ _ _. Inr (JObj []), oe_exec = so_exec, oe_sdk = so_sdk,
     oe_agents_of = \<lambda>_. aget (\<lambda>_. []), oe_networks = aret [], oe_delete_network = \<lambda>_. aret (),
     oe_rounds = 1, oe_tick = id, oe_sleep = id\<rparr>"

definition so_installed :: "sim_ovn \<Rightarrow> string \<Rightarrow> json option" where
  "so_installed s = map_of (so_releases s)"

definition so_is_switched :: "sim_ovn \<Rightarrow> string \<Rightarrow> bool" where
  "so_is_switched s p \<longleftrightarrow> p \<in> set (so_switched s)"

interpretation sim_ovn: dataplane_switch so_env so_installed so_is_switched
proof
  fix cmd s ro t m
  assume run: "helm_run (ce_helm (oe_ce so_env)) cmd s = (ro, t)"
  show "bookkeeping t = bookkeeping s"
    using run by (cases cmd) (auto simp: so_env_def so_ce_def act_simps abind_def)
  show "cmd_target cmd \<noteq> Some m \<Longrightarrow> so_installed t m = so_installed s m"
    using run by (cases cmd) (auto simp: so_env_def so_ce_def act_simps abind_def so_installed_def delete_conv')
next
  fix n url v i s r t
  assume "helm_run (ce_helm (oe_ce so_env)) (HelmUpgrade n url v i) s = (Inr r, t)"
  then show "so_installed t n = Some v"
    by (auto simp: so_env_def so_ce_def act_simps abind_def so_installed_def)
next
  fix n s r t
  assume "helm_run (ce_helm (oe_ce so_env)) (HelmDelete n) s = (Inr r, t)"
  then show "so_installed t n = None"
    by (auto simp: so_env_def so_ce_def act_simps abind_def so_installed_def delete_conv')
next
  fix s r t names
  assume run: "helm_run (ce_helm (oe_ce so_env)) HelmList s = (Inr r, t)"
    and names: "rbind (jelems (std_out r)) release_names = Inr names"
  have "rmap (\<lambda>r. rbind (jitem r ''name'') jstr) (map ((\<lambda>n. JObj [(''name'', JStr n)]) \<circ> fst) ds) = Inr (keys ds)"
    for ds :: jdict by (induction ds) auto
  then have "names = keys (so_releases s)"
    using run names by (auto simp: so_env_def so_ce_def act_simps release_names_def)
  then show "set names = {n. so_installed s n \<noteq> None}"
    using map_of_eq_None_iff[of "so_releases s"] by (auto simp: so_installed_def)
qed (auto simp: so_env_def so_ce_def so_sdk_def so_exec_def so_is_switched_def keeps_def act_simps so_reply_def
      exec_status_def split: if_splits)

text \<open>Two compute nodes and a gateway with a pod of the OVN controller each; one pod is broken.\<close>

definition so_node :: "string \<Rightarrow> node" where
  "so_node role = \<lparr>labels = [(''role'', role)], annotations = [], node_spec = JObj [], node_ready = True\<rparr>"

definition so_pod :: "string \<Rightarrow> string \<Rightarrow> set_pod" where
  "so_pod name n = \<lparr>pod_name = name, pod_namespace = ''openstack'', pod_node = n, pod_ready = True, job_child = False,
     pod_generation_of = None, terminating = False, claim_names = []\<rparr>"

definition so_world :: "string list \<Rightarrow> sim_ovn" where
  "so_world broken = \<lparr>nodes = [(''cmp1'', so_node ''compute''), (''cmp2'', so_node ''compute''), (''gtw1'', so_node ''gateway'')],
     pods = [], locks = [], osdpl = None, disable_notifications = [], clock = [],
     stateful_sets = [(''mariadb-server'', \<lparr>set_replicas = 1, set_pods = [so_pod ''mariadb-0'' ''ctl1'']\<rparr>)],
     daemon_sets = [(''ovn-controller-default'', \<lparr>ds_generation = None,
        ds_pods = [so_pod ''ovn1'' ''cmp1'', so_pod ''ovn2'' ''cmp2'', so_pod ''ovn3'' ''gtw1'']\<rparr>)],
     claims = [], state_maps = [], typed_lines = [], om_osdpls = [JObj [(''spec'', JObj [])]], om_osdplst = JObj [],
     om_finalizers = [], so_releases = [], so_agents = [], so_broken = broken, so_switched = []\<rparr>"

definition so_args :: script_args where
  "so_args = \<lparr>max_workers = 0, cmp_threshold = 1, gtw_threshold = 0\<rparr>"

end
