(* ===== verification/ServiceTypes.thy ===== *)
theory ServiceTypes
  imports ServicesBase
begin

text \<open>
  The type invariant of the services: applying, upgrading and deleting a service keeps the status object and
  the specification well-formed JSON, whether it succeeds or raises.
\<close>

section \<open>The state stays well typed\<close>

text \<open>
  The status object and the specification are JSON values whose dictionaries have distinct keys, and the
  status is a dictionary.  The hooks of a service and the passing of time have to respect this.
\<close>

definition well_typed :: "'w svc_world_scheme \<Rightarrow> bool" where
  "well_typed s \<longleftrightarrow> jwf (osdplst s) \<and> jwf (mspec s) \<and> (\<exists>d. osdplst s = JObj d)"

abbreviation typed_act :: "('w svc_world_scheme, 'a) act \<Rightarrow> bool" where
  "typed_act m \<equiv> triple well_typed m (\<lambda>_. well_typed) (\<lambda>_. well_typed)"

definition typed_hooks :: "'w svc_world_scheme controller_env \<Rightarrow> 'w svc_world_scheme service \<Rightarrow> bool" where
  "typed_hooks ce svc \<longleftrightarrow> typed_act (before_apply svc) \<and> typed_act (after_apply svc) \<and> typed_act (upgrade_hook svc) \<and>
     (\<forall>s. well_typed s \<longrightarrow> well_typed (ce_tick ce s))"

lemma typed_keeps: "keeps (\<lambda>s. (osdplst s, mspec s)) m \<Longrightarrow> typed_act m"
  by (erule triple_keeps) (simp add: well_typed_def)

lemma jwf_nest: "jwf v \<Longrightarrow> jwf (nest ks v)"
  by (induction ks) auto

lemma patch_at_typed: "jwf obj \<Longrightarrow> jwf v \<Longrightarrow> jwf (patch_at obj ks v)"
  unfolding patch_at_def by (intro jwf_patch(1) jwf_nest)

lemma patch_at_object: "\<exists>d. patch_at obj (k # ks) v = JObj d"
  by (simp add: patch_at_def merge_patch_simps)

lemma jitem_typed: "jwf j \<Longrightarrow> jitem j k = Inr v \<Longrightarrow> jwf v"
  by (cases j) (auto split: option.splits dest!: map_of_SomeD)

lemma service_status_typed:
  assumes "set_service_status env n st spec obj = Inr obj'" and "jwf spec" and "jwf obj"
  shows "jwf obj' \<and> (\<exists>d. obj' = JObj d)"
proof -
  obtain v where v: "jitem spec ''openstack_version'' = Inr v"
    and obj': "obj' = patch_at obj [''status'', ''services'', n] (JObj ([(''openstack_version'', v),
      (''controller_version'', JStr (release_string env)), (''fingerprint'', JStr (spec_hash env spec)),
      (''timestamp'', JStr (timestamp env))] @ (if cluster_release env \<noteq> [] then [(''release'', JStr (cluster_release env))] else [])
      @ [(''state'', JStr st)]))"
    using assms(1) by (auto simp: set_service_status_def generate_osdpl_status_generic_def res_simps)
  have "jwf v" using assms(2) v by (rule jitem_typed)
  then show ?thesis unfolding obj' using patch_at_typed[OF assms(3)] patch_at_object by simp
qed

lemma status_typed: "typed_act (set_children_status ce svc st)"
proof (rule tripleI)
  fix s e t assume "well_typed s" "set_children_status ce svc st s = (Inl e, t)"
  then show "well_typed t" using status_failed by fastforce
next
  fix s u t assume s: "well_typed s" and run: "set_children_status ce svc st s = (Inr u, t)"
  obtain obj where t: "t = s\<lparr>osdplst := obj\<rparr>" and obj: "if st = Deleted then obj = remove_service_status (svc_name svc) (osdplst s)
     else set_service_status (ce_status ce) (svc_name svc)
       (case st of Applied \<Rightarrow> ''APPLIED'' | Deleting \<Rightarrow> ''DELETING'' | _ \<Rightarrow> ''APPLYING'') (mspec s) (osdplst s) = Inr obj"
    using status_written[OF run] by blast
  have "jwf obj \<and> (\<exists>d. obj = JObj d)"
  proof (cases "st = Deleted")
    case True
    then show ?thesis
      using s obj patch_at_typed[of "osdplst s" JNull] patch_at_object by (simp add: well_typed_def remove_service_status_def)
  next
    case False
    with obj have "set_service_status (ce_status ce) (svc_name svc)
       (case st of Applied \<Rightarrow> ''APPLIED'' | Deleting \<Rightarrow> ''DELETING'' | _ \<Rightarrow> ''APPLYING'') (mspec s) (osdplst s) = Inr obj" by simp
    moreover have "jwf (mspec s)" "jwf (osdplst s)" using s unfolding well_typed_def by blast+
    ultimately show ?thesis by (rule service_status_typed)
  qed
  then show "well_typed t" using s t by (simp add: well_typed_def)
qed

context service_cluster
begin

lemma apply_typed:
  assumes "args_ok installed svc"
  shows "typed_act (apply_service ce svc ov)"
  unfolding apply_split by (intro triple_seq status_typed typed_keeps apply_body_other assms)

lemma delete_typed: "typed_act (delete_service ce svc)"
  unfolding delete_service_def by (intro triple_seq status_typed typed_keeps delete_bundle_other)

lemma service_apply_typed:
  assumes "args_ok installed svc" and "typed_hooks ce svc"
  shows "typed_act (service_apply ce svc ov)"
  unfolding service_apply_def using assms
  by (intro triple_seq apply_typed) (simp_all add: typed_hooks_def)

lemma healthy_typed:
  assumes "typed_hooks ce svc"
  shows "typed_act (service_healthy ce svc)"
proof -
  have "typed_act (wait_until n (ce_tick ce) (abind (aget osdplst) (\<lambda>obj. alift (f obj))))" for n and f :: "json \<Rightarrow> bool res"
  proof (induction n)
    case 0
    then show ?case by (simp add: triple_aret)
  next
    case (Suc n)
    have tick: "typed_act (amod (ce_tick ce))" using assms by (auto intro: triple_amod simp: typed_hooks_def)
    have cond: "typed_act (abind (aget osdplst) (\<lambda>obj. alift (f obj)))" by (rule typed_keeps) auto
    show ?case unfolding wait_until.simps
      by (intro triple_seq[OF cond] triple_if triple_leaf triple_seq[OF tick] Suc)
  qed
  then show ?thesis
    unfolding service_healthy_def wait_service_healthy_def wait_application_ready_def
    by (intro triple_aforeach triple_seq triple_if triple_leaf)
qed

lemma upgrade_typed:
  assumes "args_ok installed svc" and "typed_hooks ce svc"
  shows "typed_act (upgrade_service ce svc ov)"
proof -
  have tick: "typed_act (amod (ce_tick ce))" using assms(2) by (auto intro: triple_amod simp: typed_hooks_def)
  have hook: "typed_act (upgrade_hook svc)" using assms(2) by (simp add: typed_hooks_def)
  have "typed_act (abind (service_healthy ce svc) (\<lambda>_. abind (upgrade_hook svc) (\<lambda>_. abind (service_apply ce svc ov) (\<lambda>_.
    abind (amod (ce_tick ce)) (\<lambda>_. service_healthy ce svc)))))"
    by (intro triple_seq healthy_typed service_apply_typed hook tick assms)
  then have "typed_act (atry (abind (service_healthy ce svc) (\<lambda>_. abind (upgrade_hook svc) (\<lambda>_. abind (service_apply ce svc ov) (\<lambda>_.
    abind (amod (ce_tick ce)) (\<lambda>_. service_healthy ce svc))))) (\<lambda>_. araise e))" for e
    by (auto simp: triple_def atry_def araise_def split: prod.splits sum.splits)
  then show ?thesis unfolding upgrade_service_def by (intro triple_seq status_typed)
qed

end

end
