(* ===== verification/Federation.thy ===== *)
theory Federation
  imports Secrets Layers Kube
begin

text \<open>
  The federation of Keystone and Horizon with OpenID providers: \<open>FederationMixin\<close> of \<open>services/__init__.py\<close>
  and the use Keystone makes of it.  The arguments of the templates are built from the specification and from
  two secrets, the certificate of the provider and the pass phrase.
\<close>

text \<open>
  \<open>fed_str\<close> is \<open>str\<close> on a value that is no string, \<open>fed_load\<close> the schema of the pass phrase and
  \<open>fed_urandom\<close> the random bytes it is made of.
\<close>

record 's federation_env =
  fed_vs :: merge_fun
  fed_str :: "json \<Rightarrow> string"
  fed_secrets :: secret_env
  fed_load :: "json \<Rightarrow> json res"
  fed_urandom :: "'s urandom"

definition text_of_value :: "'s federation_env \<Rightarrow> json \<Rightarrow> string" where
  "text_of_value fe v = (case v of JStr s \<Rightarrow> s | _ \<Rightarrow> fed_str fe v)"

section \<open>Defaults\<close>

definition federation_redirect_uri :: "'s federation_env \<Rightarrow> json \<Rightarrow> string res" where
  "federation_redirect_uri fe spec =
     rbind (jitem spec ''public_domain_name'') (\<lambda>public_domain.
     Inr (''https://keystone.'' @ text_of_value fe public_domain @
       ''/v3/auth/OS-FEDERATION/identity_providers/keycloak/protocols/mapped/websso/''))"

definition default_provider_mapping :: json where
  "default_provider_mapping = JList [JObj
     [(''local'', JList
        [JObj [(''user'', JObj [(''email'', JStr ''{1}''), (''name'', JStr ''{0}'')])],
         JObj [(''domain'', JObj [(''name'', JStr ''Default'')]), (''groups'', JStr ''{2}'')]]),
      (''remote'', JList
        [JObj [(''type'', JStr ''OIDC-iam_username'')],
         JObj [(''type'', JStr ''OIDC-email'')],
         JObj [(''type'', JStr ''OIDC-iam_roles'')]])]]"

definition provider_defaults :: "'s federation_env \<Rightarrow> json \<Rightarrow> json" where
  "provider_defaults fe issuer = JObj
     [(''enabled'', JBool True),
      (''issuer'', issuer),
      (''metadata'', JObj
        [(''client'', JObj [(''client_id'', JStr ''os'')]),
         (''conf'', JObj [(''response_type'', JStr ''id_token''), (''scope'', JStr ''openid email profile''),
            (''ssl_validate_server'', JBool False)]),
         (''provider'', JObj [(''value_from'', JObj [(''from_url'',
            JObj [(''url'', JStr (text_of_value fe issuer @ ''/.well-known/openid-configuration''))])])])]),
      (''oauth2'', JObj [(''OAuth2TargetPass'', JStr ''prefix=OIDC-'')])]"

section \<open>Providers\<close>

text \<open>\<open>j[k1]...[kn] = v\<close>\<close>

definition put_at :: "string list \<Rightarrow> string \<Rightarrow> json \<Rightarrow> json \<Rightarrow> json res" where
  "put_at ks k v = jmod ks (\<lambda>j. jset j k v)"

definition wait_for_secret :: "secret_key \<Rightarrow> ('w secret_world_scheme, unit) act" where
  "wait_for_secret k = (\<lambda>s. (if k \<in> set (keys (secrets s)) then Inr ()
     else Inl (TemporaryError ''The object is not found yet.''), s))"

text \<open>\<open>oidc\_ca\<close>, when Keycloak is enabled and a secret is named.  Here \<open>oidc\<close> has no default.\<close>

definition oidc_ca_args :: "string \<Rightarrow> json \<Rightarrow> json \<Rightarrow> json \<Rightarrow> ('w secret_world_scheme, json) act" where
  "oidc_ca_args namespace spec keycloak_params args =
     abind (alift (jitem keycloak_params ''enabled'')) (\<lambda>enabled.
     if \<not> jtruthy enabled then aret args
     else abind (alift (rbind (jitem spec ''features'') (\<lambda>f. rbind (jpath f [''keystone'', ''keycloak'']) (\<lambda>k.
            rbind (jget k ''oidc'' JNull) (\<lambda>o'. jget o' ''oidcCASecret'' JNull))))) (\<lambda>oidc_ca_secret.
          if \<not> jtruthy oidc_ca_secret then aret args
          else abind (alift (jstr oidc_ca_secret)) (\<lambda>name.
               abind (wait_for_secret (namespace, name)) (\<lambda>_.
               abind (get_secret_data (namespace, name)) (\<lambda>data.
               abind (alift (case map_of data ''ca-cert.pem'' of None \<Rightarrow> Inl (KeyError ''ca-cert.pem'') | Some t \<Rightarrow> b64decode t))
                 (\<lambda>oidc_ca_bundle. alift (jset args ''oidc_ca'' (JStr oidc_ca_bundle))))))))"

definition copy_oidc_options :: "json \<Rightarrow> json \<Rightarrow> json res" where
  "copy_oidc_options keycloak_params =
     rfold (\<lambda>(global_opt, conf_opt) args.
       rbind (rbind (jget keycloak_params ''oidc'' jempty) (jin global_opt)) (\<lambda>b.
       if b then rbind (jitem_path keycloak_params [''oidc'', global_opt]) (\<lambda>v. put_at [''metadata'', ''conf''] conf_opt v args)
       else Inr args))
       [(''OIDCSSLValidateServer'', ''ssl_validate_server''), (''OIDCScope'', ''scope'')]"

definition keycloak_args :: "'s federation_env \<Rightarrow> json \<Rightarrow> json \<Rightarrow> json res" where
  "keycloak_args fe keycloak_params args =
     rbind (jin ''OIDCClientID'' keycloak_params) (\<lambda>b.
     rbind (if b then rbind (jitem keycloak_params ''OIDCClientID'') (\<lambda>v. put_at [''metadata'', ''client''] ''client_id'' v args)
            else Inr args) (\<lambda>args.
     rbind (copy_oidc_options keycloak_params args) (\<lambda>args.
     rbind (jitem keycloak_params ''url'') (\<lambda>url.
     let certs = text_of_value fe url @ ''/auth/realms/iam/protocol/openid-connect/certs'' in
     rbind (put_at [''metadata'', ''conf''] ''oauth_verify_jwks_uri'' (JStr certs) args) (\<lambda>args.
     rbind (put_at [''metadata'', ''conf''] ''verify_jwks_uri'' (JStr certs) args) (\<lambda>args.
     rbind (put_at [''oauth2''] ''OAuth2TokenVerify'' (JStr (''jwks_uri '' @ certs @ '' jwks_uri.ssl_verify=false'')) args) (\<lambda>args.
     jset args ''description'' (JStr ''External Authentication Service''))))))))"

definition keycloak_provider :: "'w secret_world_scheme federation_env \<Rightarrow> string \<Rightarrow> json \<Rightarrow> ('w secret_world_scheme, json) act" where
  "keycloak_provider fe namespace spec =
     abind (alift (jpath spec [''features'', ''keystone'', ''keycloak''])) (\<lambda>keycloak_params.
     abind (alift (jitem keycloak_params ''url'')) (\<lambda>url.
     abind (oidc_ca_args namespace spec keycloak_params
       (provider_defaults fe (JStr (text_of_value fe url @ ''/auth/realms/iam'')))) (\<lambda>args.
     alift (keycloak_args fe keycloak_params args))))"

text \<open>The loop over the providers of the specification: \<open>merger.merge\<close> changes the new dictionary in place.\<close>

definition openid_provider ::
  "'w secret_world_scheme federation_env \<Rightarrow> string \<Rightarrow> json \<Rightarrow> string \<times> json \<Rightarrow> ('w secret_world_scheme, string \<times> json) act" where
  "openid_provider fe namespace spec = (\<lambda>(provider_name, provider_opts).
     abind (if provider_name = ''keycloak'' then keycloak_provider fe namespace spec
            else abind (alift (jitem provider_opts ''issuer'')) (\<lambda>issuer. aret (provider_defaults fe issuer))) (\<lambda>provider.
     abind (alift (fed_vs fe [] provider provider_opts)) (\<lambda>provider.
     abind (alift (jget provider_opts ''mapping'' default_provider_mapping)) (\<lambda>mapping.
     abind (alift (jset provider ''mapping'' mapping)) (\<lambda>provider. aret (provider_name, provider))))))"

definition openid_providers ::
  "'w secret_world_scheme federation_env \<Rightarrow> string \<Rightarrow> json \<Rightarrow> json \<Rightarrow> ('w secret_world_scheme, jdict) act" where
  "openid_providers fe namespace spec mspec_federation =
     abind (alift (rbind (jpath mspec_federation [''openid'', ''providers'']) jitems)) (amap (openid_provider fe namespace spec))"

section \<open>The arguments of the templates\<close>

definition keycloak_enabled :: "json \<Rightarrow> json res" where
  "keycloak_enabled spec = rbind (jitem spec ''features'') (\<lambda>f.
     jpath_get f [''keystone'', ''keycloak''] ''enabled'' (JBool False))"

text \<open>Without providers in the specification, Keycloak is the only one, with the legacy type of authentication.\<close>

definition default_keycloak ::
  "'w secret_world_scheme federation_env \<Rightarrow> string \<Rightarrow> json \<Rightarrow> jdict \<Rightarrow> json \<Rightarrow> ('w secret_world_scheme, jdict \<times> json) act" where
  "default_keycloak fe namespace spec providers auth_type =
     (if providers \<noteq> [] then aret (providers, auth_type)
      else abind (alift (keycloak_enabled spec)) (\<lambda>enabled.
           if \<not> jtruthy enabled then aret (providers, auth_type)
           else abind (keycloak_provider fe namespace spec) (\<lambda>provider.
                abind (alift (jset provider ''mapping'' default_provider_mapping)) (\<lambda>provider.
                aret ([(''keycloak'', provider)], JStr ''oauth20'')))))"

text \<open>The options of the first enabled provider, which must be the only one for the legacy type.\<close>

fun first_enabled :: "json list \<Rightarrow> json res" where
  "first_enabled [] = Inr jempty"
| "first_enabled (opts # l) =
     rbind (jitem opts ''enabled'') (\<lambda>e. if jtruthy e then Inr opts else first_enabled l)"

definition legacy_options :: "'s federation_env \<Rightarrow> json \<Rightarrow> json res" where
  "legacy_options fe opts =
     rbind (jitem_path opts [''metadata'', ''client'', ''client_id'']) (\<lambda>client_id.
     rbind (jitem_path opts [''metadata'', ''conf'', ''response_type'']) (\<lambda>response_type.
     rbind (jitem_path opts [''metadata'', ''conf'', ''scope'']) (\<lambda>scope.
     rbind (jitem_path opts [''metadata'', ''conf'', ''ssl_validate_server'']) (\<lambda>ssl.
     rbind (jitem opts ''issuer'') (\<lambda>issuer.
     rbind (jitem_path opts [''metadata'', ''conf'', ''oauth_verify_jwks_uri'']) (\<lambda>jwks.
     Inr (JObj [(''OIDCClientID'', client_id), (''OIDCResponseType'', response_type), (''OIDCScope'', scope),
       (''OIDCSSLValidateServer'', ssl), (''OIDCOAuthSSLValidateServer'', ssl),
       (''OIDCProviderMetadataURL'', JStr (text_of_value fe issuer @ ''/.well-known/openid-configuration'')),
       (''OIDCOAuthVerifyJwksUri'', jwks)])))))))"

definition legacy_oidc :: "'s federation_env \<Rightarrow> json \<Rightarrow> jdict \<Rightarrow> json \<Rightarrow> json res" where
  "legacy_oidc fe auth_type providers oidc =
     (if \<not> py_eq auth_type (JStr ''oauth20'') then Inr oidc
      else rbind (first_enabled (map snd providers)) (\<lambda>opts.
           if \<not> jtruthy opts then Inr oidc
           else rbind (legacy_options fe opts) (fed_vs fe [] oidc)))"

text \<open>\<open>d.update(e)\<close> for a dictionary \<open>e\<close>; nothing iterable raises.\<close>

definition py_dict_update :: "json \<Rightarrow> json \<Rightarrow> json res" where
  "py_dict_update d e = (case (d, e) of
       (JObj d, JObj e) \<Rightarrow> Inr (JObj (foldl (\<lambda>d (k, v). AList.update k v d) d e))
     | (JObj d, JList []) \<Rightarrow> Inr (JObj d)
     | (JObj d, JStr []) \<Rightarrow> Inr (JObj d)
     | _ \<Rightarrow> Inl TypeError)"

definition add_ca :: "json \<Rightarrow> string \<Rightarrow> string res" where
  "add_ca opts bundle =
     rbind (jitem opts ''enabled'') (\<lambda>e.
     if \<not> jtruthy e then Inr bundle
     else rbind (jget opts ''oidc_ca'' JNull) (\<lambda>ca.
          if \<not> jtruthy ca then Inr bundle
          else case ca of JStr t \<Rightarrow> Inr (bundle @ t) | _ \<Rightarrow> Inl TypeError))"

definition ca_bundle :: "jdict \<Rightarrow> string res" where
  "ca_bundle providers = rfold add_ca (map snd providers) []"

definition keycloak_secret_class :: "'s federation_env \<Rightarrow> 's secret_class" where
  "keycloak_secret_class fe = \<lparr>class_fields = [''passphrase''], from_json = fed_load fe,
     create = password_create (fed_urandom fe) ''passphrase'', rotation_fields = (jempty, jempty)\<rparr>"

definition keycloak_salt :: "'w secret_world_scheme federation_env \<Rightarrow> string \<Rightarrow> ('w secret_world_scheme, json) act" where
  "keycloak_salt fe namespace =
     (let k = (namespace, ''oidc-crypto-passphrase'') in
      abind (single_ensure (fed_secrets fe) (keycloak_secret_class fe) k) (\<lambda>_.
      abind (single_get (fed_secrets fe) (keycloak_secret_class fe) k) (\<lambda>creds. alift (jitem creds ''passphrase''))))"

definition global_oidc ::
  "'w secret_world_scheme federation_env \<Rightarrow> string \<Rightarrow> json \<Rightarrow> json \<Rightarrow> ('w secret_world_scheme, json) act" where
  "global_oidc fe namespace spec oidc =
     abind (keycloak_salt fe namespace) (\<lambda>salt.
     abind (alift (jset oidc ''OIDCCryptoPassphrase'' salt)) (\<lambda>oidc.
     abind (alift (federation_redirect_uri fe spec)) (\<lambda>uri.
     abind (alift (jset oidc ''OIDCRedirectURI'' (JStr uri))) (\<lambda>oidc.
     abind (alift (jget oidc ''OIDCRedirectURLsAllowed'' JNull)) (\<lambda>allowed.
     if allowed \<noteq> JNull then aret oidc
     else abind (alift (jitem spec ''public_domain_name'')) (\<lambda>public_domain.
          alift (jset oidc ''OIDCRedirectURLsAllowed''
            (JStr (''^https://horizon.'' @ text_of_value fe public_domain @ ''/auth/logout$'')))))))))"

definition normalize_oidc_value :: "json \<Rightarrow> json" where
  "normalize_oidc_value v = (case v of JBool True \<Rightarrow> JStr ''On'' | JBool False \<Rightarrow> JStr ''Off'' | _ \<Rightarrow> v)"

definition normalize_oidc :: "json \<Rightarrow> json res" where
  "normalize_oidc oidc = rbind (jitems oidc) (\<lambda>d. Inr (JObj (map (\<lambda>(k, v). (k, normalize_oidc_value v)) d)))"

definition default_oidc :: "string \<Rightarrow> json" where
  "default_oidc uri = JObj
     [(''OIDCClaimPrefix'', JStr ''OIDC-''), (''OIDCClaimDelimiter'', JStr '';''),
      (''OIDCOAuthSSLValidateServer'', JBool False), (''OIDCSessionInactivityTimeout'', JStr ''1800''),
      (''OIDCRedirectURI'', JStr uri)]"

definition federation_result :: "json \<Rightarrow> json \<Rightarrow> json \<Rightarrow> jdict \<Rightarrow> string \<Rightarrow> json" where
  "federation_result enabled auth_type oidc providers bundle = JObj [(''federation'', JObj [(''openid'', JObj
     ([(''enabled'', enabled), (''oidc_auth_type'', auth_type), (''oidc'', oidc), (''providers'', JObj providers)] @
      (if bundle = [] then [] else [(''oidc_ca_bundle'', JStr bundle)])))])]"

definition get_federation_args ::
  "'w secret_world_scheme federation_env \<Rightarrow> string \<Rightarrow> json \<Rightarrow> ('w secret_world_scheme, json) act" where
  "get_federation_args fe namespace spec =
     abind (alift (rbind (jitem spec ''features'') (\<lambda>f. jpath f [''keystone'', ''federation'']))) (\<lambda>fed.
     abind (alift (jget fed ''openid'' jempty)) (\<lambda>openid.
     abind (alift (keycloak_enabled spec)) (\<lambda>dflt.
     abind (alift (jget openid ''enabled'' dflt)) (\<lambda>enabled.
     abind (alift (jget openid ''oidc_auth_type'' (JStr ''oauth2''))) (\<lambda>auth_type.
     abind (alift (federation_redirect_uri fe spec)) (\<lambda>uri.
     abind (openid_providers fe namespace spec fed) (\<lambda>providers.
     abind (default_keycloak fe namespace spec providers auth_type) (\<lambda>(providers, auth_type).
     abind (alift (legacy_oidc fe auth_type providers (default_oidc uri))) (\<lambda>oidc.
     abind (alift (jpath fed [''openid'', ''oidc''])) (\<lambda>user_oidc.
     abind (alift (py_dict_update oidc user_oidc)) (\<lambda>oidc.
     abind (alift (ca_bundle providers)) (\<lambda>bundle.
     abind (if jtruthy enabled then global_oidc fe namespace spec oidc else aret oidc) (\<lambda>oidc.
     abind (alift (normalize_oidc oidc)) (\<lambda>oidc.
     aret (federation_result enabled auth_type oidc providers bundle)))))))))))))))"

section \<open>What is always set\<close>

lemma abind_cong_Inr:
  "(\<And>x s' t. m s' = (Inr x, t) \<Longrightarrow> f x t = g x t) \<Longrightarrow> abind m f = abind m g"
  by (rule ext) (auto simp: abind_def split: prod.splits sum.splits)

lemma abind_InrE:
  assumes "abind m f s = (Inr y, t)"
  obtains x s' where "m s = (Inr x, s')" and "f x s' = (Inr y, t)"
  using assms by (auto simp: abind_eq_Inr)

lemma alift_InrE:
  assumes "abind (alift r) f s = (Inr y, t)"
  obtains x where "r = Inr x" and "f x s = (Inr y, t)"
  using assms by (auto simp: abind_eq_Inr alift_def)

lemma federation_runs:
  assumes "get_federation_args fe namespace spec s = (Inr v, t)"
  obtains enabled auth_type oidc0 oidc1 oidc providers ca s1 uri where
    "federation_redirect_uri fe spec = Inr uri"
    "(if jtruthy enabled then global_oidc fe namespace spec oidc0 else aret oidc0) s1 = (Inr oidc1, t)"
    "normalize_oidc oidc1 = Inr oidc"
    "v = federation_result enabled auth_type oidc providers ca"
proof -
  have "\<exists>enabled auth_type oidc0 oidc1 oidc providers ca s1 uri.
    federation_redirect_uri fe spec = Inr uri \<and>
    (if jtruthy enabled then global_oidc fe namespace spec oidc0 else aret oidc0) s1 = (Inr oidc1, t) \<and>
    normalize_oidc oidc1 = Inr oidc \<and>
    v = federation_result enabled auth_type oidc providers ca"
    using assms unfolding get_federation_args_def
    apply (elim alift_InrE abind_InrE)
    apply (simp only: split: prod.splits)
    apply (elim alift_InrE abind_InrE)
    apply (simp only: aret_def prod.inject sum.inject)
    apply (elim conjE)
    apply (hypsubst)
    apply (intro exI conjI)
       apply (rule refl | assumption)+
    done
  then show ?thesis using that by blast
qed

lemma keeps_single_get: "keeps id (single_get env c k)"
  by (auto simp: single_get_def get_secret_data_def get_secret_def keeps_def abind_def alift_def aret_def
      split: prod.splits sum.splits option.splits)

lemma salt_stored:
  assumes "keycloak_salt fe namespace s = (Inr p, t)"
  shows "abind (single_get (fed_secrets fe) (keycloak_secret_class fe) (namespace, ''oidc-crypto-passphrase''))
    (\<lambda>creds. alift (jitem creds ''passphrase'')) t = (Inr p, t)"
proof -
  let ?get = "single_get (fed_secrets fe) (keycloak_secret_class fe) (namespace, ''oidc-crypto-passphrase'')"
  obtain s1 cr s2 where g: "?get s1 = (Inr cr, s2)" and p: "alift (jitem cr ''passphrase'') s2 = (Inr p, t)"
    using assms unfolding keycloak_salt_def Let_def by (elim abind_InrE)
  have "s2 = s1" using keepsD[OF keeps_single_get g] by simp
  then show ?thesis using g p by (simp add: abind_def alift_def)
qed

lemma jset_map_of: "jset j k v = Inr j' \<Longrightarrow> \<exists>d. j = JObj d \<and> j' = JObj (AList.update k v d)"
  by (cases j) auto

lemma global_oidc_set:
  assumes "global_oidc fe namespace spec oidc s = (Inr oidc', t)"
  shows "\<exists>d p uri. oidc' = JObj d \<and> federation_redirect_uri fe spec = Inr uri \<and>
    map_of d ''OIDCRedirectURI'' = Some (JStr uri) \<and> map_of d ''OIDCCryptoPassphrase'' = Some p \<and>
    keycloak_salt fe namespace s = (Inr p, t) \<and>
    (\<exists>allowed. map_of d ''OIDCRedirectURLsAllowed'' = Some allowed \<and> allowed \<noteq> JNull)"
proof -
  obtain p s1 o1 uri o2 allowed where p: "keycloak_salt fe namespace s = (Inr p, s1)"
    and o1: "jset oidc ''OIDCCryptoPassphrase'' p = Inr o1" and uri: "federation_redirect_uri fe spec = Inr uri"
    and o2: "jset o1 ''OIDCRedirectURI'' (JStr uri) = Inr o2" and a: "jget o2 ''OIDCRedirectURLsAllowed'' JNull = Inr allowed"
    and rest: "(if allowed \<noteq> JNull then aret o2
     else abind (alift (jitem spec ''public_domain_name'')) (\<lambda>public_domain.
          alift (jset o2 ''OIDCRedirectURLsAllowed''
            (JStr (''^https://horizon.'' @ text_of_value fe public_domain @ ''/auth/logout$''))))) s1 = (Inr oidc', t)"
    using assms unfolding global_oidc_def by (elim alift_InrE abind_InrE)
  obtain d where d: "o2 = JObj d" "map_of d ''OIDCRedirectURI'' = Some (JStr uri)" "map_of d ''OIDCCryptoPassphrase'' = Some p"
    using jset_map_of[OF o1] jset_map_of[OF o2] by auto
  show ?thesis
  proof (cases "allowed = JNull")
    case False
    then show ?thesis using rest d a p uri by (auto simp: aret_def split: option.splits)
  next
    case True
    obtain w where "jset o2 ''OIDCRedirectURLsAllowed'' (JStr w) = Inr oidc'" "s1 = t"
      using rest by (simp only: True simp_thms if_False) (erule alift_InrE, auto simp: alift_def)
    then show ?thesis using d p uri by auto
  qed
qed

lemma normalized_object:
  assumes "normalize_oidc j = Inr oidc"
  shows "\<exists>d e. j = JObj d \<and> oidc = JObj e \<and> (\<forall>k. map_of e k = map_option normalize_oidc_value (map_of d k))"
  using assms by (cases j) (auto simp: normalize_oidc_def map_of_map)

lemma normalized_no_bool: "normalize_oidc_value v \<noteq> JBool b"
  by (auto simp: normalize_oidc_value_def split: json.splits bool.splits)

end
