(* ===== verification/CephApi.thy ===== *)
theory CephApi
  imports SecretRotation OvnChecks Federation
begin

text \<open>
  The parameters of Ceph that the deployment shares with OpenStack: \<open>ceph_api.py\<close> and the part of
  \<open>OpenStackServiceWithCeph\<close> that reads them.  They travel in a secret, packed into texts with separators.
\<close>

section \<open>Parameters\<close>

datatype os_user = User_nova | User_cinder | User_glance | User_manila

datatype pool_role = Role_ephemeral | Role_volumes | Role_backup | Role_images | Role_rgw | Role_kubernetes
  | Role_vms | Role_other

record pool_description =
  device_class :: string
  role_of_pool :: pool_role
  pool_name :: string

record os_service_creds =
  creds_user :: os_user
  creds_key :: string
  creds_key_name :: string
  creds_pools :: "pool_description list"

record rgw_params =
  internal_url :: string
  external_url :: string

record os_ceph_params =
  admin_key :: string
  mon_endpoints :: "(int \<times> int) list"
  ceph_services :: "os_service_creds list"
  ceph_rgw :: "rgw_params option"

text \<open>\<open>user.name\<close>, \<open>OSUser[name]\<close>, \<open>role.name\<close>, \<open>PoolRole[name]\<close>\<close>

fun user_name :: "os_user \<Rightarrow> string" where
  "user_name User_nova = ''nova''"
| "user_name User_cinder = ''cinder''"
| "user_name User_glance = ''glance''"
| "user_name User_manila = ''manila''"

fun role_name :: "pool_role \<Rightarrow> string" where
  "role_name Role_ephemeral = ''ephemeral''"
| "role_name Role_volumes = ''volumes''"
| "role_name Role_backup = ''backup''"
| "role_name Role_images = ''images''"
| "role_name Role_rgw = ''rgw''"
| "role_name Role_kubernetes = ''kubernetes''"
| "role_name Role_vms = ''vms''"
| "role_name Role_other = ''other''"

definition all_users :: "os_user list" where
  "all_users = [User_nova, User_cinder, User_glance, User_manila]"

definition all_roles :: "pool_role list" where
  "all_roles = [Role_ephemeral, Role_volumes, Role_backup, Role_images, Role_rgw, Role_kubernetes, Role_vms, Role_other]"

definition user_of_name :: "string \<Rightarrow> os_user res" where
  "user_of_name n = (case find (\<lambda>u. user_name u = n) all_users of None \<Rightarrow> Inl (KeyError n) | Some u \<Rightarrow> Inr u)"

definition role_of_name :: "string \<Rightarrow> pool_role res" where
  "role_of_name n = (case find (\<lambda>r. role_name r = n) all_roles of None \<Rightarrow> Inl (KeyError n) | Some r \<Rightarrow> Inr r)"

definition CEPH_POOL_ROLE_SERVICES_MAP :: "(string \<times> string list) list" where
  "CEPH_POOL_ROLE_SERVICES_MAP =
     [(''cinder'', [''volumes'', ''backup'']), (''nova'', [''ephemeral'', ''vms'']), (''glance'', [''images'']),
      (''manila'', [])]"

definition get_os_user_keyring_name :: "os_user \<Rightarrow> string" where
  "get_os_user_keyring_name u = user_name u @ ''-rbd-keyring''"

section \<open>Packing\<close>

text \<open>An \<open>IPv4Address\<close> is its number; its text has the four bytes.\<close>

definition show_ipv4 :: "int \<Rightarrow> string" where
  "show_ipv4 n = py_join ''.''
     [show_int (n div 16777216 mod 256), show_int (n div 65536 mod 256), show_int (n div 256 mod 256), show_int (n mod 256)]"

definition show_endpoint :: "int \<times> int \<Rightarrow> string" where
  "show_endpoint = (\<lambda>(ip, endpoint_port). show_ipv4 ip @ '':'' @ show_int endpoint_port)"

definition pack_ips :: "(int \<times> int) list \<Rightarrow> string" where
  "pack_ips l = py_join '','' (map show_endpoint l)"

definition unpack_endpoint :: "string \<Rightarrow> (int \<times> int) res" where
  "unpack_endpoint itm = (case py_split CHR '':'' itm of
       [a, p] \<Rightarrow> (case parse_ipv4 a of
           None \<Rightarrow> Inl ValueError
         | Some ip \<Rightarrow> rbind (py_int p) (\<lambda>endpoint_port. Inr (ip, endpoint_port)))
     | _ \<Rightarrow> Inl ValueError)"

definition unpack_ips :: "string \<Rightarrow> (int \<times> int) list res" where
  "unpack_ips data = rmap unpack_endpoint (py_split CHR '','' data)"

definition pack_pool :: "pool_description \<Rightarrow> string" where
  "pack_pool p = pool_name p @ '':'' @ role_name (role_of_pool p) @ '':'' @ device_class p"

definition unpack_pool :: "string \<Rightarrow> pool_description res" where
  "unpack_pool t = (case py_split CHR '':'' t of
       [name, role, dev_cls] \<Rightarrow> rbind (role_of_name role) (\<lambda>r.
         Inr \<lparr>device_class = dev_cls, role_of_pool = r, pool_name = name\<rparr>)
     | _ \<Rightarrow> Inl ValueError)"

definition pack_service :: "os_service_creds \<Rightarrow> string" where
  "pack_service c = py_join '';'' (creds_key_name c # creds_key c # map pack_pool (creds_pools c))"

definition unpack_service :: "string \<Rightarrow> string \<Rightarrow> os_service_creds res" where
  "unpack_service user t = (case py_split CHR '';'' t of
       key_name # key # pools_descr \<Rightarrow>
         rbind (rmap unpack_pool pools_descr) (\<lambda>pools.
         rbind (user_of_name user) (\<lambda>u.
         Inr \<lparr>creds_user = u, creds_key = key, creds_key_name = key_name, creds_pools = pools\<rparr>))
     | _ \<Rightarrow> Inl ValueError)"

text \<open>\<open>\_os\_ceph\_params\_to\_secret\<close>; without the gateway its attributes cannot be read.\<close>

definition os_ceph_params_to_secret :: "os_ceph_params \<Rightarrow> (string \<times> string) list res" where
  "os_ceph_params_to_secret p =
     rbind (to_base64 (pack_ips (mon_endpoints p))) (\<lambda>mons.
     rbind (case ceph_rgw p of None \<Rightarrow> Inl AttributeError | Some r \<Rightarrow> Inr r) (\<lambda>r.
     rbind (to_base64 (internal_url r)) (\<lambda>i.
     rbind (to_base64 (external_url r)) (\<lambda>e.
     rfold (\<lambda>c d. rbind (to_base64 (pack_service c)) (\<lambda>t. Inr (AList.update (user_name (creds_user c)) t d)))
       (ceph_services p)
       [(''client.admin'', admin_key p), (''mon_endpoints'', mons), (''rgw_internal'', i), (''rgw_external'', e)]))))"

text \<open>\<open>d.pop(k)\<close>, and \<open>d.pop(k, None)\<close>\<close>

definition pop_item :: "string \<Rightarrow> (string \<times> string) list \<Rightarrow> (string \<times> (string \<times> string) list) res" where
  "pop_item k d = (case map_of d k of None \<Rightarrow> Inl (KeyError k) | Some v \<Rightarrow> Inr (v, AList.delete k d))"

definition rgw_of :: "string option \<Rightarrow> string option \<Rightarrow> rgw_params option res" where
  "rgw_of i e = (case (i, e) of
       (Some i, Some e) \<Rightarrow>
         if i = [] \<or> e = [] then Inr None
         else rbind (from_base64 i) (\<lambda>iu. rbind (from_base64 e) (\<lambda>eu.
              Inr (Some \<lparr>internal_url = iu, external_url = eu\<rparr>)))
     | _ \<Rightarrow> Inr None)"

fun ceph_services_of :: "(string \<times> string) list \<Rightarrow> os_service_creds list res" where
  "ceph_services_of [] = Inr []"
| "ceph_services_of ((os_user, val) # d) =
     (if os_user \<notin> set (keys CEPH_POOL_ROLE_SERVICES_MAP) then ceph_services_of d
      else rbind (from_base64 val) (\<lambda>t.
           rbind (unpack_service os_user t) (\<lambda>c.
           rbind (ceph_services_of d) (\<lambda>cs. Inr (c # cs)))))"

definition os_ceph_params_from_secret :: "(string \<times> string) list \<Rightarrow> os_ceph_params res" where
  "os_ceph_params_from_secret secret =
     rbind (pop_item ''client.admin'' secret) (\<lambda>(key, d).
     rbind (pop_item ''mon_endpoints'' d) (\<lambda>(mons, d).
     rbind (rbind (from_base64 mons) unpack_ips) (\<lambda>endpoints.
     let i = map_of d ''rgw_internal''; d = AList.delete ''rgw_internal'' d;
         e = map_of d ''rgw_external''; d = AList.delete ''rgw_external'' d in
     rbind (rgw_of i e) (\<lambda>r.
     rbind (ceph_services_of d) (\<lambda>cs.
     Inr \<lparr>admin_key = key, mon_endpoints = endpoints, ceph_services = cs, ceph_rgw = r\<rparr>)))))"

section \<open>Ceph in the services\<close>

text \<open>\<open>ceph_key\<close> is the secret that Rook and OpenStack share.\<close>

definition get_os_ceph_params :: "secret_key \<Rightarrow> ('w secret_world_scheme, os_ceph_params) act" where
  "get_os_ceph_params ceph_key = abind (get_secret_data ceph_key) (\<lambda>d. alift (os_ceph_params_from_secret d))"

text \<open>\<open>create\<close> of a secret that exists already fails, and the failure is ignored.\<close>

definition create_secret :: "secret_key \<Rightarrow> (string \<times> string) list \<Rightarrow> ('w secret_world_scheme, unit) act" where
  "create_secret k data = abind (get_secret True k) (\<lambda>found.
     if found = None then put_secret k \<lparr>s_data = data, s_priority = None, s_labels = []\<rparr> else aret ())"

definition save_ceph_secrets :: "string \<Rightarrow> os_ceph_params \<Rightarrow> ('w secret_world_scheme, unit) act" where
  "save_ceph_secrets namespace params =
     aforeach (\<lambda>c. create_secret (namespace, get_os_user_keyring_name (creds_user c)) [(''key'', b64encode (creds_key c))])
       (ceph_services params)"

definition create_ceph_secrets :: "secret_key \<Rightarrow> string \<Rightarrow> ('w secret_world_scheme, unit) act" where
  "create_ceph_secrets ceph_key namespace =
     abind (wait_for_secret ceph_key) (\<lambda>_.
     abind (get_os_ceph_params ceph_key) (\<lambda>oscp. save_ceph_secrets namespace oscp))"

definition get_ceph_role_pools :: "os_service_creds \<Rightarrow> json" where
  "get_ceph_role_pools c =
     (let roles = the (map_of CEPH_POOL_ROLE_SERVICES_MAP (user_name (creds_user c))) in
      JObj (foldl (\<lambda>d p. AList.update (pool_name p)
               (JObj [(''name'', JStr (pool_name p)), (''role'', JStr (role_name (role_of_pool p)))]) d) []
        (filter (\<lambda>p. role_name (role_of_pool p) \<in> set roles) (creds_pools c))))"

definition service_ceph_config :: "os_service_creds \<Rightarrow> json" where
  "service_ceph_config c = JObj
     [(''username'', JStr (user_name (creds_user c))), (''keyring'', JStr (creds_key c)),
      (''secrets'', JStr (get_os_user_keyring_name (creds_user c))), (''pools'', get_ceph_role_pools c)]"

definition ceph_config :: "secret_key \<Rightarrow> ('w secret_world_scheme, json) act" where
  "ceph_config ceph_key =
     abind (get_os_ceph_params ceph_key) (\<lambda>oscp.
     aret (JObj [(''ceph'', JObj (AList.update ''mon_host'' (JList (map (JStr \<circ> show_endpoint) (mon_endpoints oscp)))
       (foldl (\<lambda>d c. AList.update (user_name (creds_user c)) (service_ceph_config c) d) [] (ceph_services oscp))))]))"

section \<open>Packing and unpacking\<close>

text \<open>ASCII text without some separators.\<close>

definition plain_text :: "string \<Rightarrow> string \<Rightarrow> bool" where
  "plain_text seps s \<longleftrightarrow> list_all (\<lambda>c. (of_char c :: nat) < 128 \<and> c \<notin> set seps) s"

definition pool_ok :: "pool_description \<Rightarrow> bool" where
  "pool_ok p \<longleftrightarrow> plain_text '';:'' (pool_name p) \<and> plain_text '';:'' (device_class p)"

definition service_creds_ok :: "os_service_creds \<Rightarrow> bool" where
  "service_creds_ok c \<longleftrightarrow> plain_text '';'' (creds_key_name c) \<and> plain_text '';'' (creds_key c) \<and> list_all pool_ok (creds_pools c)"

definition ceph_params_ok :: "os_ceph_params \<Rightarrow> bool" where
  "ceph_params_ok p \<longleftrightarrow>
     mon_endpoints p \<noteq> [] \<and> list_all (\<lambda>(ip, endpoint_port). 0 \<le> ip \<and> ip < 2 ^ 32) (mon_endpoints p) \<and>
     (case ceph_rgw p of None \<Rightarrow> False
      | Some r \<Rightarrow> plain_text [] (internal_url r) \<and> internal_url r \<noteq> [] \<and> plain_text [] (external_url r) \<and> external_url r \<noteq> []) \<and>
     distinct (map creds_user (ceph_services p)) \<and> list_all service_creds_ok (ceph_services p)"

lemma from_base64_Nil: "from_base64 [] = Inr []"
  by (simp add: from_base64_def encode_ascii_def decode_ascii_def)

lemma rmap_inverse: "(\<And>x. x \<in> set l \<Longrightarrow> f (g x) = Inr x) \<Longrightarrow> rmap f (map g l) = Inr l"
  by (induction l) auto

lemma update_new: "k \<notin> set (keys d) \<Longrightarrow> AList.update k v d = d @ [(k, v)]"
  by (induction d) auto

lemma delete_absent: "k \<notin> set (keys d) \<Longrightarrow> AList.delete k d = d"
  by (induction d) auto

lemma delete_parts: "AList.delete k (d @ e) = AList.delete k d @ AList.delete k e"
  by (induction d) auto

lemma plain_append [simp]: "plain_text seps (s @ t) = (plain_text seps s \<and> plain_text seps t)"
  by (simp add: plain_text_def)

lemma plain_Nil [simp]: "plain_text seps []"
  by (simp add: plain_text_def)

lemma plain_Cons [simp]: "plain_text seps (c # s) = ((of_char c :: nat) < 128 \<and> c \<notin> set seps \<and> plain_text seps s)"
  by (simp add: plain_text_def)

lemma plain_no_sep: "plain_text seps s \<Longrightarrow> c \<in> set seps \<Longrightarrow> c \<notin> set s"
  by (auto simp: plain_text_def list_all_iff)

lemma plain_mono: "plain_text seps s \<Longrightarrow> set seps' \<subseteq> set seps \<Longrightarrow> plain_text seps' s"
  by (auto simp: plain_text_def list_all_iff)

lemma plain_join: "plain_text seps sep \<Longrightarrow> \<forall>w \<in> set ws. plain_text seps w \<Longrightarrow> plain_text seps (py_join sep ws)"
  by (induction sep ws rule: py_join.induct) auto

lemma plain_base64: "plain_text [] s \<Longrightarrow> \<exists>t. to_base64 s = Inr t"
  by (simp add: to_base64_total plain_text_def)

lemma role_of_role_name [simp]: "role_of_name (role_name r) = Inr r"
  by (cases r) (simp_all add: role_of_name_def all_roles_def)

lemma user_of_user_name [simp]: "user_of_name (user_name u) = Inr u"
  by (cases u) (simp_all add: user_of_name_def all_users_def)

lemma user_name_inj: "(user_name u = user_name v) = (u = v)"
  by (metis user_of_user_name sum.inject(2))

lemma user_name_known: "user_name u \<in> set (keys CEPH_POOL_ROLE_SERVICES_MAP)"
  by (cases u) (simp_all add: CEPH_POOL_ROLE_SERVICES_MAP_def)

lemma role_name_plain: "plain_text '';:'' (role_name r)"
  by (cases r) simp_all

lemma unpack_pack_pool:
  assumes "pool_ok p"
  shows "unpack_pool (pack_pool p) = Inr p"
proof -
  have "CHR '':'' \<notin> set (pool_name p)" "CHR '':'' \<notin> set (device_class p)" "CHR '':'' \<notin> set (role_name (role_of_pool p))"
    using assms role_name_plain plain_no_sep[of "'';:''" _ "CHR '':''"] by (auto simp: pool_ok_def)
  then have "py_split CHR '':'' (pack_pool p) = [pool_name p, role_name (role_of_pool p), device_class p]"
    by (simp add: pack_pool_def py_split_append py_split_no_sep)
  then show ?thesis by (simp add: unpack_pool_def)
qed

lemma pack_pool_plain: "pool_ok p \<Longrightarrow> plain_text '';'' (pack_pool p)"
  using role_name_plain[of "role_of_pool p"] by (auto simp: pack_pool_def pool_ok_def elim: plain_mono)

lemma unpack_pack_service:
  assumes "service_creds_ok c"
  shows "unpack_service (user_name (creds_user c)) (pack_service c) = Inr c"
proof -
  let ?l = "creds_key_name c # creds_key c # map pack_pool (creds_pools c)"
  have "\<forall>w \<in> set ?l. CHR '';'' \<notin> set w"
    using assms pack_pool_plain plain_no_sep[of "'';''" _ "CHR '';''"] by (auto simp: service_creds_ok_def list_all_iff)
  then have "py_split CHR '';'' (pack_service c) = ?l"
    unfolding pack_service_def by (intro py_split_join) simp_all
  moreover have "rmap unpack_pool (map pack_pool (creds_pools c)) = Inr (creds_pools c)"
    using assms by (intro rmap_inverse) (simp add: unpack_pack_pool service_creds_ok_def list_all_iff)
  ultimately show ?thesis by (simp add: unpack_service_def)
qed

lemma pack_service_plain: "service_creds_ok c \<Longrightarrow> plain_text [] (pack_service c)"
  unfolding pack_service_def
  by (rule plain_join) (auto simp: service_creds_ok_def list_all_iff elim: plain_mono dest!: pack_pool_plain intro: plain_mono)

lemma show_nat_length: "n < 10 ^ k \<Longrightarrow> 0 < k \<Longrightarrow> length (show_nat n) \<le> k"
proof (induction k arbitrary: n)
  case (Suc k)
  show ?case
  proof (cases "n < 10")
    case True
    then show ?thesis by (subst show_nat.simps) simp
  next
    case False
    then have "0 < k" using Suc.prems by (cases k) auto
    moreover have "n div 10 < 10 ^ k" using Suc.prems by (simp add: less_mult_imp_div_less mult.commute)
    ultimately have "length (show_nat (n div 10)) \<le> k" using Suc.IH by simp
    then show ?thesis using False by (subst show_nat.simps) simp
  qed
qed simp

lemma digit_not_zero: "0 < n \<Longrightarrow> n < 10 \<Longrightarrow> ''0123456789'' ! n \<noteq> CHR ''0''"
proof -
  assume "0 < n" "n < 10"
  then have "n \<in> {1, 2, 3, 4, 5, 6, 7, 8, 9}" by auto
  then show ?thesis by auto
qed

lemma show_nat_head: "0 < n \<Longrightarrow> hd (show_nat n) \<noteq> CHR ''0''"
proof (induction n rule: show_nat.induct)
  case (1 n)
  show ?case
  proof (cases "n < 10")
    case True
    then show ?thesis using digit_not_zero[OF 1(2)] by (subst show_nat.simps) simp
  next
    case False
    then show ?thesis using 1 show_nat_digits(2) by (subst show_nat.simps) simp
  qed
qed

lemma parse_show_octet:
  assumes "0 \<le> n" and "n < 256"
  shows "parse_octet (show_int n) = Some n"
proof -
  define k where "k = nat n"
  have k: "show_int n = show_nat k" "int k = n" "k < 10 ^ 3" using assms by (simp_all add: k_def show_int_def)
  have "length (show_nat k) \<le> 3" using k(3) by (rule show_nat_length) simp
  moreover have "isdigit (show_nat k)" using show_nat_digits by (simp add: isdigit_def)
  moreover have "\<not> (1 < length (show_nat k) \<and> hd (show_nat k) = CHR ''0'')"
  proof (cases "k = 0")
    case True
    then show ?thesis by (subst show_nat.simps) simp
  next
    case False
    then show ?thesis using show_nat_head by simp
  qed
  ultimately show ?thesis using assms k by (simp add: parse_octet_def int_of_show_nat)
qed

lemma digit_seps: "is_digit c \<Longrightarrow> (of_char c :: nat) < 128 \<and> c \<notin> set ''.:,''"
  by (auto simp: is_digit_def)

lemma show_int_plain: "list_all (\<lambda>c. is_digit c \<or> c = CHR ''-'') (show_int i)"
  using show_nat_digits(1) by (auto simp: show_int_def list_all_iff)

lemma show_int_seps:
  assumes "c \<in> set (show_int i)"
  shows "(of_char c :: nat) < 128 \<and> c \<notin> set ''.:,''"
proof -
  have "is_digit c \<or> c = CHR ''-''" using assms show_int_plain[of i] by (simp only: list_all_iff)
  then show ?thesis using digit_seps by auto
qed

lemma show_int_text: "plain_text ''.:,'' (show_int i)"
  using show_int_seps by (simp only: plain_text_def list_all_iff) blast

lemma four_bytes:
  fixes n :: int
  shows "((n div 16777216 * 256 + n div 65536 mod 256) * 256 + n div 256 mod 256) * 256 + n mod 256 = n"
proof -
  have d: "n div 65536 = n div 256 div 256" "n div 16777216 = n div 256 div 256 div 256"
    by (simp_all add: zdiv_zmult2_eq[symmetric])
  have "x div 256 * 256 + x mod 256 = x" for x :: int by (simp add: mult.commute)
  then show ?thesis unfolding d by simp
qed

lemma parse_four:
  assumes "0 \<le> a" "a < 256" "0 \<le> b" "b < 256" "0 \<le> c" "c < 256" "0 \<le> d" "d < 256"
  shows "parse_ipv4 (py_join ''.'' [show_int a, show_int b, show_int c, show_int d]) =
    Some (((a * 256 + b) * 256 + c) * 256 + d)"
proof -
  let ?l = "map show_int [a, b, c, d]"
  have "\<forall>w \<in> set ?l. CHR ''.'' \<notin> set w" using show_int_text plain_no_sep[of "''.:,''" _ "CHR ''.''"] by auto
  then have "py_split CHR ''.'' (py_join ''.'' ?l) = ?l" by (intro py_split_join) simp_all
  then show ?thesis using assms by (simp add: parse_ipv4_def parse_show_octet del: py_join.simps)
qed

lemma parse_show_ipv4:
  assumes "0 \<le> n" and "n < 2 ^ 32"
  shows "parse_ipv4 (show_ipv4 n) = Some n"
proof -
  have "n div 16777216 mod 256 = n div 16777216" using assms by simp
  then have "((n div 16777216 mod 256 * 256 + n div 65536 mod 256) * 256 + n div 256 mod 256) * 256 + n mod 256 = n"
    using four_bytes[of n] by (simp only:)
  then show ?thesis unfolding show_ipv4_def by (subst parse_four) (simp_all only: pos_mod_bound pos_mod_sign zero_less_numeral)
qed

lemma show_ipv4_text: "plain_text '':,'' (show_ipv4 n)"
  unfolding show_ipv4_def
  by (rule plain_join) (auto intro: plain_mono[OF show_int_text])

lemma unpack_show_endpoint:
  assumes "0 \<le> fst e" and "fst e < 2 ^ 32"
  shows "unpack_endpoint (show_endpoint e) = Inr e"
proof -
  have "CHR '':'' \<notin> set (show_ipv4 (fst e))" using show_ipv4_text by (rule plain_no_sep) simp
  moreover have "CHR '':'' \<notin> set (show_int (snd e))" using show_int_text by (rule plain_no_sep) simp
  ultimately have "py_split CHR '':'' (show_endpoint e) = [show_ipv4 (fst e), show_int (snd e)]"
    by (cases e) (simp add: show_endpoint_def py_split_append py_split_no_sep)
  then show ?thesis using assms by (simp add: unpack_endpoint_def parse_show_ipv4 py_int_show)
qed

lemma show_endpoint_plain: "plain_text '','' (show_endpoint e)"
  using plain_mono[OF show_ipv4_text] plain_mono[OF show_int_text] by (cases e) (simp add: show_endpoint_def)

lemma unpack_pack_ips:
  assumes "l \<noteq> []" and "list_all (\<lambda>(ip, endpoint_port). 0 \<le> ip \<and> ip < 2 ^ 32) l"
  shows "unpack_ips (pack_ips l) = Inr l"
proof -
  have "\<forall>w \<in> set (map show_endpoint l). CHR '','' \<notin> set w"
    using show_endpoint_plain plain_no_sep[of "'',''" _ "CHR '',''"] by auto
  then have "py_split CHR '','' (pack_ips l) = map show_endpoint l"
    unfolding pack_ips_def using assms(1) by (intro py_split_join) simp_all
  moreover have "rmap unpack_endpoint (map show_endpoint l) = Inr l"
    using assms(2) by (intro rmap_inverse) (auto simp: list_all_iff intro!: unpack_show_endpoint)
  ultimately show ?thesis by (simp add: unpack_ips_def)
qed

lemma pack_ips_plain: "plain_text [] (pack_ips l)"
  unfolding pack_ips_def by (rule plain_join) (auto intro: plain_mono[OF show_endpoint_plain])

text \<open>The services one after the other.\<close>

definition service_item :: "os_service_creds \<Rightarrow> string \<times> string" where
  "service_item c = (user_name (creds_user c), case to_base64 (pack_service c) of Inr t \<Rightarrow> t | Inl _ \<Rightarrow> [])"

lemma service_item_ok:
  assumes "service_creds_ok c"
  shows "to_base64 (pack_service c) = Inr (snd (service_item c))"
    and "from_base64 (snd (service_item c)) = Inr (pack_service c)"
proof -
  obtain t where "to_base64 (pack_service c) = Inr t" using pack_service_plain[OF assms] plain_base64 by blast
  then show "to_base64 (pack_service c) = Inr (snd (service_item c))" by (simp add: service_item_def)
  then show "from_base64 (snd (service_item c)) = Inr (pack_service c)" by (rule from_to_base64)
qed

lemma keys_service_items: "keys (map service_item cs) = map (user_name \<circ> creds_user) cs"
  by (simp add: service_item_def)

lemma pack_services:
  assumes "list_all service_creds_ok cs" and "distinct (map creds_user cs)"
    and "\<forall>c \<in> set cs. user_name (creds_user c) \<notin> set (keys d)"
  shows "rfold (\<lambda>c d. rbind (to_base64 (pack_service c)) (\<lambda>t. Inr (AList.update (user_name (creds_user c)) t d))) cs d =
    Inr (d @ map service_item cs)"
  using assms
proof (induction cs arbitrary: d)
  case (Cons c cs)
  let ?d = "d @ [service_item c]"
  have new: "AList.update (user_name (creds_user c)) (snd (service_item c)) d = ?d"
    using Cons.prems(3) by (simp add: update_new service_item_def)
  have "\<forall>x \<in> set cs. user_name (creds_user x) \<notin> set (keys ?d)"
    using Cons.prems by (auto simp: service_item_def user_name_inj image_iff)
  then have "rfold (\<lambda>c d. rbind (to_base64 (pack_service c)) (\<lambda>t. Inr (AList.update (user_name (creds_user c)) t d))) cs ?d =
      Inr (?d @ map service_item cs)"
    using Cons.prems by (intro Cons.IH) simp_all
  then show ?case using Cons.prems by (simp add: service_item_ok new)
qed simp

lemma unpack_services:
  "list_all service_creds_ok cs \<Longrightarrow> ceph_services_of (map service_item cs) = Inr cs"
proof (induction cs)
  case (Cons c cs)
  have "ceph_services_of (map service_item (c # cs)) = rbind (from_base64 (snd (service_item c))) (\<lambda>t.
      rbind (unpack_service (user_name (creds_user c)) t) (\<lambda>x. rbind (ceph_services_of (map service_item cs)) (\<lambda>xs. Inr (x # xs))))"
    using user_name_known by (simp add: service_item_def)
  then show ?case using Cons by (simp add: service_item_ok unpack_pack_service)
qed simp

lemma packed_params:
  assumes "ceph_params_ok p"
  shows "\<exists>d. os_ceph_params_to_secret p = Inr d \<and> os_ceph_params_from_secret d = Inr p"
proof -
  obtain r where r: "ceph_rgw p = Some r" "plain_text [] (internal_url r)" "internal_url r \<noteq> []"
      "plain_text [] (external_url r)" "external_url r \<noteq> []"
    using assms by (auto simp: ceph_params_ok_def split: option.splits)
  obtain m where m: "to_base64 (pack_ips (mon_endpoints p)) = Inr m" using plain_base64[OF pack_ips_plain] by blast
  obtain i where i: "to_base64 (internal_url r) = Inr i" using r(2) plain_base64 by blast
  obtain e where e: "to_base64 (external_url r) = Inr e" using r(4) plain_base64 by blast
  let ?base = "[(''client.admin'', admin_key p), (''mon_endpoints'', m), (''rgw_internal'', i), (''rgw_external'', e)]"
  let ?items = "map service_item (ceph_services p)"
  have other: "k \<notin> set (keys ?items)" if "k \<in> set (keys ?base)" for k
  proof -
    have "user_name u \<noteq> k" for u using that by (cases u) auto
    then show ?thesis unfolding keys_service_items by auto
  qed
  have fresh: "user_name u \<notin> set (keys ?base)" for u by (cases u) simp_all
  have ok: "list_all service_creds_ok (ceph_services p)" "distinct (map creds_user (ceph_services p))"
    using assms by (simp_all add: ceph_params_ok_def)
  have "os_ceph_params_to_secret p = rfold (\<lambda>c d. rbind (to_base64 (pack_service c))
      (\<lambda>t. Inr (AList.update (user_name (creds_user c)) t d))) (ceph_services p) ?base"
    by (simp only: os_ceph_params_to_secret_def m r(1) i e rbind_Inr option.case)
  also have "\<dots> = Inr (?base @ ?items)" using ok fresh by (intro pack_services) simp_all
  finally have packed: "os_ceph_params_to_secret p = Inr (?base @ ?items)" .
  have decoded: "from_base64 m = Inr (pack_ips (mon_endpoints p))" "from_base64 i = Inr (internal_url r)"
    "from_base64 e = Inr (external_url r)"
    using m i e from_to_base64 by auto
  have ne: "i \<noteq> []" "e \<noteq> []" using decoded r from_base64_Nil by auto
  have ips: "unpack_ips (pack_ips (mon_endpoints p)) = Inr (mon_endpoints p)"
    using assms by (intro unpack_pack_ips) (simp_all add: ceph_params_ok_def)
  have svcs: "ceph_services_of ?items = Inr (ceph_services p)"
    using assms by (intro unpack_services) (simp add: ceph_params_ok_def)
  have gone: "AList.delete k ?items = ?items" "map_of ?items k = None" if "k \<in> set (keys ?base)" for k
    using other[OF that] by (simp_all add: delete_absent map_of_eq_None_iff image_image)
  have "os_ceph_params_from_secret (?base @ ?items) = Inr p"
    using gone ne r(1)
    by (simp add: os_ceph_params_from_secret_def pop_item_def Let_def delete_parts decoded ips svcs rgw_of_def)
  then show ?thesis using packed by blast
qed

end
