(* ===== verification/ServiceArguments.thy ===== *)
theory ServiceArguments
  imports CephApi
begin

text \<open>
  What the services hand to their templates: \<open>template_args\<close> of \<open>services/base.py\<close> and of the classes in
  \<open>services/__init__.py\<close>, with the credentials they read, the secrets they create for it and the ones they
  share with other components.  An object of a credentials class is the dictionary of its fields.
\<close>

section \<open>The classes of the services\<close>

datatype secret_kind = No_secret | Service_secret | Barbican_kind | Horizon_kind | Neutron_kind | DRB_kind

record service_class =
  sc_service :: string
  sc_accounts :: "string list"
  sc_protected :: "string list"
  sc_kind :: secret_kind

text \<open>
  The environment: the schemas of the classes of secrets by name, keys and certificates of the
  cryptography package by kind and arguments, \<open>urlsplit\<close> (host name, port, scheme), the order in which
  Python walks over a set of strings, \<open>sorted\<close> on such a set, the hexadecimal digest of a text, the settings, and the view of the child objects by service.
\<close>

record 's args_env =
  ar_federation :: "'s federation_env"
  ar_load :: "string \<Rightarrow> json \<Rightarrow> json res"
  ar_generate :: "string \<Rightarrow> string list \<Rightarrow> ('s, json) act"
  ar_urlsplit :: "string \<Rightarrow> (string option \<times> int option \<times> string) res"
  ar_order :: "string list \<Rightarrow> string list"
  ar_sorted :: "string list \<Rightarrow> string list"
  ar_sha256 :: "string \<Rightarrow> string"
  ar_namespace :: string
  ar_ceph_namespace :: string
  ar_redis_namespace :: string
  ar_proxy :: "secret_key option"
  ar_bgp_secret :: secret_key
  ar_policies :: "string \<Rightarrow> json"
  ar_childs :: "string \<Rightarrow> json"

abbreviation ar_secrets :: "'s args_env \<Rightarrow> secret_env" where
  "ar_secrets ae \<equiv> fed_secrets (ar_federation ae)"

abbreviation ar_urandom :: "'s args_env \<Rightarrow> 's urandom" where
  "ar_urandom ae \<equiv> fed_urandom (ar_federation ae)"

definition old_placement :: "string \<Rightarrow> bool" where
  "old_placement version \<longleftrightarrow> version \<in> {''queens'', ''rocky''}"

text \<open>\<open>service_accounts\<close>, with the additional account of Nova in old releases.\<close>

definition service_accounts :: "service_class \<Rightarrow> string \<Rightarrow> string list" where
  "service_accounts sc version =
     sc_accounts sc @ (case map_of OS_SERVICES_MAP (sc_service sc) of None \<Rightarrow> [] | Some n \<Rightarrow> [n, ''test'']) @
     (if sc_service sc = ''compute'' \<and> old_placement version then [''placement''] else [])"

definition service_secret_of ::
  "'s args_env \<Rightarrow> service_class \<Rightarrow> string \<Rightarrow> 's secret_class option" where
  "service_secret_of ae sc version =
     (let accounts = service_accounts sc version; mk = (\<lambda>f load. f (ar_load ae load) (ar_urandom ae) (sc_service sc) accounts (sc_protected sc))
      in case sc_kind sc of
           No_secret \<Rightarrow> None
         | Service_secret \<Rightarrow> Some (mk service_secret ''OpenStackCredentials'')
         | Barbican_kind \<Rightarrow> Some (mk barbican_secret ''BarbicanCredentials'')
         | Horizon_kind \<Rightarrow> Some (mk horizon_secret ''HorizonCredentials'')
         | Neutron_kind \<Rightarrow> Some (mk neutron_secret ''NeutronCredentials'')
         | DRB_kind \<Rightarrow> Some (drb_secret (ar_load ae ''DRBCredentials'') (ar_urandom ae) accounts))"

definition secret_base_name :: "string \<Rightarrow> string" where
  "secret_base_name service = ''generated-'' @ service @ ''-passwords''"

section \<open>Reading and creating secrets\<close>

text \<open>\<open>wait()\<close> of a pair of secrets\<close>

definition wait_for_pair :: "string \<Rightarrow> string \<Rightarrow> ('w secret_world_scheme, unit) act" where
  "wait_for_pair namespace base = aforeach (\<lambda>n. wait_for_secret (namespace, n)) (secret_names base)"

definition pair_class :: "(json \<Rightarrow> json res) \<Rightarrow> 's secret_class" where
  "pair_class load = \<lparr>class_fields = [], from_json = load, create = araise AttributeError, rotation_fields = (jempty, jempty)\<rparr>"

text \<open>\<open>OpenStackAdminSecret(namespace).get()\<close> and the password of the RabbitMQ guest.\<close>

definition get_admin_creds :: "'w secret_world_scheme args_env \<Rightarrow> ('w secret_world_scheme, json) act" where
  "get_admin_creds ae = get_active (ar_secrets ae)
     (admin_secret (ar_load ae ''OpenStackAdminCredentials'') (ar_urandom ae)) (ar_namespace ae) ''openstack-admin-users''"

definition ensured_secret ::
  "'w secret_world_scheme args_env \<Rightarrow> string \<Rightarrow> string \<Rightarrow> string list \<Rightarrow> ('w secret_world_scheme, json) act \<Rightarrow>
   ('w secret_world_scheme, json) act" where
  "ensured_secret ae name load fs creation =
     (let c = \<lparr>class_fields = fs, from_json = ar_load ae load, create = creation, rotation_fields = (jempty, jempty)\<rparr>;
          k = (ar_namespace ae, name)
      in abind (single_ensure (ar_secrets ae) c k) (\<lambda>_. single_get (ar_secrets ae) c k))"

definition get_guest_creds :: "'w secret_world_scheme args_env \<Rightarrow> ('w secret_world_scheme, json) act" where
  "get_guest_creds ae = ensured_secret ae ''generated-rabbitmq-password'' ''RabbitmqGuestCredentials'' [''password'']
     (password_create (ar_urandom ae) ''password'')"

definition ssh_secret :: "'w secret_world_scheme args_env \<Rightarrow> string \<Rightarrow> ('w secret_world_scheme, json) act" where
  "ssh_secret ae service = ensured_secret ae (''generated-'' @ service @ ''-ssh-creds'') ''SshKey'' [''public'', ''private'']
     (ar_generate ae ''SSHSecret'' [])"

definition certificate_secret :: "'w secret_world_scheme args_env \<Rightarrow> string \<Rightarrow> string \<Rightarrow> ('w secret_world_scheme, json) act" where
  "certificate_secret ae service common_name = ensured_secret ae (service @ ''-certs'') ''SignedCertificate'' [''cert'', ''key'', ''cert_all'']
     (ar_generate ae ''SignedCertificateSecret'' [common_name])"

definition certificate_pack ::
  "'w secret_world_scheme args_env \<Rightarrow> string \<Rightarrow> string \<Rightarrow> string \<Rightarrow> ('w secret_world_scheme, json) act" where
  "certificate_pack ae service san_name cn_name = ensured_secret ae (service @ ''-certs'') ''SignedCertificatePack''
     [''ca_cert'', ''ca_key'', ''server_cert'', ''server_key'', ''client_cert'', ''client_key'']
     (ar_generate ae ''SignedCertificatePackSecret'' [san_name, cn_name])"

text \<open>\<open>get()\<close> of the secret of another service, after it is there.\<close>

definition wait_and_get ::
  "'w secret_world_scheme args_env \<Rightarrow> string \<Rightarrow> string \<Rightarrow> ('w secret_world_scheme, json) act" where
  "wait_and_get ae service load =
     abind (wait_for_pair (ar_namespace ae) (secret_base_name service)) (\<lambda>_.
     get_active (ar_secrets ae) (pair_class (ar_load ae load)) (ar_namespace ae) (secret_base_name service))"

definition redis_password :: "'w secret_world_scheme args_env \<Rightarrow> ('w secret_world_scheme, json) act" where
  "redis_password ae =
     (let k = (ar_redis_namespace ae, ''generated-redis-password'') in
      abind (wait_for_secret k) (\<lambda>_.
      abind (single_get (ar_secrets ae) (pair_class (ar_load ae ''RedisCredentials'')) k) (\<lambda>c. alift (jitem c ''password''))))"

definition shared_value :: "secret_key \<Rightarrow> string \<Rightarrow> ('w secret_world_scheme, string option) act" where
  "shared_value k n =
     abind (get_secret_data k) (\<lambda>data. case map_of data n of
       None \<Rightarrow> aret None
     | Some t \<Rightarrow> if t = [] then aret None else abind (alift (b64decode t)) (\<lambda>v. aret (Some v)))"

definition required_value :: "secret_key \<Rightarrow> string \<Rightarrow> ('w secret_world_scheme, string) act" where
  "required_value k n =
     abind (get_secret_data k) (\<lambda>data. alift (case map_of data n of None \<Rightarrow> Inl (KeyError n) | Some t \<Rightarrow> b64decode t))"

section \<open>The arguments all services share\<close>

definition update_args :: "jdict \<Rightarrow> jdict \<Rightarrow> jdict" where
  "update_args d e = foldl (\<lambda>d (k, v). AList.update k v d) d e"

definition text_dict :: "(string \<times> string) list \<Rightarrow> json" where
  "text_dict d = JObj (map (\<lambda>(k, v). (k, JStr v)) d)"

definition proxy_args :: "'w secret_world_scheme args_env \<Rightarrow> json \<Rightarrow> ('w secret_world_scheme, jdict) act" where
  "proxy_args ae spec = (case ar_proxy ae of
       None \<Rightarrow> aret []
     | Some k \<Rightarrow>
         abind (wait_for_secret k) (\<lambda>_.
         abind (alift (rbind (jitem spec ''internal_domain_name'') jstr)) (\<lambda>domain.
         abind (get_secret_data k) (\<lambda>raw.
         abind (alift (rmap (\<lambda>(n, t). rbind (b64decode t) (\<lambda>v. Inr (n, v))) raw)) (\<lambda>data.
         let (proxy_vars, proxy_settings) = get_proxy_vars (ar_sorted ae) [domain, ''$(NODE_IP)''] data
         in aret [(''proxy_vars'', text_dict proxy_vars), (''proxy_settings'', text_dict proxy_settings)])))))"

definition service_credentials ::
  "'w secret_world_scheme args_env \<Rightarrow> service_class \<Rightarrow> string \<Rightarrow> ('w secret_world_scheme, jdict) act" where
  "service_credentials ae sc version = (case service_secret_of ae sc version of
       None \<Rightarrow> aret []
     | Some c \<Rightarrow>
         abind (ensure_service_secret (ar_secrets ae) c (service_accounts sc version) (ar_namespace ae)
           (secret_base_name (sc_service sc))) (\<lambda>_.
         abind (get_all_secrets (ar_secrets ae) c (ar_namespace ae) (secret_base_name (sc_service sc))) (\<lambda>credentials.
         aret [(''credentials'', JList credentials)])))"

definition view_args :: "'s args_env \<Rightarrow> string \<Rightarrow> jdict" where
  "view_args ae service = [(''network_policies'', ar_policies ae service), (''service_childs'', ar_childs ae service)]"

definition base_template_args ::
  "'w secret_world_scheme args_env \<Rightarrow> service_class \<Rightarrow> string \<Rightarrow> json \<Rightarrow> ('w secret_world_scheme, jdict) act" where
  "base_template_args ae sc version spec =
     abind (service_credentials ae sc version) (\<lambda>creds_args.
     abind (proxy_args ae spec) (\<lambda>px.
     aret (creds_args @ px @ view_args ae (sc_service sc))))"

section \<open>The accounts a service asks for\<close>

definition features_services :: "json \<Rightarrow> json res" where
  "features_services spec = rbind (jitem spec ''features'') (\<lambda>f. jitem f ''services'')"

text \<open>\<open>is_service_enabled\<close>\<close>

definition is_service_enabled :: "json \<Rightarrow> string \<Rightarrow> bool res" where
  "is_service_enabled spec service = rbind (features_services spec) (jin service)"

definition neutron_accounts :: "json \<Rightarrow> string \<Rightarrow> (string \<times> string list) list res" where
  "neutron_accounts spec version =
     rbind (is_service_enabled spec ''dns'') (\<lambda>dns.
     rbind (is_service_enabled spec ''baremetal'') (\<lambda>baremetal.
     Inr ((if dns then [(''dns'', [''designate''])] else []) @
       (if old_placement version then [(''compute'', [''nova'', ''placement''])]
        else [(''placement'', [''placement'']), (''compute'', [''nova''])]) @
       (if baremetal then [(''baremetal'', [''ironic''])] else []))))"

definition nova_accounts :: "json \<Rightarrow> string \<Rightarrow> (string \<times> string list) list res" where
  "nova_accounts spec version =
     rbind (is_service_enabled spec ''block-storage'') (\<lambda>volumes.
     rbind (is_service_enabled spec ''baremetal'') (\<lambda>baremetal.
     Inr ([(''networking'', [''neutron'']), (''identity'', [''osctl''])] @
       (if volumes then [(''block-storage'', [''cinder''])] else []) @
       (if old_placement version then [] else [(''placement'', [''placement''])]) @
       (if baremetal then [(''baremetal'', [''ironic''])] else []))))"

definition ironic_accounts :: "(string \<times> string list) list" where
  "ironic_accounts = [(''networking'', [''neutron'']), (''image'', [''glance'']), (''compute'', [''nova''])]"

definition manila_accounts :: "(string \<times> string list) list" where
  "manila_accounts = [(''networking'', [''neutron'']), (''block-storage'', [''cinder'']), (''image'', [''glance'']),
     (''compute'', [''nova''])]"

definition required_accounts :: "string \<Rightarrow> json \<Rightarrow> string \<Rightarrow> (string \<times> string list) list res" where
  "required_accounts service spec version =
     (if service = ''networking'' then neutron_accounts spec version
      else if service = ''compute'' then nova_accounts spec version
      else if service = ''baremetal'' then Inr ironic_accounts
      else if service = ''shared-file-system'' then Inr manila_accounts
      else Inr [])"

text \<open>\<open>Service.registry[svc]\<close>\<close>

type_synonym service_registry = "(string \<times> service_class) list"

definition registered :: "service_registry \<Rightarrow> string \<Rightarrow> ('s, service_class) act" where
  "registered reg service = alift (case map_of reg service of None \<Rightarrow> Inl (KeyError service) | Some sc \<Rightarrow> Inr sc)"

definition service_identity ::
  "'w secret_world_scheme args_env \<Rightarrow> service_registry \<Rightarrow> string \<Rightarrow> string \<Rightarrow> ('w secret_world_scheme, jdict) act" where
  "service_identity ae reg version service =
     abind (registered reg service) (\<lambda>sc.
     case service_secret_of ae sc version of
       None \<Rightarrow> aret []
     | Some c \<Rightarrow>
         abind (wait_for_pair (ar_namespace ae) (secret_base_name service)) (\<lambda>_.
         abind (get_active (ar_secrets ae) c (ar_namespace ae) (secret_base_name service)) (\<lambda>creds.
         alift (rbind (jitem creds ''identity'') jitems))))"

fun collect_accounts ::
  "'w secret_world_scheme args_env \<Rightarrow> service_registry \<Rightarrow> string \<Rightarrow> (string \<times> string list) list \<Rightarrow> jdict \<Rightarrow>
   ('w secret_world_scheme, jdict) act" where
  "collect_accounts ae reg version [] result = aret result"
| "collect_accounts ae reg version ((svc, accs) # l) result =
     abind (service_identity ae reg version svc) (\<lambda>identity.
     collect_accounts ae reg version l (update_args result (filter (\<lambda>(k, _). k \<in> set accs) identity)))"

definition get_keystone_creds ::
  "'w secret_world_scheme args_env \<Rightarrow> service_registry \<Rightarrow> string \<Rightarrow> json \<Rightarrow> string \<Rightarrow> ('w secret_world_scheme, jdict) act" where
  "get_keystone_creds ae reg service spec version =
     abind (alift (required_accounts service spec version)) (\<lambda>accounts. collect_accounts ae reg version accounts [])"

section \<open>Only the required accounts\<close>

lemma keys_update_args: "set (keys (update_args d e)) = set (keys d) \<union> set (keys e)"
  unfolding update_args_def
proof (induction e arbitrary: d)
  case (Cons x e)
  then show ?case by (cases x) (simp add: set_keys_update insert_commute del: set_map)
qed simp

lemma collected_keys:
  assumes "collect_accounts ae reg version l result s = (Inr found, t)"
    and "set (keys result) \<subseteq> A" and "(\<Union>(svc, accs) \<in> set l. set accs) \<subseteq> A"
  shows "set (keys found) \<subseteq> A"
  using assms
proof (induction l arbitrary: result s)
  case Nil
  then show ?case by (simp add: aret_def)
next
  case (Cons x l)
  obtain svc accs where x: "x = (svc, accs)" by fastforce
  obtain identity s1 where "collect_accounts ae reg version l
      (update_args result (filter (\<lambda>(k, _). k \<in> set accs) identity)) s1 = (Inr found, t)"
    using Cons.prems(1) unfolding x collect_accounts.simps by (rule abind_InrE)
  moreover have "set (keys (update_args result (filter (\<lambda>(k, _). k \<in> set accs) identity))) \<subseteq> A"
    using Cons.prems(2,3) unfolding keys_update_args by (auto simp: x)
  ultimately show ?case using Cons.prems(3) by (intro Cons.IH) (auto simp: x)
qed

lemma keeps_get_secret: "keeps (\<lambda>s. s) (get_secret silent k)"
  by (rule keepsI) (auto simp: get_secret_def)

lemma keeps_wait_for_secret: "keeps (\<lambda>s. s) (wait_for_secret k)"
  by (rule keepsI) (auto simp: wait_for_secret_def)

lemma keeps_by_priority: "keeps (\<lambda>s. s) (secrets_by_priority ks res_map no_priority)"
  by (induction ks arbitrary: res_map no_priority)
    (auto intro!: keeps_abind keeps_get_secret simp: get_secret_priority_def)

lemma keeps_get_active: "keeps (\<lambda>s. s) (get_active env c namespace base)"
  unfolding get_active_def nth_secret_def multi_get_def multi_get_data_def get_secrets_sorted_def get_secret_data_def
  by (intro keeps_abind keeps_if keeps_by_priority keeps_get_secret keeps_alift keeps_aret keeps_araise)

lemma keeps_service_identity: "keeps (\<lambda>s. s) (service_identity ae reg version service)"
  unfolding service_identity_def registered_def wait_for_pair_def
  by (auto intro!: keeps_abind keeps_get_active keeps_wait_for_secret keeps_aforeach split: option.splits)

lemma keeps_collect_accounts: "keeps (\<lambda>s. s) (collect_accounts ae reg version l result)"
  by (induction l arbitrary: result) (auto intro!: keeps_abind keeps_service_identity)

lemma keystone_creds_read_only:
  assumes "get_keystone_creds ae reg service spec version s = (r, t)"
  shows "t = s"
proof -
  have "keeps (\<lambda>s. s) (get_keystone_creds ae reg service spec version)"
    unfolding get_keystone_creds_def by (intro keeps_abind keeps_alift keeps_collect_accounts)
  then show ?thesis using assms by (rule keepsD)
qed

end
