(* ===== verification/TemplateArguments.thy ===== *)
theory TemplateArguments
  imports ServiceArguments
begin

text \<open>
  The arguments of the templates of each service (\<open>template\_args\<close> of the classes in \<open>services/\_\_init\_\_.py\<close>).
\<close>

section \<open>Ceph\<close>

definition volumes_enabled :: "json \<Rightarrow> json res" where
  "volumes_enabled spec = get_in_str spec [''features'', ''cinder'', ''volume'', ''enabled''] (JBool True)"

definition glance_ceph :: "json \<Rightarrow> json res" where
  "glance_ceph spec =
     rbind (get_in_str spec [''features'', ''glance'', ''backends''] (JObj [(''rbd'', jempty)])) (\<lambda>b.
     rbind (jin ''rbd'' b) (\<lambda>x. Inr (JBool x)))"

fun any_ceph_images :: "json list \<Rightarrow> bool res" where
  "any_ceph_images [] = Inr False"
| "any_ceph_images (options # l) =
     rbind (get_in_str options [''features'', ''nova'', ''images'', ''backend''] JNull) (\<lambda>b.
     if py_eq b (JStr ''ceph'') then Inr True else any_ceph_images l)"

definition nova_ceph :: "json \<Rightarrow> json res" where
  "nova_ceph spec =
     rbind (is_service_enabled spec ''block-storage'') (\<lambda>volumes.
     rbind (if volumes then volumes_enabled spec else Inr (JBool False)) (\<lambda>v.
     if jtruthy v then Inr (JBool True)
     else rbind (get_in_str spec [''features'', ''nova'', ''images'', ''backend''] JNull) (\<lambda>b.
          if py_eq b (JStr ''ceph'') then Inr (JBool True)
          else rbind (rbind (jget spec ''nodes'' jempty) jitems) (\<lambda>nodes.
               rbind (any_ceph_images (map snd nodes)) (\<lambda>x. Inr (JBool x))))))"

fun any_cephfs :: "json \<Rightarrow> string list \<Rightarrow> bool res" where
  "any_cephfs values [] = Inr False"
| "any_cephfs values (backend # l) =
     rbind (get_in_str values [''conf'', ''manila'', backend, ''share_driver''] (JStr [])) (\<lambda>driver.
     if py_eq driver (JStr ''manila.share.drivers.cephfs.driver.CephFSDriver'') then Inr True else any_cephfs values l)"

fun any_cephfs_backend :: "json list \<Rightarrow> bool res" where
  "any_cephfs_backend [] = Inr False"
| "any_cephfs_backend (opts # l) =
     rbind (jget opts ''enabled'' (JBool True)) (\<lambda>enabled.
     if \<not> jtruthy enabled then any_cephfs_backend l
     else rbind (jitem opts ''values'') (\<lambda>values.
          rbind (rbind (get_in_str values [''conf'', ''manila'', ''DEFAULT'', ''enabled_share_backends''] (JStr [])) jstr) (\<lambda>names.
          rbind (any_cephfs values (py_split CHR '','' names)) (\<lambda>x. if x then Inr True else any_cephfs_backend l))))"

definition manila_ceph :: "json \<Rightarrow> json res" where
  "manila_ceph spec =
     rbind (get_in_str spec [''features'', ''manila'', ''share'', ''backends''] jempty) (\<lambda>b.
     rbind (jitems b) (\<lambda>d. rbind (any_cephfs_backend (map snd d)) (\<lambda>x. Inr (JBool x))))"

definition is_ceph_enabled :: "string \<Rightarrow> json \<Rightarrow> json res" where
  "is_ceph_enabled service spec =
     (if service = ''block-storage'' \<or> service = ''tempest'' then volumes_enabled spec
      else if service = ''image'' then glance_ceph spec
      else if service = ''compute'' then nova_ceph spec
      else if service = ''shared-file-system'' then manila_ceph spec
      else Inr (JBool False))"

text \<open>The classes derived from \<open>OpenStackServiceWithCeph\<close>, and what they do before \<open>apply\<close>.\<close>

definition with_ceph :: "string \<Rightarrow> bool" where
  "with_ceph service \<longleftrightarrow> service \<in> {''block-storage'', ''image'', ''compute'', ''shared-file-system''}"

definition ceph_shared :: "'s args_env \<Rightarrow> secret_key" where
  "ceph_shared ae = (ar_ceph_namespace ae, ''openstack-ceph-keys'')"

definition ceph_before_apply :: "'w secret_world_scheme args_env \<Rightarrow> string \<Rightarrow> json \<Rightarrow> ('w secret_world_scheme, unit) act" where
  "ceph_before_apply ae service spec =
     abind (alift (is_ceph_enabled service spec)) (\<lambda>enabled.
     if jtruthy enabled then create_ceph_secrets (ceph_shared ae) (ar_namespace ae) else aret ())"

section \<open>The arguments of an OpenStack service\<close>

definition openstack_template_args ::
  "'w secret_world_scheme args_env \<Rightarrow> service_registry \<Rightarrow> service_class \<Rightarrow> string \<Rightarrow> json \<Rightarrow> ('w secret_world_scheme, jdict) act" where
  "openstack_template_args ae reg sc version spec =
     abind (base_template_args ae sc version spec) (\<lambda>args.
     abind (get_admin_creds ae) (\<lambda>admin.
     abind (get_guest_creds ae) (\<lambda>guest.
     abind (get_keystone_creds ae reg (sc_service sc) spec version) (\<lambda>keystone.
     abind (alift (is_ceph_enabled (sc_service sc) spec)) (\<lambda>ceph.
     let args = update_args args [(''admin_creds'', admin), (''guest_creds'', guest), (''keystone_creds'', JObj keystone),
       (''is_ceph_enabled'', ceph)] in
     if \<not> with_ceph (sc_service sc) \<or> \<not> jtruthy ceph then aret args
     else abind (ceph_config (ceph_shared ae)) (\<lambda>conf. abind (alift (jitems conf)) (\<lambda>d. aret (update_args args d))))))))"

section \<open>What single services add\<close>

definition tf_shared_secret :: secret_key where
  "tf_shared_secret = (''openstack-tf-shared'', ''ost-data'')"

text \<open>\<open>get_in(self.mspec["features"], ["neutron", "backend"])\<close>\<close>

definition network_backend :: "json \<Rightarrow> json res" where
  "network_backend spec = rbind (jitem spec ''features'') (\<lambda>f. get_in_str f [''neutron'', ''backend''] JNull)"

definition backend_is :: "json \<Rightarrow> string \<Rightarrow> bool res" where
  "backend_is spec b = rbind (network_backend spec) (\<lambda>v. Inr (py_eq v (JStr b)))"

definition service_in :: "json \<Rightarrow> string \<Rightarrow> bool res" where
  "service_in spec service = rbind (jitem spec ''features'') (\<lambda>f. rbind (jget f ''services'' (JList [])) (jin service))"

fun optional_values :: "secret_key \<Rightarrow> string list \<Rightarrow> jdict \<Rightarrow> ('w secret_world_scheme, jdict) act" where
  "optional_values k [] args = aret args"
| "optional_values k (n # ns) args =
     abind (shared_value k n) (\<lambda>v.
     optional_values k ns (case v of None \<Rightarrow> args | Some t \<Rightarrow> AList.update n (JStr t) args))"

definition rgw_values :: "'w secret_world_scheme args_env \<Rightarrow> string list \<Rightarrow> jdict \<Rightarrow> ('w secret_world_scheme, jdict) act" where
  "rgw_values ae names args = abind (wait_for_secret (ceph_shared ae)) (\<lambda>_. optional_values (ceph_shared ae) names args)"

definition ceilometer_args :: "'w secret_world_scheme args_env \<Rightarrow> json \<Rightarrow> jdict \<Rightarrow> ('w secret_world_scheme, jdict) act" where
  "ceilometer_args ae spec args =
     abind (alift (service_in spec ''event'')) (\<lambda>event.
     abind (if event then abind (wait_and_get ae ''event'' ''OpenStackCredentials'') (\<lambda>c. aret (AList.update ''event_credentials'' c args))
            else aret args) (\<lambda>args.
     abind (alift (service_in spec ''object-storage'')) (\<lambda>storage.
     if storage then rgw_values ae [''rgw_internal_cacert'', ''rgw_metrics_user_secret_key'', ''rgw_metrics_user_access_key''] args
     else aret args)))"

definition redis_args :: "'w secret_world_scheme args_env \<Rightarrow> jdict \<Rightarrow> ('w secret_world_scheme, jdict) act" where
  "redis_args ae args =
     abind (redis_password ae) (\<lambda>pw.
     aret (update_args args [(''redis_namespace'', JStr (ar_redis_namespace ae)), (''redis_secret'', pw)]))"

text \<open>The API of Tungsten Fabric, when its secret has both the service and the port.\<close>

definition tf_args :: "json \<Rightarrow> jdict \<Rightarrow> ('w secret_world_scheme, jdict) act" where
  "tf_args spec args =
     abind (alift (backend_is spec ''tungstenfabric'')) (\<lambda>tf.
     if \<not> tf then aret args
     else abind (wait_for_secret tf_shared_secret) (\<lambda>_.
          abind (get_secret_data tf_shared_secret) (\<lambda>data.
          case (map_of data ''tf_api_service'', map_of data ''tf_api_port'') of
            (Some s, Some p) \<Rightarrow>
              abind (alift (b64decode s)) (\<lambda>s. abind (alift (b64decode p)) (\<lambda>p.
              aret (update_args args [(''tf_api_service'', JStr s), (''tf_api_port'', JStr p)])))
          | _ \<Rightarrow> aret args)))"

definition horizon_args :: "'w secret_world_scheme args_env \<Rightarrow> json \<Rightarrow> jdict \<Rightarrow> ('w secret_world_scheme, jdict) act" where
  "horizon_args ae spec args =
     abind (alift (service_in spec ''object-storage'')) (\<lambda>storage.
     abind (if storage then rgw_values ae [''rgw_internal_cacert''] args else aret args) (\<lambda>args.
     abind (get_federation_args (ar_federation ae) (ar_namespace ae) spec) (\<lambda>fed.
     abind (alift (jitems fed)) (\<lambda>fed.
     aret (update_args args ((''os_policy_services'', JList (map (JStr \<circ> snd) OS_POLICY_SERVICES)) # fed))))))"

section \<open>Keystone\<close>

text \<open>The secrets of the keys, taken over from their old names when there are any.\<close>

definition take_over_secret :: "string \<Rightarrow> string \<times> string \<Rightarrow> ('w secret_world_scheme, unit) act" where
  "take_over_secret namespace = (\<lambda>(old_secret, new_secret).
     abind (get_secret True (namespace, new_secret)) (\<lambda>found.
     if found \<noteq> None then aret ()
     else abind (get_secret True (namespace, old_secret)) (\<lambda>old.
          save_secret_data (namespace, new_secret) (case old of None \<Rightarrow> [] | Some x \<Rightarrow> s_data x))))"

definition keystone_key_args :: "'w secret_world_scheme args_env \<Rightarrow> ('w secret_world_scheme, jdict) act" where
  "keystone_key_args ae =
     abind (aforeach (take_over_secret (ar_namespace ae)) [(''keystone-fernet-keys'', ''keystone-fernet-data''),
       (''keystone-credential-keys'', ''keystone-credential-data'')]) (\<lambda>_.
     aret [(''fernet_secret_name'', JStr ''keystone-fernet-data''), (''credentials_secret_name'', JStr ''keystone-credential-data'')])"

text \<open>\<open>IAMSecret.save\<close> and its use: the providers are looked up in what \<open>get\_federation\_args\<close> returns.\<close>

definition save_iam_secret :: "'w secret_world_scheme args_env \<Rightarrow> json \<Rightarrow> string list \<Rightarrow> ('w secret_world_scheme, unit) act" where
  "save_iam_secret ae client_id redirect_uris =
     save_secret_with_labels (ar_namespace ae, ''openstack-iam-shared'')
       [(''client'', b64encode (json_dumps (ar_secrets ae)
          (JObj [(''clientId'', client_id), (''redirectUris'', JList (map JStr redirect_uris))])))]
       [(''kaas.mirantis.com/openstack-iam-shared'', ''True'')]"

definition keystone_federation_args :: "'w secret_world_scheme args_env \<Rightarrow> json \<Rightarrow> ('w secret_world_scheme, json) act" where
  "keystone_federation_args ae spec =
     abind (get_federation_args (ar_federation ae) (ar_namespace ae) spec) (\<lambda>federation.
     abind (alift (jget federation ''providers'' jempty)) (\<lambda>providers.
     abind (alift (jget providers ''keycloak'' jempty)) (\<lambda>keycloak.
     abind (alift (jget keycloak ''enabled'' JNull)) (\<lambda>enabled.
     if \<not> jtruthy enabled then aret federation
     else abind (alift (jitem spec ''public_domain_name'')) (\<lambda>public_domain.
          abind (alift (federation_redirect_uri (ar_federation ae) spec)) (\<lambda>uri.
          abind (alift (jitem_path keycloak [''metadata'', ''client'', ''client_id''])) (\<lambda>client_id.
          abind (save_iam_secret ae client_id
            [uri, ''https://horizon.'' @ text_of_value (ar_federation ae) public_domain @ ''/*'']) (\<lambda>_.
          aret federation))))))))"

definition keystone_args :: "'w secret_world_scheme args_env \<Rightarrow> json \<Rightarrow> jdict \<Rightarrow> ('w secret_world_scheme, jdict) act" where
  "keystone_args ae spec args =
     abind (keystone_key_args ae) (\<lambda>names.
     abind (keystone_federation_args ae spec) (\<lambda>fed.
     abind (alift (jitems fed)) (\<lambda>fed.
     abind (alift (rbind (jget spec ''features'' jempty) (\<lambda>f. rbind (jget f ''services'' (JList [])) (jin ''object-storage'')))) (\<lambda>storage.
     let args = update_args (update_args args names) fed in
     if storage then rgw_values ae [''rgw_internal_cacert''] args else aret args))))"

section \<open>Networking and compute\<close>

text \<open>The SSH keys of the switches: a list of devices (the old form), and devices by name.\<close>

definition ngs_devices :: "json \<Rightarrow> string \<Rightarrow> json \<Rightarrow> json res" where
  "ngs_devices spec k dflt = rbind (jitem spec ''features'') (\<lambda>f. jpath_get f [''neutron'', ''baremetal'', ''ngs''] k dflt)"

definition ngs_key :: "'s args_env \<Rightarrow> json \<Rightarrow> json \<Rightarrow> jdict \<Rightarrow> jdict res" where
  "ngs_key ae name device ngs_keys =
     rbind (jin ''ssh_private_key'' device) (\<lambda>b.
     if \<not> b then Inr ngs_keys
     else rbind (jitem device ''ssh_private_key'') (\<lambda>v.
          Inr (AList.update (text_of_value (ar_federation ae) name @ ''_ssh_private_key'') v ngs_keys)))"

definition ngs_listed :: "'s args_env \<Rightarrow> json \<Rightarrow> jdict \<Rightarrow> jdict res" where
  "ngs_listed ae device ngs_keys =
     rbind (jin ''ssh_private_key'' device) (\<lambda>b.
     if \<not> b then Inr ngs_keys
     else rbind (jitem device ''name'') (\<lambda>name. ngs_key ae name device ngs_keys))"

definition ngs_ssh_keys :: "'s args_env \<Rightarrow> json \<Rightarrow> jdict res" where
  "ngs_ssh_keys ae spec =
     rbind (rbind (features_services spec) (jin ''baremetal'')) (\<lambda>baremetal.
     if \<not> baremetal then Inr []
     else rbind (rbind (ngs_devices spec ''devices'' (JList [])) jelems) (\<lambda>devices.
          rbind (rfold (ngs_listed ae) devices []) (\<lambda>ngs_keys.
          rbind (rbind (ngs_devices spec ''hardware'' jempty) jitems) (\<lambda>hardware.
          rfold (\<lambda>(name, device). ngs_key ae (JStr name) device) hardware ngs_keys))))"

definition save_ngs_keys :: "'w secret_world_scheme args_env \<Rightarrow> jdict \<Rightarrow> ('w secret_world_scheme, unit) act" where
  "save_ngs_keys ae ngs_keys =
     (if ngs_keys = [] then aret ()
      else abind (alift (rmap (\<lambda>(k, v). rbind (jstr v) (\<lambda>t. Inr (k, b64encode t))) ngs_keys))
             (save_secret_data (ar_namespace ae, ''ngs-ssh-keys'')))"

definition bgpvpn_args :: "'w secret_world_scheme args_env \<Rightarrow> json \<Rightarrow> jdict \<Rightarrow> ('w secret_world_scheme, jdict) act" where
  "bgpvpn_args ae spec args =
     abind (alift (jitem spec ''features'')) (\<lambda>f.
     abind (alift (get_in_str f [''neutron'', ''bgpvpn'', ''enabled''] JNull)) (\<lambda>enabled.
     if \<not> py_eq enabled (JBool True) then aret args
     else abind (alift (get_in_str f [''neutron'', ''bgpvpn'', ''peers''] JNull)) (\<lambda>peers.
          if peers \<noteq> JNull then aret args
          else abind (get_secret True (ar_bgp_secret ae)) (\<lambda>found.
               abind (if found = None then aret []
                      else abind (json_secret_get (ar_secrets ae) (\<lambda>_. Inr ()) (ar_bgp_secret ae)) (\<lambda>data. alift (get_peer_ips data)))
                 (\<lambda>ips. aret (AList.update ''bgpvpn_reflector_peers'' (JList ips) args))))))"

definition neutron_args :: "'w secret_world_scheme args_env \<Rightarrow> json \<Rightarrow> jdict \<Rightarrow> ('w secret_world_scheme, jdict) act" where
  "neutron_args ae spec args =
     abind (alift (ngs_ssh_keys ae spec)) (\<lambda>ngs_keys.
     abind (save_ngs_keys ae ngs_keys) (\<lambda>_.
     abind (tf_args spec args) (\<lambda>args. bgpvpn_args ae spec args)))"

definition libvirt_args :: "'w secret_world_scheme args_env \<Rightarrow> json \<Rightarrow> jdict \<Rightarrow> ('w secret_world_scheme, jdict) act" where
  "libvirt_args ae spec args =
     abind (alift (get_in_str spec [''features'', ''nova'', ''libvirt'', ''tls'', ''enabled''] (JBool False))) (\<lambda>tls.
     if \<not> jtruthy tls then aret args
     else abind (certificate_secret ae ''libvirt-server-tls'' ''libvirt-server'') (\<lambda>certs.
          aret (AList.update ''libvirt_certs'' certs args)))"

definition vnc_args :: "'w secret_world_scheme args_env \<Rightarrow> json \<Rightarrow> jdict \<Rightarrow> ('w secret_world_scheme, jdict) act" where
  "vnc_args ae spec args =
     abind (alift (jitem spec ''internal_domain_name'')) (\<lambda>internal.
     abind (alift (jitem spec ''public_domain_name'')) (\<lambda>public_domain.
     let wild = (\<lambda>d. ''*.'' @ text_of_value (ar_federation ae) d) in
     abind (certificate_pack ae ''libvirt-vnc-tls'' (wild internal) (wild public_domain)) (\<lambda>certs.
     aret (AList.update ''libvirt_vnc_certs'' certs args))))"

text \<open>\<open>self.mspec["features"].get("neutron", {}).get("backend", "")\<close>\<close>

definition neutron_feature_backend :: "json \<Rightarrow> json res" where
  "neutron_feature_backend spec = rbind (jitem spec ''features'') (\<lambda>f. jpath_get f [''neutron''] ''backend'' (JStr []))"

definition nova_args :: "'w secret_world_scheme args_env \<Rightarrow> json \<Rightarrow> jdict \<Rightarrow> ('w secret_world_scheme, jdict) act" where
  "nova_args ae spec args =
     abind (ssh_secret ae ''nova'') (\<lambda>ssh.
     abind (wait_and_get ae ''networking'' ''NeutronCredentials'') (\<lambda>neutron.
     abind (alift (jitem neutron ''metadata_secret'')) (\<lambda>metadata_secret.
     abind (libvirt_args ae spec (update_args args [(''ssh_credentials'', ssh), (''metadata_secret'', metadata_secret)])) (\<lambda>args.
     abind (vnc_args ae spec args) (\<lambda>args.
     abind (alift (neutron_feature_backend spec)) (\<lambda>b.
     if \<not> py_eq b (JStr ''tungstenfabric'') then aret args
     else abind (wait_for_secret tf_shared_secret) (\<lambda>_.
          abind (required_value tf_shared_secret ''vrouter_port'') (\<lambda>p. aret (AList.update ''vrouter_port'' (JStr p) args)))))))))"

definition octavia_args :: "'w secret_world_scheme args_env \<Rightarrow> json \<Rightarrow> jdict \<Rightarrow> ('w secret_world_scheme, jdict) act" where
  "octavia_args ae spec args =
     abind (single_ensure (ar_secrets ae) \<lparr>class_fields = [''cert'', ''key'', ''cert_all''],
         from_json = ar_load ae ''SignedCertificate'', create = ar_generate ae ''SignedCertificateSecret'' [''octavia-amphora-ca''],
         rotation_fields = (jempty, jempty)\<rparr> (ar_namespace ae, ''octavia-certs'')) (\<lambda>_.
     abind (ssh_secret ae ''load-balancer'') (\<lambda>ssh.
     abind (alift (neutron_feature_backend spec)) (\<lambda>b.
     abind (if \<not> py_eq b (JStr ''tungstenfabric'') then aret (AList.update ''ssh_credentials'' ssh args)
            else abind (wait_for_secret tf_shared_secret) (\<lambda>_.
                 abind (required_value tf_shared_secret ''octavia_hm_list'') (\<lambda>t.
                 abind (alift (case json_loads (ar_secrets ae) t of None \<Rightarrow> Inl ValueError | Some j \<Rightarrow> Inr j)) (\<lambda>l.
                 aret (update_args args [(''ssh_credentials'', ssh), (''octavia_hm_list'', l)]))))) (\<lambda>args.
     abind (alift (rbind (features_services spec) (jin ''redis''))) (\<lambda>redis.
     if redis then redis_args ae args else aret args)))))"

section \<open>The object storage gateway\<close>

text \<open>Every value has to be a text, which is then encoded.\<close>

definition rgw_creds :: "'s args_env \<Rightarrow> json \<Rightarrow> string \<Rightarrow> json \<Rightarrow> json \<Rightarrow> (string \<times> string) list res" where
  "rgw_creds ae spec internal ssl cred =
     rbind (jitem cred ''password'') (\<lambda>pw.
     rbind (jget spec ''region_name'' (JStr ''RegionOne'')) (\<lambda>region.
     rbind (jitem cred ''username'') (\<lambda>user.
     rbind (jitem spec ''public_domain_name'') (\<lambda>public_domain.
     rbind (jitem ssl ''ca_cert'') (\<lambda>ca.
     rbind (jitem ssl ''api_cert'') (\<lambda>crt.
     rbind (jitem ssl ''api_key'') (\<lambda>key.
     rmap (\<lambda>(k, v). rbind (jstr v) (\<lambda>t. Inr (k, b64encode t)))
       [(''auth_url'', JStr (''http://keystone-api.openstack.svc.'' @ internal @ '':5000'')),
        (''default_domain'', JStr ''service''), (''interface'', JStr ''public''), (''password'', pw),
        (''project_domain_name'', JStr ''service''), (''project_name'', JStr ''service''), (''region_name'', region),
        (''user_domain_name'', JStr ''service''), (''username'', user), (''public_domain'', public_domain),
        (''ca_cert'', ca), (''tls_crt'', crt), (''tls_key'', key),
        (''barbican_url'', JStr (''http://barbican-api.openstack.svc.'' @ internal @ '':9311''))])))))))"

definition rgw_endpoint :: "'s args_env \<Rightarrow> string \<Rightarrow> json res" where
  "rgw_endpoint ae url =
     rbind (ar_urlsplit ae url) (\<lambda>(host, url_port, scheme).
     let p = (case url_port of
           Some n \<Rightarrow> if n \<noteq> 0 then JInt n else if scheme = ''http'' then JStr ''80'' else if scheme = ''https'' then JStr ''443'' else JInt 0
         | None \<Rightarrow> if scheme = ''http'' then JStr ''80'' else if scheme = ''https'' then JStr ''443'' else JNull)
     in Inr (JObj [(''host'', case host of None \<Rightarrow> JNull | Some h \<Rightarrow> JStr h), (''port'', p), (''scheme'', JStr scheme)]))"

fun rgw_endpoints :: "'w secret_world_scheme args_env \<Rightarrow> string list \<Rightarrow> jdict \<Rightarrow> ('w secret_world_scheme, jdict) act" where
  "rgw_endpoints ae [] args = aret args"
| "rgw_endpoints ae (k # ks) args =
     abind (get_secret_data (ceph_shared ae)) (\<lambda>data.
     abind (alift (case map_of data k of None \<Rightarrow> Inl TypeError | Some t \<Rightarrow> b64decode t)) (\<lambda>url.
     abind (alift (rgw_endpoint ae url)) (\<lambda>e. rgw_endpoints ae ks (AList.update k e args))))"

definition object_storage_args :: "'w secret_world_scheme args_env \<Rightarrow> json \<Rightarrow> jdict \<Rightarrow> ('w secret_world_scheme, jdict) act" where
  "object_storage_args ae spec args =
     abind (alift (rbind (jitem spec ''internal_domain_name'') (\<lambda>v. case v of JStr t \<Rightarrow> Inr t | _ \<Rightarrow> Inl TypeError))) (\<lambda>internal.
     abind (alift (jitem_path spec [''features'', ''ssl'', ''public_endpoints''])) (\<lambda>ssl.
     abind (alift (rbind (jitem (JObj args) ''credentials'') (\<lambda>c. rbind (jindex c (JInt 0)) (\<lambda>a. jitem a ''identity'')))) (\<lambda>identity.
     abind (alift (jkeys identity)) (\<lambda>ks.
     abind (if ''ceph-rgw'' \<notin> set ks then aret ()
            else abind (alift (jitem identity ''ceph-rgw'')) (\<lambda>cred.
                 abind (alift (rgw_creds ae spec internal ssl cred)) (\<lambda>data.
                 save_secret_data (ar_ceph_namespace ae, ''openstack-rgw-creds'') data))) (\<lambda>_.
     abind (wait_for_secret (ceph_shared ae)) (\<lambda>_.
     rgw_endpoints ae [''rgw_internal'', ''rgw_external''] args))))))"

section \<open>RabbitMQ\<close>

text \<open>
  The set of services without Tempest, in the order of \<open>ar\_order\<close>; the credentials of those that have
  some, both of the pair.
\<close>

definition rabbit_services :: "'s args_env \<Rightarrow> json \<Rightarrow> string list res" where
  "rabbit_services ae spec =
     rbind (rbind (jitem spec ''features'') (\<lambda>f. rbind (jget f ''services'' (JList [])) jelems)) (\<lambda>l.
     rbind (rmap jstr l) (\<lambda>names. Inr (ar_order ae (filter (\<lambda>n. n \<noteq> ''tempest'') (remdups names)))))"

fun rabbit_credentials ::
  "'w secret_world_scheme args_env \<Rightarrow> service_registry \<Rightarrow> string \<Rightarrow> string list \<Rightarrow> jdict \<Rightarrow> ('w secret_world_scheme, jdict) act" where
  "rabbit_credentials ae reg version [] out = aret out"
| "rabbit_credentials ae reg version (s # ss) out =
     (if s \<notin> set (keys OS_SERVICES_MAP) then rabbit_credentials ae reg version ss out
      else abind (registered reg s) (\<lambda>sc.
           case service_secret_of ae sc version of
             None \<Rightarrow> araise AttributeError
           | Some c \<Rightarrow>
               abind (wait_for_pair (ar_namespace ae) (secret_base_name s)) (\<lambda>_.
               abind (get_all_secrets (ar_secrets ae) c (ar_namespace ae) (secret_base_name s)) (\<lambda>both.
               rabbit_credentials ae reg version ss (AList.update s (JList both) out)))))"

definition rabbit_host :: "'s args_env \<Rightarrow> json \<Rightarrow> string res" where
  "rabbit_host ae spec =
     rbind (jitem spec ''internal_domain_name'') (\<lambda>d.
     Inr (''openstack-rabbitmq-rabbitmq-0.rabbitmq.'' @ ar_namespace ae @ ''.svc.'' @ text_of_value (ar_federation ae) d))"

definition share_with_stacklight ::
  "'w secret_world_scheme args_env \<Rightarrow> json \<Rightarrow> json \<Rightarrow> ('w secret_world_scheme, unit) act" where
  "share_with_stacklight ae spec stacklight =
     abind (alift (get_in_str spec [''features'', ''stacklight'', ''enabled''] JNull)) (\<lambda>enabled.
     if \<not> jtruthy enabled then aret ()
     else abind (alift (rbind (jitem stacklight ''username'') jstr)) (\<lambda>user.
          abind (alift (rbind (jitem stacklight ''password'') jstr)) (\<lambda>pw.
          abind (alift (rabbit_host ae spec)) (\<lambda>host.
          save_secret_data (''openstack-lma-shared'', ''rabbitmq-creds'')
            [(''username'', b64encode user), (''password'', b64encode pw),
             (''hosts'', b64encode (json_dumps (ar_secrets ae) (JList [JStr (host @ '':5672'')]))),
             (''vhost'', b64encode ''/openstack'')]))))"

definition old_portprober :: "string list" where
  "old_portprober = [''queens'', ''rocky'', ''stein'', ''train'', ''ussuri'', ''victoria'', ''wallaby'', ''xena'', ''yoga'', ''zed'']"

definition portprober_default :: "json \<Rightarrow> string \<Rightarrow> bool \<Rightarrow> bool res" where
  "portprober_default spec version cloudprober =
     (if version \<in> set old_portprober then Inr False
      else rbind (network_backend spec) (\<lambda>b.
           Inr (\<not> (py_eq b (JStr ''tungstenfabric'') \<or> py_eq b (JStr ''ml2/ovn'')) \<and> cloudprober)))"

text \<open>The schema of the shared configuration wants a boolean.\<close>

definition stacklight_config_valid :: "json \<Rightarrow> unit res" where
  "stacklight_config_valid data =
     (case jlookup data [''conf.json'', ''exporters'', ''portprober'', ''enabled''] of
        Some (JBool _) \<Rightarrow> Inr () | _ \<Rightarrow> Inl ValidationError)"

definition stacklight_config ::
  "'w secret_world_scheme args_env \<Rightarrow> json \<Rightarrow> string \<Rightarrow> bool \<Rightarrow> ('w secret_world_scheme, unit) act" where
  "stacklight_config ae spec version cloudprober =
     abind (alift (portprober_default spec version cloudprober)) (\<lambda>dflt.
     abind (alift (jpath_get spec [''features'', ''neutron'', ''extensions'', ''portprober''] ''enabled'' (JBool dflt))) (\<lambda>portprober.
     json_secret_save (ar_secrets ae) stacklight_config_valid (''openstack-lma-shared'', ''openstack-lma-config'')
       (nest [''conf.json'', ''exporters''] (JObj
          [(''cloudprober'', JObj [(''enabled'', JBool cloudprober)]), (''portprober'', JObj [(''enabled'', portprober)])]))))"

fun topic_credentials :: "'w secret_world_scheme args_env \<Rightarrow> json list \<Rightarrow> jdict \<Rightarrow> ('w secret_world_scheme, jdict) act" where
  "topic_credentials ae [] out = aret out"
| "topic_credentials ae (t # ts) out =
     abind (alift (jstr t)) (\<lambda>topic.
     abind (ensured_secret ae (''generated-notifications-'' @ get_topic_normalized_name (ar_sha256 ae) topic @ ''-passwords'') ''OSSytemCreds''
       [''username'', ''password''] (user_create (ar_urandom ae) [])) (\<lambda>c.
     topic_credentials ae ts (AList.update topic c out)))"

definition external_topic_args ::
  "'w secret_world_scheme args_env \<Rightarrow> json \<Rightarrow> ('w secret_world_scheme, json \<times> json) act" where
  "external_topic_args ae spec =
     abind (alift (jpath_get spec [''features'', ''messaging'', ''notifications'', ''external''] ''enabled'' (JBool False))) (\<lambda>enabled.
     if \<not> jtruthy enabled then aret (jempty, jempty)
     else abind (alift (rbind (jitem_path spec [''features'', ''messaging'', ''notifications'', ''external'']) (\<lambda>e.
            rbind (jget e ''topics'' (JList [])) jelems))) (\<lambda>topics.
          abind (topic_credentials ae topics []) (\<lambda>notifications.
          abind (alift (rabbit_host ae spec)) (\<lambda>host.
          abind (alift (jitem spec ''public_domain_name'')) (\<lambda>public_domain.
          abind (certificate_pack ae ''rabbitmq-external'' host (''*.'' @ text_of_value (ar_federation ae) public_domain)) (\<lambda>certs.
          aret (JObj notifications, certs)))))))"

definition rabbitmq_args ::
  "'w secret_world_scheme args_env \<Rightarrow> service_registry \<Rightarrow> string \<Rightarrow> json \<Rightarrow> ('w secret_world_scheme, jdict) act" where
  "rabbitmq_args ae reg version spec =
     abind (get_admin_creds ae) (\<lambda>admin.
     abind (get_guest_creds ae) (\<lambda>guest.
     abind (alift (rabbit_services ae spec)) (\<lambda>names.
     abind (rabbit_credentials ae reg version names []) (\<lambda>credentials.
     abind (ensured_secret ae ''generated-stacklight-password'' ''OSSytemCreds'' [''username'', ''password'']
       (user_create (ar_urandom ae) ''stacklight'')) (\<lambda>stacklight.
     abind (share_with_stacklight ae spec stacklight) (\<lambda>_.
     abind (stacklight_config ae spec version (''cloudprober'' \<in> set names)) (\<lambda>_.
     abind (external_topic_args ae spec) (\<lambda>(notifications, certs).
     aret ([(''services'', JList (map JStr names)), (''credentials'', JObj (AList.update ''stacklight'' stacklight credentials)),
       (''admin_creds'', admin), (''guest_creds'', guest), (''notifications_creds'', notifications),
       (''tls_external_certs'', certs)] @ view_args ae ''messaging'')))))))))"

section \<open>The other services\<close>

definition galera_args :: "'w secret_world_scheme args_env \<Rightarrow> ('w secret_world_scheme, jdict) act" where
  "galera_args ae =
     abind (get_admin_creds ae) (\<lambda>admin.
     abind (ensured_secret ae ''generated-galera-passwords'' ''GaleraCredentials''
       [''sst'', ''exporter'', ''audit'', ''backup'', ''openssl_kek''] (galera_create (ar_urandom ae))) (\<lambda>galera.
     aret ([(''admin_creds'', admin), (''galera_creds'', galera)] @ view_args ae ''database'')))"

definition redis_service_args :: "'w secret_world_scheme args_env \<Rightarrow> ('w secret_world_scheme, jdict) act" where
  "redis_service_args ae =
     (let c = \<lparr>class_fields = [''password''], from_json = ar_load ae ''RedisCredentials'',
            create = password_create (ar_urandom ae) ''password'', rotation_fields = (jempty, jempty)\<rparr>;
          k = (ar_redis_namespace ae, ''generated-redis-password'')
      in abind (single_ensure (ar_secrets ae) c k) (\<lambda>_.
         abind (single_get (ar_secrets ae) c k) (\<lambda>creds. aret [(''redis_creds'', creds)])))"

definition cloudprober_args ::
  "'w secret_world_scheme args_env \<Rightarrow> service_registry \<Rightarrow> string \<Rightarrow> jdict \<Rightarrow> ('w secret_world_scheme, jdict) act" where
  "cloudprober_args ae reg version args =
     abind (service_identity ae reg version ''identity'') (\<lambda>identity.
     abind (alift (jitem (JObj identity) ''osctl'')) (\<lambda>c.
     aret (AList.update ''keystone_creds'' (JObj [(''cloudprober'', c)]) args)))"

definition designate_args :: "'w secret_world_scheme args_env \<Rightarrow> jdict \<Rightarrow> ('w secret_world_scheme, jdict) act" where
  "designate_args ae args =
     abind (ensured_secret ae ''generated-powerdns-passwords'' ''PowerDnsCredentials'' [''api_key'', ''database'']
       (powerdns_create (ar_urandom ae))) (\<lambda>c. aret (AList.update ''powerdns'' c args))"

text \<open>The classes that are no OpenStack services, and what they add to the arguments of the base class.\<close>

definition infra_args ::
  "'w secret_world_scheme args_env \<Rightarrow> service_registry \<Rightarrow> string \<Rightarrow> string \<Rightarrow> json \<Rightarrow>
   (jdict \<Rightarrow> ('w secret_world_scheme, jdict) act) option" where
  "infra_args ae reg version service spec =
     (if service \<in> {''ingress'', ''coordination'', ''memcached''} then Some aret
      else if service = ''descheduler'' then Some (\<lambda>args. aret (AList.update ''openstack_namespace'' (JStr (ar_namespace ae)) args))
      else if service = ''cloudprober'' then Some (cloudprober_args ae reg version)
      else if service = ''dynamic-resource-balancer'' then Some (\<lambda>args. abind (get_admin_creds ae) (\<lambda>admin.
        aret (update_args args [(''admin_creds'', admin), (''keystone_creds'', jempty)])))
      else None)"

text \<open>What the OpenStack services add to the arguments they share.\<close>

definition extra_args ::
  "'w secret_world_scheme args_env \<Rightarrow> string \<Rightarrow> json \<Rightarrow> jdict \<Rightarrow> ('w secret_world_scheme, jdict) act" where
  "extra_args ae service spec args =
     (if service = ''metering'' then ceilometer_args ae spec args
      else if service = ''metric'' then redis_args ae args
      else if service = ''dns'' then designate_args ae args
      else if service = ''orchestration'' then tf_args spec args
      else if service = ''dashboard'' then horizon_args ae spec args
      else if service = ''identity'' then keystone_args ae spec args
      else if service = ''networking'' then neutron_args ae spec args
      else if service = ''compute'' then nova_args ae spec args
      else if service = ''load-balancer'' then octavia_args ae spec args
      else if service = ''object-storage'' then object_storage_args ae spec args
      else if service = ''shared-file-system''
        then abind (ssh_secret ae service) (\<lambda>ssh. aret (AList.update ''ssh_credentials'' ssh args))
      else aret args)"

definition template_args_of ::
  "'w secret_world_scheme args_env \<Rightarrow> service_registry \<Rightarrow> service_class \<Rightarrow> string \<Rightarrow> json \<Rightarrow> ('w secret_world_scheme, jdict) act" where
  "template_args_of ae reg sc version spec =
     (let service = sc_service sc in
      if service = ''database'' then galera_args ae
      else if service = ''redis'' then redis_service_args ae
      else if service = ''messaging'' then rabbitmq_args ae reg version spec
      else case infra_args ae reg version service spec of
             Some f \<Rightarrow> abind (base_template_args ae sc version spec) f
           | None \<Rightarrow> abind (openstack_template_args ae reg sc version spec) (extra_args ae service spec))"

text \<open>
  Tempest renders all other services.  \<open>layers\<close> is \<open>merge\_all\_layers\<close> for a service, the specification and
  the arguments; only its own failures become permanent.
\<close>

fun tempest_bundles ::
  "'w secret_world_scheme args_env \<Rightarrow> service_registry \<Rightarrow> (string \<Rightarrow> json \<Rightarrow> jdict \<Rightarrow> json res) \<Rightarrow> string \<Rightarrow> json \<Rightarrow>
   string list \<Rightarrow> jdict \<Rightarrow> ('w secret_world_scheme, jdict) act" where
  "tempest_bundles ae reg layers version spec [] out = aret out"
| "tempest_bundles ae reg layers version spec (s # ss) out =
     abind (registered reg s) (\<lambda>sc.
     abind (template_args_of ae reg sc version spec) (\<lambda>args.
     abind (alift (case layers s spec args of
       Inl _ \<Rightarrow> Inl (PermanentError ''Error while rendering HelmBundle for tempest service'') | Inr b \<Rightarrow> Inr b)) (\<lambda>b.
     tempest_bundles ae reg layers version spec ss (AList.update s b out))))"

definition tempest_args ::
  "'w secret_world_scheme args_env \<Rightarrow> service_registry \<Rightarrow> (string \<Rightarrow> json \<Rightarrow> jdict \<Rightarrow> json res) \<Rightarrow> service_class \<Rightarrow> string \<Rightarrow> json \<Rightarrow>
   ('w secret_world_scheme, jdict) act" where
  "tempest_args ae reg layers sc version spec =
     abind (template_args_of ae reg sc version spec) (\<lambda>args.
     abind (alift (rbind (rbind (features_services spec) jelems) (rmap jstr))) (\<lambda>names.
     abind (tempest_bundles ae reg layers version spec
       (ar_order ae (filter (\<lambda>n. n \<noteq> ''tempest'' \<and> n \<noteq> ''redis'') (remdups names))) []) (\<lambda>bundles.
     aret (AList.update ''helmbundles_body'' (JObj bundles) args))))"

section \<open>The shared secret of Keystone\<close>

lemma federation_returns_no_providers:
  "keystone_federation_args ae spec = get_federation_args (ar_federation ae) (ar_namespace ae) spec"
proof -
  have "keystone_federation_args ae spec =
    abind (get_federation_args (ar_federation ae) (ar_namespace ae) spec) aret"
    unfolding keystone_federation_args_def
  proof (rule abind_cong_Inr)
    fix v s t assume "get_federation_args (ar_federation ae) (ar_namespace ae) spec s = (Inr v, t)"
    then obtain enabled auth_type oidc providers ca where
      "v = federation_result enabled auth_type oidc providers ca" by (rule federation_runs)
    then show "abind (alift (jget v ''providers'' jempty)) (\<lambda>providers.
       abind (alift (jget providers ''keycloak'' jempty)) (\<lambda>keycloak.
       abind (alift (jget keycloak ''enabled'' JNull)) (\<lambda>enabled.
       if \<not> jtruthy enabled then aret v
       else abind (alift (jitem spec ''public_domain_name'')) (\<lambda>public_domain.
            abind (alift (federation_redirect_uri (ar_federation ae) spec)) (\<lambda>uri.
            abind (alift (jitem_path keycloak [''metadata'', ''client'', ''client_id''])) (\<lambda>client_id.
            abind (save_iam_secret ae client_id
              [uri, ''https://horizon.'' @ text_of_value (ar_federation ae) public_domain @ ''/*'']) (\<lambda>_. aret v))))))) t = aret v t"
      by (simp add: federation_result_def abind_alift_at)
  qed
  then show ?thesis by (simp add: abind_def aret_def fun_eq_iff split: prod.splits sum.splits)
qed

end
