(* ===== verification/ServiceUpgrades.thy ===== *)
theory ServiceUpgrades
  imports ServicesBase Kube TemplateArguments
begin

text \<open>
  How the objects of a service are rolled out: \<open>HelmBundleMixin\<close> of \<open>kube.py\<close>, the \<open>\_upgrade\<close> of the services
  that have one, the upgrade of Placement out of Nova, and what Redis and Neutron do around \<open>apply\<close>.
\<close>

text \<open>
  \<open>ue\_object\<close> is the object of a kind and name as the API returns it; the rounds bound the loops that run
  until \<open>asyncio.wait\_for\<close> ends them; the names of the objects with the given labels; \<open>scale\<close> of a set;
  \<open>save\_secret\_data\<close>; the cluster wide maintenance request, when there is one; and
  \<open>ensure\_pod\_generation\<close> of a daemon set.
\<close>

record 's upgrade_env =
  ue_object :: "string \<Rightarrow> string \<Rightarrow> 's \<Rightarrow> json"
  ue_enable_rounds :: nat
  ue_disable_rounds :: nat
  ue_replica_rounds :: nat
  ue_list :: "string \<Rightarrow> json \<Rightarrow> string list res"
  ue_scale :: "string \<Rightarrow> string \<Rightarrow> ('s, unit) act"
  ue_save_secret :: "secret_key \<Rightarrow> (string \<times> string) list \<Rightarrow> ('s, unit) act"
  ue_cmr :: "('s, bool) act"
  ue_pod_generation :: "string \<Rightarrow> ('s, unit) act"
  ue_dumps :: "json \<Rightarrow> string"

section \<open>Enabling and disabling an object\<close>

definition kind_ready :: "string \<Rightarrow> json \<Rightarrow> bool res" where
  "kind_ready kind obj =
     (if kind = ''Deployment'' \<or> kind = ''StatefulSet'' then replicated_ready obj
      else if kind = ''DaemonSet'' then daemonset_ready obj
      else if kind = ''Job'' then job_ready obj
      else Inl AttributeError)"

definition set_chart_values ::
  "'s controller_env \<Rightarrow> string \<Rightarrow> json \<Rightarrow> ('s, unit) act" where
  "set_chart_values ce chart values = set_release_values (ce_vs ce) (ce_helm ce) (''openstack-'' @ chart) values chart"

definition child_images ::
  "'w svc_world_scheme controller_env \<Rightarrow> 'w svc_world_scheme service \<Rightarrow> child_object \<Rightarrow> string \<Rightarrow>
   ('w svc_world_scheme, jdict) act" where
  "child_images ce svc co version =
     abind (alift (rbind (jelems (co_images co)) (rmap jstr))) (\<lambda>images.
     abind (amap (\<lambda>i. abind (get_image ce svc i (co_chart co) version) (\<lambda>v. aret (i, v))) images) (\<lambda>l.
     aret (foldl (\<lambda>d (k, v). AList.update k v d) [] l)))"

text \<open>\<open>need\_apply\_images\<close>: each image of the object is in one of the containers.\<close>

definition images_missing ::
  "'w svc_world_scheme upgrade_env \<Rightarrow> 'w svc_world_scheme controller_env \<Rightarrow> 'w svc_world_scheme service \<Rightarrow> child_object \<Rightarrow>
   string \<Rightarrow> ('w svc_world_scheme, bool) act" where
  "images_missing ue ce svc co version =
     abind (alift (rbind (jelems (co_images co)) (rmap jstr))) (\<lambda>images.
     abind (amap (\<lambda>i. abind (get_image ce svc i (co_chart co) version) (\<lambda>v.
       abind (aget (ue_object ue (co_kind co) (co_name co))) (\<lambda>obj. alift (image_applied obj v)))) images) (\<lambda>applied_images.
     aret (\<not> list_all id applied_images)))"

definition child_exists :: "'s controller_env \<Rightarrow> child_object \<Rightarrow> ('s, bool) act" where
  "child_exists ce co = k8s_exists (ce_helm ce) (co_kind co) (co_name co)"

definition enable_diff :: "child_object \<Rightarrow> jdict \<Rightarrow> jdict option \<Rightarrow> json res" where
  "enable_diff co tags extra_values =
     rbind (jstr (co_manifest co)) (\<lambda>manifest.
     Inr (JObj (update_args [(''images'', JObj [(''tags'', JObj tags)]), (''manifests'', JObj [(manifest, JBool True)])]
       (case extra_values of None \<Rightarrow> [] | Some e \<Rightarrow> e))))"

text \<open>Whether one round has completed the object: it is there, ready, and has its images.\<close>

definition child_completed ::
  "'w svc_world_scheme upgrade_env \<Rightarrow> 'w svc_world_scheme controller_env \<Rightarrow> 'w svc_world_scheme service \<Rightarrow> child_object \<Rightarrow>
   string \<Rightarrow> ('w svc_world_scheme, bool) act" where
  "child_completed ue ce svc co version =
     abind (child_exists ce co) (\<lambda>found.
     if \<not> found then aret False
     else abind (aget (ue_object ue (co_kind co) (co_name co))) (\<lambda>obj.
          abind (alift (kind_ready (co_kind co) obj)) (\<lambda>ready.
          if \<not> ready then aret False
          else abind (images_missing ue ce svc co version) (\<lambda>missing. aret (\<not> missing)))))"

fun enable_loop ::
  "nat \<Rightarrow> 'w svc_world_scheme upgrade_env \<Rightarrow> 'w svc_world_scheme controller_env \<Rightarrow> 'w svc_world_scheme service \<Rightarrow>
   child_object \<Rightarrow> string \<Rightarrow> bool \<Rightarrow> json \<Rightarrow> ('w svc_world_scheme, unit) act" where
  "enable_loop 0 ue ce svc co version wait_completion diff = araise TimeoutError"
| "enable_loop (Suc n) ue ce svc co version wait_completion diff =
     abind (set_chart_values ce (co_chart co) diff) (\<lambda>_.
     abind (amod (ce_tick ce)) (\<lambda>_.
     if \<not> wait_completion then aret ()
     else abind (child_completed ue ce svc co version) (\<lambda>completed.
          if completed then aret () else enable_loop n ue ce svc co version wait_completion diff)))"

definition enable ::
  "'w svc_world_scheme upgrade_env \<Rightarrow> 'w svc_world_scheme controller_env \<Rightarrow> 'w svc_world_scheme service \<Rightarrow>
   child_object \<Rightarrow> string \<Rightarrow> bool \<Rightarrow> jdict option \<Rightarrow> ('w svc_world_scheme, unit) act" where
  "enable ue ce svc co version wait_completion extra_values =
     abind (child_images ce svc co version) (\<lambda>tags.
     abind (alift (enable_diff co tags extra_values)) (\<lambda>diff.
     enable_loop (ue_enable_rounds ue) ue ce svc co version wait_completion diff))"

fun disable_loop ::
  "nat \<Rightarrow> 's controller_env \<Rightarrow> child_object \<Rightarrow> bool \<Rightarrow> json \<Rightarrow> ('s, unit) act" where
  "disable_loop 0 ce co wait_completion diff = araise TimeoutError"
| "disable_loop (Suc n) ce co wait_completion diff =
     abind (set_chart_values ce (co_chart co) diff) (\<lambda>_.
     if \<not> wait_completion then aret ()
     else abind (child_exists ce co) (\<lambda>found.
          if \<not> found then aret ()
          else abind (amod (ce_tick ce)) (\<lambda>_. disable_loop n ce co wait_completion diff)))"

definition disable :: "'s upgrade_env \<Rightarrow> 's controller_env \<Rightarrow> child_object \<Rightarrow> bool \<Rightarrow> ('s, unit) act" where
  "disable ue ce co wait_completion =
     abind (alift (jstr (co_manifest co))) (\<lambda>manifest.
     disable_loop (ue_disable_rounds ue) ce co wait_completion
       (JObj [(''images'', JObj [(''tags'', jempty)]), (''manifests'', JObj [(manifest, JBool False)])]))"

text \<open>\<open>CronJob.suspend\<close>: the object is reloaded before the values are set.\<close>

fun suspend_loop :: "nat \<Rightarrow> 's upgrade_env \<Rightarrow> 's controller_env \<Rightarrow> child_object \<Rightarrow> bool \<Rightarrow> ('s, unit) act" where
  "suspend_loop 0 ue ce co wait_completion = araise TimeoutError"
| "suspend_loop (Suc n) ue ce co wait_completion =
     abind (aget (ue_object ue (co_kind co) (co_name co))) (\<lambda>obj.
     abind (set_chart_values ce (co_chart co) (nest [''conf'', ''cronjob'', ''suspend''] (JBool True))) (\<lambda>_.
     if \<not> wait_completion then aret ()
     else abind (alift (rbind (jitem obj ''spec'') (\<lambda>sp. jget sp ''suspend'' JNull))) (\<lambda>suspended.
          if jtruthy suspended then aret ()
          else abind (amod (ce_tick ce)) (\<lambda>_. suspend_loop n ue ce co wait_completion))))"

text \<open>\<open>Job.rerun\<close>: the old job is deleted and created again without what the API had added.\<close>

fun rerun_loop :: "nat \<Rightarrow> ('s, bool) act \<Rightarrow> (json \<Rightarrow> ('s, unit) act) \<Rightarrow> ('s \<Rightarrow> 's) \<Rightarrow> json \<Rightarrow> ('s, unit) act" where
  "rerun_loop 0 deleted creation tick obj = aret ()"
| "rerun_loop (Suc n) deleted creation tick obj =
     abind (atry (abind deleted (\<lambda>gone.
              if \<not> gone then aret True
              else abind (alift (prepare_for_rerun obj)) (\<lambda>new. abind (creation new) (\<lambda>_. aret True))))
            (\<lambda>e. if n = 0 then araise e else aret False)) (\<lambda>finished_now.
     if finished_now then aret () else abind (amod tick) (\<lambda>_. rerun_loop n deleted creation tick obj))"

definition rerun :: "('s, unit) act \<Rightarrow> ('s, bool) act \<Rightarrow> (json \<Rightarrow> ('s, unit) act) \<Rightarrow> ('s \<Rightarrow> 's) \<Rightarrow> json \<Rightarrow> ('s, unit) act" where
  "rerun deletion deleted creation tick obj = abind deletion (\<lambda>_. rerun_loop 10 deleted creation tick obj)"

section \<open>Upgrades in steps\<close>

text \<open>One step of \<open>upgrade\_map\<close>: jobs that cannot be changed are purged before.\<close>

definition upgrade_step ::
  "'w svc_world_scheme upgrade_env \<Rightarrow> 'w svc_world_scheme controller_env \<Rightarrow> 'w svc_world_scheme service \<Rightarrow> string \<Rightarrow> bool \<Rightarrow>
   jdict option \<Rightarrow> string \<times> string \<Rightarrow> ('w svc_world_scheme, unit) act" where
  "upgrade_step ue ce svc version purge_jobs extra_values = (\<lambda>(kind, name).
     abind (aget mspec) (\<lambda>spec.
     abind (alift (get_child_object ce svc spec kind name)) (\<lambda>co.
     abind (if purge_jobs \<and> kind = ''Job'' then purge ce co else aret ()) (\<lambda>_.
     enable ue ce svc co version True extra_values))))"

definition upgrade_steps ::
  "'w svc_world_scheme upgrade_env \<Rightarrow> 'w svc_world_scheme controller_env \<Rightarrow> 'w svc_world_scheme service \<Rightarrow> string \<Rightarrow> bool \<Rightarrow>
   jdict option \<Rightarrow> (string \<times> string) list \<Rightarrow> ('w svc_world_scheme, unit) act" where
  "upgrade_steps ue ce svc version purge_jobs extra_values upgrade_map =
     aforeach (upgrade_step ue ce svc version purge_jobs extra_values) upgrade_map"

definition cinder_upgrade_map :: "json \<Rightarrow> (string \<times> string) list res" where
  "cinder_upgrade_map spec =
     rbind (get_in_str spec [''features'', ''cinder'', ''volume'', ''enabled''] (JBool True)) (\<lambda>volume.
     rbind (get_in_str spec [''features'', ''cinder'', ''backup'', ''enabled''] (JBool True)) (\<lambda>backup.
     Inr ([(''Job'', ''cinder-db-sync''), (''StatefulSet'', ''cinder-scheduler'')] @
       (if jtruthy volume then [(''StatefulSet'', ''cinder-volume'')] else []) @
       (if jtruthy backup then [(''StatefulSet'', ''cinder-backup'')] else []) @
       [(''Deployment'', ''cinder-api''), (''Job'', ''cinder-db-sync-online'')])))"

definition cinder_upgrade ::
  "'w svc_world_scheme upgrade_env \<Rightarrow> 'w svc_world_scheme controller_env \<Rightarrow> 'w svc_world_scheme service \<Rightarrow> string \<Rightarrow>
   ('w svc_world_scheme, unit) act" where
  "cinder_upgrade ue ce svc version = with_kopf_exception (
     abind (aget mspec) (\<lambda>spec.
     abind (alift (cinder_upgrade_map spec)) (\<lambda>l. upgrade_steps ue ce svc version True None l)))"

definition glance_upgrade ::
  "'w svc_world_scheme upgrade_env \<Rightarrow> 'w svc_world_scheme controller_env \<Rightarrow> 'w svc_world_scheme service \<Rightarrow> string \<Rightarrow>
   ('w svc_world_scheme, unit) act" where
  "glance_upgrade ue ce svc version = with_kopf_exception (
     upgrade_steps ue ce svc version False None
       [(''Job'', ''glance-db-expand''), (''Job'', ''glance-db-migrate''), (''Deployment'', ''glance-api''),
        (''Job'', ''glance-db-contract'')])"

definition keystone_upgrade ::
  "'w svc_world_scheme upgrade_env \<Rightarrow> 'w svc_world_scheme controller_env \<Rightarrow> 'w svc_world_scheme service \<Rightarrow> string \<Rightarrow>
   ('w svc_world_scheme, unit) act" where
  "keystone_upgrade ue ce svc version = with_kopf_exception (
     upgrade_steps ue ce svc version False None
       [(''Job'', ''keystone-db-sync-expand''), (''Job'', ''keystone-db-sync-migrate''), (''Deployment'', ''keystone-api''),
        (''Job'', ''keystone-db-sync-contract'')])"

definition heat_upgrade ::
  "'w svc_world_scheme upgrade_env \<Rightarrow> 'w svc_world_scheme controller_env \<Rightarrow> 'w svc_world_scheme service \<Rightarrow> string \<Rightarrow>
   ('w svc_world_scheme, unit) act" where
  "heat_upgrade ue ce svc version = with_kopf_exception (
     abind (get_chart_value_or_none ce svc ''heat'' [''endpoints'', ''oslo_messaging'', ''path''] version JNull) (\<lambda>path.
     abind (aget mspec) (\<lambda>spec.
     abind (alift (child_objects ce svc spec)) (\<lambda>chs.
     abind (aforeach (purge ce) (filter co_immutable chs)) (\<lambda>_.
     upgrade_steps ue ce svc version True
       (Some [(''endpoints'', JObj [(''oslo_messaging'', JObj [(''path'', path)])])])
       [(''Job'', ''heat-db-sync''), (''Deployment'', ''heat-api''), (''Deployment'', ''heat-cfn''),
        (''Deployment'', ''heat-engine'')])))))"

definition nova_upgrade ::
  "'w svc_world_scheme upgrade_env \<Rightarrow> 'w svc_world_scheme controller_env \<Rightarrow> 'w svc_world_scheme service \<Rightarrow> string \<Rightarrow>
   ('w svc_world_scheme, unit) act" where
  "nova_upgrade ue ce svc version = with_kopf_exception (
     upgrade_steps ue ce svc version True None
       [(''Job'', ''nova-db-sync-api''), (''Job'', ''nova-db-sync-db''), (''Job'', ''nova-db-sync'')])"

definition neutron_agents :: "(string \<times> string) list" where
  "neutron_agents = [(''DaemonSet'', ''neutron-sriov-agent''), (''DaemonSet'', ''neutron-ovs-agent'')]"

definition dynamic_step ::
  "'w svc_world_scheme upgrade_env \<Rightarrow> 'w svc_world_scheme controller_env \<Rightarrow> 'w svc_world_scheme service \<Rightarrow>
   (child_object \<Rightarrow> ('w svc_world_scheme, unit) act) \<Rightarrow> string \<times> string \<Rightarrow> ('w svc_world_scheme, unit) act" where
  "dynamic_step ue ce svc f = (\<lambda>(kind, abstract_name).
     abind (aget mspec) (\<lambda>spec.
     abind (alift (get_child_objects_dynamic ce (ue_list ue) svc spec kind abstract_name)) (aforeach f)))"

definition neutron_upgrade ::
  "'w svc_world_scheme upgrade_env \<Rightarrow> 'w svc_world_scheme controller_env \<Rightarrow> 'w svc_world_scheme service \<Rightarrow> string \<Rightarrow>
   ('w svc_world_scheme, unit) act" where
  "neutron_upgrade ue ce svc version = with_kopf_exception (
     abind (aget mspec) (\<lambda>spec.
     abind (alift (get_in_str spec [''features'', ''neutron'', ''backend''] JNull)) (\<lambda>b.
     abind (alift (network_backend spec)) (\<lambda>nb.
     abind (upgrade_steps ue ce svc version True None
       [(''Job'', ''neutron-db-sync''),
        (if py_eq b (JStr ''ml2/ovn'') then ''DaemonSet'' else ''Deployment'', ''neutron-server'')]) (\<lambda>_.
     aforeach (dynamic_step ue ce svc (\<lambda>co. enable ue ce svc co version True None))
       (if py_eq nb (JStr ''tungstenfabric'') then neutron_agents else []))))))"

section \<open>Placement\<close>

text \<open>
  In Stein the objects of Placement move from the chart of Nova to one of its own: they are disabled there,
  the service is applied with a job that migrates the database, and applied again without it.  When
  anything fails they are purged, since the next attempt could not disable them any more.
\<close>

definition placement_objects :: "(string \<times> string) list" where
  "placement_objects =
     [(''Deployment'', ''nova-placement-api''), (''Job'', ''placement-ks-user''), (''Job'', ''placement-ks-service''),
      (''Job'', ''placement-ks-endpoints''), (''Service'', ''placement''), (''Service'', ''placement-api''),
      (''Secret'', ''placement-tls-public''), (''Ingress'', ''placement'')]"

definition on_child ::
  "'w svc_world_scheme controller_env \<Rightarrow> 'w svc_world_scheme service \<Rightarrow> (child_object \<Rightarrow> ('w svc_world_scheme, unit) act) \<Rightarrow>
   string \<times> string \<Rightarrow> ('w svc_world_scheme, unit) act" where
  "on_child ce svc f = (\<lambda>(kind, name).
     abind (aget mspec) (\<lambda>spec. abind (alift (get_child_object ce svc spec kind name)) f))"

definition migrate_placement ::
  "'w svc_world_scheme upgrade_env \<Rightarrow> 'w svc_world_scheme controller_env \<Rightarrow> 'w svc_world_scheme service \<Rightarrow>
   'w svc_world_scheme service \<Rightarrow> ('w svc_world_scheme, unit) act" where
  "migrate_placement ue ce svc nova_svc =
     abind (aforeach (on_child ce nova_svc (\<lambda>co. disable ue ce co True)) placement_objects) (\<lambda>_.
     abind (service_apply ce svc [(''openstack-placement'', nest [''manifests'', ''job_db_nova_migrate_placement''] (JBool True))]) (\<lambda>_.
     abind (amod (ce_tick ce)) (\<lambda>_.
     abind (service_healthy ce svc) (\<lambda>_.
     abind (on_child ce svc (purge ce) (''Job'', ''placement-db-sync'')) (\<lambda>_.
     service_apply ce svc [])))))"

definition placement_upgrade ::
  "'w svc_world_scheme upgrade_env \<Rightarrow> 'w svc_world_scheme controller_env \<Rightarrow> 'w svc_world_scheme service \<Rightarrow>
   'w svc_world_scheme service \<Rightarrow> (py_exc \<Rightarrow> string) \<Rightarrow> jdict \<Rightarrow> ('w svc_world_scheme, unit) act" where
  "placement_upgrade ue ce svc nova_svc str_exc helmobj_overrides = with_kopf_exception (
     abind (aget mspec) (\<lambda>spec.
     abind (alift (jitem spec ''openstack_version'')) (\<lambda>v.
     if \<not> py_eq v (JStr ''stein'') then upgrade_service ce svc helmobj_overrides
     else atry (migrate_placement ue ce svc nova_svc)
            (\<lambda>e. abind (aforeach (on_child ce nova_svc (purge ce)) placement_objects) (\<lambda>_.
                 araise (TemporaryError (str_exc e)))))))"

section \<open>Redis\<close>

text \<open>
  An old release is removed with its object; when the image of the sentinels changes, everything is stopped
  before the new release is applied.
\<close>

definition stop_set :: "'s upgrade_env \<Rightarrow> 's controller_env \<Rightarrow> string \<times> string \<Rightarrow> ('s, unit) act" where
  "stop_set ue ce = (\<lambda>(kind, name).
     abind (k8s_exists (ce_helm ce) kind name) (\<lambda>found.
     if \<not> found then aret ()
     else abind (ue_scale ue kind name) (\<lambda>_.
          abind (wait_for_replicas (ue_replica_rounds ue) (ce_tick ce) (ue_object ue kind name) 0) (\<lambda>_. aret ()))))"

definition redis_sets :: "(string \<times> string) list" where
  "redis_sets = [(''Deployment'', ''openstack-redis-operator''), (''StatefulSet'', ''rfr-openstack-redis''),
     (''Deployment'', ''rfs-openstack-redis'')]"

definition remove_redis_operator :: "'s controller_env \<Rightarrow> ('s, unit) act" where
  "remove_redis_operator ce =
     abind (helm_exist (ce_helm ce) ''os-redis-operator'') (\<lambda>old.
     if \<not> old then aret ()
     else abind (helm_delete (ce_helm ce) ''os-redis-operator'') (\<lambda>_.
          abind (k8s_exists (ce_helm ce) ''RedisFailover'' ''openstack-redis'') (\<lambda>found.
          if found then k8s_delete (ce_helm ce) ''RedisFailover'' ''openstack-redis'' else aret ())))"

definition sentinel_image :: "json \<Rightarrow> json res" where
  "sentinel_image data =
     rbind (helm_releases data) (\<lambda>rels.
     rbind (case rels of [] \<Rightarrow> Inl IndexError | r # _ \<Rightarrow> Inr r) (\<lambda>r.
     jitem_path r [''values'', ''redisfailover'', ''spec'', ''sentinel'', ''image'']))"

definition redis_before_apply ::
  "'w svc_world_scheme upgrade_env \<Rightarrow> 'w svc_world_scheme controller_env \<Rightarrow> 'w svc_world_scheme service \<Rightarrow>
   ('w svc_world_scheme, unit) act" where
  "redis_before_apply ue ce svc =
     abind (set_children_status ce svc Applying) (\<lambda>_.
     abind (render ce svc []) (\<lambda>data.
     abind (remove_redis_operator ce) (\<lambda>_.
     abind (k8s_exists (ce_helm ce) ''Deployment'' ''rfs-openstack-redis'') (\<lambda>found.
     if \<not> found then aret ()
     else abind (alift (sentinel_image data)) (\<lambda>new_image.
          abind (aget (ue_object ue ''Deployment'' ''rfs-openstack-redis'')) (\<lambda>obj.
          abind (alift (image_applied obj new_image)) (\<lambda>applied.
          if applied then aret () else aforeach (stop_set ue ce) redis_sets)))))))"

section \<open>Neutron\<close>

text \<open>What Tungsten Fabric is told; \<open>encode\<close> needs texts.\<close>

definition default_lb_network :: json where
  "default_lb_network = JObj [(''subnets'', JList [JObj
     [(''range'', JStr ''10.255.0.0/16''), (''pool_start'', JStr ''10.255.1.0''), (''pool_end'', JStr ''10.255.255.254'')]])]"

definition setdefault :: "string \<Rightarrow> json \<Rightarrow> json \<Rightarrow> json res" where
  "setdefault k v j = (case j of
       JObj d \<Rightarrow> Inr (JObj (if k \<in> set (keys d) then d else d @ [(k, v)])) | _ \<Rightarrow> Inl AttributeError)"

text \<open>
  The network of the load balancer and the specification after \<open>setdefault\<close>, which changes the value inside
  of the specification when it has one.
\<close>

definition lb_network :: "json \<Rightarrow> (json \<times> json) res" where
  "lb_network spec =
     (case jlookup spec [''features'', ''octavia'', ''lb_network''] of
        Some _ \<Rightarrow>
          rbind (jmod [''features'', ''octavia'', ''lb_network''] (setdefault ''name'' (JStr ''lb-mgmt-net'')) spec) (\<lambda>spec'.
          rbind (jitem_path spec' [''features'', ''octavia'', ''lb_network'']) (\<lambda>n. Inr (n, spec')))
      | None \<Rightarrow>
          rbind (jitem spec ''features'') (\<lambda>f.
          rbind (get_in_str f [''octavia'', ''lb_network''] default_lb_network) (\<lambda>n.
          rbind (setdefault ''name'' (JStr ''lb-mgmt-net'') n) (\<lambda>n. Inr (n, spec)))))"

definition tf_nodes :: "json \<Rightarrow> json res" where
  "tf_nodes spec =
     rbind (jget spec ''nodes'' JNull) (\<lambda>nodes.
     if \<not> jtruthy nodes then Inr jempty
     else rbind (jitems nodes) (\<lambda>d.
          rbind (rmap (\<lambda>(label, v). rbind (get_in_str v [''features'', ''neutron''] JNull) (\<lambda>x. Inr (label, x))) d) (\<lambda>l.
          Inr (JObj (filter (\<lambda>(_, x). jtruthy x) l)))))"

definition encode_text :: "json \<Rightarrow> string res" where
  "encode_text v = rbind (jstr v) (\<lambda>t. Inr (b64encode t))"

definition tf_data :: "'s upgrade_env \<Rightarrow> json \<Rightarrow> json \<Rightarrow> json \<Rightarrow> (string \<times> string) list res" where
  "tf_data ue spec neutron_features network =
     rbind (rbind (jitem spec ''features'') (\<lambda>f. jpath f [''ssl'', ''public_endpoints''])) (\<lambda>ssl.
     rbind (rbind (jget neutron_features ''tunnel_interface'' (JStr [])) encode_text) (\<lambda>tunnel.
     rbind (rbind (jitem spec ''public_domain_name'') encode_text) (\<lambda>domain.
     rbind (rbind (jget ssl ''ca_cert'' JNull) encode_text) (\<lambda>ca.
     rbind (rbind (jget ssl ''api_cert'' JNull) encode_text) (\<lambda>crt.
     rbind (rbind (jget ssl ''api_key'' JNull) encode_text) (\<lambda>key.
     rbind (rbind (rbind (jitem spec ''services'') (\<lambda>sv.
              get_in_str sv [''ingress'', ''ingress'', ''values'', ''deployment'', ''cluster'', ''class''] (JStr ''nginx-cluster'')))
              encode_text) (\<lambda>ingress_class.
     rbind (tf_nodes spec) (\<lambda>nodes.
     Inr [(''tunnel_interface'', tunnel), (''public_domain'', domain), (''certificate_authority'', ca), (''certificate'', crt),
       (''private_key'', key), (''ingress_namespace_class'', ingress_class),
       (''octavia_mgmt_network'', b64encode (ue_dumps ue network)), (''nodes'', b64encode (ue_dumps ue nodes))]))))))))"

definition share_with_tf :: "'w svc_world_scheme upgrade_env \<Rightarrow> ('w svc_world_scheme, unit) act" where
  "share_with_tf ue =
     abind (aget mspec) (\<lambda>spec.
     abind (alift (rbind (jitem spec ''features'') (\<lambda>f. jget f ''neutron'' jempty))) (\<lambda>neutron_features.
     abind (alift (jget neutron_features ''backend'' (JStr []))) (\<lambda>b.
     if \<not> py_eq b (JStr ''tungstenfabric'') then aret ()
     else abind (alift (lb_network spec)) (\<lambda>(network, spec').
          abind (amod (\<lambda>s. s\<lparr>mspec := spec'\<rparr>)) (\<lambda>_.
          abind (alift (tf_data ue spec' neutron_features network)) (\<lambda>data.
          ue_save_secret ue (''openstack-tf-shared'', ''tf-data'') data))))))"

text \<open>The agents come first: those that do not have their images are enabled before everything else.\<close>

definition update_agent ::
  "'w svc_world_scheme upgrade_env \<Rightarrow> 'w svc_world_scheme controller_env \<Rightarrow> 'w svc_world_scheme service \<Rightarrow> string \<Rightarrow>
   child_object \<Rightarrow> ('w svc_world_scheme, unit) act" where
  "update_agent ue ce svc version co =
     abind (child_exists ce co) (\<lambda>found.
     abind (if found then images_missing ue ce svc co version else aret False) (\<lambda>missing.
     if missing then enable ue ce svc co version True None else aret ()))"

definition neutron_before_apply ::
  "'w svc_world_scheme upgrade_env \<Rightarrow> 'w svc_world_scheme controller_env \<Rightarrow> 'w svc_world_scheme service \<Rightarrow> string \<Rightarrow>
   ('w svc_world_scheme, unit) act" where
  "neutron_before_apply ue ce svc version =
     abind (aget mspec) (\<lambda>spec.
     abind (alift (jpath_get spec [''migration'', ''neutron''] ''deploy_main_service'' (JBool True))) (\<lambda>deploy.
     if \<not> jtruthy deploy then aret ()
     else abind (share_with_tf ue) (\<lambda>_.
          aforeach (dynamic_step ue ce svc (update_agent ue ce svc version)) neutron_agents)))"

text \<open>Pods are not restarted during the maintenance of the cluster, nor while it migrates to OVN.\<close>

definition neutron_after_apply ::
  "'w svc_world_scheme upgrade_env \<Rightarrow> 'w svc_world_scheme controller_env \<Rightarrow> 'w svc_world_scheme service \<Rightarrow>
   ('w svc_world_scheme, unit) act" where
  "neutron_after_apply ue ce svc =
     abind (ue_cmr ue) (\<lambda>cmr.
     abind (aget mspec) (\<lambda>spec.
     abind (if cmr then aret JNull
            else alift (get_in_str spec [''migration'', ''neutron'', ''ovs_ovn_migration''] JNull)) (\<lambda>migrating.
     if cmr \<or> jtruthy migrating then aret ()
     else aforeach (dynamic_step ue ce svc (\<lambda>co. ue_pod_generation ue (co_name co)))
       [(''DaemonSet'', ''ovn-controller''), (''DaemonSet'', ''openvswitch-vswitchd''), (''DaemonSet'', ''neutron-l3-agent'')])))"

text \<open>\<open>health\_groups\<close> of Neutron, and the hooks of the services together.\<close>

definition neutron_health_groups :: "json \<Rightarrow> string list res" where
  "neutron_health_groups spec =
     rbind (network_backend spec) (\<lambda>b. Inr (''neutron'' #
       (if py_eq b (JStr ''ml2'') then [''openvswitch''] else if py_eq b (JStr ''ml2/ovn'') then [''openvswitch_ovn''] else [])))"

definition hooked_service ::
  "'w svc_world_scheme upgrade_env \<Rightarrow> 'w svc_world_scheme controller_env \<Rightarrow> 'w svc_world_scheme service \<Rightarrow> string \<Rightarrow>
   'w svc_world_scheme service" where
  "hooked_service ue ce svc version =
     (if svc_name svc = ''block-storage'' then svc\<lparr>upgrade_hook := cinder_upgrade ue ce svc version\<rparr>
      else if svc_name svc = ''image'' then svc\<lparr>upgrade_hook := glance_upgrade ue ce svc version\<rparr>
      else if svc_name svc = ''orchestration'' then svc\<lparr>upgrade_hook := heat_upgrade ue ce svc version\<rparr>
      else if svc_name svc = ''identity'' then svc\<lparr>upgrade_hook := keystone_upgrade ue ce svc version\<rparr>
      else if svc_name svc = ''compute'' then svc\<lparr>upgrade_hook := nova_upgrade ue ce svc version\<rparr>
      else if svc_name svc = ''redis'' then svc\<lparr>before_apply := redis_before_apply ue ce svc\<rparr>
      else if svc_name svc = ''networking''
        then svc\<lparr>before_apply := neutron_before_apply ue ce svc version, after_apply := neutron_after_apply ue ce svc,
               upgrade_hook := neutron_upgrade ue ce svc version\<rparr>
      else svc)"

section \<open>Loops that stop at the first failure\<close>

text \<open>\<open>steps_done R xs s t\<close>: the steps \<open>xs\<close> lead from \<open>s\<close> to \<open>t\<close>, each as \<open>R\<close> says.\<close>

fun steps_done :: "('a \<Rightarrow> 's \<Rightarrow> 's \<Rightarrow> bool) \<Rightarrow> 'a list \<Rightarrow> 's \<Rightarrow> 's \<Rightarrow> bool" where
  "steps_done R [] s t \<longleftrightarrow> s = t"
| "steps_done R (x # xs) s t \<longleftrightarrow> (\<exists>u. R x s u \<and> steps_done R xs u t)"

lemma aforeach_done:
  assumes "\<And>x s t. f x s = (Inr (), t) \<Longrightarrow> R x s t" and "aforeach f xs s = (Inr (), t)"
  shows "steps_done R xs s t"
  using assms(2) by (induction xs arbitrary: s) (auto simp: aret_def abind_eq_Inr intro: assms(1))

lemma aforeach_stops:
  assumes "\<And>x s t. f x s = (Inr (), t) \<Longrightarrow> R x s t" and "aforeach f xs s = (Inl e, t)"
  shows "\<exists>ys x zs u. xs = ys @ x # zs \<and> steps_done R ys s u \<and> f x u = (Inl e, t)"
  using assms(2)
proof (induction xs arbitrary: s)
  case Nil
  then show ?case by (simp add: aret_def)
next
  case (Cons x xs)
  consider "f x s = (Inl e, t)" | u where "f x s = (Inr (), u)" "aforeach f xs u = (Inl e, t)"
    using Cons.prems by (auto simp: abind_eq_Inl)
  then show ?case
  proof cases
    case 1
    then have "x # xs = [] @ x # xs \<and> steps_done R [] s s \<and> f x s = (Inl e, t)" by simp
    then show ?thesis by blast
  next
    case 2
    then obtain ys y zs v where ih: "xs = ys @ y # zs" "steps_done R ys u v" "f y v = (Inl e, t)" using Cons.IH by blast
    have "steps_done R (x # ys) s v" using ih(2) assms(1)[OF 2(1)] by auto
    then have "x # xs = (x # ys) @ y # zs \<and> steps_done R (x # ys) s v \<and> f y v = (Inl e, t)" using ih by simp
    then show ?thesis by blast
  qed
qed

section \<open>An object is complete when enabling it returns\<close>

definition child_complete ::
  "'w svc_world_scheme upgrade_env \<Rightarrow> 'w svc_world_scheme controller_env \<Rightarrow> 'w svc_world_scheme service \<Rightarrow> string \<Rightarrow>
   child_object \<Rightarrow> 'w svc_world_scheme \<Rightarrow> bool" where
  "child_complete ue ce svc version co t \<longleftrightarrow>
     (\<exists>s u. child_exists ce co s = (Inr True, u) \<and> kind_ready (co_kind co) (ue_object ue (co_kind co) (co_name co) u) = Inr True \<and>
       images_missing ue ce svc co version u = (Inr False, t))"

lemma child_completed_means:
  assumes "child_completed ue ce svc co version s = (Inr True, t)"
  shows "child_complete ue ce svc version co t"
proof -
  obtain found u where f: "child_exists ce co s = (Inr found, u)"
    and rest: "(if \<not> found then aret False
     else abind (aget (ue_object ue (co_kind co) (co_name co))) (\<lambda>obj.
          abind (alift (kind_ready (co_kind co) obj)) (\<lambda>ready.
          if \<not> ready then aret False
          else abind (images_missing ue ce svc co version) (\<lambda>missing. aret (\<not> missing))))) u = (Inr True, t)"
    using assms unfolding child_completed_def by (rule abind_InrE)
  have found: found using rest by (cases found) (simp_all add: aret_def)
  obtain ready where k: "kind_ready (co_kind co) (ue_object ue (co_kind co) (co_name co) u) = Inr ready"
    and rest2: "(if \<not> ready then aret False
          else abind (images_missing ue ce svc co version) (\<lambda>missing. aret (\<not> missing))) u = (Inr True, t)"
    using rest found by (auto simp: abind_aget_at elim: alift_InrE)
  have ready using rest2 by (cases ready) (simp_all add: aret_def)
  moreover obtain missing where "images_missing ue ce svc co version u = (Inr missing, t)" "\<not> missing"
    using rest2 \<open>ready\<close> by (auto simp: abind_eq_Inr aret_def)
  ultimately show ?thesis using f found k unfolding child_complete_def by auto
qed

lemma enable_loop_completes:
  "enable_loop n ue ce svc co version True diff s = (Inr (), t) \<Longrightarrow> child_complete ue ce svc version co t"
proof (induction n arbitrary: s)
  case 0
  then show ?case by (simp add: araise_def)
next
  case (Suc n)
  obtain u completed v where c: "child_completed ue ce svc co version u = (Inr completed, v)"
    and rest: "(if completed then aret () else enable_loop n ue ce svc co version True diff) v = (Inr (), t)"
    using Suc.prems by (auto elim!: abind_InrE)
  then show ?case using Suc.IH child_completed_means by (cases completed) (auto simp: aret_def)
qed

lemma enable_completes:
  assumes "enable ue ce svc co version True extra_values s = (Inr (), t)"
  shows "child_complete ue ce svc version co t"
  using assms unfolding enable_def by (auto elim!: abind_InrE alift_InrE intro: enable_loop_completes)

text \<open>One step of an upgrade, as seen from outside.\<close>

definition rolled_out ::
  "'w svc_world_scheme upgrade_env \<Rightarrow> 'w svc_world_scheme controller_env \<Rightarrow> 'w svc_world_scheme service \<Rightarrow> string \<Rightarrow>
   string \<times> string \<Rightarrow> 'w svc_world_scheme \<Rightarrow> 'w svc_world_scheme \<Rightarrow> bool" where
  "rolled_out ue ce svc version = (\<lambda>(kind, name) s t.
     \<exists>co. get_child_object ce svc (mspec s) kind name = Inr co \<and> co_kind co = kind \<and> co_name co = name \<and>
       child_complete ue ce svc version co t)"

lemma child_object_named:
  "get_child_object ce svc spec kind name = Inr co \<Longrightarrow> co_kind co = kind \<and> co_name co = name"
proof -
  assume "get_child_object ce svc spec kind name = Inr co"
  then obtain chs where "(case filter (\<lambda>co. co_kind co = kind \<and> co_name co = name) chs of
      [] \<Rightarrow> Inl IndexError | co # _ \<Rightarrow> Inr co) = Inr co"
    unfolding get_child_object_def by (rule rbind_InrE)
  then obtain l where "filter (\<lambda>co. co_kind co = kind \<and> co_name co = name) chs = co # l"
    by (cases "filter (\<lambda>co. co_kind co = kind \<and> co_name co = name) chs") auto
  then have "co \<in> set (filter (\<lambda>co. co_kind co = kind \<and> co_name co = name) chs)" by simp
  then show ?thesis by simp
qed

lemma upgrade_step_rolls_out:
  assumes "upgrade_step ue ce svc version purge_jobs extra_values step s = (Inr (), t)"
  shows "rolled_out ue ce svc version step s t"
proof -
  obtain kind name where step: "step = (kind, name)" by fastforce
  obtain co u where co: "get_child_object ce svc (mspec s) kind name = Inr co"
    and "enable ue ce svc co version True extra_values u = (Inr (), t)"
    using assms by (auto simp: step upgrade_step_def abind_aget_at elim!: abind_InrE alift_InrE)
  then show ?thesis using enable_completes child_object_named[OF co] by (auto simp: rolled_out_def step)
qed

section \<open>When enabling returns\<close>

lemma enable_loop_iff:
  assumes set: "\<And>s. set_chart_values ce (co_chart co) diff s = (Inr (), upd s)"
    and seen: "\<And>s. child_completed ue ce svc co version s = (Inr (P s), s)"
  shows "(\<exists>t. enable_loop n ue ce svc co version True diff s = (Inr (), t)) =
    (\<exists>k < n. P (((\<lambda>s. ce_tick ce (upd s)) ^^ Suc k) s))"
proof (induction n arbitrary: s)
  case 0
  then show ?case by (simp add: araise_def)
next
  case (Suc n)
  let ?f = "\<lambda>s. ce_tick ce (upd s)"
  have run: "enable_loop (Suc n) ue ce svc co version True diff s =
      (if P (?f s) then (Inr (), ?f s) else enable_loop n ue ce svc co version True diff (?f s))"
    using set seen by (simp add: abind_def amod_def aret_def)
  have "(\<exists>k < Suc n. P ((?f ^^ Suc k) s)) = (P (?f s) \<or> (\<exists>k < n. P ((?f ^^ Suc k) (?f s))))"
    by (simp only: Ex_less_Suc2 funpow_simps_right o_apply funpow.simps id_apply)
  then show ?case unfolding run using Suc.IH by auto
qed

lemma athen_aret: "abind m (\<lambda>_. aret ()) = m"
  by (rule ext) (auto simp: abind_def aret_def split: prod.splits sum.splits)

text \<open>The agents of the networks are upgraded with the Tungsten Fabric backend only.\<close>

lemma neutron_upgrade_agents:
  assumes "mspec s = spec" and "network_backend spec = Inr b" and "get_in_str spec [''features'', ''neutron'', ''backend''] JNull = Inr b"
    and "\<not> py_eq b (JStr ''tungstenfabric'')"
  shows "neutron_upgrade ue ce svc version s = with_kopf_exception (upgrade_steps ue ce svc version True None
    [(''Job'', ''neutron-db-sync''),
     (if py_eq b (JStr ''ml2/ovn'') then ''DaemonSet'' else ''Deployment'', ''neutron-server'')]) s"
  by (simp only: neutron_upgrade_def with_kopf_exception_def abind_aget_at abind_alift_at assms if_False aforeach.simps athen_aret)

end
