(* ===== verification/SimServices.thy ===== *)
theory SimServices
  imports SimDeployment SimSecrets ServiceUpgrades
begin

text \<open>
  Concrete instances for the arguments and the upgrades of the services: a specification with Keycloak, the
  secrets of two services, Ceph parameters, and a cluster whose job is complete.  The witnesses use them.
\<close>

section \<open>Arguments\<close>

definition sim_federation :: "unit secret_world_scheme federation_env" where
  "sim_federation = \<lparr>fed_vs = value_strategy, fed_str = \<lambda>_. ''?'', fed_secrets = sim_secret_env, fed_load = Inr,
     fed_urandom = sim_urandom\<rparr>"

definition sim_keycloak_spec :: json where
  "sim_keycloak_spec = JObj [(''public_domain_name'', JStr ''it.just''),
     (''features'', JObj [(''services'', JList []), (''keystone'', JObj [(''keycloak'', JObj
       [(''enabled'', JBool True), (''url'', JStr ''https://k''), (''oidc'', JObj [(''OIDCSSLValidateServer'', JBool False)])])])])]"

definition sim_no_secrets :: "unit secret_world_scheme" where
  "sim_no_secrets = \<lparr>secrets = []\<rparr>"

lemma sim_federation_runs:
  "map_sum id (\<lambda>v. jlookup v [''federation'', ''openid'', ''enabled''])
     (fst (get_federation_args sim_federation ''os'' sim_keycloak_spec sim_no_secrets)) = Inr (Some (JBool True))"
  by code_simp

text \<open>A short text for the accounts of each of three services.\<close>

definition sim_accounts :: "(string \<times> string \<times> string list) list" where
  "sim_accounts = [(''networking'', ''n'', [''neutron'', ''test'']), (''identity'', ''i'', [''keystone'', ''osctl'']),
     (''placement'', ''p'', [''placement'', ''test''])]"

definition sim_texts :: secret_env where
  "sim_texts = \<lparr>json_dumps = text_of, json_loads = map_of (map (\<lambda>(_, t, accounts).
     (t, JObj (map (\<lambda>a. (a, creds a ''x'')) accounts))) sim_accounts)\<rparr>"

definition sim_identities :: "unit secret_world_scheme" where
  "sim_identities = \<lparr>secrets = concat (map (\<lambda>(service, t, _). map (\<lambda>n. ((''os'', n),
       \<lparr>s_data = [(''identity'', b64encode t)], s_priority = None, s_labels = []\<rparr>)) (secret_names (secret_base_name service)))
     sim_accounts)\<rparr>"

definition sim_args_env :: "unit secret_world_scheme args_env" where
  "sim_args_env = \<lparr>ar_federation = sim_federation\<lparr>fed_secrets := sim_texts\<rparr>, ar_load = \<lambda>_. Inr, ar_generate = \<lambda>_ _. aret jempty,
     ar_urlsplit = \<lambda>_. Inl ValueError, ar_order = id, ar_sorted = id, ar_sha256 = id, ar_namespace = ''os'',
     ar_ceph_namespace = ''ceph'', ar_redis_namespace = ''redis'', ar_proxy = None, ar_bgp_secret = (''os'', ''bgp''),
     ar_policies = \<lambda>_. jempty, ar_childs = \<lambda>_. jempty\<rparr>"

definition sim_classes :: service_registry where
  "sim_classes = map (\<lambda>(n, accounts). (n, \<lparr>sc_service = n, sc_accounts = accounts, sc_protected = [], sc_kind = Service_secret\<rparr>))
     [(''networking'', []), (''identity'', [''osctl'']), (''placement'', [])]"

definition sim_nova_spec :: json where
  "sim_nova_spec = JObj [(''features'', JObj [(''services'', JList [JStr ''compute''])])]"

lemma sim_keystone_creds:
  "map_sum id keys (fst (get_keystone_creds sim_args_env sim_classes ''compute'' sim_nova_spec ''caracal'' sim_identities)) =
    Inr [''neutron'', ''osctl'', ''placement'']"
  by code_simp

section \<open>Ceph\<close>

definition sim_ceph :: os_ceph_params where
  "sim_ceph = \<lparr>admin_key = ''secret'', mon_endpoints = [(167772161, 6789), (3232235777, 3300)],
     ceph_services = [\<lparr>creds_user = User_cinder, creds_key = ''k1'', creds_key_name = ''client.cinder'',
        creds_pools = [\<lparr>device_class = ''hdd'', role_of_pool = Role_volumes, pool_name = ''volumes-hdd''\<rparr>,
          \<lparr>device_class = ''hdd'', role_of_pool = Role_images, pool_name = ''images-hdd''\<rparr>]\<rparr>],
     ceph_rgw = Some \<lparr>internal_url = ''https://rgw'', external_url = ''https://rgw.it.just''\<rparr>\<rparr>"

lemma sim_ceph_ok: "ceph_params_ok sim_ceph"
  by code_simp

section \<open>Upgrades\<close>

definition sim_job :: json where
  "sim_job = JObj [(''status'', JObj [(''conditions'', JList [JObj [(''type'', JStr ''Complete''), (''status'', JStr ''True'')]])]),
     (''spec'', JObj [(''template'', JObj [(''spec'', JObj [(''containers'', JList [JObj
       [(''name'', JStr ''sync''), (''image'', JStr ''nova:2'')]])])])])]"

definition sim_ue :: "sim_world upgrade_env" where
  "sim_ue = \<lparr>ue_object = \<lambda>_ _ _. sim_job, ue_enable_rounds = 2, ue_disable_rounds = 2, ue_replica_rounds = 1,
     ue_list = \<lambda>_ _. Inr [], ue_scale = \<lambda>_ _. aret (), ue_save_secret = \<lambda>_ _. aret (), ue_cmr = aret False,
     ue_pod_generation = \<lambda>_. aret (), ue_dumps = \<lambda>_. []\<rparr>"

lemma sim_upgrade_runs:
  "fst (upgrade_steps sim_ue sim_ce sim_compute ''caracal'' False None [(''Job'', ''nova-db-sync'')] sim_installed_nova) = Inr ()"
  by code_simp

lemma sim_upgrade_sets_image:
  "map_option (\<lambda>v. jlookup v [''images'', ''tags'', ''nova_api'']) (map_of (sim_releases (snd (upgrade_steps sim_ue sim_ce sim_compute ''caracal''
     False None [(''Job'', ''nova-db-sync'')] sim_installed_nova))) ''openstack-nova'') = Some (Some (JStr ''nova:2''))"
  by code_simp

end
