(* ===== verification/Spec2Isabelle.thy ===== *)
theory Spec2Isabelle
  imports AdmissionController MaintenanceSteps Kube Cron SimCloud Health SimDeployment SimSecrets SimOvn ServiceTypes SimServices
begin

text \<open>
  A model of the OpenStack controller (\<open>src/openstack_controller\<close>), the Kubernetes operator that turns an
  \<open>OpenStackDeployment\<close> into Helm releases, keeps them up to date, rotates their secrets and takes nodes
  in and out of maintenance.  Paths below are relative to that directory.

  \<^bold>\<open>How Python is modelled.\<close>  JSON and YAML values are the datatype \<open>json\<close> of \<open>PyValue\<close>: dictionaries are
  association lists in insertion order, integers are unbounded, floats are rational, strings are lists of
  8-bit characters.  A function that may raise returns \<open>'a res\<close>, the sum of an exception (\<open>py_exc\<close>) and a
  value; code that also changes the world is an \<open>('s, 'a) act\<close>, a function from the state to an outcome
  and the new state, so that what was written before an exception stays written.  \<open>rbind\<close>, \<open>abind\<close>,
  \<open>atry\<close>, \<open>rforeach\<close>, \<open>aforeach\<close> and \<open>wait_until\<close> (\<open>Prelude\<close>) are the sequencing, the \<open>try\<close>, the loops
  and the polling of the source.  \<open>keeps\<close> (a frame) and \<open>triple\<close> (a Hoare triple with a postcondition for
  exceptions) are the two ways effects are specified.

  \<^bold>\<open>Parts and theories.\<close>
  \<^item> The admission webhook, \<open>admission/\<close>: \<open>AdmissionOpenstack\<close>, \<open>AdmissionServices\<close> and
    \<open>AdmissionController\<close>, one definition for each validator and \<open>on_post\<close> for the handler.
  \<^item> Layering, \<open>layers.py\<close> and the merge of \<open>utils.py\<close>: \<open>Merger\<close> (locale \<open>deepmerge\<close>) and \<open>Layers\<close>; the other
    functions of \<open>utils.py\<close> are in \<open>Utils\<close> and \<open>Cron\<close>, the tables of \<open>constants.py\<close> in \<open>Constants\<close>.
  \<^item> The status object, \<open>osdplstatus.py\<close>: \<open>StatusObject\<close>, every write a JSON merge patch.  Health
    (\<open>health.py\<close>, \<open>batch_health.py\<close>, \<open>controllers/health.py\<close>): \<open>Health\<close>, which writes into it.
  \<^item> Helm, services and the deployment: \<open>Helm\<close> (\<open>helm.py\<close>, locale \<open>helm_binary\<close>), \<open>ServicesBase\<close>
    (\<open>services/base.py\<close>, locale \<open>service_cluster\<close>) and \<open>OsdplController\<close>
    (\<open>controllers/openstackdeployment.py\<close> and \<open>cache.py\<close>; locales \<open>task_contract\<close> and
    \<open>managed_services\<close>).  The handler renders each service, the service removes what is immutable and
    installs its releases through Helm, and writes its status; \<open>SimDeployment\<close> is a deployment on which
    all of this runs.
  \<^item> The single services, \<open>services/__init__.py\<close>: \<open>ServiceArguments\<close> and \<open>TemplateArguments\<close> (\<open>template_args\<close> of the
    base class and of every service: the credentials they read, the secrets they create for it and those they
    share), \<open>Federation\<close> (\<open>FederationMixin\<close>), \<open>CephApi\<close> (\<open>ceph_api.py\<close> and the services that use Ceph) and
    \<open>ServiceUpgrades\<close> (\<open>HelmBundleMixin\<close> of \<open>kube.py\<close>, the upgrades in steps, and what Redis and Neutron do around
    \<open>apply\<close>).  \<open>SimServices\<close> has instances of them.
  \<^item> Secrets: \<open>Secrets\<close> and \<open>SecretRotation\<close> (\<open>secrets.py\<close>), \<open>SecretHandlers\<close> (\<open>controllers/secrets.py\<close>), and
    \<open>ResourceView\<close> (\<open>resource_view.py\<close>), which finds the charts a secret touches; \<open>SimSecrets\<close> has the
    concrete JSON text and the worlds of the witnesses.
  \<^item> Maintenance: \<open>Maintenance\<close> (\<open>maintenance.py\<close> and the nodes of \<open>kube.py\<close>), \<open>MaintenanceHandlers\<close>
    (\<open>controllers/maintenance.py\<close>, \<open>controllers/node.py\<close>; locale \<open>maintenance_service\<close>), the hooks of the
    services in \<open>ServiceMaintenance\<close>, \<open>NovaMaintenance\<close> and \<open>OrderedServices\<close> (\<open>services/__init__.py\<close>) over
    the OpenStack client \<open>OpenStackApi\<close> (\<open>openstack_utils.py\<close>, locale \<open>openstack_cloud\<close>), with the cloud
    \<open>SimCloud\<close>.  \<open>MaintenanceSteps\<close> interleaves the handlers: the step relation, its reachable states and
    the invariant on the nodes in maintenance.
  \<^item> Kubernetes objects, \<open>kube.py\<close>: \<open>Kube\<close> (readiness, ownership, finalizers, jobs, waiting) and
    \<open>Workloads\<close> (stateful sets, daemon sets, claims).
  \<^item> The migration from OVS to OVN, \<open>cli/ovs_ovn_migration.py\<close>: \<open>OvnWorkflow\<close> (the stages, the config map that
    records them and the prompts; locale \<open>stage_contract\<close>), \<open>OvnMigration\<close> (the stages themselves, over Helm, the
    services and the daemon sets; locales \<open>ovn_cluster\<close> and \<open>dataplane_switch\<close>, of which the workflow is a
    \<open>stage_contract\<close>), \<open>OvnChecks\<close> (the preflight checks) and \<open>SimOvn\<close> (a cluster on which it runs).
  \<^item> \<open>ServiceTypes\<close>: the type invariant of the status object and the specification under the operations of a
    service.

  \<^bold>\<open>What the properties say.\<close>  They follow the parts: which requests the webhook admits and how it answers;
  what a handled deployment, a service, an upgrade and a deletion leave in the status and in Helm, and that
  dependent tasks end; that a service is upgraded one object after the other; what a rotation of credentials
  writes; which credentials a service reads and what Keystone is told about federation; that the Ceph
  parameters survive their packed form; which network policies result; that never
  more nodes are in maintenance than configured, what each maintenance handler does to the lock of its
  node, and that the live migration of a host ends; that the stored health is current; that the user's
  values win in every merge; which cron schedules are accepted; and that the migration of the network
  backend is resumable, asks before each stage, respects its thresholds and is let through by the preflight
  checks only when ports can reach DHCP.  A property that describes a behaviour
  one would not expect says so in its text.

  \<^bold>\<open>Bounds and fuel.\<close>  A loop the source leaves unbounded, or bounds by time, gets a number of rounds.
  \<open>wait_until n\<close> polls at most \<open>n\<close> times and \<open>wait_until_iff\<close> says exactly when it succeeds; running out is the
  outcome \<open>Waiting\<close>, \<open>TimeoutError\<close> or \<open>still_waiting\<close>, never success.  The fuel of the live migration is
  enough when it exceeds the attempts left for all servers (\<open>migration_terminates\<close>); the rounds of the
  tasks of a deployment are enough when they exceed the depth of the dependencies
  (\<open>dependent_tasks_finish\<close>).  Enabling an object of a service, which \<open>asyncio.wait_for\<close> ends by time, gets
  \<open>ue_enable_rounds\<close> rounds, and \<open>enable_loop_iff\<close> says when they are enough.  The three tries of the dataplane are a bound of the source.  Retries of Helm end with \<open>out_of_tries\<close>.

  \<^bold>\<open>What is a parameter.\<close>  Third-party code enters as fields of environment records or locale parameters: the
  Kubernetes and OpenStack APIs, the Helm binary, Jinja templates, JSON Schema, jsonpath, deepmerge,
  digests, random passwords, keys and certificates, \<open>urlsplit\<close> and the clock.  What a proof needs of them is an assumption of
  a locale, and every locale is interpreted.

  \<^bold>\<open>What is not modelled.\<close>  The handlers are sequential: \<open>asyncio\<close> may switch between tasks while one waits, and
  only maintenance, where the source takes a lock against it, is modelled with interleaving.  The order in
  which Python walks a set is an argument where it shows.  Left out are logging; the Prometheus exporter,
  \<open>osctl\<close>, the websocket client and the tempest filters, which read APIs and format the results; the
  reading of the environment in \<open>settings.py\<close>; and how a key or a certificate is made.
\<close>

section \<open>Admission\<close>

text \<open>A deployment of the given release, and a request to change one into another.\<close>

definition ex_osdpl :: "OpenStackVersion \<Rightarrow> json" where
  "ex_osdpl v = JObj [(''spec'', JObj
     [(''openstack_version'', JStr (version_name v)), (''preset'', JStr ''compute''),
      (''size'', JStr ''tiny''),
      (''features'', JObj [(''services'', JList [JStr ''instance-ha''])])])]"

definition ex_update :: "OpenStackVersion \<Rightarrow> OpenStackVersion \<Rightarrow> (string \<times> json) list" where
  "ex_update v w =
     [(''operation'', JStr ''UPDATE''), (''name'', JStr ''osh-dev''), (''namespace'', JStr ''openstack''),
      (''oldObject'', ex_osdpl v), (''object'', ex_osdpl w)]"

definition ex_env :: admission_env where
  "ex_env = \<lparr>osdpl_present = True, osdpl_status_of = \<lambda>_ _. Inr (JStr ''APPLIED'')\<rparr>"

text \<open>
  C1.  An admitted update of an OpenStackDeployment names known releases on both sides, never moves to
  master, and changes the release only along an allowed edge: to the next release, or from one SLURP
  release to the next (Yoga to Antelope, Antelope to Caracal).  A release change leaves the rest of
  the specification as it was and is admitted only while the deployment is APPLIED.
\<close>

theorem upgrade_admission:
  assumes "openstack_validate env (JObj r) = Inr ()"
    and "map_of r ''operation'' = Some (JStr ''UPDATE'')"
    and "map_of r ''oldObject'' = Some old_obj" and "map_of r ''object'' = Some new_obj"
  shows "\<exists>v w. release_of old_obj = Inr v \<and> release_of new_obj = Inr w \<and> w \<noteq> master \<and>
    (v = w \<or> upgrade_edge v w \<and> py_eq (spec_rest new_obj) (spec_rest old_obj) \<and>
       is_osdpl_locked env (JObj r) = Inr False)"
  using update_admitted[OF assms(1) refl assms(2-4)] .

theorem upgrade_admission_witness:
  "\<exists>v w. release_of (ex_osdpl yoga) = Inr v \<and> release_of (ex_osdpl antelope) = Inr w \<and> w \<noteq> master \<and>
    (v = w \<or> upgrade_edge v w \<and> py_eq (spec_rest (ex_osdpl antelope)) (spec_rest (ex_osdpl yoga)) \<and>
       is_osdpl_locked ex_env (JObj (ex_update yoga antelope)) = Inr False)"
proof (rule upgrade_admission)
  show "openstack_validate ex_env (JObj (ex_update yoga antelope)) = Inr ()" by code_simp
  show "map_of (ex_update yoga antelope) ''operation'' = Some (JStr ''UPDATE'')" by code_simp
  show "map_of (ex_update yoga antelope) ''oldObject'' = Some (ex_osdpl yoga)" by code_simp
  show "map_of (ex_update yoga antelope) ''object'' = Some (ex_osdpl antelope)" by code_simp
qed


definition ex_credentials :: "(string \<times> json) list \<Rightarrow> json" where
  "ex_credentials groups = JObj [(''status'', JObj [(''credentials'', JObj groups)])]"

definition ex_rotation :: "int \<Rightarrow> json" where
  "ex_rotation i = JObj [(''rotation_id'', JInt i)]"


text \<open>
  A group without a rotation id ends the check: when the first group of the old status has none,
  any change of the other groups is admitted, also a decrease or a removal.
\<close>

theorem rotation_check_ends_early:
  assumes "is_osdpl_locked env rr = Inr False"
    and "jpath old_obj [''status'', ''credentials''] = Inr (JObj ((g, JObj d) # olds))"
    and "''rotation_id'' \<notin> set (keys d)"
    and "jpath new_obj [''status'', ''credentials''] = Inr (JObj news)"
  shows "validate_credentials env old_obj new_obj rr = Inr ()"
  using assms by (simp add: validate_credentials_def del: jpath.simps py_eq_simps)

theorem rotation_check_ends_early_witness:
  "validate_credentials ex_env
     (ex_credentials [(''service'', JObj []), (''admin'', ex_rotation 5)])
     (ex_credentials [(''service'', JObj []), (''admin'', ex_rotation 1)]) (JObj (ex_update yoga yoga)) = Inr ()"
proof (rule rotation_check_ends_early)
  show "is_osdpl_locked ex_env (JObj (ex_update yoga yoga)) = Inr False" by code_simp
  show "jpath (ex_credentials [(''service'', JObj []), (''admin'', ex_rotation 5)]) [''status'', ''credentials''] =
      Inr (JObj ((''service'', JObj []) # [(''admin'', ex_rotation 5)]))" by (simp add: ex_credentials_def)
  show "''rotation_id'' \<notin> set (keys [])" by simp
  show "jpath (ex_credentials [(''service'', JObj []), (''admin'', ex_rotation 1)]) [''status'', ''credentials''] =
      Inr (JObj [(''service'', JObj []), (''admin'', ex_rotation 1)])" by (simp add: ex_credentials_def)
qed


definition ex_review_env :: review_env where
  "ex_review_env = \<lparr>env_admission = ex_env, env_schema_ok = \<lambda>_ _. True, env_review_ok = \<lambda>_. Inr (),
     env_merge_spec = Inr,
     env_set_order = \<lambda>s. filter (\<lambda>w. JStr w \<in> s) VALIDATORS\<rparr>"

definition ex_request :: "OpenStackVersion \<Rightarrow> OpenStackVersion \<Rightarrow> json" where
  "ex_request v w = JObj (ex_update v w @
     [(''kind'', JObj [(''kind'', JStr ''OpenStackDeployment'')]), (''uid'', JStr ''1'')])"



text \<open>
  C4.  A review of a specification that passes ran the general validator, the one for the node
  specific part and the validator of every enabled service that has one, whatever the order in which
  the set of services is walked.
\<close>

theorem review_is_complete:
  assumes "review_osdpl env rr = Inr ()"
    and "jitem rr ''operation'' = Inr op" and "\<not> py_eq op (JStr ''DELETE'')"
    and "jget rr ''subResource'' JNull = Inr sub" and "\<not> py_eq sub (JStr ''status'')"
    and "jpath rr [''object'', ''spec''] = Inr spec"
    and "env_merge_spec env spec = Inr spec_in_force" and "services spec_in_force [] = Inr (to_apply, dels)"
    and "set (env_set_order env (to_apply \<inter> JStr ` set VALIDATORS)) =
      {w. JStr w \<in> to_apply \<and> w \<in> set VALIDATORS}"
  shows "openstack_validate (env_admission env) rr = Inr () \<and> nodes_validate (env_schema_ok env) rr = Inr () \<and>
    (\<forall>w. JStr w \<in> to_apply \<and> w \<in> set VALIDATORS \<longrightarrow> run_validate env w rr = Inr ())"
  using review_runs_all[OF assms] .

theorem review_is_complete_witness:
  "openstack_validate (env_admission ex_review_env) (ex_request yoga zed) = Inr () \<and>
   nodes_validate (env_schema_ok ex_review_env) (ex_request yoga zed) = Inr ()"
proof -
  have "openstack_validate (env_admission ex_review_env) (ex_request yoga zed) = Inr () \<and>
   nodes_validate (env_schema_ok ex_review_env) (ex_request yoga zed) = Inr () \<and>
   (\<forall>w. JStr w \<in> {JStr ''instance-ha''} \<and> w \<in> set VALIDATORS \<longrightarrow>
      run_validate ex_review_env w (ex_request yoga zed) = Inr ())"
  proof (rule review_is_complete)
    let ?spec = "JObj [(''openstack_version'', JStr ''zed''), (''preset'', JStr ''compute''),
        (''size'', JStr ''tiny''), (''features'', JObj [(''services'', JList [JStr ''instance-ha''])])]"
    show "review_osdpl ex_review_env (ex_request yoga zed) = Inr ()" by code_simp
    show "jitem (ex_request yoga zed) ''operation'' = Inr (JStr ''UPDATE'')" by code_simp
    show "\<not> py_eq (JStr ''UPDATE'') (JStr ''DELETE'')" by simp
    show "jget (ex_request yoga zed) ''subResource'' JNull = Inr JNull" by code_simp
    show "\<not> py_eq JNull (JStr ''status'')" by simp
    show "jpath (ex_request yoga zed) [''object'', ''spec''] = Inr ?spec" by code_simp
    show "env_merge_spec ex_review_env ?spec = Inr ?spec" by (simp add: ex_review_env_def)
    show "services ?spec [] = Inr ({JStr ''instance-ha''}, {})" by (simp add: services_def)
    show "set (env_set_order ex_review_env ({JStr ''instance-ha''} \<inter> JStr ` set VALIDATORS)) =
        {w. JStr w \<in> {JStr ''instance-ha''} \<and> w \<in> set VALIDATORS}"
      by (auto simp: ex_review_env_def)
  qed
  then show ?thesis by blast
qed

text \<open>
  Which services are admitted with which release and preset: master is refused; instance-ha needs
  Victoria, shared-file-system needs Yoga, event ends with Xena, and neither baremetal nor
  shared-file-system goes with the Tungsten Fabric preset.  Nothing else makes these checks fail.
\<close>

theorem service_guards:
  assumes "jlookup obj [''spec''] = Some (JObj sp)"
    and "map_of sp ''openstack_version'' = Some (JStr (version_name v))"
    and "map_of sp ''preset'' = Some (JStr preset)"
    and "map_of sp ''features'' = Some (JObj f)"
    and "map_of f ''services'' = Some (JList (map JStr svcs))"
  shows "deny_master obj = Inr () \<and> check_masakari_allowed obj = Inr () \<and>
      check_baremetal_allowed obj = Inr () \<and> check_panko_allowed obj = Inr () \<and> check_manila_allowed obj = Inr ()
    \<longleftrightarrow> v \<noteq> master \<and> (''instance-ha'' \<in> set svcs \<longrightarrow> victoria \<le> v) \<and>
      (''baremetal'' \<in> set svcs \<longrightarrow> preset \<noteq> ''compute-tf'') \<and> (''event'' \<in> set svcs \<longrightarrow> v < xena) \<and>
      (''shared-file-system'' \<in> set svcs \<longrightarrow> preset \<noteq> ''compute-tf'' \<and> yoga \<le> v)"
  unfolding service_guards_iff[OF assms]
  by (auto simp: deny_if_def deny_def rbind_def not_less not_le)

theorem service_guards_witness:
  "deny_master (ex_osdpl yoga) = Inr () \<and> check_masakari_allowed (ex_osdpl yoga) = Inr () \<and>
      check_baremetal_allowed (ex_osdpl yoga) = Inr () \<and> check_panko_allowed (ex_osdpl yoga) = Inr () \<and>
      check_manila_allowed (ex_osdpl yoga) = Inr ()
    \<longleftrightarrow> yoga \<noteq> master \<and> (''instance-ha'' \<in> set [''instance-ha''] \<longrightarrow> victoria \<le> yoga) \<and>
      (''baremetal'' \<in> set [''instance-ha''] \<longrightarrow> ''compute'' \<noteq> ''compute-tf'') \<and>
      (''event'' \<in> set [''instance-ha''] \<longrightarrow> yoga < xena) \<and>
      (''shared-file-system'' \<in> set [''instance-ha''] \<longrightarrow> ''compute'' \<noteq> ''compute-tf'' \<and> yoga \<le> yoga)"
proof (rule service_guards)
  let ?f = "[(''services'', JList [JStr ''instance-ha''])]"
  let ?sp = "[(''openstack_version'', JStr ''yoga''), (''preset'', JStr ''compute''),
      (''size'', JStr ''tiny''), (''features'', JObj ?f)]"
  show "jlookup (ex_osdpl yoga) [''spec''] = Some (JObj ?sp)" by (simp add: ex_osdpl_def)
  show "map_of ?sp ''openstack_version'' = Some (JStr (version_name yoga))" by simp
  show "map_of ?sp ''preset'' = Some (JStr ''compute'')" by simp
  show "map_of ?sp ''features'' = Some (JObj ?f)" by simp
  show "map_of ?f ''services'' = Some (JList (map JStr [''instance-ha'']))" by simp
qed

text \<open>
  A networking specification admitted with the Tungsten Fabric preset does not name the OVN
  backend, and enables none of IPsec, BGPVPN, VPNaaS, dynamic routing and the port prober.
\<close>

theorem tungsten_fabric_networking:
  assumes "neutron_validate schema_ok rr = Inr ()"
    and "jpath rr [''object'', ''spec''] = Inr spec"
    and "jitem spec ''preset'' = Inr (JStr ''compute-tf'')"
    and "jpath spec [''features'', ''neutron''] = Inr nf"
  shows "(\<forall>b. jget nf ''backend'' (JStr ''ml2'') = Inr b \<longrightarrow> \<not> py_eq b (JStr ''ml2/ovn'')) \<and>
    (\<forall>k \<in> {''ipsec'', ''bgpvpn''}. \<exists>x. jget nf k disabled = Inr x \<and> truthy_item x ''enabled'' = Inr False) \<and>
    (\<forall>k \<in> {''vpnaas'', ''dynamic_routing'', ''portprober''}.
       \<exists>x. jpath_get nf [''extensions''] k disabled = Inr x \<and> truthy_item x ''enabled'' = Inr False)"
  using neutron_tf[OF assms] .

definition ex_tf_spec :: json where
  "ex_tf_spec = JObj [(''preset'', JStr ''compute-tf''), (''openstack_version'', JStr ''yoga''),
     (''features'', JObj [(''neutron'', JObj [(''backend'', JStr ''tungstenfabric'')])])]"

definition ex_tf_request :: json where
  "ex_tf_request = JObj [(''object'', JObj [(''spec'', ex_tf_spec)])]"

theorem tungsten_fabric_networking_witness:
  "\<exists>x. jpath_get (JObj [(''backend'', JStr ''tungstenfabric'')]) [''extensions''] ''portprober'' disabled = Inr x \<and>
     truthy_item x ''enabled'' = Inr False"
proof -
  have "(\<forall>b. jget (JObj [(''backend'', JStr ''tungstenfabric'')]) ''backend'' (JStr ''ml2'') = Inr b \<longrightarrow>
      \<not> py_eq b (JStr ''ml2/ovn'')) \<and>
    (\<forall>k \<in> {''ipsec'', ''bgpvpn''}. \<exists>x. jget (JObj [(''backend'', JStr ''tungstenfabric'')]) k disabled = Inr x \<and>
      truthy_item x ''enabled'' = Inr False) \<and>
    (\<forall>k \<in> {''vpnaas'', ''dynamic_routing'', ''portprober''}.
       \<exists>x. jpath_get (JObj [(''backend'', JStr ''tungstenfabric'')]) [''extensions''] k disabled = Inr x \<and>
         truthy_item x ''enabled'' = Inr False)"
  proof (rule tungsten_fabric_networking)
    show "neutron_validate (\<lambda>_ _. True) ex_tf_request = Inr ()" by code_simp
    show "jpath ex_tf_request [''object'', ''spec''] = Inr ex_tf_spec" by (simp add: ex_tf_request_def)
    show "jitem ex_tf_spec ''preset'' = Inr (JStr ''compute-tf'')" by (simp add: ex_tf_spec_def)
    show "jpath ex_tf_spec [''features'', ''neutron''] = Inr (JObj [(''backend'', JStr ''tungstenfabric'')])"
      by (simp add: ex_tf_spec_def)
  qed
  then show ?thesis by blast
qed

text \<open>
  When image backends are configured and their flags are booleans, an admitted specification has
  exactly one default backend.
\<close>

theorem one_default_image_backend:
  assumes "validate_glance_backends gf = Inr ()"
    and "jpath gf [''backends''] = Inr (JObj types)" and "backend_values types = Inr bs"
    and "bs \<noteq> []" and "list_all bool_default bs"
  shows "length (filter is_default bs) = 1"
  using glance_one_default[OF assms] .

definition ex_backends :: "(string \<times> json) list" where
  "ex_backends = [(''file'', JObj [(''f'', JObj [(''default'', JBool True),
       (''pvc'', JObj [(''size'', JStr ''1Gi''), (''storage_class_name'', JStr ''nfs'')])])]),
     (''cinder'', JObj [(''c'', JObj [(''cinder_volume_type'', JStr ''nfs'')])])]"

definition ex_backend_list :: "json list" where
  "ex_backend_list = [JObj [(''default'', JBool True),
       (''pvc'', JObj [(''size'', JStr ''1Gi''), (''storage_class_name'', JStr ''nfs'')])],
     JObj [(''cinder_volume_type'', JStr ''nfs'')]]"

theorem one_default_image_backend_witness: "length (filter is_default ex_backend_list) = 1"
proof (rule one_default_image_backend)
  show "validate_glance_backends (JObj [(''backends'', JObj ex_backends)]) = Inr ()" by code_simp
  show "jpath (JObj [(''backends'', JObj ex_backends)]) [''backends''] = Inr (JObj ex_backends)" by simp
  show "backend_values ex_backends = Inr ex_backend_list"
    by (simp add: ex_backends_def ex_backend_list_def)
  show "ex_backend_list \<noteq> []" by (simp add: ex_backend_list_def)
  show "list_all bool_default ex_backend_list" by (auto simp: ex_backend_list_def bool_default_def)
qed

section \<open>The deployment and its services\<close>

text \<open>
  C5.  A handled change of a deployment that is not a draft, whose services are those of the base class, leaves
  in the status object: the deployment APPLIED, every service to apply settled for this specification and
  version, and nothing of the services to delete.  No service may be in both sets.
\<close>

theorem handled_deployment_settles:
  fixes he :: "'w osdpl_world_scheme handle_env"
  assumes "service_cluster ce installed"
    and "\<And>n ops. he_registry he n = Some ops \<Longrightarrow>
      \<exists>svc rot. svc_name svc = n \<and> args_ok installed svc \<and> hooks_ok svc \<and> ops = base_ops ce svc rot"
    and "he_status he = ce_status ce" and "he_tick he = ce_tick ce"
    and "\<And>S. finite S \<Longrightarrow> set (he_order he S) = {x. JStr x \<in> S}" and "\<And>S. distinct (he_order he S)"
    and "handle he ev s = (Inr out, t)" and "jget (ev_spec ev) ''draft'' JNull = Inr draft" and "\<not> jtruthy draft"
    and "\<And>s0 s1 spec A D. he_get_mspec he s0 = (Inr spec, s1) \<Longrightarrow>
      services spec (ev_diff ev) = Inr (A, D) \<Longrightarrow> A \<inter> D = {}"
  shows "\<exists>spec s0 s1 A D. he_get_mspec he s0 = (Inr spec, s1) \<and> services spec (ev_diff ev) = Inr (A, D) \<and>
    jlookup (osdplst t) [''status'', ''osdpl'', ''state''] = Some (JStr ''APPLIED'') \<and>
    (\<forall>n. JStr n \<in> A \<longrightarrow> (\<exists>os st. jlookup (osdplst t) [''status'', ''osdpl''] = Some os \<and>
       jlookup (osdplst t) [''status'', ''services'', n] = Some st \<and> service_not_ready os st = Inr False)) \<and>
    (\<forall>n. JStr n \<in> D \<longrightarrow> jlookup (osdplst t) [''status'', ''services'', n] = None)"
  by (rule managed_services.handle_ok[OF base_services_managed[OF assms(1,2,3,4,5,6)] assms(7,8,9,10)])

lemma ex_services_of_event:
  "services (sim_spec [''compute'']) (ev_diff sim_event) = Inr ({JStr ''compute''}, {JStr ''dns''})"
  by code_simp

theorem handled_deployment_settles_witness:
  "\<exists>t. handle (sim_he [''compute'']) sim_event sim_start = (Inr ''updated'', t) \<and>
     jlookup (osdplst t) [''status'', ''osdpl'', ''state''] = Some (JStr ''APPLIED'') \<and>
     jlookup (osdplst t) [''status'', ''services'', ''dns''] = None"
proof -
  obtain t where run: "handle (sim_he [''compute'']) sim_event sim_start = (Inr ''updated'', t)"
    using sim_run by (metis prod.collapse)
  have draft: "jget (ev_spec sim_event) ''draft'' JNull = Inr JNull" "\<not> jtruthy JNull" by (simp_all add: sim_event_def)
  have spec: "he_get_mspec (sim_he [''compute'']) s0 = (Inr spec, s1) \<Longrightarrow> spec = sim_spec [''compute'']" for s0 spec s1
    by (simp add: sim_he_def aret_def)
  have "\<exists>spec s0 s1 A D. he_get_mspec (sim_he [''compute'']) s0 = (Inr spec, s1) \<and> services spec (ev_diff sim_event) = Inr (A, D) \<and>
    jlookup (osdplst t) [''status'', ''osdpl'', ''state''] = Some (JStr ''APPLIED'') \<and>
    (\<forall>n. JStr n \<in> A \<longrightarrow> (\<exists>os st. jlookup (osdplst t) [''status'', ''osdpl''] = Some os \<and>
       jlookup (osdplst t) [''status'', ''services'', n] = Some st \<and> service_not_ready os st = Inr False)) \<and>
    (\<forall>n. JStr n \<in> D \<longrightarrow> jlookup (osdplst t) [''status'', ''services'', n] = None)"
  proof (rule handled_deployment_settles[OF sim_cluster.service_cluster_axioms _ _ _ _ _ run draft])
    show "\<exists>svc rot. svc_name svc = n \<and> args_ok sim_installed svc \<and> hooks_ok svc \<and> ops = base_ops sim_ce svc rot"
      if "he_registry (sim_he [''compute'']) n = Some ops" for n ops using sim_registered[OF that] .
    show "A \<inter> D = {}" if "he_get_mspec (sim_he [''compute'']) s0 = (Inr spec, s1)" "services spec (ev_diff sim_event) = Inr (A, D)"
      for s0 s1 spec A D using that(2) ex_services_of_event spec[OF that(1)] by auto
  qed (simp_all add: sim_he_def sim_ce_def sim_order_set, simp add: sim_order_def)
  then have "jlookup (osdplst t) [''status'', ''osdpl'', ''state''] = Some (JStr ''APPLIED'') \<and>
     jlookup (osdplst t) [''status'', ''services'', ''dns''] = None"
    using spec ex_services_of_event by (auto simp del: jlookup.simps)
  then show ?thesis using run by blast
qed

text \<open>
  C6.  A successful \<open>apply\<close> of a service leaves its status APPLIED for the specification and version of the
  controller, the releases of the rendered bundle installed with the values of the bundle, none of the other
  releases it may install, and the releases of other services as they were.
\<close>

theorem apply_settles_service:
  assumes "service_cluster ce installed" and "args_ok installed svc" and "apply_service ce svc ov s = (Inr u, t)"
  shows "service_applied (ce_status ce) (mspec s) (svc_name svc) (osdplst t) \<and>
    (\<exists>d s' t' data rels ps. render ce svc [] s' = (Inr d, t') \<and> override_bundle (ce_vs ce) ov d = Inr data \<and>
       helm_releases data = Inr rels \<and> rmap release_values rels = Inr ps \<and>
       (\<forall>n. installed t n = (if n \<in> fst ` set ps then map_of (rev ps) n
          else if n \<in> set (available_releases svc) then None else installed s n)))"
proof
  show "service_applied (ce_status ce) (mspec s) (svc_name svc) (osdplst t)"
    using service_cluster.apply_status(2)[OF assms(1-3) refl] unfolding service_applied_def .
  show "\<exists>d s' t' data rels ps. render ce svc [] s' = (Inr d, t') \<and> override_bundle (ce_vs ce) ov d = Inr data \<and>
       helm_releases data = Inr rels \<and> rmap release_values rels = Inr ps \<and>
       (\<forall>n. installed t n = (if n \<in> fst ` set ps then map_of (rev ps) n
          else if n \<in> set (available_releases svc) then None else installed s n))"
    using service_cluster.apply_installed[OF assms] by blast
qed

theorem apply_settles_service_witness:
  "\<exists>t. apply_service sim_ce sim_compute [] sim_ready = (Inr (), t) \<and>
     service_applied sim_status (sim_spec [''compute'']) ''compute'' (osdplst t)"
proof -
  have "fst (apply_service sim_ce sim_compute [] sim_ready) = Inr ()" by code_simp
  then obtain t where run: "apply_service sim_ce sim_compute [] sim_ready = (Inr (), t)" by (metis prod.collapse)
  from apply_settles_service[OF sim_cluster.service_cluster_axioms sim_compute_ok(1) run] run
  show ?thesis by (simp add: sim_ce_def sim_compute_def sim_service_def sim_ready_def)
qed

text \<open>
  C7.  When \<open>apply\<close> fails, the service does not count as applied by this call: its status is APPLYING, or nothing
  at all was changed.  The specification and the statuses of the other services stay in any case.
\<close>

theorem failed_apply_not_applied:
  assumes "service_cluster ce installed" and "args_ok installed svc" and "apply_service ce svc ov s = (Inl e, t)"
  shows "(t = s \<or> jlookup (osdplst t) [''status'', ''services'', svc_name svc, ''state''] = Some (JStr ''APPLYING'')) \<and>
    mspec t = mspec s \<and> (\<forall>m ks. m \<noteq> svc_name svc \<longrightarrow> at_service m ks t = at_service m ks s)"
  using service_cluster.apply_status(1,3)[OF assms] keepsD[OF service_cluster.apply_keeps(2)[OF assms(1,2)] assms(3)] by blast

theorem failed_apply_not_applied_witness:
  "\<exists>e t. apply_service sim_ce sim_broken [] sim_ready = (Inl e, t) \<and> mspec t = mspec sim_ready"
proof -
  have "fst (apply_service sim_ce sim_broken [] sim_ready) = Inl (PermanentError ''Template was not found'')" by code_simp
  then obtain t where run: "apply_service sim_ce sim_broken [] sim_ready = (Inl (PermanentError ''Template was not found''), t)"
    by (metis prod.collapse)
  from failed_apply_not_applied[OF sim_cluster.service_cluster_axioms sim_compute_ok(3) run] run show ?thesis by blast
qed

text \<open>
  A successful deletion of a service leaves no status of it and none of its releases, and the releases of
  other services as they were.
\<close>

theorem delete_cleans_service:
  assumes "service_cluster ce installed" and "delete_service ce svc s = (Inr u, t)"
  shows "service_gone (svc_name svc) (osdplst t) \<and>
    (\<forall>n. installed t n = (if n \<in> set (available_releases svc) then None else installed s n))"
  using service_cluster.delete_service_ok[OF assms] by (simp add: service_gone_def del: jlookup.simps)

theorem delete_cleans_service_witness:
  "\<exists>t. delete_service sim_ce sim_compute sim_ready = (Inr (), t) \<and> service_gone ''compute'' (osdplst t) \<and>
     sim_installed t ''nova-rabbitmq'' = None"
proof -
  have "fst (delete_service sim_ce sim_compute sim_ready) = Inr ()" by code_simp
  then obtain t where run: "delete_service sim_ce sim_compute sim_ready = (Inr (), t)" by (metis prod.collapse)
  from delete_cleans_service[OF sim_cluster.service_cluster_axioms run] run
  show ?thesis by (simp add: sim_compute_def sim_service_def)
qed



text \<open>
  C9.  The objects of a service are upgraded in the order of its upgrade map, each complete before the next one is
  touched: when the upgrade returns, every step has left its object in place, ready and with the images of
  the new version; when it fails, the steps before the failed one did, and no step after it has begun.
\<close>

theorem upgrade_is_rolling:
  assumes "upgrade_steps ue ce svc version purge_jobs extra_values upgrade_map s = (r, t)"
  shows "(r = Inr () \<and> steps_done (rolled_out ue ce svc version) upgrade_map s t) \<or>
    (\<exists>e before step after u. r = Inl e \<and> upgrade_map = before @ step # after \<and>
       steps_done (rolled_out ue ce svc version) before s u \<and>
       upgrade_step ue ce svc version purge_jobs extra_values step u = (Inl e, t))"
proof -
  let ?step = "upgrade_step ue ce svc version purge_jobs extra_values"
  have run: "aforeach ?step upgrade_map s = (r, t)" using assms unfolding upgrade_steps_def .
  show ?thesis
  proof (cases r)
    case (Inl e)
    then have "\<exists>ys x zs u. upgrade_map = ys @ x # zs \<and> steps_done (rolled_out ue ce svc version) ys s u \<and> ?step x u = (Inl e, t)"
      using run by (intro aforeach_stops) (auto intro: upgrade_step_rolls_out)
    then show ?thesis using Inl by blast
  next
    case (Inr x)
    then have "steps_done (rolled_out ue ce svc version) upgrade_map s t"
      using run by (intro aforeach_done[where f = ?step]) (auto intro: upgrade_step_rolls_out)
    then show ?thesis using Inr by simp
  qed
qed

theorem upgrade_is_rolling_witness:
  "steps_done (rolled_out sim_ue sim_ce sim_compute ''caracal'') [(''Job'', ''nova-db-sync'')] sim_installed_nova
     (snd (upgrade_steps sim_ue sim_ce sim_compute ''caracal'' False None [(''Job'', ''nova-db-sync'')] sim_installed_nova))"
proof -
  let ?run = "upgrade_steps sim_ue sim_ce sim_compute ''caracal'' False None [(''Job'', ''nova-db-sync'')] sim_installed_nova"
  have "?run = (Inr (), snd ?run)" using sim_upgrade_runs by (simp add: prod_eq_iff)
  from upgrade_is_rolling[OF this] show ?thesis by blast
qed

text \<open>
  C10.  Tasks that depend on one another never block each other: when every task succeeds once the tasks it
  depends on have succeeded, and before that fails in a way that can be retried, all tasks finish within as many
  rounds as the dependencies are deep, and the results of all of them hold together at the end.
\<close>

theorem dependent_tasks_finish:
  assumes "task_contract f I Q (set ns) tick"
    and "\<And>n s. n \<in> set ns \<Longrightarrow> I s \<Longrightarrow> \<forall>m \<in> deps n. Q m s \<Longrightarrow> \<exists>t. f n s = (Inr (), t)"
    and "\<And>n s x t. n \<in> set ns \<Longrightarrow> I s \<Longrightarrow> f n s \<noteq> (Inl (PermanentError x), t)"
    and "\<And>n. n \<in> set ns \<Longrightarrow> deps n \<subseteq> set ns"
    and "\<And>n m. n \<in> set ns \<Longrightarrow> m \<in> deps n \<Longrightarrow> rank m < (rank n :: nat)" and "\<And>n. n \<in> set ns \<Longrightarrow> rank n < k"
    and "I s" and "distinct ns"
  shows "\<exists>t. run_task k tick (map f ns) False s = (Inr (), t) \<and> (\<forall>n \<in> set ns. Q n t)"
  using task_contract.dependent_tasks_end[where deps = deps and rank = rank and r = 0 and k = k and ns = ns and s = s, OF assms(1-5,7,8)] assms(6) by auto

definition ex_task :: "string \<Rightarrow> (string list, unit) act" where
  "ex_task n = (if n = ''compute'' then abind (aget (\<lambda>s. ''database'' \<in> set s)) (\<lambda>b.
       if b then amod ((#) n) else araise (TemporaryError ''database is not ready'')) else amod ((#) n))"

theorem dependent_tasks_finish_witness:
  "\<exists>t. run_task 2 id (map ex_task [''compute'', ''database'']) False [] = (Inr (), t) \<and>
     (\<forall>n \<in> set [''compute'', ''database'']. n \<in> set t)"
proof (rule dependent_tasks_finish[where I = "\<lambda>_. True" and Q = "\<lambda>n s. n \<in> set s"
      and deps = "\<lambda>n. if n = ''compute'' then {''database''} else {}"
      and rank = "\<lambda>n. if n = ''compute'' then 1 else 0"])
  show "task_contract ex_task (\<lambda>_. True) (\<lambda>n s. n \<in> set s) (set [''compute'', ''database'']) id"
    by unfold_locales (auto simp: ex_task_def abind_def aget_def amod_def araise_def split: if_splits)
qed (auto simp: ex_task_def abind_def aget_def amod_def araise_def split: if_splits)




section \<open>Secrets\<close>

text \<open>
  C13.  Rotating a pair of secrets to a later id makes the backup secret the active one, with the new id as its
  priority, and writes no other secret; the secret that was active becomes the backup as it is.  Asking for the
  same rotation again changes nothing, and asking for an earlier one is an error that changes nothing.
\<close>

theorem rotation_swaps_pair:
  assumes "rotate_secret env c ns base rid s = (Inr u, t)" and "keeps secrets (create c)"
    and "the_pair ns base s = (Inr (a, b), s)" and "prio s a = Inr p" "p < rid" "0 < rid"
  shows "the_pair ns base t = (Inr (b, a), t) \<and> prio t b = Inr rid \<and>
    (\<forall>k. k \<noteq> b \<longrightarrow> map_of (secrets t) k = map_of (secrets s) k) \<and>
    rotate_secret env c ns base rid t = (Inr (), t) \<and>
    (\<forall>i < rid. \<exists>m. rotate_secret env c ns base i t = (Inl (TemporaryError m), t))"
proof -
  have run: "promote env c ns base rid s = (Inr u, t)"
    using assms(1,5) rotate_secret_at[OF assms(3,4), of env c rid] by simp
  note after = promote_pair[OF run assms(2-6)]
  show ?thesis using after rotate_secret_at[OF after(1,2), of env c] by auto
qed

theorem rotation_swaps_pair_witness:
  "\<exists>t. rotate_secret sim_secret_env sim_admin ''os'' ''keystone'' 2 sim_secrets = (Inr (), t) \<and>
     the_pair ''os'' ''keystone'' t = (Inr ((''os'', ''keystone-1''), (''os'', ''keystone'')), t)"
proof -
  obtain t where run: "rotate_secret sim_secret_env sim_admin ''os'' ''keystone'' 2 sim_secrets = (Inr (), t)"
    using sim_rotate by blast
  from rotation_swaps_pair[OF run sim_admin_contract(1) sim_pair sim_prio(1)] run show ?thesis by auto
qed

text \<open>
  C14.  What the promoted secret holds: a text inside a field is freshly created where the rules of the rotation say
  so, taken over from the active secret where they say that, and what the backup had otherwise.  JSON text reads
  back the dictionary it was written from, and the schema of the class keeps the texts it loads.
\<close>

theorem rotation_renews_fields:
  assumes "rotate_secret env c ns base rid s = (Inr u, t)" and "keeps secrets (create c)"
    and "the_pair ns base s = (Inr (a, b), s)" and "prio s a = Inr p" "p < rid" "0 < rid"
    and "rules_ok c" and "loads_texts c" and "\<And>d. json_loads env (json_dumps env (JObj d)) = Some (JObj d)"
  shows "\<exists>new s1 active backup e. create c s = (Inr new, s1) \<and>
    multi_get_data env ns base (snd a) s = (Inr active, s) \<and> multi_get_data env ns base (snd b) s = (Inr backup, s) \<and>
    multi_get_data env ns base (snd b) t = (Inr e, t) \<and>
    (\<forall>k m ks src v. origin c new active backup (k # m # ks) = Some src \<and> jlookup src (k # m # ks) = Some (JStr v) \<longrightarrow>
       jlookup e (k # m # ks) = Some (JStr v))"
proof -
  have "promote env c ns base rid s = (Inr u, t)"
    using assms(1,5) rotate_secret_at[OF assms(3,4), of env c rid] by simp
  from promote_fields[OF this assms(2-9)] show ?thesis .
qed

theorem rotation_renews_fields_witness:
  "\<exists>e t. rotate_secret sim_secret_env sim_admin ''os'' ''keystone'' 2 sim_secrets = (Inr (), t) \<and>
     multi_get_data sim_secret_env ''os'' ''keystone'' ''keystone-1'' t = (Inr e, t) \<and>
     jlookup e [''identity'', ''username''] = Some (JStr ''admin'')"
proof -
  obtain t where run: "rotate_secret sim_secret_env sim_admin ''os'' ''keystone'' 2 sim_secrets = (Inr (), t)"
    using sim_rotate by blast
  have ids: "(1 :: int) < 2" "(0 :: int) < 2" by simp_all
  from rotation_renews_fields[OF run sim_admin_contract(1) sim_pair sim_prio(1) ids sim_admin_contract(2,3) sim_codec_law]
  obtain new active backup e where data: "multi_get_data sim_secret_env ''os'' ''keystone'' (snd (''os'', ''keystone-1'')) t = (Inr e, t)"
    "multi_get_data sim_secret_env ''os'' ''keystone'' (snd (''os'', ''keystone-1'')) sim_secrets = (Inr backup, sim_secrets)"
    and keep: "\<And>k m ks src v. origin sim_admin new active backup (k # m # ks) = Some src \<Longrightarrow>
      jlookup src (k # m # ks) = Some (JStr v) \<Longrightarrow> jlookup e (k # m # ks) = Some (JStr v)"
    by blast
  from data have e: "multi_get_data sim_secret_env ''os'' ''keystone'' ''keystone-1'' t = (Inr e, t)"
    "multi_get_data sim_secret_env ''os'' ''keystone'' ''keystone-1'' sim_secrets = (Inr backup, sim_secrets)" by simp_all
  have b: "backup = JObj (sim_data ''old0'')" using e(2) sim_read(2) by simp
  have "takes (fst (rotation_fields sim_admin)) [''identity'', ''username''] = Some False"
    "takes (snd (rotation_fields sim_admin)) [''identity'', ''username''] = Some False" by code_simp+
  then have "origin sim_admin new active backup [''identity'', ''username''] = Some backup" by (simp add: origin_def)
  moreover have "jlookup backup [''identity'', ''username''] = Some (JStr ''admin'')" unfolding b by code_simp
  ultimately have "jlookup e [''identity'', ''username''] = Some (JStr ''admin'')" by (rule keep)
  then show ?thesis using e(1) run by blast
qed

text \<open>
  C15.  Ensuring a pair of secrets leaves both of them in place and writes no other; when both load already it
  changes nothing at all.
\<close>

theorem ensured_pair_exists:
  assumes "ensure_pair env c ns base s = (Inr u, t)" and "keeps secrets (create c)"
  shows "(\<forall>n \<in> set (secret_names base). map_of (secrets t) (ns, n) \<noteq> None) \<and>
    (\<forall>k. k \<notin> Pair ns ` set (secret_names base) \<longrightarrow> map_of (secrets t) k = map_of (secrets s) k) \<and>
    ((\<forall>n \<in> set (secret_names base). isl (fst (multi_get env c ns base n s)) = False) \<longrightarrow> t = s)"
proof (intro conjI impI)
  show "\<forall>n \<in> set (secret_names base). map_of (secrets t) (ns, n) \<noteq> None"
    using ensure_pair_writes(1,2)[OF assms] by (auto simp: secret_names_def)
  show "\<forall>k. k \<notin> Pair ns ` set (secret_names base) \<longrightarrow> map_of (secrets t) k = map_of (secrets s) k"
    using ensure_pair_writes(3)[OF assms] by (auto simp: secret_names_def)
  assume ok: "\<forall>n \<in> set (secret_names base). isl (fst (multi_get env c ns base n s)) = False"
  have "ensure_one env c ns base n s = (Inr (), s)" if n: "n \<in> set (secret_names base)" for n
  proof -
    obtain r where r: "multi_get env c ns base n s = (r, s)" by (metis multi_get_at)
    with ok n obtain j where "r = Inr j" by (cases r) fastforce+
    with r show ?thesis by (simp add: ensure_one_loads)
  qed
  then show "t = s" using assms(1) by (simp add: ensure_pair_def secret_names_def abind_def aret_def)
qed

theorem ensured_pair_exists_witness:
  "ensure_pair sim_secret_env sim_admin ''os'' ''keystone'' sim_secrets = (Inr (), sim_secrets)"
proof -
  have get: "multi_get sim_secret_env sim_admin ''os'' ''keystone'' n sim_secrets = (Inr (JObj (sim_data pw)), sim_secrets)"
    if "multi_get_data sim_secret_env ''os'' ''keystone'' n sim_secrets = (Inr (JObj (sim_data pw)), sim_secrets)" for n pw
    using that by (simp add: multi_get_at sim_admin_def admin_secret_def sim_load_def sim_data_def creds_def dict_ok_def)
  have run: "ensure_pair sim_secret_env sim_admin ''os'' ''keystone'' sim_secrets = (Inr (), sim_secrets)"
    using ensure_one_loads[OF get[OF sim_read(1)]] ensure_one_loads[OF get[OF sim_read(2)]]
    by (simp add: ensure_pair_def secret_names_def abind_def aret_def)
  with ensured_pair_exists[OF this sim_admin_contract(1)] show ?thesis by blast
qed

text \<open>
  Generated names and passwords have the requested length whatever the prefix, and a password consists of the
  sixty letters and digits only; the operating system delivers as many bytes as asked for.
\<close>

theorem generated_names_bounded:
  assumes "\<And>n s bs t. urandom n s = (Inr bs, t) \<Longrightarrow> length bs = n"
  shows "(generate_password urandom n s = (Inr p, t) \<longrightarrow> length p = n \<and> set p \<subseteq> set password_chars) \<and>
    (generate_name urandom prefix n s = (Inr p, t) \<longrightarrow> length p = n \<and> take (length prefix) p = take n prefix)"
  using generate_password_ok[of urandom n s p t] generate_name_ok[of urandom prefix n s p t] assms by blast

theorem generated_names_bounded_witness:
  "length (''adminaaaaaaaaaaa'' :: string) = 16 \<and> generate_name sim_urandom ''admin'' 16 sim_secrets = (Inr ''adminaaaaaaaaaaa'', sim_secrets)"
proof -
  have run: "generate_name sim_urandom ''admin'' 16 sim_secrets = (Inr ''adminaaaaaaaaaaa'', sim_secrets)"
    by (simp add: generate_name_def sim_password abind_def aret_def eval_nat_numeral)
  have "(generate_password sim_urandom 16 sim_secrets = (Inr ''adminaaaaaaaaaaa'', sim_secrets) \<longrightarrow>
      length ''adminaaaaaaaaaaa'' = 16 \<and> set ''adminaaaaaaaaaaa'' \<subseteq> set password_chars) \<and>
    (generate_name sim_urandom ''admin'' 16 sim_secrets = (Inr ''adminaaaaaaaaaaa'', sim_secrets) \<longrightarrow>
      length ''adminaaaaaaaaaaa'' = 16 \<and> take (length ''admin'') ''adminaaaaaaaaaaa'' = take 16 ''admin'')"
    by (rule generated_names_bounded) (auto simp: sim_urandom_def aret_def)
  with run show ?thesis by blast
qed



text \<open>
  C17.  The external secrets of the notifications are exactly those of the configured topics for which RabbitMQ has
  credentials, and none at all when external notifications are off; no secret of another namespace is touched.
\<close>

theorem external_notification_secrets:
  assumes "handle_rabbitmq_external_secret he body namespace ''openstack-rabbitmq-users-credentials'' s = (Inr u, t)"
    and "dict_ok (secrets s)" and "hw_osdpl s = Some deployment" and "external_enabled deployment = Inr enabled"
  shows "(\<forall>k. fst k \<noteq> external_ns \<longrightarrow> map_of (secrets t) k = map_of (secrets s) k) \<and>
    (if jtruthy enabled
     then \<exists>users secret_data topics. decode_item body [''data'', ''RABBITMQ_USERS''] = Inr users \<and>
        json_loads he users = Some secret_data \<and> external_topics deployment = Inr topics \<and>
        (\<forall>n. external_at t n \<longleftrightarrow> n \<in> topic_secrets he secret_data topics)
     else \<forall>n. \<not> external_at t n)"
  using external_secrets_exact[OF assms] by (auto simp del: split_paired_All)

theorem external_notification_secrets_witness:
  "\<exists>t. handle_rabbitmq_external_secret sim_handler_env sim_users_body ''os'' ''openstack-rabbitmq-users-credentials''
       sim_handler_world = (Inr (), t) \<and>
     map_of (secrets t) (''os'', ''rabbitmq-external-certs'') = map_of (secrets sim_handler_world) (''os'', ''rabbitmq-external-certs'')"
proof -
  have "fst (handle_rabbitmq_external_secret sim_handler_env sim_users_body ''os'' ''openstack-rabbitmq-users-credentials''
       sim_handler_world) = Inr ()" by code_simp
  then obtain t where run: "handle_rabbitmq_external_secret sim_handler_env sim_users_body ''os''
       ''openstack-rabbitmq-users-credentials'' sim_handler_world = (Inr (), t)" by (metis prod.collapse)
  have "dict_ok (secrets sim_handler_world)" "hw_osdpl sim_handler_world = Some sim_osdpl"
    by (simp_all add: sim_handler_world_def)
  moreover have "external_enabled sim_osdpl = Inr (JBool True)" by code_simp
  ultimately show ?thesis using external_notification_secrets[OF run] run by (auto simp: external_ns_def)
qed

section \<open>Network policies\<close>

text \<open>
  C18.  A service reads the Keystone credentials of the accounts it requires and of no others, and reading them
  writes no secret: whatever the secrets of the other services hold, each key of the result is in one of
  the lists of accounts that the service declares for its specification and version.
\<close>

theorem keystone_creds_are_required:
  assumes "get_keystone_creds ae reg service spec version s = (Inr found, t)"
  shows "t = s \<and> (\<exists>accounts. required_accounts service spec version = Inr accounts \<and>
    set (keys found) \<subseteq> (\<Union>(svc, accs) \<in> set accounts. set accs))"
proof -
  obtain accounts u where "required_accounts service spec version = Inr accounts"
      "collect_accounts ae reg version accounts [] u = (Inr found, t)"
    using assms unfolding get_keystone_creds_def by (elim alift_InrE abind_InrE)
  then show ?thesis using collected_keys[of ae reg version accounts "[]"] keystone_creds_read_only[OF assms] by auto
qed

theorem keystone_creds_are_required_witness:
  "\<exists>found accounts. map_sum id keys (Inr found :: jdict res) = Inr [''neutron'', ''osctl'', ''placement''] \<and>
     required_accounts ''compute'' sim_nova_spec ''caracal'' = Inr accounts \<and>
     set (keys found) \<subseteq> (\<Union>(svc, accs) \<in> set accounts. set accs)"
proof (cases "fst (get_keystone_creds sim_args_env sim_classes ''compute'' sim_nova_spec ''caracal'' sim_identities)")
  case (Inl e)
  then show ?thesis using sim_keystone_creds by simp
next
  case (Inr found)
  then have "get_keystone_creds sim_args_env sim_classes ''compute'' sim_nova_spec ''caracal'' sim_identities =
    (Inr found, snd (get_keystone_creds sim_args_env sim_classes ''compute'' sim_nova_spec ''caracal'' sim_identities))"
    by (simp add: prod_eq_iff)
  from keystone_creds_are_required[OF this] sim_keystone_creds[unfolded Inr] show ?thesis by blast
qed

text \<open>
  C19.  What Keystone and Horizon are told about federation: no option of OpenID Connect is a boolean, the form the
  charts do not accept; and when federation is on, the users return to the domain of the deployment whatever
  the specification says, the passphrase is the one stored in the secret, and the allowed redirects are set.
\<close>

theorem federation_is_enforced:
  assumes "get_federation_args fe namespace spec s = (Inr v, t)"
  shows "\<exists>enabled auth_type oidc providers ca uri. v = federation_result enabled auth_type (JObj oidc) providers ca \<and>
    federation_redirect_uri fe spec = Inr uri \<and> (\<forall>k b. map_of oidc k \<noteq> Some (JBool b)) \<and>
    (jtruthy enabled \<longrightarrow> map_of oidc ''OIDCRedirectURI'' = Some (JStr uri) \<and>
       map_of oidc ''OIDCRedirectURLsAllowed'' \<noteq> None \<and> map_of oidc ''OIDCRedirectURLsAllowed'' \<noteq> Some JNull \<and>
       (\<exists>p. map_of oidc ''OIDCCryptoPassphrase'' = Some (normalize_oidc_value p) \<and>
          abind (single_get (fed_secrets fe) (keycloak_secret_class fe) (namespace, ''oidc-crypto-passphrase''))
            (\<lambda>creds. alift (jitem creds ''passphrase'')) t = (Inr p, t)))"
proof -
  obtain enabled auth_type oidc0 oidc1 oidc providers ca s1 uri where uri: "federation_redirect_uri fe spec = Inr uri"
    and run: "(if jtruthy enabled then global_oidc fe namespace spec oidc0 else aret oidc0) s1 = (Inr oidc1, t)"
    and norm: "normalize_oidc oidc1 = Inr oidc" and v: "v = federation_result enabled auth_type oidc providers ca"
    using assms by (rule federation_runs)
  obtain d e where d: "oidc1 = JObj d" and e: "oidc = JObj e"
    and vals: "map_of e k = map_option normalize_oidc_value (map_of d k)" for k
    using normalized_object[OF norm] by blast
  have no_bool: "map_of e k \<noteq> Some (JBool b)" for k b using vals normalized_no_bool by auto
  show ?thesis
  proof (cases "jtruthy enabled")
    case True
    then have "global_oidc fe namespace spec oidc0 s1 = (Inr (JObj d), t)" using run d by simp
    then obtain p allowed where "map_of d ''OIDCRedirectURI'' = Some (JStr uri)" "map_of d ''OIDCCryptoPassphrase'' = Some p"
        "\<exists>u. keycloak_salt fe namespace u = (Inr p, t)" "map_of d ''OIDCRedirectURLsAllowed'' = Some allowed" "allowed \<noteq> JNull"
      using global_oidc_set uri by fastforce
    moreover have "normalize_oidc_value (JStr uri) = JStr uri" "normalize_oidc_value allowed = JNull \<longleftrightarrow> allowed = JNull"
      by (auto simp: normalize_oidc_value_def split: json.splits bool.splits)
    ultimately show ?thesis using v uri no_bool vals salt_stored unfolding e by (auto intro!: exI)
  next
    case False
    then show ?thesis using v uri no_bool unfolding e by blast
  qed
qed

theorem federation_is_enforced_witness:
  "\<exists>enabled auth_type oidc providers ca. fst (get_federation_args sim_federation ''os'' sim_keycloak_spec sim_no_secrets) =
    Inr (federation_result enabled auth_type (JObj oidc) providers ca) \<and> (\<forall>k b. map_of oidc k \<noteq> Some (JBool b)) \<and>
    map_of oidc ''OIDCRedirectURI'' = Some (JStr
      ''https://keystone.it.just/v3/auth/OS-FEDERATION/identity_providers/keycloak/protocols/mapped/websso/'')"
proof (cases "fst (get_federation_args sim_federation ''os'' sim_keycloak_spec sim_no_secrets)")
  case (Inl e)
  then show ?thesis using sim_federation_runs by simp
next
  case (Inr v)
  then have run: "get_federation_args sim_federation ''os'' sim_keycloak_spec sim_no_secrets =
    (Inr v, snd (get_federation_args sim_federation ''os'' sim_keycloak_spec sim_no_secrets))" by (simp add: prod_eq_iff)
  obtain enabled auth_type oidc providers ca uri where v: "v = federation_result enabled auth_type (JObj oidc) providers ca"
    and uri: "federation_redirect_uri sim_federation sim_keycloak_spec = Inr uri"
    and no_bool: "\<forall>k b. map_of oidc k \<noteq> Some (JBool b)"
    and on: "jtruthy enabled \<longrightarrow> map_of oidc ''OIDCRedirectURI'' = Some (JStr uri)"
    using federation_is_enforced[OF run] by blast
  have "enabled = JBool True" using sim_federation_runs unfolding Inr v by (simp add: federation_result_def)
  moreover have "federation_redirect_uri sim_federation sim_keycloak_spec =
    Inr ''https://keystone.it.just/v3/auth/OS-FEDERATION/identity_providers/keycloak/protocols/mapped/websso/''" by code_simp
  ultimately show ?thesis using Inr v uri no_bool on by (metis jtruthy.simps(2) sum.inject(2))
qed





section \<open>The migration from OVS to OVN\<close>

text \<open>
  C22.  A run of the migration without a user is resumable.  When it returns, every stage is recorded as completed.
  When it raises, it stopped at one stage: that stage is recorded as failed, those before it as completed, and
  the record of those after it is what it was, so they were not begun.  Running again begins with the failed
  stage: what the completed stages would do has no influence any more.
\<close>

theorem silent_migration_resumes:
  assumes "stage_contract stages" and "length (state_maps s) \<le> 1" and "do_migration False traceback stages s = (r, t)"
  shows "case r of
      Inr _ \<Rightarrow> \<forall>n \<in> fst ` set stages. status_is COMPLETED (stage_noted t n)
    | Inl _ \<Rightarrow> \<exists>pre x post. stages = pre @ x # post \<and> (\<forall>y \<in> set pre. status_is COMPLETED (stage_noted t (fst y))) \<and>
        status_is FAILED (stage_noted t (fst x)) \<and> (\<forall>y \<in> set post. stage_noted t (fst y) = stage_noted s (fst y)) \<and>
        (\<forall>ys. map fst ys = map fst pre \<longrightarrow>
           do_migration False traceback (ys @ x # post) t = do_migration False traceback stages t)"
  using assms by (rule stage_contract.silent_migration)

text \<open>A migration whose first three stages are completed, and the pod of the gateway is broken.\<close>

definition ex_halfway :: "string list \<Rightarrow> sim_ovn" where
  "ex_halfway input = (so_world [''ovn3''])\<lparr>typed_lines := input, state_maps := [(MIGRATION_STATE_CONFIGMAP_NAME,
     [(''10_PREPARE'', stage_state COMPLETED JNull), (''20_DEPLOY_OVN_DB'', stage_state COMPLETED JNull),
      (''30_DEPLOY_OVN_CONTROLLERS'', stage_state COMPLETED JNull), (''40_MIGRATE_DATAPLANE'', stage_state FAILED JNull),
      (''50_FINALIZE_MIGRATION'', stage_state ''init'' JNull), (''60_CLEANUP'', stage_state ''init'' JNull)])]\<rparr>"

theorem silent_migration_resumes_witness:
  "\<exists>e t. do_migration False (\<lambda>_. ''traceback'') (WORKFLOW so_env so_args) (ex_halfway []) = (Inl e, t) \<and>
     (\<exists>pre x post. WORKFLOW so_env so_args = pre @ x # post \<and> status_is FAILED (stage_noted t (fst x)) \<and>
        (\<forall>y \<in> set pre. status_is COMPLETED (stage_noted t (fst y))))"
proof -
  have "fst (do_migration False (\<lambda>_. ''traceback'') (WORKFLOW so_env so_args) (ex_halfway [])) =
    Inl (OtherException ''RuntimeError'')" by code_simp
  then obtain t where run: "do_migration False (\<lambda>_. ''traceback'') (WORKFLOW so_env so_args) (ex_halfway []) =
    (Inl (OtherException ''RuntimeError''), t)" by (metis prod.collapse)
  have "length (state_maps (ex_halfway [])) \<le> 1" by (simp add: ex_halfway_def)
  from silent_migration_resumes[OF sim_ovn.workflow.stage_contract_axioms this run] run show ?thesis
    unfolding sum.case by blast
qed

text \<open>
  C23.  With a user at the terminal no stage is begun without confirmation: when the record of the stage at
  position \<open>i\<close> has changed, the first \<open>i\<close> legal answers typed were all \<open>Y\<close>.
\<close>

theorem stages_need_confirmation:
  assumes "stage_contract stages" and "length (state_maps s) \<le> 1" and "do_migration True traceback stages s = (r, t)"
    and "i < length stages" and "stage_noted t (fst (stages ! i)) \<noteq> stage_noted s (fst (stages ! i))"
  shows "take i (typed_answers s) = replicate i ''Y''"
  using assms by (rule stage_contract.confirmed_migration)

theorem stages_need_confirmation_witness:
  "take 3 (typed_answers (ex_halfway [''Y'', ''yes'', '' Y '', ''Y'', ''N''])) = replicate 3 ''Y''"
proof -
  let ?s = "ex_halfway [''Y'', ''yes'', '' Y '', ''Y'', ''N'']"
  obtain r t where run: "do_migration True (\<lambda>_. ''traceback'') (WORKFLOW so_env so_args) ?s = (r, t)" by fastforce
  have "stage_noted (snd (do_migration True (\<lambda>_. ''traceback'') (WORKFLOW so_env so_args) ?s)) ''40_MIGRATE_DATAPLANE'' =
    Some (stage_state FAILED (JStr ''traceback''))" by code_simp
  then have now: "stage_noted t ''40_MIGRATE_DATAPLANE'' = Some (stage_state FAILED (JStr ''traceback''))" using run by simp
  have before: "stage_noted ?s ''40_MIGRATE_DATAPLANE'' = Some (stage_state FAILED JNull)" by code_simp
  have third: "3 < length (WORKFLOW so_env so_args)" "fst (WORKFLOW so_env so_args ! 3) = ''40_MIGRATE_DATAPLANE''"
    by (simp_all add: WORKFLOW_def)
  have one: "length (state_maps ?s) \<le> 1" by (simp add: ex_halfway_def)
  show ?thesis
    by (rule stages_need_confirmation[OF sim_ovn.workflow.stage_contract_axioms one run third(1)])
      (simp add: third(2) now before stage_state_def)
qed

text \<open>
  C24.  When the stage that migrates the dataplane succeeds, all but the tolerated number of gateway nodes and
  of compute nodes with a pod of the OVN controller are switched, over all of its tries: a node that failed
  is tried again, and one that is switched stays so.
\<close>

theorem dataplane_within_thresholds:
  assumes "dataplane_switch env installed switched" and "migrate_dataplane env args s = (Inr (), t)"
  shows "\<exists>svc dss. get_service env ''networking'' s = (Inr svc, s) \<and>
    child_daemonsets env svc ''ovn-controller'' s = (Inr dss, s) \<and>
    card (unswitched_nodes (oe_conf env) switched dss gateway t) \<le> nat (gtw_threshold args) \<and>
    card (unswitched_nodes (oe_conf env) switched dss compute t) \<le> nat (cmp_threshold args)"
  using dataplane_switch.migrated_within_thresholds[OF assms]
  unfolding dataplane_switch.within_thresholds_def[OF assms(1)] by metis

theorem dataplane_within_thresholds_witness:
  "\<exists>t dss. migrate_dataplane so_env so_args (so_world [''ovn2'']) = (Inr (), t) \<and>
     card (unswitched_nodes so_conf so_is_switched dss gateway t) = 0 \<and>
     card (unswitched_nodes so_conf so_is_switched dss compute t) \<le> 1"
proof -
  have "fst (migrate_dataplane so_env so_args (so_world [''ovn2''])) = Inr ()" by code_simp
  then obtain t where run: "migrate_dataplane so_env so_args (so_world [''ovn2'']) = (Inr (), t)" by (metis prod.collapse)
  from dataplane_within_thresholds[OF sim_ovn.dataplane_switch_axioms run] run show ?thesis
    by (auto simp: so_args_def so_env_def)
qed

text \<open>
  C25.  The test whether addresses pass a firewall is inclusion of networks: it holds exactly when all addresses of
  every tested network lie in one of the permitted networks.
\<close>

theorem firewall_is_inclusion:
  assumes "\<forall>net \<in> set permitted_cidrs. valid_network net" and "\<forall>sub \<in> set tested_cidrs. valid_network sub"
  shows "are_addresses_allowed_by_firewall tested_cidrs permitted_cidrs \<longleftrightarrow>
    (\<forall>sub \<in> set tested_cidrs. \<exists>net \<in> set permitted_cidrs. net_addresses sub \<subseteq> net_addresses net)"
  using assms by (rule allowed_iff_included)

definition ex_net :: "int \<Rightarrow> nat \<Rightarrow> ipv4_network" where
  "ex_net a p = \<lparr>network_address = a, prefixlen = p\<rparr>"

theorem firewall_is_inclusion_witness:
  "net_addresses (ex_net 4294967040 25) \<subseteq> net_addresses broadcast_ip \<or>
   net_addresses (ex_net 4294967040 25) \<subseteq> net_addresses (ex_net 4294967040 24)"
proof -
  have "are_addresses_allowed_by_firewall [ex_net 4294967040 25] [broadcast_ip, ex_net 4294967040 24]" by code_simp
  moreover have "\<forall>net \<in> set [broadcast_ip, ex_net 4294967040 24]. valid_network net"
    "\<forall>sub \<in> set [ex_net 4294967040 25]. valid_network sub"
    by (simp_all add: valid_network_def ex_net_def broadcast_ip_def)
  ultimately show ?thesis using firewall_is_inclusion[of "[broadcast_ip, ex_net 4294967040 24]" "[ex_net 4294967040 25]"] by simp
qed








text \<open>
  The backup of the Neutron database does not notice that \<open>mysqldump\<close> failed: whatever the error channel of
  the command says, a command that ran in time lets the backup return as if it were complete.  The
  exception that \<open>raise_on_error\<close> asks for is caught where it is raised.
\<close>

theorem failed_dump_unnoticed:
  assumes "get_service env ''database'' s = (Inr svc, s)"
    and "get_objects_by_id env svc ''mariadb-server'' s = (Inr [(kind, name)], s)"
    and "map_of (stateful_sets s) name = Some st"
    and "\<forall>p u. dump p u = (rbind (exec_error_json True (Some (Inr failure))) (\<lambda>j.
      Inr \<lparr>timed_out = False, exec_exception = None, error_json = j\<rparr>), u)"
  shows "do_neutron_db_backup env dump s = (Inr (), s)"
proof -
  obtain j where "exec_error_json True (Some (Inr failure)) = Inr j" using exec_never_raises by blast
  then have one: "dump p u = (Inr \<lparr>timed_out = False, exec_exception = None, error_json = j\<rparr>, u)" for p u
    using assms(4) by simp
  have "aforeach (\<lambda>p. abind (dump p) (\<lambda>result. if timed_out result \<or> exec_exception result \<noteq> None
    then araise (OtherException ''RuntimeError'') else aret ())) l u = (Inr (), u)" for l u
    by (induction l) (simp_all add: act_simps one)
  then show ?thesis using assms(1-3)
    by (simp add: do_neutron_db_backup_def act_simps py_nth_def set_pods_of_def reload_set_def abind_def)
qed

definition ex_dump :: "set_pod \<Rightarrow> (sim_ovn, exec_reply) act" where
  "ex_dump p = alift (rbind (exec_error_json True (Some (Inr (JObj [(''status'', JStr ''Failure'')])))) (\<lambda>j.
     Inr \<lparr>timed_out = False, exec_exception = None, error_json = j\<rparr>))"

theorem failed_dump_unnoticed_witness:
  "do_neutron_db_backup so_env ex_dump (so_world []) = (Inr (), so_world [])"
proof (rule failed_dump_unnoticed)
  show "get_service so_env ''database'' (so_world []) = (Inr (so_service ''database'', JObj []), so_world [])"
    by (simp add: get_service_def the_osdpl_def act_simps so_world_def so_env_def)
  show "get_objects_by_id so_env (so_service ''database'', JObj []) ''mariadb-server'' (so_world []) =
    (Inr [(''StatefulSet'', ''mariadb-server'')], so_world [])"
    by code_simp
  show "map_of (stateful_sets (so_world [])) ''mariadb-server'' = Some \<lparr>set_replicas = 1, set_pods = [so_pod ''mariadb-0'' ''ctl1'']\<rparr>"
    by (simp add: so_world_def)
qed (simp add: ex_dump_def alift_def)



section \<open>Maintenance\<close>

text \<open>Two compute nodes with their locks, at most one of them in maintenance.\<close>

definition ex_conf :: maintenance_conf where
  "ex_conf = \<lparr>OSCTL_CLUSTER_RELEASE = ''r1'',
     OSCTL_OPENSTACK_NODE_LABELS = \<lambda>role. case role of
         compute \<Rightarrow> [(''openstack-compute-node'', ''enabled'')]
       | gateway \<Rightarrow> [(''openstack-gateway'', ''enabled'')]
       | controller \<Rightarrow> [(''openstack-control-plane'', ''enabled'')],
     nwl_parallel_max_gateway = 1, nwl_parallel_max_compute = 1\<rparr>"

definition ex_node :: node where
  "ex_node = \<lparr>labels = [(''openstack-compute-node'', ''enabled'')], annotations = [], node_spec = jempty,
     node_ready = True\<rparr>"

definition ex_lock :: "string \<Rightarrow> lock" where
  "ex_lock n = \<lparr>controllerName = ''openstack'', nodeName = Some n, nodeDeletionRequestSupported = True,
     original_node = Some ex_node, inner_state = None,
     status = Some [(''state'', ''active''), (''release'', ''r1'')]\<rparr>"

definition ex_opts :: maintenance_opts where
  "ex_opts = \<lparr>respect_nova_az = True, ndr_skip_instance_check = False, ndr_skip_volume_check = False,
     instance_migrate_concurrency = 1\<rparr>"

text \<open>A server runs on the first node, and the API answers.\<close>

definition ex_server :: server where
  "ex_server = \<lparr>srv_id = ''vm-1'', srv_status = ''ACTIVE'', vm_state = ''active'', power_state = 1,
     task_state = None\<rparr>"

definition ex_compute :: "string \<Rightarrow> compute_service" where
  "ex_compute n = \<lparr>cs_id = n, cs_host = n, cs_state = ''up'', cs_status = ''enabled'', cs_reason = None,
     cs_zone = Some ''nova''\<rparr>"

definition ex_cluster :: cloud where
  "ex_cluster = \<lparr>nodes = [(''cmp-1'', ex_node), (''cmp-2'', ex_node)], pods = [],
     locks = [((NodeWorkloadLock, ''openstack-cmp-1''), ex_lock ''cmp-1''),
              ((NodeWorkloadLock, ''openstack-cmp-2''), ex_lock ''cmp-2'')],
     osdpl = Some \<lparr>osdpl_name = ''osh-dev'', osdpl_namespace = ''openstack'', osdpl_state = ''APPLIED'',
       osdpl_mspec = Inr (JObj [(''features'', jempty)])\<rparr>,
     disable_notifications = [], clock = ''now'',
     stateful_sets = [(name, \<lparr>set_replicas = 1, set_pods = []\<rparr>). name \<leftarrow> [''mariadb-server'', ''etcd-etcd'']],
     daemon_sets = [], claims = [], sim_up = True,
     sim_servers = [(''cmp-1'', ex_server)], sim_services = [ex_compute ''cmp-1'', ex_compute ''cmp-2''],
     sim_volume_services = [], sim_volumes = [], sim_agents = [], sim_providers = [], sim_notified = [],
     sim_open_ports = []\<rparr>"

abbreviation ex_services :: "json \<Rightarrow> cloud ordered_services" where
  "ex_services \<equiv> controller_services (sim_env ex_conf ex_opts)"

definition ex_nmr :: request where
  "ex_nmr = \<lparr>req_node_name = ''cmp-1'', req_scope = ''os''\<rparr>"

lemma ex_services_ok: "services_ok ex_services"
  by (rule sim.registry_ok)







text \<open>
  C29.  The handler of a NodeMaintenanceRequest is a sequence of the steps above, whether it succeeds or
  raises, as long as the services keep to their contract.
\<close>

theorem nmr_handler_refines_steps:
  assumes "services_ok svcs" and "ph (maintenance_node_name body) = Idle"
    and "node_maintenance_request_change_handler conf svcs body c = (r, t)"
  shows "(step conf)\<^sup>*\<^sup>* (c, ph) (t, ph)"
  by (rule nmr_change_steps[where ph = ph, OF assms])

definition ex_released :: cloud where
  "ex_released = snd (node_maintenance_request_change_handler ex_conf ex_services ex_nmr ex_cluster)"

lemma ex_nmr_run:
  "node_maintenance_request_change_handler ex_conf ex_services ex_nmr ex_cluster = (Inr (), ex_released)"
  by code_simp

theorem nmr_handler_refines_steps_witness:
  "(step ex_conf)\<^sup>*\<^sup>* (ex_cluster, \<lambda>_. Idle) (ex_released, \<lambda>_. Idle)"
  by (rule nmr_handler_refines_steps[OF ex_services_ok _ ex_nmr_run]) simp

text \<open>
  C30.  When the handler of a NodeMaintenanceRequest fails, the lock of the node is not released: a lock
  that was not inactive before is not inactive afterwards.
\<close>

theorem failed_nmr_keeps_lock:
  assumes "services_ok svcs"
    and "node_maintenance_request_change_handler conf svcs body c = (Inl e, t)"
    and "state_of c (nwl_key (maintenance_node_name body)) \<noteq> Some ''inactive''"
  shows "state_of t (nwl_key (maintenance_node_name body)) \<noteq> Some ''inactive''"
  using triple_Inl[OF nmr_change_failure[OF assms(1)] _ assms(2)] assms(3) by (simp add: unreleased_def)

definition ex_nmr_2 :: request where
  "ex_nmr_2 = \<lparr>req_node_name = ''cmp-2'', req_scope = ''os''\<rparr>"

theorem failed_nmr_keeps_lock_witness:
  "state_of (snd (node_maintenance_request_change_handler ex_conf ex_services ex_nmr_2 ex_released))
     (nwl_key (maintenance_node_name ex_nmr_2)) \<noteq> Some ''inactive''"
proof (rule failed_nmr_keeps_lock)
  let ?m = "''Number of inactive NodeWorkloadLocks exceeds allowed concurrency''"
  show "services_ok ex_services" by (rule ex_services_ok)
  have "fst (node_maintenance_request_change_handler ex_conf ex_services ex_nmr_2 ex_released) =
      Inl (TemporaryError ?m)" by code_simp
  then show "node_maintenance_request_change_handler ex_conf ex_services ex_nmr_2 ex_released =
      (Inl (TemporaryError ?m),
       snd (node_maintenance_request_change_handler ex_conf ex_services ex_nmr_2 ex_released))"
    by (metis prod.collapse)
  show "state_of ex_released (nwl_key (maintenance_node_name ex_nmr_2)) \<noteq> Some ''inactive''" by code_simp
qed

text \<open>
  C31.  When the handler of a NodeMaintenanceRequest for a node of the cloud succeeds, the lock of the
  node is released and still counts as in maintenance.
\<close>

theorem successful_nmr_releases_lock:
  assumes "services_ok svcs"
    and "node_maintenance_request_change_handler conf svcs body c = (Inr u, t)"
    and "map_of (nodes c) (maintenance_node_name body) \<noteq> None"
    and "required_for_node conf c (maintenance_node_name body)"
  shows "state_of t (nwl_key (maintenance_node_name body)) = Some ''inactive'' \<and>
    inner_of t (nwl_key (maintenance_node_name body)) = Some ''active''"
  using triple_Inr[OF nmr_change_success[OF assms(1)] _ assms(2)] assms(3,4) by (simp add: held_def)

theorem successful_nmr_releases_lock_witness:
  "state_of ex_released (nwl_key (maintenance_node_name ex_nmr)) = Some ''inactive'' \<and>
   inner_of ex_released (nwl_key (maintenance_node_name ex_nmr)) = Some ''active''"
proof (rule successful_nmr_releases_lock[OF ex_services_ok ex_nmr_run])
  show "map_of (nodes ex_cluster) (maintenance_node_name ex_nmr) \<noteq> None" by code_simp
  show "required_for_node ex_conf ex_cluster (maintenance_node_name ex_nmr)" by code_simp
qed

text \<open>
  C32.  When the handler of a deleted NodeMaintenanceRequest is done, the lock of the node is gone, or it
  is active again and no longer counts as in maintenance.
\<close>

theorem deleted_nmr_takes_lock:
  assumes "node_maintenance_request_delete_handler conf svcs rounds tick body c = (Inr Done, t)"
  shows "map_of (locks t) (nwl_key (maintenance_node_name body)) = None \<or>
    state_of t (nwl_key (maintenance_node_name body)) = Some ''active'' \<and>
    inner_of t (nwl_key (maintenance_node_name body)) = Some ''inactive''"
  using triple_Inr[OF nmr_delete_done TrueI assms] by simp

theorem deleted_nmr_takes_lock_witness:
  "map_of (locks (snd (node_maintenance_request_delete_handler ex_conf ex_services 1 id ex_nmr ex_released)))
     (nwl_key (maintenance_node_name ex_nmr)) = None \<or>
   state_of (snd (node_maintenance_request_delete_handler ex_conf ex_services 1 id ex_nmr ex_released))
     (nwl_key (maintenance_node_name ex_nmr)) = Some ''active'' \<and>
   inner_of (snd (node_maintenance_request_delete_handler ex_conf ex_services 1 id ex_nmr ex_released))
     (nwl_key (maintenance_node_name ex_nmr)) = Some ''inactive''"
proof (rule deleted_nmr_takes_lock)
  have "fst (node_maintenance_request_delete_handler ex_conf ex_services 1 id ex_nmr ex_released) = Inr Done"
    by code_simp
  then show "node_maintenance_request_delete_handler ex_conf ex_services 1 id ex_nmr ex_released =
      (Inr Done, snd (node_maintenance_request_delete_handler ex_conf ex_services 1 id ex_nmr ex_released))"
    by (metis prod.collapse)
qed

text \<open>
  The handler of a deleted NodeWorkloadLock looks for a node with the name of the lock instead of
  the name of the node, so it cleans up the metadata and the data of a node that still exists.
\<close>

theorem nwl_delete_ignores_node:
  assumes "nodeName body = Some n" and "controllerName body = ''openstack''"
    and "osdpl c = Some o'" and "osdpl_mspec o' = Inr spec_in_force"
    and "map_of (nodes c) (nwl_name n) = None" and "map_of (nodes c) n = Some nd"
  shows "node_workloadlock_request_delete_handler svcs (nwl_name n) body c =
    aforeach (\<lambda>svc. athen (cleanup_metadata svc (nwl_key n)) (cleanup_persistent_data svc (nwl_key n)))
      (rev (maintenance_services (svcs spec_in_force))) c"
  using nwl_delete_no_guard[OF assms(1-5)] .

theorem nwl_delete_ignores_node_witness:
  "node_workloadlock_request_delete_handler ex_services (nwl_name ''cmp-1'') (ex_lock ''cmp-1'') ex_cluster =
    aforeach (\<lambda>svc. athen (cleanup_metadata svc (nwl_key ''cmp-1'')) (cleanup_persistent_data svc (nwl_key ''cmp-1'')))
      (rev (maintenance_services (ex_services (JObj [(''features'', jempty)])))) ex_cluster"
  by (rule nwl_delete_ignores_node[where o' = "the (osdpl ex_cluster)" and nd = ex_node])
     (simp_all add: ex_lock_def ex_cluster_def nwl_name_def workload_def)

text \<open>
  The name of a node is found back from the name of its lock, also when it has dashes, and two
  nodes never share a lock.
\<close>

theorem lock_name_roundtrip:
  "node_of_lock_name (nwl_name n) = n \<and> (nwl_name m = nwl_name n \<longleftrightarrow> m = n)"
  by simp

section \<open>Services under maintenance\<close>

text \<open>
  C33.  A compute node whose migration mode is not \<open>skip\<close> is prepared for the reboot only when, in the
  state that the hook leaves, every server the API lists on the host is stopped or in a state that a
  reboot does not harm; the queries of the API change nothing.
\<close>

theorem reboot_needs_safe_servers:
  assumes "reading_sdk (env_sdk env)"
    and "nova_prepare_node_for_reboot conf opts fuel env node c = (Inr u, t)"
    and "has_role conf (view_labels node) compute"
    and "node_options node c = (Inr cfg, c)" and "cfg_str cfg ''instance_migration_mode'' = Inr mode"
    and "mode \<noteq> ''skip''"
  shows "\<exists>l. compute_get_all_servers (env_sdk env) (Some (view_name node)) None t = (Inr l, t) \<and>
    (\<forall>s \<in> set l. vm_state s \<in> set SERVER_STATES_SAFE_FOR_REBOOT \<or> power_state s \<in> set SERVER_STOPPED_POWER_STATES)"
proof -
  obtain c' l where l: "compute_get_all_servers (env_sdk env) (Some (view_name node)) None c' = (Inr l, t)"
    "\<forall>s \<in> set l. safe_for_reboot s"
    using prepare_for_reboot_ok[OF assms(2-6)] by blast
  moreover have "c' = t" using reading_sdk.query_reads(1)[OF assms(1), of "Some (view_name node)" None c'] l(1) by simp
  ultimately show ?thesis by (auto simp: safe_for_reboot_def)
qed

definition ex_view :: "string \<Rightarrow> node_view" where
  "ex_view n = safe_get_node ex_cluster n"

lemma ex_view_name: "view_name (ex_view n) = n"
  by (simp add: ex_view_def safe_get_node_def Let_def split: option.splits)

definition ex_menv :: "cloud migration_env" where
  "ex_menv = se_migration (sim_env ex_conf ex_opts)"

lemma ex_menv_sdk: "env_sdk ex_menv = sim_sdk"
  by (simp add: ex_menv_def sim_env_def)

theorem reboot_needs_safe_servers_witness:
  "\<exists>l. compute_get_all_servers sim_sdk (Some ''cmp-1'') None
       (snd (nova_prepare_node_for_reboot ex_conf ex_opts 8 ex_menv (ex_view ''cmp-1'') ex_cluster)) =
     (Inr l, snd (nova_prepare_node_for_reboot ex_conf ex_opts 8 ex_menv (ex_view ''cmp-1'') ex_cluster)) \<and>
     (\<forall>s \<in> set l. vm_state s \<in> set SERVER_STATES_SAFE_FOR_REBOOT \<or> power_state s \<in> set SERVER_STOPPED_POWER_STATES)"
proof -
  let ?run = "nova_prepare_node_for_reboot ex_conf ex_opts 8 ex_menv (ex_view ''cmp-1'') ex_cluster"
  have "fst ?run = Inr ()" by code_simp
  then have run: "?run = (Inr (), snd ?run)" by (metis prod.collapse)
  have role: "has_role ex_conf (view_labels (ex_view ''cmp-1'')) compute" by code_simp
  have opts: "node_options (ex_view ''cmp-1'') ex_cluster = (Inr (projr (node_maintenance_config [])), ex_cluster)"
    by code_simp
  have mode: "cfg_str (projr (node_maintenance_config [])) ''instance_migration_mode'' = Inr ''live''" by code_simp
  have reads: "reading_sdk (env_sdk ex_menv)" unfolding ex_menv_sdk by (rule sim_reads.reading_sdk_axioms)
  from reboot_needs_safe_servers[OF reads run role opts mode] show ?thesis
    unfolding ex_menv_sdk by (simp add: ex_view_name)
qed

text \<open>
  C34.  The migration of the servers of a host ends: when the API never reports as many migrations in
  progress as may run at a time, and only lists servers of a finite set \<open>S\<close>, then more rounds than there
  are servers times attempts are enough; the loop ends with an error of the API or with the counts.
\<close>

theorem migration_terminates:
  assumes "\<And>c l t. compute_get_servers_in_migrating_state (env_sdk env) host c = (Inr l, t) \<Longrightarrow>
      int (length l) < concurrency"
    and "\<And>c l t. compute_get_servers_valid_for_live_migration (env_sdk env) host c = (Inr l, t) \<Longrightarrow>
      srv_id ` set l \<subseteq> S"
    and "finite S" and "card S * nat (max 1 attempts) < fuel" and "srv_id ` set servers \<subseteq> S"
  shows "\<exists>t. (\<exists>e. migrate_loop fuel env host key attempts concurrency servers [] c = (Inl e, t)) \<or>
    (\<exists>cnts. migrate_loop fuel env host key attempts concurrency servers [] c = (Inr (Some cnts), t))"
proof -
  have "attempts_left attempts S [] < fuel" using assms(4) by (simp add: attempts_left_def)
  then have "fst (migrate_loop fuel env host key attempts concurrency servers [] c) \<noteq> Inr None"
    by (intro migration_ends[where S = S]) (erule assms(1), erule assms(2), rule assms(3), assumption,
        rule assms(5), simp add: given_up_def)
  then show ?thesis
    by (metis option.exhaust prod.collapse sum.exhaust)
qed

text \<open>A server that never leaves its host.\<close>

definition ex_stuck_env :: "cloud migration_env" where
  "ex_stuck_env = ex_menv\<lparr>env_sdk := sim_sdk\<lparr>sdk_list_servers :=
     \<lambda>h st. ask (\<lambda>_. if st = Some ''ACTIVE'' then [ex_server] else [])\<rparr>\<rparr>"

theorem migration_terminates_witness:
  "\<exists>t. (\<exists>e. migrate_loop 4 ex_stuck_env ''cmp-1'' (nwl_key ''cmp-1'') 3 1 [ex_server] [] ex_cluster = (Inl e, t)) \<or>
    (\<exists>cnts. migrate_loop 4 ex_stuck_env ''cmp-1'' (nwl_key ''cmp-1'') 3 1 [ex_server] [] ex_cluster =
      (Inr (Some cnts), t))"
proof (rule migration_terminates[where S = "{''vm-1''}"])
  show "int (length l) < 1"
    if "compute_get_servers_in_migrating_state (env_sdk ex_stuck_env) ''cmp-1'' c = (Inr l, t)" for c l t
    using that by (auto simp: compute_get_servers_in_migrating_state_def compute_get_all_servers_def no_filter_def
        ex_stuck_env_def ask_def split: if_splits)
  show "srv_id ` set l \<subseteq> {''vm-1''}"
    if "compute_get_servers_valid_for_live_migration (env_sdk ex_stuck_env) ''cmp-1'' c = (Inr l, t)" for c l t
    using that by (auto simp: compute_get_servers_valid_for_live_migration_def compute_get_all_servers_def
        no_filter_def ex_stuck_env_def ask_def ex_server_def abind_eq_Inr aret_def split: if_splits)
qed (simp_all add: ex_server_def)



text \<open>
  C36.  A compute service that an operator disabled for a reason of their own is neither touched when
  the node leaves the scheduling for maintenance nor enabled when it comes back.
\<close>

theorem operator_disabled_service_kept:
  assumes "sdk_connect sdk c = (Inr (), c)"
    and "sdk_compute_services sdk (Some (view_name node)) nova_compute c = (Inr (s # l), c)"
    and "py_lower (cs_status s) = ''disabled''" and "cs_reason s \<noteq> Some COMPUTE_SERVICE_DISABLE_REASON"
  shows "nova_remove_node_from_scheduling conf sdk node c = (Inr (), c) \<and>
    nova_add_node_to_scheduling conf sdk node c = (Inr (), c)"
  using operator_disabled_untouched[OF assms] by blast

definition ex_disabled :: cloud where
  "ex_disabled = ex_cluster\<lparr>sim_services := [(ex_compute ''cmp-1'')\<lparr>cs_status := ''disabled'', cs_reason := Some ''broken disk''\<rparr>]\<rparr>"

theorem operator_disabled_service_kept_witness:
  "nova_remove_node_from_scheduling ex_conf sim_sdk (ex_view ''cmp-1'') ex_disabled = (Inr (), ex_disabled) \<and>
   nova_add_node_to_scheduling ex_conf sim_sdk (ex_view ''cmp-1'') ex_disabled = (Inr (), ex_disabled)"
  by (rule operator_disabled_service_kept[where l = "[]" and
        s = "(ex_compute ''cmp-1'')\<lparr>cs_status := ''disabled'', cs_reason := Some ''broken disk''\<rparr>"])
     (code_simp, code_simp, code_simp, code_simp)

text \<open>
  The check of the availability zone compares the node with the first active compute lock only.
  When that is the lock of the node itself, the node passes whatever zones the other nodes in
  maintenance are in.
\<close>

theorem zone_check_sees_own_lock:
  assumes "sdk_connect sdk c = (Inr (), c)"
    and "sdk_compute_services sdk (Some (view_name node)) nova_compute c = (Inr (s # l), c)"
    and "map_of active_locks compute = Some (nwl # nwls)"
    and "lock_node_name (NodeWorkloadLock, nwl) c = (Inr (view_name node), c)"
  shows "nova_can_handle_nmr conf opts sdk node active_locks c = (Inr True, c)"
  using own_lock_passes_zone_check[OF assms] .

definition ex_zones :: cloud where
  "ex_zones = ex_cluster\<lparr>sim_services := [ex_compute ''cmp-1'', (ex_compute ''cmp-2'')\<lparr>cs_zone := Some ''other''\<rparr>]\<rparr>"

theorem zone_check_sees_own_lock_witness:
  "nova_can_handle_nmr ex_conf ex_opts sim_sdk (ex_view ''cmp-1'') [(compute, [nwl_name ''cmp-1'', nwl_name ''cmp-2''])] ex_zones
   = (Inr True, ex_zones)"
  by (rule zone_check_sees_own_lock[where s = "ex_compute ''cmp-1''" and l = "[]" and nwl = "nwl_name ''cmp-1''"
        and nwls = "[nwl_name ''cmp-2'']"]) (code_simp, code_simp, code_simp, code_simp)

text \<open>
  The handler that reports a failed host to Masakari changes nothing unless the node is not
  ready, its lock is active, it is schedulable, it has servers, none of its compute services is up,
  none of its network agents is alive and its address does not answer; the queries change nothing.
\<close>

theorem masakari_needs_host_down:
  assumes "reading_sdk sdk" and "\<not> host_down sdk addresses node c"
  shows "snd (handle_masakari_host_down sdk addresses node c) = c"
  using reading_sdk.masakari_only_when_down[OF assms] .

definition ex_unready :: cloud where
  "ex_unready = ex_cluster\<lparr>nodes := [(''cmp-1'', ex_node\<lparr>node_ready := False\<rparr>)]\<rparr>"

theorem masakari_needs_host_down_witness:
  "snd (handle_masakari_host_down sim_sdk [] (ex_view ''cmp-1'') ex_unready) = ex_unready"
proof (rule masakari_needs_host_down[OF sim_reads.reading_sdk_axioms])
  have "compute_get_services sim_sdk (Some ''cmp-1'') nova_compute ex_unready = (Inr [ex_compute ''cmp-1''], ex_unready)"
    by code_simp
  then show "\<not> host_down sim_sdk [] (ex_view ''cmp-1'') ex_unready"
    by (auto simp: host_down_def ex_view_name ex_compute_def)
qed

text \<open>
  Releasing the claims of a stateful set on a node deletes exactly the claims of its pods whose
  volume is bound to that node.
\<close>

theorem claims_released_on_node:
  assumes "release_persistent_volume_claims name node_name c = (Inr u, t)"
    and "map_of (stateful_sets c) name = Some s"
  shows "map_of (claims t) x =
    (if (\<exists>p \<in> set (set_pods s). x \<in> set (claim_names p)) \<and>
        (\<exists>v. map_of (claims c) x = Some (Some v) \<and> is_bound_to_node v node_name = Inr True)
     then None else map_of (claims c) x)"
  using release_claims_effect[OF assms, of x] by (simp add: bound_claim_def)

definition ex_volume :: "string \<Rightarrow> json" where
  "ex_volume n = JObj [(''spec'', JObj [(''nodeAffinity'', JObj [(''required'', JObj [(''nodeSelectorTerms'',
     JList [JObj [(''matchExpressions'', JList [JObj [(''key'', JStr ''kubernetes.io/hostname''),
       (''operator'', JStr ''In''), (''values'', JList [JStr n])]])]])])])])]"

definition ex_claims :: cloud where
  "ex_claims = ex_cluster\<lparr>
     stateful_sets := [(''etcd-etcd'', \<lparr>set_replicas = 2, set_pods =
       [\<lparr>pod_name = ''etcd-'' @ n, pod_namespace = ''openstack'', pod_node = n, pod_ready = True, job_child = False,
         pod_generation_of = None, terminating = False, claim_names = [''data-'' @ n]\<rparr>. n \<leftarrow> [''ctl-1'', ''ctl-2'']]\<rparr>)],
     claims := [(''data-'' @ n, Some (ex_volume n)). n \<leftarrow> [''ctl-1'', ''ctl-2'']]\<rparr>"

theorem claims_released_on_node_witness:
  "map_of (claims (snd (release_persistent_volume_claims ''etcd-etcd'' ''ctl-1'' ex_claims))) ''data-ctl-1'' =
    (if (\<exists>p \<in> set (set_pods (snd (hd (stateful_sets ex_claims)))). ''data-ctl-1'' \<in> set (claim_names p)) \<and>
        (\<exists>v. map_of (claims ex_claims) ''data-ctl-1'' = Some (Some v) \<and> is_bound_to_node v ''ctl-1'' = Inr True)
     then None else map_of (claims ex_claims) ''data-ctl-1'')"
proof (rule claims_released_on_node)
  have "fst (release_persistent_volume_claims ''etcd-etcd'' ''ctl-1'' ex_claims) = Inr ()" by code_simp
  then show "release_persistent_volume_claims ''etcd-etcd'' ''ctl-1'' ex_claims =
      (Inr (), snd (release_persistent_volume_claims ''etcd-etcd'' ''ctl-1'' ex_claims))" by (metis prod.collapse)
  show "map_of (stateful_sets ex_claims) ''etcd-etcd'' = Some (snd (hd (stateful_sets ex_claims)))"
    by (simp add: ex_claims_def)
qed

section \<open>The status object\<close>

text \<open>
  The progress of the life cycle management is the number of services that were applied, by this
  version of the controller and for this specification, out of all services in the status; two
  progress texts are equal only for equal numbers.
\<close>

theorem lcm_progress:
  assumes "update_osdpl_lcm_progress obj = Inr obj'"
  shows "\<exists>services osdpl_status n.
    jlookup obj [''status'', ''services''] = Some (JObj services) \<and>
    jlookup obj [''status'', ''osdpl''] = Some osdpl_status \<and>
    n = length (filter (\<lambda>(service, st). service_not_ready osdpl_status st = Inr False) services) \<and>
    jlookup obj' [''status'', ''osdpl'', ''lcm_progress''] = Some (JStr (progress_text n (length services))) \<and>
    (progress_text n (length services) = progress_text (length services) (length services) \<longleftrightarrow>
      list_all (\<lambda>(service, st). service_not_ready osdpl_status st = Inr False) services)"
proof -
  obtain services osdpl_status where
    s: "jlookup obj [''status'', ''services''] = Some (JObj services)"
      "jlookup obj [''status'', ''osdpl''] = Some osdpl_status"
      "jlookup obj' [''status'', ''osdpl'', ''lcm_progress''] =
        Some (JStr (progress_text (length (filter (\<lambda>(service, st). settled osdpl_status st) services)) (length services)))"
    using lcm_progress_written[OF assms] by blast
  have all: "progress_text (length (filter P l)) (length l) = progress_text (length l) (length l) \<longleftrightarrow> list_all P l" for P and l :: jdict
    using length_filter_less[of _ l P] progress_text_inj by (fastforce simp: list_all_iff)
  from s[unfolded settled_def] show ?thesis
    by (intro exI conjI) (assumption, assumption, rule refl, assumption, rule all)
qed

definition ex_status :: json where
  "ex_status = (let st = [(''fingerprint'', JStr ''f''), (''controller_version'', JStr ''v''), (''state'', JStr ''APPLIED'')]
     in JObj [(''status'', JObj [(''osdpl'', JObj st),
          (''services'', JObj [(''compute'', JObj st), (''dns'', JObj (AList.update ''state'' (JStr ''APPLYING'') st))])])])"

theorem lcm_progress_witness:
  "\<exists>services osdpl_status n.
    jlookup ex_status [''status'', ''services''] = Some (JObj services) \<and>
    jlookup ex_status [''status'', ''osdpl''] = Some osdpl_status \<and>
    n = length (filter (\<lambda>(service, st). service_not_ready osdpl_status st = Inr False) services) \<and>
    jlookup (projr (update_osdpl_lcm_progress ex_status)) [''status'', ''osdpl'', ''lcm_progress''] =
      Some (JStr (progress_text n (length services))) \<and>
    (progress_text n (length services) = progress_text (length services) (length services) \<longleftrightarrow>
      list_all (\<lambda>(service, st). service_not_ready osdpl_status st = Inr False) services)"
proof (rule lcm_progress)
  have "isl (update_osdpl_lcm_progress ex_status) = False" by code_simp
  then show "update_osdpl_lcm_progress ex_status = Inr (projr (update_osdpl_lcm_progress ex_status))" by simp
qed

text \<open>
  C37.  After the batch update the stored health is the health of the objects: an application and
  component has a status exactly when one of the objects is theirs, and it is the status computed for it.
\<close>

theorem stored_health_is_current:
  assumes "jwf obj" and "update_health_statuses ks obj = Inr obj'" and "calculate_statuses ks = Inr l"
  shows "jlookup obj' [''status'', ''health'', a, c, ''status''] = map_option (\<lambda>sg. JStr (fst sg)) (map_of l (a, c)) \<and>
    (jlookup obj' [''status'', ''health'', a, c] = None \<longleftrightarrow> map_of l (a, c) = None)"
  using health_stored[OF assms] .

definition ex_deployment :: "string \<Rightarrow> bool \<Rightarrow> k8s_object" where
  "ex_deployment n ok = \<lparr>obj_meta = JObj [(''name'', JStr n), (''labels'', JObj [(''application'', JStr ''nova'')])],
     obj_json = JObj [(''status'', JObj [(''observedGeneration'', JInt 2)])], obj_ready = Inr ok\<rparr>"

definition ex_health :: json where
  "ex_health = JObj [(''status'', JObj [(''health'', JObj [(''nova'', JObj [(''old'', JObj [(''status'', JStr ''Ready'')])])])])]"

theorem stored_health_is_current_witness:
  "jlookup (projr (update_health_statuses [ex_deployment ''nova-api'' True] ex_health)) [''status'', ''health'', ''nova'', ''old''] = None \<and>
   jlookup (projr (update_health_statuses [ex_deployment ''nova-api'' True] ex_health)) [''status'', ''health'', ''nova'', ''api'', ''status''] = Some (JStr ''Ready'')"
proof -
  let ?run = "update_health_statuses [ex_deployment ''nova-api'' True] ex_health"
  have "isl ?run = False" by code_simp
  then have run: "?run = Inr (projr ?run)" by simp
  have l: "calculate_statuses [ex_deployment ''nova-api'' True] = Inr [((''nova'', ''api''), ''Ready'', JInt 2)]"
    by code_simp
  have wf: "jwf ex_health" by code_simp
  show ?thesis
    using stored_health_is_current[OF wf run l, of "''nova''" "''old''"] stored_health_is_current[OF wf run l, of "''nova''" "''api''"]
    by (simp del: jlookup.simps)
qed

section \<open>Layers\<close>










text \<open>
  Behind the decorator \<open>kopf_exception\<close> a result is unchanged and every exception becomes a
  temporary or a permanent error; it is permanent exactly for a conflict of the merge, bad YAML, a
  missing or broken template, and an error that was permanent already.
\<close>

theorem kopf_error_classes:
  "(\<exists>x. r = Inr x \<and> kopf_exception r = Inr x) \<or>
   (\<exists>e m. r = Inl e \<and> kopf_exception r = Inl (PermanentError m) \<and>
      (e \<in> {InvalidMerge, YAMLError, TemplateNotFound, TemplateSyntaxError} \<or> e = PermanentError m)) \<or>
   (\<exists>e m. r = Inl e \<and> kopf_exception r = Inl (TemporaryError m) \<and>
      e \<notin> {InvalidMerge, YAMLError, TemplateNotFound, TemplateSyntaxError} \<and> e \<notin> range PermanentError)"
  by (auto simp: kopf_exception_def split: sum.splits py_exc.splits)

text \<open>
  The services to delete are those that a change of the list dropped: when the new value of the
  change is the list of the layered specification, no service is both applied and deleted, and each
  deleted service was in the old list.
\<close>

theorem deleted_services:
  assumes "services spec_in_force diff = Inr (to_apply, to_delete)"
    and "\<forall>d \<in> set diff. field_path d = [''spec'', ''features'', ''services''] \<longrightarrow>
      py_set (py_or (new_value d) (JList [])) = Inr to_apply"
  shows "to_delete \<inter> to_apply = {} \<and>
    (\<forall>x \<in> to_delete. \<exists>d \<in> set diff. \<exists>old. field_path d = [''spec'', ''features'', ''services''] \<and>
       py_set (py_or (old_value d) (JList [])) = Inr old \<and> x \<in> old)"
proof -
  have run: "services_to_delete diff {} = Inr to_delete"
    using assms(1) by (auto simp: services_def res_simps)
  have "to_delete \<inter> to_apply = {}" by (rule services_to_delete_disjoint[OF run assms(2)]) simp
  moreover from services_to_delete_old[OF run] have
    "\<forall>x \<in> to_delete. \<exists>d \<in> set diff. \<exists>old. field_path d = [''spec'', ''features'', ''services''] \<and>
       py_set (py_or (old_value d) (JList [])) = Inr old \<and> x \<in> old" by blast
  ultimately show ?thesis by blast
qed

definition ex_mspec :: json where
  "ex_mspec = JObj [(''features'', JObj [(''services'', JList [JStr ''compute''])])]"

definition ex_diff :: "diff_item list" where
  "ex_diff = [\<lparr>field_path = [''spec'', ''features'', ''services''],
     old_value = JList [JStr ''compute'', JStr ''dns''], new_value = JList [JStr ''compute'']\<rparr>]"

theorem deleted_services_witness:
  "{JStr ''dns''} \<inter> {JStr ''compute''} = {} \<and>
    (\<exists>d \<in> set ex_diff. \<exists>old. field_path d = [''spec'', ''features'', ''services''] \<and>
       py_set (py_or (old_value d) (JList [])) = Inr old \<and> JStr ''dns'' \<in> old)"
proof -
  have "{JStr ''dns''} \<inter> {JStr ''compute''} = {} \<and>
    (\<forall>x \<in> {JStr ''dns''}. \<exists>d \<in> set ex_diff. \<exists>old. field_path d = [''spec'', ''features'', ''services''] \<and>
       py_set (py_or (old_value d) (JList [])) = Inr old \<and> x \<in> old)"
  proof (rule deleted_services)
    show "services ex_mspec ex_diff = Inr ({JStr ''compute''}, {JStr ''dns''})"
      by (auto simp: services_def ex_mspec_def ex_diff_def py_or_def)
    show "\<forall>d \<in> set ex_diff. field_path d = [''spec'', ''features'', ''services''] \<longrightarrow>
        py_set (py_or (new_value d) (JList [])) = Inr {JStr ''compute''}"
      by (simp add: ex_diff_def py_or_def)
  qed
  then show ?thesis by blast
qed

section \<open>Kubernetes objects\<close>

text \<open>
  When \<open>StatefulSet.is_node_locked\<close> reports a node of a replicated database as locked: fewer than
  all but one replicas are ready, or fewer than that are placed on other nodes.  Its third check, that
  the replicas on other nodes are ready, adds nothing, since it looks at ready replicas only.
\<close>

theorem statefulset_node_lock:
  "is_node_locked replicas ps node_name \<longleftrightarrow>
     int (length (filter pod_ready ps)) < replicas - 1 \<or>
     int (length (filter (\<lambda>p. pod_node p \<noteq> [] \<and> pod_node p \<noteq> node_name) ps)) < replicas - 1"
  by (rule is_node_locked_iff)

definition ex_pod :: "string \<Rightarrow> bool \<Rightarrow> pod" where
  "ex_pod n ok = \<lparr>pod_name = n, pod_namespace = ''openstack'', pod_node = n, pod_ready = ok, job_child = False\<rparr>"

text \<open>
  So a node can be released although one more replica is lost then: of three replicas the one on
  the node and one other are ready, and the node does not count as locked.
\<close>

theorem node_lock_misses_unready:
  "is_node_locked 3 [ex_pod ''ctl-1'' True, ex_pod ''ctl-2'' True, ex_pod ''ctl-3'' False] ''ctl-1'' = False \<and>
   ready_elsewhere [ex_pod ''ctl-1'' True, ex_pod ''ctl-2'' True, ex_pod ''ctl-3'' False] ''ctl-1'' = 1"
  by (simp add: is_node_locked_iff ready_elsewhere_def ex_pod_def)

text \<open>
  While all replicas are ready, a node that does not count as locked can go: all but one of the
  replicas are ready on other nodes.
\<close>

theorem unlocked_node_can_go:
  assumes "\<not> is_node_locked replicas ps node_name" and "list_all pod_ready ps"
  shows "int (ready_elsewhere ps node_name) \<ge> replicas - 1"
  using locked_when_all_ready[OF assms] .

theorem unlocked_node_can_go_witness:
  "int (ready_elsewhere [ex_pod ''ctl-1'' True, ex_pod ''ctl-2'' True, ex_pod ''ctl-3'' True] ''ctl-1'') \<ge> 3 - 1"
  by (rule unlocked_node_can_go) (simp_all add: is_node_locked_iff ex_pod_def)

text \<open>
  The latest job of a cron job: among the jobs that started, and that have the status if one is
  asked for, none started later; there is none exactly when there is no such job.
\<close>

theorem latest_job:
  "(case get_latest_job any_status js of
      None \<Rightarrow> \<not> (\<exists>x. job_candidate any_status js x)
    | Some j \<Rightarrow> \<exists>u. job_candidate any_status js (u, j) \<and> u = Max (fst ` {x. job_candidate any_status js x}))"
proof (cases "get_latest_job any_status js")
  case None
  then show ?thesis using latest_job_none[of any_status js] by simp
next
  case (Some j)
  have "finite (fst ` {x. job_candidate any_status js x})"
    unfolding job_candidate_def by (rule finite_imageI, rule finite_subset[of _ "set (started_jobs js)"]) auto
  moreover obtain u where u: "job_candidate any_status js (u, j)"
    "\<forall>x. job_candidate any_status js x \<longrightarrow> fst x \<le> u" using latest_job_is_latest[OF Some] by blast
  ultimately have "Max (fst ` {x. job_candidate any_status js x}) = u"
    by (intro Max_eqI) (auto intro!: rev_image_eqI[of "(u, j)"])
  with Some u show ?thesis by auto
qed

text \<open>
  Waiting for a deletion answers True exactly when the object is gone at one of the checks.
\<close>

theorem wait_for_deleted_checks:
  "(\<exists>t. wait_for_deleted n_times tick present_in s = (Inr True, t)) \<longleftrightarrow>
     (\<exists>k < n_times. \<not> present_in ((tick ^^ k) s))"
  unfolding wait_for_deleted_def by (rule wait_until_iff) (simp add: aget_def)

text \<open>
  \<open>Pod.exec\<close> never raises for a failed command, also when it is asked to: the exception is caught
  by the block that raises it.
\<close>

theorem exec_failure_is_swallowed: "\<exists>j. exec_error_json raise_on_error error = Inr j"
  by (rule exec_never_raises)

section \<open>Utilities\<close>

text \<open>
  C40.  A cron schedule is accepted exactly when it is a known nickname or has five fields separated by
  single blanks, each a comma separated list of the grammar of its field: a number in range, a name, a
  range in order, or a step; names stand alone.
\<close>

theorem cron_grammar:
  "cron_validate s \<longleftrightarrow> py_lower (py_strip s) \<in> set nicknames \<or>
     list_all2 field_ok cron_fields (py_split CHR '' '' (py_lower (py_strip s)))"
  using cron_validate_fields[of s] cron_validate_nickname[of s] by blast

text \<open>
  Encoding to base64 succeeds exactly for ASCII strings, and decoding gives the string back.
\<close>

theorem base64_roundtrip:
  "(\<exists>t. to_base64 s = Inr t \<and> from_base64 t = Inr s) \<longleftrightarrow> list_all (\<lambda>c. (of_char c :: nat) < 128) s"
  using to_base64_total[of s] from_to_base64[of s] by blast

text \<open>
  Substitution of hidden fields: a value at a path that runs through no other reference is, in the
  result, the decoded secret when it is a reference to a key of a secret, itself when it is another kind
  of reference, and substituted in turn otherwise.
\<close>

theorem hidden_fields_substituted:
  assumes "find_and_substitute known j = Inr j'" and "ks \<noteq> []" and "open_path j ks"
    and "jlookup j ks = Some v"
  shows "\<exists>v'. jlookup j' ks = Some v' \<and> substituted known v v'"
  using find_and_substitute_path[OF assms] .

definition ex_hidden :: json where
  "ex_hidden = JObj [(''value_from'', JObj [(''secret_key_ref'',
     JObj [(''name'', JStr ''s''), (''key'', JStr ''k'')])])]"

theorem hidden_fields_substituted_witness:
  "\<exists>v'. jlookup (JObj [(''a'', JObj [(''b'', JStr ''pw'')])]) [''a'', ''b''] = Some v' \<and>
     substituted [(''s'', [(''k'', JStr ''cHc='')])] ex_hidden v'"
proof (rule hidden_fields_substituted)
  show "find_and_substitute [(''s'', [(''k'', JStr ''cHc='')])] (JObj [(''a'', JObj [(''b'', ex_hidden)])]) =
      Inr (JObj [(''a'', JObj [(''b'', JStr ''pw'')])])" by code_simp
  show "[''a'', ''b''] \<noteq> []" by simp
  show "open_path (JObj [(''a'', JObj [(''b'', ex_hidden)])]) [''a'', ''b'']" by code_simp
  show "jlookup (JObj [(''a'', JObj [(''b'', ex_hidden)])]) [''a'', ''b''] = Some ex_hidden" by simp
qed

text \<open>
  Dividing a list into groups loses and reorders nothing, every group but the last has the given
  length, and no group is empty.
\<close>

theorem groups_partition:
  assumes "divide_into_groups_of n xs = Inr gs"
  shows "concat gs = xs \<and> (\<forall>g \<in> set gs. 0 < length g \<and> length g \<le> n) \<and>
    (\<forall>g \<in> set (butlast gs). length g = n)"
  using divide_concat[OF assms] divide_sizes[OF assms] by blast

theorem groups_partition_witness:
  "concat [[1, 2], [3 :: nat]] = [1, 2, 3] \<and> length [1 :: nat, 2] = 2"
proof -
  have "concat [[1, 2], [3 :: nat]] = [1, 2, 3] \<and> (\<forall>g \<in> set [[1, 2], [3 :: nat]]. 0 < length g \<and> length g \<le> 2) \<and>
    (\<forall>g \<in> set (butlast [[1, 2], [3 :: nat]]). length g = 2)"
    by (rule groups_partition) code_simp
  then show ?thesis by simp
qed

text \<open>
  A name of a notification topic without line breaks becomes a valid name of a Kubernetes object,
  and normalizing twice changes nothing more; the digest is any function with such characters, as a
  hexadecimal digest is.
\<close>

theorem topic_name_normal:
  assumes "\<And>s. list_all topic_char (sha256_hexdigest s)" and "CHR 0x0A \<notin> set name"
  shows "list_all topic_char (get_topic_normalized_name sha256_hexdigest name) \<and>
    get_topic_normalized_name sha256_hexdigest (get_topic_normalized_name sha256_hexdigest name)
    = get_topic_normalized_name sha256_hexdigest name"
  using topic_name_chars[where sha256_hexdigest = sha256_hexdigest, OF assms]
    topic_name_idem[where sha256_hexdigest = sha256_hexdigest, OF assms(1)] by simp

theorem topic_name_normal_witness:
  "list_all topic_char (get_topic_normalized_name (\<lambda>_. ''0a1b2c3d'') ''Topic_1'') \<and>
    get_topic_normalized_name (\<lambda>_. ''0a1b2c3d'') (get_topic_normalized_name (\<lambda>_. ''0a1b2c3d'') ''Topic_1'')
    = get_topic_normalized_name (\<lambda>_. ''0a1b2c3d'') ''Topic_1''"
  by (rule topic_name_normal) (simp_all add: topic_char_def)

end
